(* ===== verification/Prelude.thy ===== *)
theory Prelude
  imports Main "HOL-Library.Word" "HOL-Library.Sublist" "HOL-Library.List_Lexorder" "HOL-Library.Char_ord"
begin

text \<open>
  Shared ground of the development: the model's machine integers, the values in which Go code
  fails, the parts of Go's \<open>strings\<close> and \<open>strconv\<close> packages that the daemon calls, and the generic
  lemmas on lists and association lists that the component theories use.

  A Go string is a \<^typ>\<open>string\<close>: a list of bytes. White space is the ASCII white space of
  \<open>unicode.IsSpace\<close>; the daemon's inputs (configuration files, log lines, sysfs files) are ASCII.
\<close>

section \<open>Machine integers and failures\<close>

type_synonym u8 = "8 word"
type_synonym u16 = "16 word"
type_synonym u32 = "32 word"
type_synonym u64 = "64 word"

text \<open>
  A signed Go integer is an \<^typ>\<open>int\<close>; the conversions that can wrap go through a word of the right
  width and \<^const>\<open>sint\<close>.
\<close>

definition to_i32 :: "int \<Rightarrow> int" where
  "to_i32 x = sint (word_of_int x :: u32)"

definition to_i64 :: "int \<Rightarrow> int" where
  "to_i64 x = sint (word_of_int x :: u64)"

definition MaxInt64 :: int where
  "MaxInt64 = 2 ^ 63 - 1"

lemma to_i64_id: "- (2 ^ 63) \<le> x \<Longrightarrow> x < 2 ^ 63 \<Longrightarrow> to_i64 x = x"
  by (simp add: to_i64_def signed_of_int signed_take_bit_int_eq_self)

text \<open>Integer division and remainder of Go: truncation towards zero.\<close>

definition go_div :: "int \<Rightarrow> int \<Rightarrow> int" where
  "go_div a b = (if (a < 0) = (b < 0) then \<bar>a\<bar> div \<bar>b\<bar> else - (\<bar>a\<bar> div \<bar>b\<bar>))"

definition go_mod :: "int \<Rightarrow> int \<Rightarrow> int" where
  "go_mod a b = a - b * go_div a b"

text \<open>A run-time panic of Go, or an \<open>error\<close> value returned to the caller.\<close>

datatype go_error =
    IndexOutOfRange
  | NilDereference
  | GoErr string

type_synonym 'a res = "go_error + 'a"

definition res_bind :: "'a res \<Rightarrow> ('a \<Rightarrow> 'b res) \<Rightarrow> 'b res" where
  "res_bind r f = (case r of Inl e \<Rightarrow> Inl e | Inr x \<Rightarrow> f x)"

lemma res_bind_simps [simp]:
  "res_bind (Inr x) f = f x"
  "res_bind (Inl e) f = Inl e"
  by (simp_all add: res_bind_def)

lemma res_bind_Inr_iff: "res_bind r f = Inr y \<longleftrightarrow> (\<exists>x. r = Inr x \<and> f x = Inr y)"
  by (cases r) simp_all

text \<open>\<open>xs[i]\<close>: panics outside the slice.\<close>

definition index_at :: "'a list \<Rightarrow> nat \<Rightarrow> 'a res" where
  "index_at xs i = (if i < length xs then Inr (xs ! i) else Inl IndexOutOfRange)"

section \<open>The development's fact collections\<close>

named_theorems go_string_simps "computation rules of the string functions"
named_theorems wf_intros "operations keep their component's well-formedness"

section \<open>Go's strings package\<close>

definition is_space :: "char \<Rightarrow> bool" where
  "is_space c = (c \<in> {CHR 0x09, CHR 0x0A, CHR 0x0B, CHR 0x0C, CHR 0x0D, CHR 0x20})"

definition HasPrefix :: "string \<Rightarrow> string \<Rightarrow> bool" where
  "HasPrefix s p = (take (length p) s = p)"

definition HasSuffix :: "string \<Rightarrow> string \<Rightarrow> bool" where
  "HasSuffix s p = (length p \<le> length s \<and> drop (length s - length p) s = p)"

text \<open>\<open>strings.Split\<close> with a one-byte separator, and \<open>strings.Fields\<close>.\<close>

fun split_pred :: "(char \<Rightarrow> bool) \<Rightarrow> string \<Rightarrow> string list" where
  "split_pred P [] = [[]]"
| "split_pred P (c # s) =
     (if P c then [] # split_pred P s
      else (case split_pred P s of [] \<Rightarrow> [[c]] | w # ws \<Rightarrow> (c # w) # ws))"

definition Split :: "string \<Rightarrow> char \<Rightarrow> string list" where
  "Split s sep = split_pred (\<lambda>c. c = sep) s"

definition Fields :: "string \<Rightarrow> string list" where
  "Fields s = filter (\<lambda>w. w \<noteq> []) (split_pred is_space s)"

definition TrimSpace :: "string \<Rightarrow> string" where
  "TrimSpace s = rev (dropWhile is_space (rev (dropWhile is_space s)))"

fun Join :: "string list \<Rightarrow> string \<Rightarrow> string" where
  "Join [] sep = []"
| "Join [w] sep = w"
| "Join (w # v # ws) sep = w @ sep @ Join (v # ws) sep"

text \<open>\<open>strings.Index\<close>: the first position of a substring.\<close>

fun index_of :: "string \<Rightarrow> string \<Rightarrow> nat option" where
  "index_of [] p = (if p = [] then Some 0 else None)"
| "index_of (c # s) p = (if HasPrefix (c # s) p then Some 0 else map_option Suc (index_of s p))"

definition Contains :: "string \<Rightarrow> string \<Rightarrow> bool" where
  "Contains s p = (index_of s p \<noteq> None)"

text \<open>\<open>strings.Replace(s, old, new, 1)\<close> and \<open>strings.ReplaceAll\<close> with a non-empty \<open>old\<close>.\<close>

definition replace_first :: "string \<Rightarrow> string \<Rightarrow> string \<Rightarrow> string" where
  "replace_first s old new =
     (case index_of s old of
        None \<Rightarrow> s
      | Some i \<Rightarrow> take i s @ new @ drop (i + length old) s)"

function replace_all :: "string \<Rightarrow> string \<Rightarrow> string \<Rightarrow> string" where
  "replace_all [] old new = []"
| "replace_all (c # s) old new =
     (if old \<noteq> [] \<and> HasPrefix (c # s) old then new @ replace_all (drop (length old - 1) s) old new
      else c # replace_all s old new)"
  by pat_completeness auto
termination
  by (relation "measure (\<lambda>(s, old, new). length s)") auto

definition ascii_lower :: "char \<Rightarrow> char" where
  "ascii_lower c =
     (let n = of_char c :: nat in if 65 \<le> n \<and> n \<le> 90 then char_of (n + 32) else c)"

definition ToLower :: "string \<Rightarrow> string" where
  "ToLower s = map ascii_lower s"

definition EqualFold :: "string \<Rightarrow> string \<Rightarrow> bool" where
  "EqualFold s t = (ToLower s = ToLower t)"

section \<open>Go's strconv package\<close>

datatype num_err = ErrSyntax | ErrRange

definition digit_val :: "char \<Rightarrow> nat option" where
  "digit_val c =
     (let n = of_char c :: nat in
      if 48 \<le> n \<and> n \<le> 57 then Some (n - 48)
      else if 97 \<le> n \<and> n \<le> 122 then Some (n - 97 + 10)
      else if 65 \<le> n \<and> n \<le> 90 then Some (n - 65 + 10)
      else None)"

text \<open>
  The digit loop of \<open>strconv.ParseUint\<close>: it stops at the first bad digit with 0 and a syntax
  error, and at the first overflow with the largest value and a range error.
\<close>

fun parse_loop :: "nat \<Rightarrow> nat \<Rightarrow> nat \<Rightarrow> string \<Rightarrow> nat \<times> num_err option" where
  "parse_loop b m n [] = (n, None)"
| "parse_loop b m n (c # cs) =
     (case digit_val c of
        None \<Rightarrow> (0, Some ErrSyntax)
      | Some d \<Rightarrow>
          if b \<le> d then (0, Some ErrSyntax)
          else if m < n * b + d then (m, Some ErrRange)
          else parse_loop b m (n * b + d) cs)"

definition ParseUint :: "string \<Rightarrow> nat \<Rightarrow> nat \<Rightarrow> nat \<times> num_err option" where
  "ParseUint s b bits = (if s = [] then (0, Some ErrSyntax) else parse_loop b (2 ^ bits - 1) 0 s)"

definition ParseInt :: "string \<Rightarrow> nat \<Rightarrow> nat \<Rightarrow> int \<times> num_err option" where
  "ParseInt s b bits =
     (let neg = (s \<noteq> [] \<and> hd s = CHR ''-'');
          s' = (if s \<noteq> [] \<and> (hd s = CHR ''-'' \<or> hd s = CHR ''+'') then tl s else s);
          (un, e) = ParseUint s' b bits;
          cutoff = 2 ^ (bits - 1)
      in if e = Some ErrSyntax then (0, e)
         else if \<not> neg \<and> cutoff \<le> un then (int cutoff - 1, Some ErrRange)
         else if neg \<and> cutoff < un then (- int cutoff, Some ErrRange)
         else (if neg then - int un else int un, None))"

text \<open>\<open>strconv.Atoi\<close> on a 64-bit platform.\<close>

definition Atoi :: "string \<Rightarrow> int \<times> num_err option" where
  "Atoi s = ParseInt s 10 64"

definition ParseBool :: "string \<Rightarrow> bool option" where
  "ParseBool s =
     (if s \<in> {''1'', ''t'', ''T'', ''true'', ''TRUE'', ''True''} then Some True
      else if s \<in> {''0'', ''f'', ''F'', ''false'', ''FALSE'', ''False''} then Some False
      else None)"

definition digit_char :: "nat \<Rightarrow> char" where
  "digit_char d = (if d < 10 then char_of (48 + d) else char_of (87 + d))"

text \<open>\<open>%d\<close> and \<open>%x\<close> of a natural number: base \<open>b\<close>, lower-case digits.\<close>

function fmt_base :: "nat \<Rightarrow> nat \<Rightarrow> string" where
  "fmt_base b n = (if n < b \<or> b < 2 then [digit_char n] else fmt_base b (n div b) @ [digit_char (n mod b)])"
  by pat_completeness auto
termination
  by (relation "measure (\<lambda>(b, n). n)") auto

declare fmt_base.simps [simp del]

definition fmt_int :: "int \<Rightarrow> string" where
  "fmt_int i = (if i < 0 then CHR ''-'' # fmt_base 10 (nat (- i)) else fmt_base 10 (nat i))"

definition fmt_bool :: "bool \<Rightarrow> string" where
  "fmt_bool b = (if b then ''true'' else ''false'')"

section \<open>Keyed lists\<close>

text \<open>
  A Go slice of pointers to structs that is searched by a key: updating through the pointer the
  search returns changes the first element with that key.
\<close>

fun update_first :: "('a \<Rightarrow> bool) \<Rightarrow> ('a \<Rightarrow> 'a) \<Rightarrow> 'a list \<Rightarrow> 'a list" where
  "update_first P f [] = []"
| "update_first P f (x # xs) = (if P x then f x # xs else x # update_first P f xs)"

definition unique_on :: "('a \<Rightarrow> 'k) \<Rightarrow> 'a list \<Rightarrow> bool" where
  "unique_on key xs = distinct (map key xs)"

lemma length_update_first [simp]: "length (update_first P f xs) = length xs"
  by (induction xs) auto

lemma map_update_first [simp]: "(\<And>x. key (f x) = key x) \<Longrightarrow> map key (update_first P f xs) = map key xs"
  by (induction xs) auto

lemma unique_on_update_first:
  "(\<And>x. key (f x) = key x) \<Longrightarrow> unique_on key (update_first P f xs) = unique_on key xs"
  by (simp add: unique_on_def)

lemma unique_on_snoc:
  "unique_on key (xs @ [x]) \<longleftrightarrow> unique_on key xs \<and> key x \<notin> key ` set xs"
  by (auto simp: unique_on_def)

lemma find_SomeD: "find P xs = Some x \<Longrightarrow> x \<in> set xs \<and> P x"
  by (induction xs) (auto split: if_splits)

lemma find_None_notin: "find (\<lambda>x. key x = k) xs = None \<longleftrightarrow> k \<notin> key ` set xs"
  by (auto simp: find_None_iff)

lemma find_update_first:
  assumes "\<And>x. key (f x) = key x"
  shows "find (\<lambda>x. key x = k) (update_first (\<lambda>x. key x = k) f xs)
       = map_option f (find (\<lambda>x. key x = k) xs)"
  using assms by (induction xs) auto

lemma find_update_first_other:
  assumes "\<And>x. key (f x) = key x" and "k' \<noteq> k"
  shows "find (\<lambda>x. key x = k') (update_first (\<lambda>x. key x = k) f xs) = find (\<lambda>x. key x = k') xs"
  using assms by (induction xs) auto

lemma find_snoc:
  "find P (xs @ [x]) = (case find P xs of Some y \<Rightarrow> Some y | None \<Rightarrow> if P x then Some x else None)"
  by (induction xs) auto

lemma update_first_no_match: "find P xs = None \<Longrightarrow> update_first P f xs = xs"
  by (induction xs) (auto split: if_splits)

lemma set_update_first:
  assumes "find P xs = Some x"
  shows "set (update_first P f xs) \<subseteq> insert (f x) (set xs)"
  using assms by (induction xs) (auto split: if_splits)

section \<open>Lemmas on strings and numbers\<close>

lemma split_pred_nonempty [simp]: "split_pred P s \<noteq> []"
  by (cases s) (auto split: list.splits)

lemma Join_Cons: "ws \<noteq> [] \<Longrightarrow> Join (w # ws) sep = w @ sep @ Join ws sep"
  by (cases ws) auto

lemma Join_Cons_char: "Join ((c # w) # ws) sep = c # Join (w # ws) sep"
  by (cases ws) auto

lemma Join_split_pred: "Join (split_pred (\<lambda>c. c = sep) s) [sep] = s"
proof (induction s)
  case Nil
  then show ?case by simp
next
  case (Cons c s)
  then show ?case
    by (cases "split_pred (\<lambda>c. c = sep) s") (auto simp: Join_Cons Join_Cons_char)
qed

lemma split_pred_no_sep: "\<forall>c \<in> set s. \<not> P c \<Longrightarrow> split_pred P s = [s]"
  by (induction s) auto

lemma split_pred_append_sep:
  "P c \<Longrightarrow> split_pred P (s @ c # t) = split_pred P s @ split_pred P t"
proof (induction s)
  case Nil
  then show ?case by simp
next
  case (Cons d s)
  then show ?case by (cases "split_pred P s") auto
qed

lemma Fields_no_space: "\<forall>c \<in> set s. \<not> is_space c \<Longrightarrow> s \<noteq> [] \<Longrightarrow> Fields s = [s]"
  by (simp add: Fields_def split_pred_no_sep)

lemma Fields_sep: "is_space c \<Longrightarrow> Fields (s @ c # t) = Fields s @ Fields t"
  by (simp add: Fields_def split_pred_append_sep)

lemma Fields_Nil [simp]: "Fields [] = []"
  by (simp add: Fields_def)

lemma Fields_space_Cons: "is_space c \<Longrightarrow> Fields (c # t) = Fields t"
  using Fields_sep [of c "[]" t] by simp

lemma HasPrefix_append [simp]: "HasPrefix (p @ s) p"
  by (simp add: HasPrefix_def)

lemma HasPrefix_iff: "HasPrefix s p \<longleftrightarrow> prefix p s"
  by (metis HasPrefix_def append_take_drop_id prefix_def append_eq_conv_conj)

lemma parse_loop_append:
  "parse_loop b m n s = (k, None) \<Longrightarrow> parse_loop b m n (s @ t) = parse_loop b m k t"
  by (induction b m n s rule: parse_loop.induct) (auto split: option.splits if_splits)

lemma of_char_digit [simp]:
  "d < 36 \<Longrightarrow> (of_char (digit_char d) :: nat) = (if d < 10 then 48 + d else 87 + d)"
  by (simp add: digit_char_def of_char_of)

lemma digit_val_digit_char [simp]: "d < 36 \<Longrightarrow> digit_val (digit_char d) = Some d"
  by (simp add: digit_val_def)

lemma digit_char_not_space [simp]: "d < 36 \<Longrightarrow> \<not> is_space (digit_char d)"
proof
  assume d: "d < 36" and "is_space (digit_char d)"
  then have "(of_char (digit_char d) :: nat) \<in> of_char ` {CHR 0x09, CHR 0x0A, CHR 0x0B, CHR 0x0C, CHR 0x0D, CHR 0x20}"
    by (auto simp: is_space_def simp del: of_char_digit)
  with d show False by (simp split: if_splits)
qed

lemma fmt_base_nonempty [simp]: "fmt_base b n \<noteq> []"
  by (subst fmt_base.simps) simp

lemma fmt_base_digits:
  assumes "2 \<le> b" and "b \<le> 36"
  shows "\<forall>c \<in> set (fmt_base b n). \<exists>d < b. c = digit_char d"
  using assms
proof (induction b n rule: fmt_base.induct)
  case (1 b n)
  show ?case
  proof (cases "n < b")
    case True
    then show ?thesis by (subst fmt_base.simps) auto
  next
    case False
    with 1 have "\<forall>c \<in> set (fmt_base b (n div b)). \<exists>d < b. c = digit_char d" by auto
    moreover have "\<exists>d < b. digit_char (n mod b) = digit_char d"
      using \<open>2 \<le> b\<close> by (intro exI [of _ "n mod b"]) simp
    ultimately show ?thesis using False \<open>2 \<le> b\<close> by (subst fmt_base.simps) auto
  qed
qed

lemma fmt_base_no_space:
  assumes "2 \<le> b" and "b \<le> 36" and "c \<in> set (fmt_base b n)"
  shows "\<not> is_space c"
  using fmt_base_digits [OF assms(1,2), of n] assms(2,3) by fastforce

lemma parse_loop_fmt_base:
  assumes "2 \<le> b" and "b \<le> 36" and "n \<le> m"
  shows "parse_loop b m 0 (fmt_base b n) = (n, None)"
  using assms
proof (induction b n rule: fmt_base.induct)
  case (1 b n)
  show ?case
  proof (cases "n < b")
    case True
    with 1 show ?thesis by (subst fmt_base.simps) simp
  next
    case False
    have "n div b \<le> m" using \<open>n \<le> m\<close> by (meson div_le_dividend le_trans)
    with 1 False have IH: "parse_loop b m 0 (fmt_base b (n div b)) = (n div b, None)" by auto
    have "n mod b < b" using \<open>2 \<le> b\<close> by simp
    then have "n mod b < b" "n mod b < 36" using \<open>b \<le> 36\<close> by linarith+
    then have "parse_loop b m (n div b) [digit_char (n mod b)] = (n, None)"
      using \<open>n \<le> m\<close> by simp
    with parse_loop_append [OF IH] False 1 show ?thesis by (subst fmt_base.simps) auto
  qed
qed

text \<open>Printing a number and parsing it gives it back, at every width that holds it.\<close>

lemma ParseUint_fmt_base:
  assumes "2 \<le> b" and "b \<le> 36" and "n < 2 ^ bits"
  shows "ParseUint (fmt_base b n) b bits = (n, None)"
  using parse_loop_fmt_base [OF assms(1,2), of n "2 ^ bits - 1"] assms(3)
  by (simp add: ParseUint_def)

lemma digit_char_not_sign [simp]: "d < 36 \<Longrightarrow> digit_char d \<noteq> CHR ''-''" "d < 36 \<Longrightarrow> digit_char d \<noteq> CHR ''+''"
  by (auto dest!: arg_cong [where f = "of_char :: char \<Rightarrow> nat"] split: if_splits)

lemma hd_fmt_base:
  assumes "2 \<le> b" and "b \<le> 36"
  shows "hd (fmt_base b n) \<noteq> CHR ''-''" "hd (fmt_base b n) \<noteq> CHR ''+''"
  using fmt_base_digits [OF assms, of n] hd_in_set [OF fmt_base_nonempty, of b n] assms(2)
  by fastforce+

lemma ParseInt_fmt_int:
  assumes "0 < bits" and "- (2 ^ (bits - 1)) \<le> i" and "i < 2 ^ (bits - 1)"
  shows "ParseInt (fmt_int i) 10 bits = (i, None)"
proof -
  have pow: "(2::nat) ^ bits = 2 * 2 ^ (bits - 1)" using \<open>0 < bits\<close> by (cases bits) auto
  have lt: "(2::nat) ^ (bits - 1) < 2 ^ bits" using \<open>0 < bits\<close> by simp
  show ?thesis
  proof (cases "i < 0")
    case True
    have b: "nat (- i) \<le> 2 ^ (bits - 1)" using assms(2) True by (simp add: nat_le_iff)
    then have "nat (- i) < 2 ^ bits" using lt by linarith
    then show ?thesis using True b
      by (simp add: ParseInt_def fmt_int_def ParseUint_fmt_base)
  next
    case False
    have b: "nat i < 2 ^ (bits - 1)" using assms(3) False by (simp add: nat_less_iff)
    then have "nat i < 2 ^ bits" using lt by linarith
    then show ?thesis using False b hd_fmt_base [of 10 "nat i"]
      by (simp add: ParseInt_def fmt_int_def ParseUint_fmt_base)
  qed
qed

lemma Atoi_fmt_int: "- (2 ^ 63) \<le> i \<Longrightarrow> i < 2 ^ 63 \<Longrightarrow> Atoi (fmt_int i) = (i, None)"
  using ParseInt_fmt_int [of 64 i] by (simp add: Atoi_def)

section \<open>Words on a line\<close>

text \<open>A word: not empty and free of white space. Fields of a line are words, and joined words split again.\<close>

definition is_word :: "string \<Rightarrow> bool" where
  "is_word w \<longleftrightarrow> w \<noteq> [] \<and> (\<forall>c \<in> set w. \<not> is_space c)"

lemma is_word_fmt_base [simp]: "2 \<le> b \<Longrightarrow> b \<le> 36 \<Longrightarrow> is_word (fmt_base b n)"
  by (auto simp: is_word_def dest: fmt_base_no_space)

lemma is_word_fmt_int [simp]: "is_word (fmt_int i)"
  using is_word_fmt_base [of 10 "nat i"] is_word_fmt_base [of 10 "nat (- i)"]
  by (auto simp: fmt_int_def is_word_def is_space_def)

lemma Fields_word: "is_word w \<Longrightarrow> Fields w = [w]"
  by (simp add: is_word_def Fields_no_space)

lemma Fields_word_space: "is_word w \<Longrightarrow> is_space c \<Longrightarrow> Fields (w @ c # t) = w # Fields t"
  by (simp add: Fields_sep Fields_word)

lemma Fields_Join: "\<forall>w \<in> set ws. is_word w \<Longrightarrow> Fields (Join ws '' '') = ws"
proof (induction ws rule: induct_list012)
  case (3 w v ws)
  have "is_space CHR '' ''" by (simp add: is_space_def)
  with 3 show ?case by (simp add: Fields_word_space)
qed (simp_all add: Fields_word)

lemma split_pred_words: "w \<in> set (split_pred P s) \<Longrightarrow> \<forall>c \<in> set w. \<not> P c"
proof (induction s arbitrary: w)
  case (Cons c s)
  show ?case
  proof (cases "split_pred P s")
    case Nil
    then show ?thesis by simp
  next
    case (Cons v vs)
    with Cons.IH [of v] Cons.IH [of w] Cons.prems show ?thesis by (auto split: if_splits)
  qed
qed simp

lemma Fields_words: "w \<in> set (Fields s) \<Longrightarrow> is_word w"
  unfolding Fields_def is_word_def using split_pred_words by auto

lemma fmt_base10_head:
  obtains c cs where "fmt_base 10 n = c # cs" and "(of_char c :: nat) \<in> {48..57}"
proof -
  obtain c cs where c: "fmt_base 10 n = c # cs" by (cases "fmt_base 10 n") auto
  then have "c \<in> set (fmt_base 10 n)" by simp
  then obtain d where "d < 10" "c = digit_char d" using fmt_base_digits [of 10 n] by auto
  then have "(of_char c :: nat) \<in> {48..57}" by auto
  with c that show ?thesis by blast
qed

lemma fmt_int_head:
  obtains c cs where "fmt_int i = c # cs" and "c = CHR ''-'' \<or> (of_char c :: nat) \<in> {48..57}"
proof (cases "i < 0")
  case True
  then show ?thesis using that by (simp add: fmt_int_def)
next
  case False
  obtain c cs where "fmt_base 10 (nat i) = c # cs" "(of_char c :: nat) \<in> {48..57}" by (rule fmt_base10_head)
  with False that show ?thesis by (simp add: fmt_int_def)
qed

section \<open>Replacing the first match\<close>

lemma map_replace_first:
  "find P xs = Some x \<Longrightarrow> key y = key x \<Longrightarrow> map key (update_first P (\<lambda>_. y) xs) = map key xs"
  by (induction xs) (auto split: if_splits)

lemma find_replace_first:
  "find P xs = Some x \<Longrightarrow> P y \<Longrightarrow> find P (update_first P (\<lambda>_. y) xs) = Some y"
  by (induction xs) (auto split: if_splits)

lemma fold_delete:
  assumes "\<And>x g k. f x g k = (if k \<in> K x then None else g k)"
  shows "fold f xs g k = (if \<exists>x \<in> set xs. k \<in> K x then None else g k)"
  by (induction xs arbitrary: g) (auto simp: assms)

end
