(* ===== verification/Go_Float.thy ===== *)
theory Go_Float
  imports Complex_Main Prelude
begin

text \<open>
  The \<open>float64\<close> operations the daemon uses: conversion from integers, division, multiplication,
  \<open>math.Round\<close>, conversion back to \<open>int64\<close>, and the \<open>%f\<close> verb. A finite float is the rational number
  it denotes (the sign of a zero is not represented); every operation rounds its exact result to
  the nearest number with 53 significant bits, ties to even, as IEEE 754 prescribes.
\<close>

datatype f64 = Fin rat | PosInf | NegInf | NaN

definition round_half_even :: "rat \<Rightarrow> int" where
  "round_half_even r =
     (let f = \<lfloor>r\<rfloor>; d = r - of_int f in
      if d < 1 / 2 then f else if d > 1 / 2 then f + 1 else if even f then f else f + 1)"

function bit_len :: "int \<Rightarrow> int" where
  "bit_len n = (if n \<le> 0 then 0 else 1 + bit_len (n div 2))"
  by pat_completeness auto
termination
  by (relation "measure nat") auto

declare bit_len.simps [simp del]

definition pow2 :: "int \<Rightarrow> rat" where
  "pow2 e = (if 0 \<le> e then 2 ^ nat e else 1 / 2 ^ nat (- e))"

text \<open>The exponent of the last bit of a positive number \<open>x\<close> with 53 significant bits.\<close>

definition ulp_exp :: "rat \<Rightarrow> int" where
  "ulp_exp x =
     (let (p, q) = quotient_of x;
          e = bit_len p - bit_len q - 53;
          e' = (if x / pow2 e \<ge> 2 ^ 53 then e + 1 else if x / pow2 e < 2 ^ 52 then e - 1 else e)
      in max e' (- 1074))"

definition rnd :: "rat \<Rightarrow> f64" where
  "rnd x =
     (if x = 0 then Fin 0
      else let e = ulp_exp \<bar>x\<bar>; m = round_half_even (\<bar>x\<bar> / pow2 e) in
        if 971 < e \<or> (e = 971 \<and> 2 ^ 53 \<le> m) then (if x < 0 then NegInf else PosInf)
        else Fin ((if x < 0 then - of_int m else of_int m) * pow2 e))"

definition f64_of_int :: "int \<Rightarrow> f64" where
  "f64_of_int i = rnd (of_int i)"

definition sgn_inf :: "bool \<Rightarrow> f64" where
  "sgn_inf neg = (if neg then NegInf else PosInf)"

fun f64_div :: "f64 \<Rightarrow> f64 \<Rightarrow> f64" where
  "f64_div NaN _ = NaN"
| "f64_div _ NaN = NaN"
| "f64_div (Fin x) (Fin y) =
     (if y = 0 then (if x = 0 then NaN else sgn_inf (x < 0)) else rnd (x / y))"
| "f64_div (Fin x) PosInf = Fin 0"
| "f64_div (Fin x) NegInf = Fin 0"
| "f64_div PosInf (Fin y) = sgn_inf (y < 0)"
| "f64_div NegInf (Fin y) = sgn_inf (\<not> y < 0)"
| "f64_div _ _ = NaN"

fun f64_mul :: "f64 \<Rightarrow> f64 \<Rightarrow> f64" where
  "f64_mul NaN _ = NaN"
| "f64_mul _ NaN = NaN"
| "f64_mul (Fin x) (Fin y) = rnd (x * y)"
| "f64_mul (Fin x) PosInf = (if x = 0 then NaN else sgn_inf (x < 0))"
| "f64_mul (Fin x) NegInf = (if x = 0 then NaN else sgn_inf (\<not> x < 0))"
| "f64_mul PosInf (Fin y) = (if y = 0 then NaN else sgn_inf (y < 0))"
| "f64_mul NegInf (Fin y) = (if y = 0 then NaN else sgn_inf (\<not> y < 0))"
| "f64_mul PosInf PosInf = PosInf"
| "f64_mul NegInf NegInf = PosInf"
| "f64_mul _ _ = NegInf"

fun f64_add :: "f64 \<Rightarrow> f64 \<Rightarrow> f64" where
  "f64_add NaN _ = NaN"
| "f64_add _ NaN = NaN"
| "f64_add (Fin x) (Fin y) = rnd (x + y)"
| "f64_add PosInf NegInf = NaN"
| "f64_add NegInf PosInf = NaN"
| "f64_add PosInf _ = PosInf"
| "f64_add _ PosInf = PosInf"
| "f64_add NegInf _ = NegInf"
| "f64_add _ NegInf = NegInf"

text \<open>\<open>math.Round\<close>: half away from zero.\<close>

fun math_Round :: "f64 \<Rightarrow> f64" where
  "math_Round (Fin x) = Fin (of_int (if x < 0 then - \<lfloor>- x + 1 / 2\<rfloor> else \<lfloor>x + 1 / 2\<rfloor>))"
| "math_Round y = y"

text \<open>
  \<open>int64(f)\<close>: truncation; a value outside the type gives the amd64 result, the smallest \<open>int64\<close>.
\<close>

fun f64_to_i64 :: "f64 \<Rightarrow> int" where
  "f64_to_i64 (Fin x) =
     (let t = (if x < 0 then - \<lfloor>- x\<rfloor> else \<lfloor>x\<rfloor>) in
      if - (2 ^ 63) \<le> t \<and> t < 2 ^ 63 then t else - (2 ^ 63))"
| "f64_to_i64 _ = - (2 ^ 63)"

text \<open>The \<open>%f\<close> verb: six decimals.\<close>

definition pad_left :: "nat \<Rightarrow> string \<Rightarrow> string" where
  "pad_left n s = replicate (n - length s) (CHR ''0'') @ s"

fun fmt_f :: "f64 \<Rightarrow> string" where
  "fmt_f (Fin x) =
     (let n = nat (round_half_even (\<bar>x\<bar> * 10 ^ 6)) in
      (if x < 0 then ''-'' else '''') @ fmt_base 10 (n div 10 ^ 6) @ ''.'' @ pad_left 6 (fmt_base 10 (n mod 10 ^ 6)))"
| "fmt_f PosInf = ''+Inf''"
| "fmt_f NegInf = ''-Inf''"
| "fmt_f NaN = ''NaN''"

section \<open>Lemmas\<close>

lemma round_half_even_of_int [simp]: "round_half_even (of_int i) = i"
  by (simp add: round_half_even_def)

lemma f64_to_i64_range: "- (2 ^ 63) \<le> f64_to_i64 f \<and> f64_to_i64 f < 2 ^ 63"
  by (cases f) (auto simp: Let_def)

end
