(* ===== verification/Protocol.thy ===== *)
theory Protocol
  imports Prelude
begin

text \<open>
  The grandmaster settings of \<open>pkg/protocol/type.go\<close> (the record, its text form, the update from the
  text of one field), the clock-accuracy table of the PTP library it builds on, and the retry loop
  of \<open>pkg/pmc/pmc.go\<close> that reads the settings from the \<open>pmc\<close> tool. The tool and the expect session are
  a parameter: what each attempt returns.

  Results: applying the printed field values to the zero settings restores the settings; the retry
  loop returns the settings of the first attempt that answers; when every attempt times out it
  returns zero settings and no error.
\<close>

section \<open>Constants and records\<close>

type_synonym ClockClass = u8
type_synonym ClockAccuracy = u8
type_synonym TimeSource = u8

definition ClockClassUninitialized :: ClockClass where "ClockClassUninitialized = 0"

definition ClockClass6 :: ClockClass where "ClockClass6 = 6"

definition ClockClass7 :: ClockClass where "ClockClass7 = 7"

definition ClockClassOutOfSpec :: ClockClass where "ClockClassOutOfSpec = 140"

definition ClockClassFreerun :: ClockClass where "ClockClassFreerun = 248"

definition ClockAccuracyNanosecond100 :: ClockAccuracy where "ClockAccuracyNanosecond100 = 0x21"

definition ClockAccuracyUnknown :: ClockAccuracy where "ClockAccuracyUnknown = 0xFE"

definition TimeSourceGNSS :: TimeSource where "TimeSourceGNSS = 0x20"

definition TimeSourceInternalOscillator :: TimeSource where "TimeSourceInternalOscillator = 0xA0"

lemmas clock_class_defs =
  ClockClassUninitialized_def ClockClass6_def ClockClass7_def ClockClassOutOfSpec_def ClockClassFreerun_def

record ClockQuality =
  cq_ClockClass :: ClockClass
  cq_ClockAccuracy :: ClockAccuracy
  cq_OffsetScaledLogVariance :: u16

text \<open>\<open>CurrentUtcOffset\<close> is an \<open>int32\<close>: a 32-bit word read by \<^const>\<open>sint\<close>.\<close>

record TimePropertiesDS =
  tp_CurrentUtcOffset :: u32
  tp_CurrentUtcOffsetValid :: bool
  tp_Leap59 :: bool
  tp_Leap61 :: bool
  tp_TimeTraceable :: bool
  tp_FrequencyTraceable :: bool
  tp_PtpTimescale :: bool
  tp_TimeSource :: TimeSource

record GrandmasterSettings =
  gs_ClockQuality :: ClockQuality
  gs_TimePropertiesDS :: TimePropertiesDS

definition zero_settings :: GrandmasterSettings where
  "zero_settings =
     \<lparr>gs_ClockQuality = \<lparr>cq_ClockClass = 0, cq_ClockAccuracy = 0, cq_OffsetScaledLogVariance = 0\<rparr>,
      gs_TimePropertiesDS =
        \<lparr>tp_CurrentUtcOffset = 0, tp_CurrentUtcOffsetValid = False, tp_Leap59 = False, tp_Leap61 = False,
         tp_TimeTraceable = False, tp_FrequencyTraceable = False, tp_PtpTimescale = False, tp_TimeSource = 0\<rparr>\<rparr>"

section \<open>The clock-accuracy table\<close>

definition ClockAccuracyFromOffset :: "int \<Rightarrow> ClockAccuracy" where
  "ClockAccuracyFromOffset off =
     (let o' = (if off < 0 then to_i64 (off * (-1)) else off) in
      if o' \<le> 25 then 0x20
      else if o' \<le> 100 then 0x21
      else if o' \<le> 250 then 0x22
      else if o' \<le> 1000 then 0x23
      else if o' \<le> 2500 then 0x24
      else if o' \<le> 10000 then 0x25
      else if o' \<le> 25000 then 0x26
      else if o' \<le> 100000 then 0x27
      else if o' \<le> 250000 then 0x28
      else if o' \<le> 1000000 then 0x29
      else if o' \<le> 2500000 then 0x2A
      else if o' \<le> 10000000 then 0x2B
      else if o' \<le> 25000000 then 0x2C
      else if o' \<le> 100000000 then 0x2D
      else if o' \<le> 250000000 then 0x2E
      else if o' \<le> 1000000000 then 0x2F
      else if o' \<le> 10000000000 then 0x30
      else 0x31)"

section \<open>Text form of the settings\<close>

definition btoi :: "bool \<Rightarrow> u8" where
  "btoi b = (if b then 1 else 0)"

definition stob :: "string \<Rightarrow> bool" where
  "stob s = (s = ''1'')"

definition stou8 :: "string \<Rightarrow> u8" where
  "stou8 s = of_nat (fst (ParseUint s 10 8))"

definition stou8h :: "string \<Rightarrow> u8" where
  "stou8h s = of_nat (fst (ParseUint (replace_first s ''0x'' '''') 16 8))"

definition stou16h :: "string \<Rightarrow> u16" where
  "stou16h s = of_nat (fst (ParseUint (replace_first s ''0x'' '''') 16 16))"

definition stoi32 :: "string \<Rightarrow> u32" where
  "stoi32 s = word_of_int (fst (ParseInt s 10 32))"

text \<open>The \<open>%d\<close> and \<open>0x%x\<close> verbs of the format strings.\<close>

definition fmt_d :: "'a::len word \<Rightarrow> string" where
  "fmt_d w = fmt_base 10 (unat w)"

definition fmt_0x :: "'a::len word \<Rightarrow> string" where
  "fmt_0x w = ''0x'' @ fmt_base 16 (unat w)"

definition Keys :: "string list" where
  "Keys = [''clockClass'', ''clockAccuracy'', ''offsetScaledLogVariance'',
           ''currentUtcOffset'', ''leap61'', ''leap59'', ''currentUtcOffsetValid'',
           ''ptpTimescale'', ''timeTraceable'', ''frequencyTraceable'', ''timeSource'']"

text \<open>The arguments of the eleven \<open>Sprintf\<close> calls of \<open>String\<close>, formatted, in their order.\<close>

definition setting_values :: "GrandmasterSettings \<Rightarrow> string list" where
  "setting_values g =
     [fmt_d (cq_ClockClass (gs_ClockQuality g)),
      fmt_0x (cq_ClockAccuracy (gs_ClockQuality g)),
      fmt_0x (cq_OffsetScaledLogVariance (gs_ClockQuality g)),
      fmt_int (sint (tp_CurrentUtcOffset (gs_TimePropertiesDS g))),
      fmt_d (btoi (tp_Leap61 (gs_TimePropertiesDS g))),
      fmt_d (btoi (tp_Leap59 (gs_TimePropertiesDS g))),
      fmt_d (btoi (tp_CurrentUtcOffsetValid (gs_TimePropertiesDS g))),
      fmt_d (btoi (tp_PtpTimescale (gs_TimePropertiesDS g))),
      fmt_d (btoi (tp_TimeTraceable (gs_TimePropertiesDS g))),
      fmt_d (btoi (tp_FrequencyTraceable (gs_TimePropertiesDS g))),
      fmt_0x (tp_TimeSource (gs_TimePropertiesDS g))]"

definition setting_labels :: "string list" where
  "setting_labels =
     ['' clockClass              '', '' clockAccuracy           '', '' offsetScaledLogVariance '',
      '' currentUtcOffset        '', '' leap61                  '', '' leap59                  '',
      '' currentUtcOffsetValid   '', '' ptpTimescale            '', '' timeTraceable           '',
      '' frequencyTraceable      '', '' timeSource              '']"

definition GrandmasterSettings_String :: "GrandmasterSettings \<Rightarrow> string" where
  "GrandmasterSettings_String g =
     concat (map2 (\<lambda>l v. l @ v @ ''\<newline>'') setting_labels (setting_values g))"

definition upd_quality :: "(ClockQuality \<Rightarrow> ClockQuality) \<Rightarrow> GrandmasterSettings \<Rightarrow> GrandmasterSettings" where
  "upd_quality f g = g\<lparr>gs_ClockQuality := f (gs_ClockQuality g)\<rparr>"

definition upd_time :: "(TimePropertiesDS \<Rightarrow> TimePropertiesDS) \<Rightarrow> GrandmasterSettings \<Rightarrow> GrandmasterSettings" where
  "upd_time f g = g\<lparr>gs_TimePropertiesDS := f (gs_TimePropertiesDS g)\<rparr>"

definition Update :: "GrandmasterSettings \<Rightarrow> string \<Rightarrow> string \<Rightarrow> GrandmasterSettings" where
  "Update g key value =
     (if key = ''clockClass'' then upd_quality (\<lambda>q. q\<lparr>cq_ClockClass := stou8 value\<rparr>) g
      else if key = ''clockAccuracy'' then upd_quality (\<lambda>q. q\<lparr>cq_ClockAccuracy := stou8h value\<rparr>) g
      else if key = ''offsetScaledLogVariance'' then upd_quality (\<lambda>q. q\<lparr>cq_OffsetScaledLogVariance := stou16h value\<rparr>) g
      else if key = ''currentUtcOffset'' then upd_time (\<lambda>t. t\<lparr>tp_CurrentUtcOffset := stoi32 value\<rparr>) g
      else if key = ''currentUtcOffsetValid'' then upd_time (\<lambda>t. t\<lparr>tp_CurrentUtcOffsetValid := stob value\<rparr>) g
      else if key = ''leap59'' then upd_time (\<lambda>t. t\<lparr>tp_Leap59 := stob value\<rparr>) g
      else if key = ''leap61'' then upd_time (\<lambda>t. t\<lparr>tp_Leap61 := stob value\<rparr>) g
      else if key = ''timeTraceable'' then upd_time (\<lambda>t. t\<lparr>tp_TimeTraceable := stob value\<rparr>) g
      else if key = ''frequencyTraceable'' then upd_time (\<lambda>t. t\<lparr>tp_FrequencyTraceable := stob value\<rparr>) g
      else if key = ''ptpTimescale'' then upd_time (\<lambda>t. t\<lparr>tp_PtpTimescale := stob value\<rparr>) g
      else if key = ''timeSource'' then upd_time (\<lambda>t. t\<lparr>tp_TimeSource := stou8h value\<rparr>) g
      else g)"

section \<open>Reading the settings through pmc\<close>

text \<open>
  One attempt of the loop: \<open>Send\<close> fails, \<open>Expect\<close> times out, \<open>Expect\<close> fails otherwise, or \<open>Expect\<close>
  matches and returns the captured groups (\<open>matches[1:]\<close>).
\<close>

datatype pmc_attempt =
    SendFails string
  | ExpectTimeout string
  | ExpectFails string
  | ExpectMatches "string list"

text \<open>The loop over \<open>matches[1:]\<close>: \<open>g.Update(g.Keys()[i], m)\<close>.\<close>

fun apply_matches :: "nat \<Rightarrow> string list \<Rightarrow> GrandmasterSettings \<Rightarrow> GrandmasterSettings res" where
  "apply_matches i [] g = Inr g"
| "apply_matches i (m # ms) g =
     (case index_at Keys i of
        Inl e \<Rightarrow> Inl e
      | Inr k \<Rightarrow> apply_matches (Suc i) ms (Update g k m))"

definition numRetry :: nat where "numRetry = 6"

text \<open>
  The loop of \<open>RunPMCExpGetGMSettings\<close>. \<open>err\<close> is the outer error variable: \<open>Send\<close> assigns it, the
  \<open>Expect\<close> call does not, because its \<open>err\<close> is declared again inside the block.
\<close>

fun pmc_get_loop ::
    "nat \<Rightarrow> (nat \<Rightarrow> pmc_attempt) \<Rightarrow> nat \<Rightarrow> string option \<Rightarrow> GrandmasterSettings
      \<Rightarrow> (GrandmasterSettings \<times> string option) res" where
  "pmc_get_loop 0 env i err g = Inr (g, err)"
| "pmc_get_loop (Suc n) env i err g =
     (case env i of
        SendFails e \<Rightarrow> pmc_get_loop n env (Suc i) (Some e) g
      | ExpectTimeout _ \<Rightarrow> pmc_get_loop n env (Suc i) None g
      | ExpectFails e \<Rightarrow> Inr (g, Some e)
      | ExpectMatches ms \<Rightarrow>
          (case apply_matches 0 ms g of Inl p \<Rightarrow> Inl p | Inr g' \<Rightarrow> Inr (g', None)))"

definition RunPMCExpGetGMSettings ::
    "string option \<Rightarrow> (nat \<Rightarrow> pmc_attempt) \<Rightarrow> (GrandmasterSettings \<times> string option) res" where
  "RunPMCExpGetGMSettings spawn_err env =
     (case spawn_err of
        Some e \<Rightarrow> Inr (zero_settings, Some e)
      | None \<Rightarrow> pmc_get_loop numRetry env 0 None zero_settings)"

text \<open>The single exchange of \<open>RunPMCExpSetGMSettings\<close>: the command sent and the error returned.\<close>

definition CmdSetGMSettings :: string where
  "CmdSetGMSettings = ''SET GRANDMASTER_SETTINGS_NP''"

definition set_command :: "GrandmasterSettings \<Rightarrow> string" where
  "set_command g = CmdSetGMSettings @ replace_all (GrandmasterSettings_String g) ''\<newline>'' '' ''"

definition RunPMCExpSetGMSettings ::
    "string option \<Rightarrow> pmc_attempt \<Rightarrow> GrandmasterSettings \<Rightarrow> string option \<times> string option" where
  "RunPMCExpSetGMSettings spawn_err a g =
     (case spawn_err of
        Some e \<Rightarrow> (None, Some e)
      | None \<Rightarrow>
          (Some (set_command g @ ''\<newline>''),
           (case a of
              SendFails e \<Rightarrow> Some e
            | ExpectTimeout e \<Rightarrow> Some e
            | ExpectFails e \<Rightarrow> Some e
            | ExpectMatches _ \<Rightarrow> None)))"

section \<open>Field conversions invert their formats\<close>

lemma unat_bound: "unat (w :: 'a::len word) < 2 ^ LENGTH('a)"
  by simp

lemma stou8_fmt_d: "stou8 (fmt_d (w :: u8)) = w"
  using unat_bound [of w] ParseUint_fmt_base [of 10 "unat w" 8] by (simp add: stou8_def fmt_d_def)

lemma replace_first_0x: "replace_first (''0x'' @ s) ''0x'' '''' = s"
  by (simp add: replace_first_def HasPrefix_def)

lemma stou8h_fmt_0x: "stou8h (fmt_0x (w :: u8)) = w"
  using unat_bound [of w] ParseUint_fmt_base [of 16 "unat w" 8] replace_first_0x [of "fmt_base 16 (unat w)"]
  by (simp add: stou8h_def fmt_0x_def)

lemma stou16h_fmt_0x: "stou16h (fmt_0x (w :: u16)) = w"
  using unat_bound [of w] ParseUint_fmt_base [of 16 "unat w" 16] replace_first_0x [of "fmt_base 16 (unat w)"]
  by (simp add: stou16h_def fmt_0x_def)

lemma sint_bounds32: "- (2 ^ 31) \<le> sint (w :: u32)" "sint (w :: u32) < 2 ^ 31"
  using sint_ge [of w] sint_lt [of w] by simp_all

lemma stoi32_fmt_int: "stoi32 (fmt_int (sint (w :: u32))) = w"
  using ParseInt_fmt_int [of 32 "sint w"] sint_bounds32 [of w] by (simp add: stoi32_def)

lemma digit_char_01: "digit_char 0 = CHR ''0''" "digit_char (Suc 0) = CHR ''1''"
  by code_simp+

lemma fmt_d_btoi: "fmt_d (btoi b) = (if b then ''1'' else ''0'')"
  by (simp add: fmt_d_def btoi_def fmt_base.simps digit_char_01)

lemma stob_fmt_d: "stob (fmt_d (btoi b)) = b"
  by (simp add: fmt_d_btoi stob_def)

lemmas setting_conversions = stou8_fmt_d stou8h_fmt_0x stou16h_fmt_0x stoi32_fmt_int stob_fmt_d

lemma apply_matches_Keys:
  assumes "length ms \<le> length (drop i Keys)"
  shows "apply_matches i ms g = Inr (fold (\<lambda>(k, v) g. Update g k v) (zip (drop i Keys) ms) g)"
  using assms
proof (induction ms arbitrary: i g)
  case Nil
  then show ?case by simp
next
  case (Cons m ms)
  then have i: "i < length Keys" by auto
  then have "drop i Keys = Keys ! i # drop (Suc i) Keys" by (simp add: Cons_nth_drop_Suc)
  with Cons i show ?case by (simp add: index_at_def)
qed

lemma length_setting_values [simp]: "length (setting_values g) = 11"
  by (simp add: setting_values_def)

lemma length_Keys [simp]: "length Keys = 11"
  by (simp add: Keys_def)

lemma settings_text_roundtrip_aux:
  "apply_matches 0 (setting_values g) zero_settings = Inr g"
proof -
  have "apply_matches 0 (setting_values g) zero_settings
      = Inr (fold (\<lambda>(k, v) g. Update g k v) (zip Keys (setting_values g)) zero_settings)"
    using apply_matches_Keys [of "setting_values g" 0 zero_settings] by simp
  also have "fold (\<lambda>(k, v) g. Update g k v) (zip Keys (setting_values g)) zero_settings = g"
    by (cases g)
      (simp add: Keys_def setting_values_def Update_def upd_quality_def upd_time_def zero_settings_def
        setting_conversions)
  finally show ?thesis .
qed

section \<open>Properties\<close>

text \<open>
  Applying the values that \<open>String\<close> prints, in the order of \<open>Keys\<close>, to the zero settings gives the
  settings back: no field is lost, swapped or truncated between the text sent to pmc and the text
  read from it.
\<close>

theorem settings_text_roundtrip:
  "apply_matches 0 (setting_values g) zero_settings = Inr g"
  by (rule settings_text_roundtrip_aux)

text \<open>An attempt after which the loop tries again.\<close>

definition retryable :: "pmc_attempt \<Rightarrow> bool" where
  "retryable a = (case a of SendFails _ \<Rightarrow> True | ExpectTimeout _ \<Rightarrow> True | _ \<Rightarrow> False)"

definition attempt_error :: "pmc_attempt \<Rightarrow> string option" where
  "attempt_error a = (case a of SendFails e \<Rightarrow> Some e | _ \<Rightarrow> None)"

lemma pmc_get_loop_first_match:
  assumes "j < n" and "\<And>i. i < j \<Longrightarrow> retryable (env (i0 + i))" and "env (i0 + j) = ExpectMatches ms"
  shows "pmc_get_loop n env i0 err g
       = (case apply_matches 0 ms g of Inl p \<Rightarrow> Inl p | Inr g' \<Rightarrow> Inr (g', None))"
  using assms
proof (induction n arbitrary: i0 j err)
  case 0
  then show ?case by simp
next
  case (Suc n)
  show ?case
  proof (cases j)
    case 0
    with Suc.prems show ?thesis by simp
  next
    case (Suc j')
    have "retryable (env i0)" using Suc.prems(2) [of 0] Suc by simp
    moreover have "pmc_get_loop n env (Suc i0) err' g
        = (case apply_matches 0 ms g of Inl p \<Rightarrow> Inl p | Inr g' \<Rightarrow> Inr (g', None))" for err'
      using Suc.IH [of j' "Suc i0" err'] Suc.prems Suc by fastforce
    ultimately show ?thesis by (simp add: retryable_def split: pmc_attempt.splits)
  qed
qed

lemma pmc_get_loop_no_answer:
  assumes "\<And>i. i < n \<Longrightarrow> retryable (env (i0 + i))" and "0 < n"
  shows "pmc_get_loop n env i0 err g = Inr (g, attempt_error (env (i0 + (n - 1))))"
  using assms
proof (induction n arbitrary: i0 err)
  case 0
  then show ?case by simp
next
  case (Suc n)
  have r: "retryable (env i0)" using Suc.prems(1) [of 0] by simp
  show ?case
  proof (cases "n = 0")
    case True
    with r show ?thesis by (simp add: retryable_def attempt_error_def split: pmc_attempt.splits)
  next
    case False
    have "pmc_get_loop n env (Suc i0) err' g = Inr (g, attempt_error (env (Suc i0 + (n - 1))))" for err'
      using Suc.IH [of "Suc i0" err'] Suc.prems(1) False by fastforce
    with r False show ?thesis by (simp add: retryable_def split: pmc_attempt.splits)
  qed
qed

text \<open>
  The settings returned are those of the first attempt that answers: if attempt \<open>j\<close> of the six
  matches with the printed values of \<open>g\<close> and every earlier attempt failed to send or timed out, the
  call returns \<open>g\<close> without an error.
\<close>

theorem pmc_get_first_answer:
  assumes "j < numRetry" and "\<And>i. i < j \<Longrightarrow> retryable (env i)"
    and "env j = ExpectMatches (setting_values g)"
  shows "RunPMCExpGetGMSettings None env = Inr (g, None)"
  using pmc_get_loop_first_match [of j numRetry env 0 "setting_values g" None zero_settings] assms
    settings_text_roundtrip_aux
  by (simp add: RunPMCExpGetGMSettings_def)

theorem pmc_get_first_answer_witness:
  "RunPMCExpGetGMSettings None
     (\<lambda>i. if i = 0 then ExpectTimeout ''t'' else ExpectMatches (setting_values zero_settings))
   = Inr (zero_settings, None)"
  by (rule pmc_get_first_answer [of 1]) (simp_all add: numRetry_def retryable_def)

text \<open>
  When none of the six attempts answers, the call returns the zero settings, and the error it
  returns is only the send error of the last attempt: if the last attempt timed out the caller gets
  zero settings and no error at all, although every attempt failed.
\<close>

theorem pmc_get_timeout_is_success:
  assumes "\<And>i. i < numRetry \<Longrightarrow> retryable (env i)"
  shows "RunPMCExpGetGMSettings None env = Inr (zero_settings, attempt_error (env (numRetry - 1)))"
  using pmc_get_loop_no_answer [of numRetry env 0 None zero_settings] assms
  by (simp add: RunPMCExpGetGMSettings_def numRetry_def)

theorem pmc_get_timeout_is_success_witness:
  "RunPMCExpGetGMSettings None (\<lambda>_. ExpectTimeout ''t'') = Inr (zero_settings, None)"
  using pmc_get_timeout_is_success [of "\<lambda>_. ExpectTimeout ''t''"]
  by (simp add: retryable_def attempt_error_def)

end
