(* ===== verification/Event_Types.thy ===== *)
theory Event_Types
  imports Go_Float Protocol "HOL-Library.Multiset"
begin

text \<open>
  The vocabulary of \<open>pkg/event/event.go\<close>: PTP states, event sources, clock types, value types, the
  event that the processes send to the handler, and the log line of an event
  (\<open>GetLogData\<close>). The string-typed enumerations of the source are datatypes; the last constructor of
  each is Go's zero value, the empty string.
\<close>

section \<open>Enumerations\<close>

datatype PTPState = PTP_FREERUN | PTP_HOLDOVER | PTP_LOCKED | PTP_UNKNOWN | PTP_NOTSET | PTP_EMPTY

fun ptp_str :: "PTPState \<Rightarrow> string" where
  "ptp_str PTP_FREERUN = ''s0''"
| "ptp_str PTP_HOLDOVER = ''s1''"
| "ptp_str PTP_LOCKED = ''s2''"
| "ptp_str PTP_UNKNOWN = ''-1''"
| "ptp_str PTP_NOTSET = ''-2''"
| "ptp_str PTP_EMPTY = ''''"

lemma ptp_str_inject [simp]: "ptp_str a = ptp_str b \<longleftrightarrow> a = b"
  by (cases a; cases b) simp_all

text \<open>Go compares PTP states as strings.\<close>

instantiation PTPState :: linorder
begin

definition less_eq_PTPState :: "PTPState \<Rightarrow> PTPState \<Rightarrow> bool" where
  "less_eq_PTPState a b = (ptp_str a \<le> ptp_str b)"

definition less_PTPState :: "PTPState \<Rightarrow> PTPState \<Rightarrow> bool" where
  "less_PTPState a b = (ptp_str a < ptp_str b)"

instance
proof
  fix x y z :: PTPState
  show "x < y \<longleftrightarrow> x \<le> y \<and> \<not> y \<le> x"
    unfolding less_eq_PTPState_def less_PTPState_def by (rule less_le_not_le)
  show "x \<le> x" by (simp add: less_eq_PTPState_def)
  show "x \<le> y \<Longrightarrow> y \<le> z \<Longrightarrow> x \<le> z"
    unfolding less_eq_PTPState_def by (rule order_trans)
  show "x \<le> y \<Longrightarrow> y \<le> x \<Longrightarrow> x = y"
    unfolding less_eq_PTPState_def using ptp_str_inject antisym by blast
  show "x \<le> y \<or> y \<le> x"
    unfolding less_eq_PTPState_def by (rule linear)
qed

end

datatype EventSource = GNSS | DPLL | TS2PHC | PTP4l | PHC2SYS | PPS | SYNCE | MONITORING | NoSource

fun source_str :: "EventSource \<Rightarrow> string" where
  "source_str GNSS = ''gnss''"
| "source_str DPLL = ''dpll''"
| "source_str TS2PHC = ''ts2phc''"
| "source_str PTP4l = ''ptp4l''"
| "source_str PHC2SYS = ''phc2sys''"
| "source_str PPS = ''1pps''"
| "source_str SYNCE = ''synce4l''"
| "source_str MONITORING = ''monitoring''"
| "source_str NoSource = ''''"

lemma source_str_inject [simp]: "source_str a = source_str b \<longleftrightarrow> a = b"
  by (cases a; cases b) simp_all

datatype ClockType = GM | BC | OC | NoClockType

fun clocktype_str :: "ClockType \<Rightarrow> string" where
  "clocktype_str GM = ''GM''"
| "clocktype_str BC = ''BC''"
| "clocktype_str OC = ''OC''"
| "clocktype_str NoClockType = ''''"

datatype ValueType =
    OFFSET | STATE | GPS_STATUS | PHASE_STATUS | FREQUENCY_STATUS | NMEA_STATUS | PROCESS_STATUS
  | PPS_STATUS | DEVICE | QL | EXT_QL | CLOCK_QUALITY | NETWORK_OPTION | EEC_STATE

fun vt_str :: "ValueType \<Rightarrow> string" where
  "vt_str OFFSET = ''offset''"
| "vt_str STATE = ''state''"
| "vt_str GPS_STATUS = ''gnss_status''"
| "vt_str PHASE_STATUS = ''phase_status''"
| "vt_str FREQUENCY_STATUS = ''frequency_status''"
| "vt_str NMEA_STATUS = ''nmea_status''"
| "vt_str PROCESS_STATUS = ''process_status''"
| "vt_str PPS_STATUS = ''pps_status''"
| "vt_str DEVICE = ''device''"
| "vt_str QL = ''ql''"
| "vt_str EXT_QL = ''ext_ql''"
| "vt_str CLOCK_QUALITY = ''clock_quality''"
| "vt_str NETWORK_OPTION = ''network_option''"
| "vt_str EEC_STATE = ''eec_state''"

definition GM_INTERFACE_UNKNOWN :: string where
  "GM_INTERFACE_UNKNOWN = ''unknown''"

text \<open>
  A value of type \<open>interface{}\<close> with the dynamic types the handler distinguishes. \<open>VInt\<close> and
  \<open>VInt64\<close> are different dynamic types in Go, and the code treats them differently.
\<close>

datatype goval =
    VInt64 int
  | VInt int
  | VInt32 int
  | VFloat f64
  | VString string
  | VByte u8
  | VOther

section \<open>Events\<close>

text \<open>
  \<open>ec_Values\<close> is Go's map as an association list with distinct keys; the order of the list is one
  order in which \<open>range\<close> may visit the map.
\<close>

record EventChannel =
  ec_ProcessName :: EventSource
  ec_State :: PTPState
  ec_IFace :: string
  ec_CfgName :: string
  ec_Values :: "(ValueType \<times> goval) list"
  ec_ClockType :: ClockType
  ec_Time :: int
  ec_OutOfSpec :: bool
  ec_WriteToLog :: bool
  ec_Reset :: bool
  ec_SourceLost :: bool
  ec_FrequencyTraceable :: bool

definition log_item :: "ValueType \<times> goval \<Rightarrow> string list" where
  "log_item kv =
     (case snd kv of
        VInt64 i \<Rightarrow> [vt_str (fst kv) @ '' '' @ fmt_int i]
      | VInt i \<Rightarrow> [vt_str (fst kv) @ '' '' @ fmt_int i]
      | VInt32 i \<Rightarrow> [vt_str (fst kv) @ '' '' @ fmt_int i]
      | VFloat f \<Rightarrow> [vt_str (fst kv) @ '' '' @ fmt_f f]
      | VString s \<Rightarrow> [vt_str (fst kv) @ '' '' @ s]
      | VByte b \<Rightarrow> [vt_str (fst kv) @ '' 0x'' @ fmt_base 16 (unat b)]
      | VOther \<Rightarrow> [])"

text \<open>\<open>now\<close> is \<open>time.Now().Unix()\<close>.\<close>

definition GetLogData :: "int \<Rightarrow> EventChannel \<Rightarrow> string" where
  "GetLogData now e =
     (let logData = sort (concat (map log_item (ec_Values e))) in
      source_str (ec_ProcessName e) @ ''['' @ fmt_int now @ '']:['' @ ec_CfgName e @ ''] '' @ ec_IFace e
        @ '' '' @ Join logData '' '' @ '' '' @ ptp_str (ec_State e) @ ''\<newline>'')"

text \<open>The order in which the map is visited does not show in the log line.\<close>

lemma GetLogData_permute:
  assumes "mset vs = mset vs'"
  shows "GetLogData now (e\<lparr>ec_Values := vs\<rparr>) = GetLogData now (e\<lparr>ec_Values := vs'\<rparr>)"
proof -
  have conc: "mset (concat (map log_item ws)) = sum_mset (image_mset (mset \<circ> log_item) (mset ws))" for ws
    by (induction ws) simp_all
  have "mset (concat (map log_item vs)) = mset (concat (map log_item vs'))"
    using assms by (simp only: conc)
  then have "sort (concat (map log_item vs)) = sort (concat (map log_item vs'))"
    by (intro properties_for_sort [symmetric]) simp_all
  then show ?thesis by (simp add: GetLogData_def)
qed

text \<open>The last character of an interface name is replaced by \<open>x\<close> in metric labels.\<close>

definition mask_iface :: "string \<Rightarrow> string" where
  "mask_iface s = (if s = '''' then '''' else butlast s @ ''x'')"

end
