(* ===== verification/Stats.thy ===== *)
theory Stats
  imports Event_Types "HOL-Library.AList"
begin

text \<open>
  \<open>pkg/event/stats.go\<close>: the data the event handler keeps per process (\<open>Data\<close>) and per interface of a
  process (\<open>DataDetails\<close>), the recording of an event (\<open>AddEvent\<close>) and the overall state of a process
  (\<open>UpdateState\<close>).

  Results: an interface occurs once in a process's details and its event time never goes back; an event
  older than the recorded one changes nothing; the overall state is HOLDOVER if some interface is in
  HOLDOVER, else FREERUN if some is, else LOCKED if some is, whatever the order of the interfaces.
\<close>

section \<open>State\<close>

text \<open>
  A prometheus gauge vector is a pointer in the source; here it is a number, the index of its
  allocation. Labels are association lists, and Go's nil label map is the empty list.
\<close>

type_synonym labels = "(string \<times> string) list"
type_synonym gauge = nat

record DataMetric =
  dm_isRegistered :: bool
  dm_GaugeMetric :: "gauge option"
  dm_Name :: string
  dm_Labels :: labels
  dm_Value :: f64

record DataDetails =
  dd_IFace :: string
  dd_State :: PTPState
  dd_ClockType :: ClockType
  dd_Metrics :: "(ValueType \<times> DataMetric) list"
  dd_time :: int
  dd_logData :: string
  dd_signalSource :: EventSource
  dd_sourceLost :: bool

record Data =
  d_ProcessName :: EventSource
  d_Details :: "DataDetails list"
  d_State :: PTPState
  d_logData :: string

section \<open>Operations\<close>

definition update_state_step :: "PTPState \<Rightarrow> DataDetails \<Rightarrow> PTPState" where
  "update_state_step state detail =
     (case dd_State detail of
        PTP_FREERUN \<Rightarrow> if state \<noteq> PTP_HOLDOVER then PTP_FREERUN else state
      | PTP_HOLDOVER \<Rightarrow> PTP_HOLDOVER
      | PTP_LOCKED \<Rightarrow> if state \<noteq> PTP_FREERUN \<and> state \<noteq> PTP_HOLDOVER then PTP_LOCKED else state
      | _ \<Rightarrow> state)"

definition Data_UpdateState :: "Data \<Rightarrow> Data" where
  "Data_UpdateState d = d\<lparr>d_State := foldl update_state_step PTP_UNKNOWN (d_Details d)\<rparr>"

definition GetDataDetails :: "Data \<Rightarrow> string \<Rightarrow> DataDetails option" where
  "GetDataDetails d iface = find (\<lambda>dd. dd_IFace dd = iface) (d_Details d)"

definition refresh_details :: "int \<Rightarrow> EventChannel \<Rightarrow> DataDetails \<Rightarrow> DataDetails" where
  "refresh_details now ev dd =
     dd\<lparr>dd_State := ec_State ev, dd_sourceLost := ec_SourceLost ev, dd_ClockType := ec_ClockType ev,
        dd_time := ec_Time ev, dd_logData := GetLogData now ev\<rparr>"

definition new_details :: "int \<Rightarrow> EventChannel \<Rightarrow> DataDetails" where
  "new_details now ev =
     \<lparr>dd_IFace = ec_IFace ev, dd_State = ec_State ev, dd_ClockType = ec_ClockType ev, dd_Metrics = [],
      dd_time = ec_Time ev, dd_logData = GetLogData now ev, dd_signalSource = NoSource,
      dd_sourceLost = ec_SourceLost ev\<rparr>"

text \<open>
  \<open>AddEvent\<close> returns the new data and the state changes it sends to the notifier. \<open>hasSubs\<close> is
  \<open>len(StateRegisterer.Subscribers) > 0\<close>.
\<close>

definition AddEvent :: "bool \<Rightarrow> int \<Rightarrow> EventChannel \<Rightarrow> Data \<Rightarrow> Data \<times> (EventSource \<times> PTPState) list" where
  "AddEvent hasSubs now ev d =
     (case GetDataDetails d (ec_IFace ev) of
        Some dd \<Rightarrow>
          if dd_time dd \<le> ec_Time ev then
            (d\<lparr>d_Details := update_first (\<lambda>dd. dd_IFace dd = ec_IFace ev) (refresh_details now ev) (d_Details d)\<rparr>,
             if dd_State dd \<noteq> ec_State ev \<and> hasSubs then [(ec_ProcessName ev, ec_State ev)] else [])
          else (d, [])
      | None \<Rightarrow>
          (d\<lparr>d_logData := dd_logData (new_details now ev), d_Details := d_Details d @ [new_details now ev]\<rparr>,
           if hasSubs then [(ec_ProcessName ev, ec_State ev)] else []))"

section \<open>Specification of the overall state\<close>

definition overall_state :: "PTPState set \<Rightarrow> PTPState" where
  "overall_state S =
     (if PTP_HOLDOVER \<in> S then PTP_HOLDOVER
      else if PTP_FREERUN \<in> S then PTP_FREERUN
      else if PTP_LOCKED \<in> S then PTP_LOCKED
      else PTP_UNKNOWN)"

lemma overall_state_insert_fold:
  "foldl update_state_step (overall_state S) ds = overall_state (S \<union> dd_State ` set ds)"
proof (induction ds arbitrary: S)
  case Nil
  then show ?case by simp
next
  case (Cons d ds)
  have "update_state_step (overall_state S) d = overall_state (insert (dd_State d) S)"
    by (cases "dd_State d") (auto simp: update_state_step_def overall_state_def)
  with Cons [of "insert (dd_State d) S"] show ?case by simp
qed

lemma Data_UpdateState_overall: "d_State (Data_UpdateState d) = overall_state (dd_State ` set (d_Details d))"
  using overall_state_insert_fold [of "{}" "d_Details d"]
  by (simp add: Data_UpdateState_def) (simp add: overall_state_def)

lemma Data_UpdateState_frame [simp]:
  "d_ProcessName (Data_UpdateState d) = d_ProcessName d"
  "d_Details (Data_UpdateState d) = d_Details d"
  by (simp_all add: Data_UpdateState_def)

section \<open>Well-formedness\<close>

text \<open>Interfaces are distinct, and nothing in the source ever assigns \<open>signalSource\<close>.\<close>

definition data_wf :: "Data \<Rightarrow> bool" where
  "data_wf d \<longleftrightarrow> unique_on dd_IFace (d_Details d) \<and> (\<forall>dd \<in> set (d_Details d). dd_signalSource dd = NoSource)"

lemma refresh_details_frame [simp]:
  "dd_IFace (refresh_details now ev dd) = dd_IFace dd"
  "dd_signalSource (refresh_details now ev dd) = dd_signalSource dd"
  "dd_Metrics (refresh_details now ev dd) = dd_Metrics dd"
  "dd_State (refresh_details now ev dd) = ec_State ev"
  "dd_time (refresh_details now ev dd) = ec_Time ev"
  "dd_sourceLost (refresh_details now ev dd) = ec_SourceLost ev"
  by (simp_all add: refresh_details_def)

lemma new_details_sel [simp]:
  "dd_IFace (new_details now ev) = ec_IFace ev"
  "dd_State (new_details now ev) = ec_State ev"
  "dd_time (new_details now ev) = ec_Time ev"
  "dd_signalSource (new_details now ev) = NoSource"
  "dd_sourceLost (new_details now ev) = ec_SourceLost ev"
  by (simp_all add: new_details_def)

lemma AddEvent_name [simp]: "d_ProcessName (fst (AddEvent hs now ev d)) = d_ProcessName d"
  by (simp add: AddEvent_def split: option.splits)

lemma AddEvent_details:
  "d_Details (fst (AddEvent hs now ev d)) =
     (case GetDataDetails d (ec_IFace ev) of
        Some dd \<Rightarrow>
          if dd_time dd \<le> ec_Time ev
          then update_first (\<lambda>dd. dd_IFace dd = ec_IFace ev) (refresh_details now ev) (d_Details d)
          else d_Details d
      | None \<Rightarrow> d_Details d @ [new_details now ev])"
  by (simp add: AddEvent_def split: option.splits)

lemma data_wf_AddEvent [wf_intros]:
  assumes "data_wf d"
  shows "data_wf (fst (AddEvent hs now ev d))"
proof (cases "GetDataDetails d (ec_IFace ev)")
  case None
  then have "ec_IFace ev \<notin> dd_IFace ` set (d_Details d)"
    unfolding GetDataDetails_def find_None_notin .
  with assms None show ?thesis
    by (auto simp: data_wf_def AddEvent_details unique_on_snoc)
next
  case (Some dd)
  then have mem: "dd \<in> set (d_Details d)"
    by (auto simp: GetDataDetails_def find_Some_iff)
  have "set (update_first (\<lambda>x. dd_IFace x = ec_IFace ev) (refresh_details now ev) (d_Details d))
      \<subseteq> insert (refresh_details now ev dd) (set (d_Details d))"
    using Some by (intro set_update_first) (simp add: GetDataDetails_def)
  with assms Some mem show ?thesis
    by (auto simp: data_wf_def AddEvent_details unique_on_update_first)
qed

lemma data_wf_UpdateState [wf_intros]: "data_wf d \<Longrightarrow> data_wf (Data_UpdateState d)"
  by (simp add: data_wf_def)

lemma GetDataDetails_AddEvent_same:
  "GetDataDetails (fst (AddEvent hs now ev d)) (ec_IFace ev) =
     Some (case GetDataDetails d (ec_IFace ev) of
             Some dd \<Rightarrow> if dd_time dd \<le> ec_Time ev then refresh_details now ev dd else dd
           | None \<Rightarrow> new_details now ev)"
  by (auto simp: GetDataDetails_def AddEvent_details find_update_first find_snoc split: option.splits)

lemma GetDataDetails_AddEvent_other:
  "i \<noteq> ec_IFace ev \<Longrightarrow> GetDataDetails (fst (AddEvent hs now ev d)) i = GetDataDetails d i"
  by (auto simp: GetDataDetails_def AddEvent_details find_update_first_other find_snoc split: option.splits)

section \<open>Properties\<close>


text \<open>
  Recording an event: afterwards the event's interface has details; if the recorded time is not
  later than the event's, they carry the event's state, time and source-lost flag, otherwise they are
  exactly as before (a stale event is discarded); in both cases the recorded time is the later of the
  two, and every other interface is untouched.
\<close>

theorem add_event_records_latest:
  "(\<exists>dd'. GetDataDetails (fst (AddEvent hs now ev d)) (ec_IFace ev) = Some dd'
     \<and> (case GetDataDetails d (ec_IFace ev) of
          None \<Rightarrow> dd_State dd' = ec_State ev \<and> dd_time dd' = ec_Time ev \<and> dd_sourceLost dd' = ec_SourceLost ev
        | Some dd \<Rightarrow>
            dd_time dd' = max (dd_time dd) (ec_Time ev)
            \<and> (if dd_time dd \<le> ec_Time ev
               then dd_State dd' = ec_State ev \<and> dd_sourceLost dd' = ec_SourceLost ev
               else dd' = dd \<and> AddEvent hs now ev d = (d, []))))
   \<and> (\<forall>i. i = ec_IFace ev \<or> GetDataDetails (fst (AddEvent hs now ev d)) i = GetDataDetails d i)"
proof -
  have "AddEvent hs now ev d = (d, [])"
    if "GetDataDetails d (ec_IFace ev) = Some dd" and "\<not> dd_time dd \<le> ec_Time ev" for dd
    using that by (simp add: AddEvent_def)
  then show ?thesis
    using GetDataDetails_AddEvent_same [of hs now ev d] GetDataDetails_AddEvent_other [of _ ev hs now d]
    by (auto split: option.splits)
qed

text \<open>
  Subscribers hear of a state change and of nothing else: for an event that is not stale, the
  notifier is called (when it has subscribers) exactly if the interface is new or its state differs
  from the recorded one, and then once, with the event's source and state.
\<close>

theorem add_event_notifies_changes:
  "snd (AddEvent hs now ev d) =
     (if hs \<and> (case GetDataDetails d (ec_IFace ev) of
                 None \<Rightarrow> True
               | Some dd \<Rightarrow> dd_time dd \<le> ec_Time ev \<and> dd_State dd \<noteq> ec_State ev)
      then [(ec_ProcessName ev, ec_State ev)] else [])"
  by (auto simp: AddEvent_def split: option.splits)

end
