(* ===== verification/Debug_State.thy ===== *)
theory Debug_State
  imports Event_Types "HOL-Library.AList"
begin

text \<open>
  \<open>pkg/debug/debug.go\<close>: the table of last seen states and the flag \<open>resetGM\<close>, the operations by which the
  event handler updates it, and the tree \<open>PrintTree\<close> builds from it (the printing of the tree is not
  modelled). The entries hold \<open>interface{}\<close> values which the operations cast with unchecked type
  assertions; a failed assertion is the error \<open>TypeAssertion\<close>. The result is that from the empty table no
  sequence of operations fails an assertion or indexes out of range.
\<close>

section \<open>State\<close>

datatype dbval = DStr string | DNum u8

record StateDB =
  db_State :: dbval
  db_Offset :: "goval option"

record debug_state =
  ds_state :: "(string \<times> StateDB) list"
  ds_resetGM :: bool

record Node =
  n_name :: string
  n_state :: dbval
  n_iface :: string
  n_offset :: "goval option"

definition DpllKey :: string where "DpllKey = ''DPLL''"

definition Ts2phcKey :: string where "Ts2phcKey = ''TS2PHC''"

definition GnssKey :: string where "GnssKey = ''GNSS''"

definition GmKey :: string where "GmKey = ''GM''"

definition OverallTs2phcKey :: string where "OverallTs2phcKey = ''OVER-ALL-TS2PHC''"

definition OverallDpllKey :: string where "OverallDpllKey = ''OVER-ALL-DPLL''"

definition ClockClassKey :: string where "ClockClassKey = ''CC''"

lemmas debug_keys =
  DpllKey_def Ts2phcKey_def GnssKey_def GmKey_def OverallTs2phcKey_def OverallDpllKey_def ClockClassKey_def

definition requiredKeys :: "string list" where
  "requiredKeys = [GmKey, GnssKey, OverallTs2phcKey, OverallDpllKey, ClockClassKey]"

section \<open>Operations\<close>

definition TypeAssertion :: go_error where
  "TypeAssertion = GoErr ''interface conversion''"

definition as_string :: "dbval \<Rightarrow> string res" where
  "as_string v = (case v of DStr s \<Rightarrow> Inr s | DNum _ \<Rightarrow> Inl TypeAssertion)"

definition as_uint8 :: "dbval \<Rightarrow> u8 res" where
  "as_uint8 v = (case v of DNum n \<Rightarrow> Inr n | DStr _ \<Rightarrow> Inl TypeAssertion)"

definition ClearState :: debug_state where
  "ClearState = \<lparr>ds_state = [], ds_resetGM = False\<rparr>"

definition getSate :: "string \<Rightarrow> string" where
  "getSate s =
     (if s = ''s0'' then ''FreeRun''
      else if s = ''s2'' \<or> s = ''s3'' then ''Locked''
      else if s = ''s1'' then ''HoldOver''
      else '''')"

text \<open>The common part of the update operations for keys whose entry holds a string.\<close>

definition put_string_state :: "string \<Rightarrow> string \<Rightarrow> goval option \<Rightarrow> debug_state \<Rightarrow> debug_state res" where
  "put_string_state key s offset ds =
     (let put = ds\<lparr>ds_state := AList.update key \<lparr>db_State = DStr s, db_Offset = offset\<rparr> (ds_state ds), ds_resetGM := True\<rparr> in
      case map_of (ds_state ds) key of
        None \<Rightarrow> Inr put
      | Some st \<Rightarrow> res_bind (as_string (db_State st)) (\<lambda>old. Inr (if old \<noteq> s then put else ds)))"

definition UpdateTs2phcState :: "string \<Rightarrow> goval option \<Rightarrow> string \<Rightarrow> debug_state \<Rightarrow> debug_state res" where
  "UpdateTs2phcState s offset iface ds =
     put_string_state (if iface = OverallTs2phcKey then iface else Ts2phcKey @ ''-'' @ iface) s offset ds"

definition UpdateDPLLState :: "string \<Rightarrow> goval option \<Rightarrow> string \<Rightarrow> debug_state \<Rightarrow> debug_state res" where
  "UpdateDPLLState s offset iface ds =
     put_string_state (if iface = OverallDpllKey then iface else DpllKey @ ''-'' @ iface) s offset ds"

definition UpdateGNSSState :: "string \<Rightarrow> goval option \<Rightarrow> debug_state \<Rightarrow> debug_state res" where
  "UpdateGNSSState s offset ds = put_string_state GnssKey s offset ds"

definition debug_UpdateClockClass :: "u8 \<Rightarrow> debug_state \<Rightarrow> debug_state res" where
  "debug_UpdateClockClass ClassTo ds =
     (let put = ds\<lparr>ds_state := AList.update ClockClassKey \<lparr>db_State = DNum ClassTo, db_Offset = None\<rparr> (ds_state ds),
                   ds_resetGM := True\<rparr> in
      case map_of (ds_state ds) ClockClassKey of
        None \<Rightarrow> Inr put
      | Some st \<Rightarrow> res_bind (as_uint8 (db_State st)) (\<lambda>old. Inr (if ClassTo \<noteq> old then put else ds)))"

definition hasAllKeys :: "string list \<Rightarrow> debug_state \<Rightarrow> bool" where
  "hasAllKeys keys ds \<longleftrightarrow> (\<forall>k \<in> set keys. map_of (ds_state ds) k \<noteq> None)"

text \<open>The icon of the state stored under a key; a missing key reads Go's nil, whose assertion fails.\<close>

definition key_icon :: "string \<Rightarrow> debug_state \<Rightarrow> string res" where
  "key_icon key ds =
     (case map_of (ds_state ds) key of
        None \<Rightarrow> Inl TypeAssertion
      | Some st \<Rightarrow> res_bind (as_string (db_State st)) (\<lambda>s. Inr (getSate s)))"

text \<open>The loop over the table: the children of the ts2phc node and of the dpll node.\<close>

fun tree_children :: "(string \<times> StateDB) list \<Rightarrow> (Node list \<times> Node list) res" where
  "tree_children [] = Inr ([], [])"
| "tree_children ((k, v) # kvs) =
     (if k \<in> {OverallTs2phcKey, OverallDpllKey, GmKey, GnssKey, ClockClassKey} then tree_children kvs
      else res_bind (as_string (db_State v)) (\<lambda>s.
           if hd (Split k CHR ''-'') = Ts2phcKey then
             res_bind (index_at (Split k CHR ''-'') 1) (\<lambda>iface.
             res_bind (tree_children kvs) (\<lambda>(ts, ds).
             Inr (\<lparr>n_name = ''ts2phc'', n_state = DStr (getSate s), n_iface = iface, n_offset = db_Offset v\<rparr> # ts, ds)))
           else if hd (Split k CHR ''-'') = DpllKey then
             res_bind (index_at (Split k CHR ''-'') 1) (\<lambda>iface.
             res_bind (tree_children kvs) (\<lambda>(ts, ds).
             Inr (ts, \<lparr>n_name = ''dpll'', n_state = DStr (getSate s), n_iface = iface, n_offset = db_Offset v\<rparr> # ds)))
           else tree_children kvs))"

definition simple_node :: "string \<Rightarrow> dbval \<Rightarrow> Node" where
  "simple_node name st = \<lparr>n_name = name, n_state = st, n_iface = '''', n_offset = None\<rparr>"

text \<open>The tree handed to the printer, if all required keys are present.\<close>

definition PrintTree :: "debug_state \<Rightarrow> (Node \<times> (Node \<times> Node list) list) option res" where
  "PrintTree ds =
     (if \<not> hasAllKeys requiredKeys ds then Inr None
      else
        res_bind (key_icon GmKey ds) (\<lambda>gm.
        res_bind (key_icon GnssKey ds) (\<lambda>gnss.
        res_bind (key_icon OverallTs2phcKey ds) (\<lambda>ts2phc.
        res_bind (key_icon OverallDpllKey ds) (\<lambda>dpll.
        res_bind (tree_children (ds_state ds)) (\<lambda>(tsc, dpc).
        Inr (Some (simple_node ''GM (Grand Master Clock)'' (DStr gm),
          [(simple_node ''GNSS'' (DStr gnss), []),
           (simple_node ''ClockClass'' (case map_of (ds_state ds) ClockClassKey of Some st \<Rightarrow> db_State st | None \<Rightarrow> DNum 0), []),
           (simple_node OverallTs2phcKey (DStr ts2phc), tsc),
           (simple_node OverallDpllKey (DStr dpll), dpc)]))))))))"

text \<open>\<open>UpdateGMState\<close> compares interface values, which never panics, and prints the tree on a change.\<close>

definition UpdateGMState :: "string \<Rightarrow> debug_state \<Rightarrow> debug_state res" where
  "UpdateGMState s ds =
     (if (case map_of (ds_state ds) GmKey of None \<Rightarrow> True | Some st \<Rightarrow> db_State st \<noteq> DStr s) \<or> ds_resetGM ds
      then let ds' = \<lparr>ds_state = AList.update GmKey \<lparr>db_State = DStr s, db_Offset = None\<rparr> (ds_state ds), ds_resetGM = False\<rparr>
           in res_bind (PrintTree ds') (\<lambda>_. Inr ds')
      else Inr ds)"

text \<open>The calls the event handler makes, as data.\<close>

datatype debug_call =
    DClear
  | DGnss string "goval option"
  | DDpll string "goval option" string
  | DTs2phc string "goval option" string
  | DClockClass u8
  | DGM string

fun debug_exec :: "debug_call \<Rightarrow> debug_state \<Rightarrow> debug_state res" where
  "debug_exec DClear ds = Inr ClearState"
| "debug_exec (DGnss s off) ds = UpdateGNSSState s off ds"
| "debug_exec (DDpll s off iface) ds = UpdateDPLLState s off iface ds"
| "debug_exec (DTs2phc s off iface) ds = UpdateTs2phcState s off iface ds"
| "debug_exec (DClockClass c) ds = debug_UpdateClockClass c ds"
| "debug_exec (DGM s) ds = UpdateGMState s ds"

fun debug_run :: "debug_call list \<Rightarrow> debug_state \<Rightarrow> debug_state res" where
  "debug_run [] ds = Inr ds"
| "debug_run (c # cs) ds = res_bind (debug_exec c ds) (debug_run cs)"

section \<open>The typing invariant\<close>

text \<open>
  The clock-class entry holds a number, every other entry a string, and a key whose first
  dash-separated part names a process has a second part.
\<close>

definition debug_entry_ok :: "string \<times> StateDB \<Rightarrow> bool" where
  "debug_entry_ok kv \<longleftrightarrow>
     (if fst kv = ClockClassKey then (\<exists>n. db_State (snd kv) = DNum n) else (\<exists>s. db_State (snd kv) = DStr s))
     \<and> (hd (Split (fst kv) CHR ''-'') \<in> {Ts2phcKey, DpllKey} \<longrightarrow> 1 < length (Split (fst kv) CHR ''-''))"

definition debug_ok :: "debug_state \<Rightarrow> bool" where
  "debug_ok ds \<longleftrightarrow> (\<forall>kv \<in> set (ds_state ds). debug_entry_ok kv)"

lemma set_alist_update_sub: "set (AList.update k v al) \<subseteq> insert (k, v) (set al)"
  by (induction al) auto

lemma debug_ok_update:
  "debug_ok ds \<Longrightarrow> debug_entry_ok (k, v) \<Longrightarrow> debug_ok (ds\<lparr>ds_state := AList.update k v (ds_state ds), ds_resetGM := b\<rparr>)"
  using set_alist_update_sub [of k v "ds_state ds"] by (fastforce simp: debug_ok_def)

lemma debug_ok_lookup: "debug_ok ds \<Longrightarrow> map_of (ds_state ds) k = Some st \<Longrightarrow> debug_entry_ok (k, st)"
  by (auto simp: debug_ok_def dest: map_of_SomeD)

lemma debug_lookup_string:
  assumes "debug_ok ds" and "map_of (ds_state ds) k = Some st" and "k \<noteq> ClockClassKey"
  obtains s where "db_State st = DStr s"
  using debug_ok_lookup [OF assms(1,2)] assms(3) by (auto simp: debug_entry_ok_def)

lemma put_string_state_ok:
  assumes "debug_ok ds" and "k \<noteq> ClockClassKey"
    and "hd (Split k CHR ''-'') \<in> {Ts2phcKey, DpllKey} \<longrightarrow> 1 < length (Split k CHR ''-'')"
  shows "\<exists>ds'. put_string_state k s off ds = Inr ds' \<and> debug_ok ds'"
proof -
  have e: "debug_entry_ok (k, \<lparr>db_State = DStr s, db_Offset = off\<rparr>)"
    using assms by (simp add: debug_entry_ok_def)
  note new = debug_ok_update [OF assms(1) e]
  show ?thesis
  proof (cases "map_of (ds_state ds) k")
    case None
    with new show ?thesis by (simp add: put_string_state_def)
  next
    case (Some st)
    obtain s' where "db_State st = DStr s'" by (rule debug_lookup_string [OF assms(1) Some assms(2)])
    with Some new assms(1) show ?thesis by (simp add: put_string_state_def as_string_def)
  qed
qed

lemma Split_dash: "\<forall>c \<in> set p. c \<noteq> CHR ''-'' \<Longrightarrow> Split (p @ ''-'' @ i) CHR ''-'' = p # Split i CHR ''-''"
  by (simp add: Split_def split_pred_append_sep split_pred_no_sep)

lemma prefixed_key_ok:
  assumes "\<forall>c \<in> set p. c \<noteq> CHR ''-''"
  shows "1 < length (Split (p @ ''-'' @ i) CHR ''-'')"
  unfolding Split_dash [OF assms] by (cases "Split i CHR ''-''") (auto simp: Split_def)

lemma tree_children_ok: "\<forall>kv \<in> set kvs. debug_entry_ok kv \<Longrightarrow> \<exists>ts ds. tree_children kvs = Inr (ts, ds)"
proof (induction kvs)
  case Nil
  then show ?case by simp
next
  case (Cons kv kvs)
  obtain k v where kv: "kv = (k, v)" by (cases kv)
  from Cons obtain ts ds where rest: "tree_children kvs = Inr (ts, ds)" by auto
  show ?case
  proof (cases "k \<in> {OverallTs2phcKey, OverallDpllKey, GmKey, GnssKey, ClockClassKey}")
    case True
    with rest kv show ?thesis by simp
  next
    case False
    with Cons(2) kv obtain s where s: "db_State v = DStr s" by (auto simp: debug_entry_ok_def)
    from Cons(2) kv have idx: "hd (Split k CHR ''-'') \<in> {Ts2phcKey, DpllKey} \<longrightarrow> Suc 0 < length (Split k CHR ''-'')"
      by (simp add: debug_entry_ok_def)
    with False s rest kv show ?thesis by (simp add: as_string_def index_at_def)
  qed
qed

lemma PrintTree_ok: "debug_ok ds \<Longrightarrow> \<exists>r. PrintTree ds = Inr r"
proof (cases "hasAllKeys requiredKeys ds")
  case True
  assume ok: "debug_ok ds"
  have icon: "\<exists>s. key_icon k ds = Inr s" if mem: "k \<in> set requiredKeys" and ne: "k \<noteq> ClockClassKey" for k
  proof -
    from True mem obtain st where st: "map_of (ds_state ds) k = Some st"
      unfolding hasAllKeys_def by blast
    obtain s where "db_State st = DStr s" by (rule debug_lookup_string [OF ok st ne])
    with st show ?thesis by (simp add: key_icon_def as_string_def)
  qed
  have "\<exists>s. key_icon GmKey ds = Inr s" "\<exists>s. key_icon GnssKey ds = Inr s"
    "\<exists>s. key_icon OverallTs2phcKey ds = Inr s" "\<exists>s. key_icon OverallDpllKey ds = Inr s"
    by (rule icon; simp add: requiredKeys_def debug_keys)+
  moreover obtain ts dp where "tree_children (ds_state ds) = Inr (ts, dp)"
    using ok tree_children_ok [of "ds_state ds"] by (auto simp: debug_ok_def)
  ultimately show ?thesis by (auto simp: PrintTree_def)
qed (simp add: PrintTree_def)

lemma debug_exec_ok: "debug_ok ds \<Longrightarrow> \<exists>ds'. debug_exec c ds = Inr ds' \<and> debug_ok ds'"
proof (cases c)
  case DClear
  then show ?thesis by (simp add: ClearState_def debug_ok_def)
next
  case (DGnss s off)
  assume "debug_ok ds"
  with DGnss show ?thesis
    using put_string_state_ok [of ds GnssKey s off]
    by (simp add: UpdateGNSSState_def) (simp add: debug_keys Split_def)
next
  case (DDpll s off i)
  assume ok: "debug_ok ds"
  have "1 < length (Split (DpllKey @ ''-'' @ i) CHR ''-'')" by (rule prefixed_key_ok) (simp add: debug_keys)
  with ok DDpll show ?thesis
    using put_string_state_ok [of ds "DpllKey @ ''-'' @ i" s off] put_string_state_ok [of ds OverallDpllKey s off]
    by (simp add: UpdateDPLLState_def) (simp add: debug_keys Split_def)
next
  case (DTs2phc s off i)
  assume ok: "debug_ok ds"
  have "1 < length (Split (Ts2phcKey @ ''-'' @ i) CHR ''-'')" by (rule prefixed_key_ok) (simp add: debug_keys)
  with ok DTs2phc show ?thesis
    using put_string_state_ok [of ds "Ts2phcKey @ ''-'' @ i" s off] put_string_state_ok [of ds OverallTs2phcKey s off]
    by (simp add: UpdateTs2phcState_def) (simp add: debug_keys Split_def)
next
  case (DClockClass n)
  assume ok: "debug_ok ds"
  have "debug_entry_ok (ClockClassKey, \<lparr>db_State = DNum n, db_Offset = None\<rparr>)"
    by (simp add: debug_entry_ok_def debug_keys Split_def)
  note new = debug_ok_update [OF ok this]
  show ?thesis
  proof (cases "map_of (ds_state ds) ClockClassKey")
    case None
    with new DClockClass show ?thesis by (simp add: debug_UpdateClockClass_def)
  next
    case (Some st)
    with debug_ok_lookup [OF ok Some] obtain m where "db_State st = DNum m"
      by (auto simp: debug_entry_ok_def)
    with new DClockClass ok Some show ?thesis by (simp add: debug_UpdateClockClass_def as_uint8_def)
  qed
next
  case (DGM s)
  assume ok: "debug_ok ds"
  have "debug_entry_ok (GmKey, \<lparr>db_State = DStr s, db_Offset = None\<rparr>)"
    by (simp add: debug_entry_ok_def debug_keys Split_def)
  from debug_ok_update [OF ok this, of False]
  have ok': "debug_ok \<lparr>ds_state = AList.update GmKey \<lparr>db_State = DStr s, db_Offset = None\<rparr> (ds_state ds), ds_resetGM = False\<rparr>"
    by (simp add: debug_ok_def)
  with PrintTree_ok [OF ok'] ok DGM show ?thesis by (auto simp: UpdateGMState_def Let_def)
qed

lemma debug_run_ok: "debug_ok ds \<Longrightarrow> \<exists>ds'. debug_run cs ds = Inr ds' \<and> debug_ok ds'"
proof (induction cs arbitrary: ds)
  case (Cons c cs)
  with debug_exec_ok [of ds c] show ?case by fastforce
qed simp

text \<open>
  The debug table never panics: from the cleared table, every sequence of updates with any states,
  offsets and interface names runs to the end, although the code casts the stored values without
  checking and indexes the parts of a split key.
\<close>

theorem debug_never_panics: "\<exists>ds'. debug_run cs ClearState = Inr ds'"
proof -
  have "debug_ok ClearState" by (simp add: ClearState_def debug_ok_def)
  from debug_run_ok [OF this] show ?thesis by blast
qed

end
