(* ===== verification/Event_Handler.thy ===== *)
theory Event_Handler
  imports Stats Debug_State
begin

text \<open>
  The event handler of \<open>pkg/event/event.go\<close>: its state, the in-memory data per configuration, and the
  computation of the grandmaster (T-GM) state and clock class (\<open>updateGMState\<close>).

  Results: the nested switch of \<open>updateGMState\<close> implements the decision table its comment gives; the
  pair of GM state and clock class stays consistent; the recorded data stay well-formed; the branch
  for a configuration without data is dead.
\<close>

section \<open>State\<close>

record grandMasterSyncState =
  gm_state :: PTPState
  gm_clockClass :: ClockClass
  gm_sourceLost :: bool
  gm_gmLog :: string
  gm_lastLoggedTime :: int
  gm_gmIFace :: string
  gm_clockAccuracy :: ClockAccuracy

definition zero_gm :: grandMasterSyncState where
  "zero_gm = \<lparr>gm_state = PTP_EMPTY, gm_clockClass = 0, gm_sourceLost = False, gm_gmLog = '''',
              gm_lastLoggedTime = 0, gm_gmIFace = '''', gm_clockAccuracy = 0\<rparr>"

text \<open>
  The three gauges handed to \<open>Init\<close> are the first three allocations; \<open>eh_nextGauge\<close> is the index of the
  next \<open>NewGaugeVec\<close>. The maps \<open>data\<close> and \<open>gmSyncState\<close> are association lists with distinct keys.
\<close>

record EventHandler =
  eh_nodeName :: string
  eh_stdoutToSocket :: bool
  eh_data :: "(string \<times> Data list) list"
  eh_clockClass :: ClockClass
  eh_clockAccuracy :: ClockAccuracy
  eh_gmSyncState :: "(string \<times> grandMasterSyncState) list"
  eh_outOfSpec :: bool
  eh_frequencyTraceable :: bool
  eh_nextGauge :: gauge

definition offsetMetric :: gauge where "offsetMetric = 0"

definition clockMetric :: gauge where "clockMetric = 1"

definition clockClassMetric :: gauge where "clockClassMetric = 2"

text \<open>What the handler does to its surroundings.\<close>

record ClockClassRequest =
  cr_cfgName :: string
  cr_gmState :: PTPState
  cr_clockType :: ClockType
  cr_clockClass :: ClockClass
  cr_clockAccuracy :: ClockAccuracy

datatype effect =
    GaugeSet gauge labels f64
  | GaugeDelete gauge labels
  | GaugeRegister gauge string
  | RequestClass ClockClassRequest
  | NotifyState EventSource PTPState
  | Debug debug_call

definition Init :: "string \<Rightarrow> bool \<Rightarrow> EventHandler \<times> effect list" where
  "Init nodeName stdOutToSocket =
     (\<lparr>eh_nodeName = nodeName, eh_stdoutToSocket = stdOutToSocket, eh_data = [],
       eh_clockClass = ClockClassUninitialized, eh_clockAccuracy = 0, eh_gmSyncState = [],
       eh_outOfSpec = False, eh_frequencyTraceable = False, eh_nextGauge = 3\<rparr>,
      [GaugeSet clockClassMetric [(''process'', ''ptp4l''), (''node'', nodeName)] (f64_of_int 248)])"

section \<open>In-memory data\<close>

text \<open>\<open>e.data[cfgName]\<close>: a missing key reads as nil, over which \<open>range\<close> does nothing.\<close>

definition cfg_data :: "EventHandler \<Rightarrow> string \<Rightarrow> Data list" where
  "cfg_data e cfg = (case map_of (eh_data e) cfg of None \<Rightarrow> [] | Some ds \<Rightarrow> ds)"

definition set_cfg_data :: "string \<Rightarrow> Data list \<Rightarrow> EventHandler \<Rightarrow> EventHandler" where
  "set_cfg_data cfg ds e = e\<lparr>eh_data := AList.update cfg ds (eh_data e)\<rparr>"

definition GetData :: "string \<Rightarrow> EventSource \<Rightarrow> EventHandler \<Rightarrow> Data \<times> EventHandler" where
  "GetData cfg process e =
     (let e = (if map_of (eh_data e) cfg = None then set_cfg_data cfg [] e else e) in
      case find (\<lambda>d. d_ProcessName d = process) (cfg_data e cfg) of
        Some d \<Rightarrow> (d, e)
      | None \<Rightarrow>
          (let d = \<lparr>d_ProcessName = process, d_Details = [], d_State = PTP_UNKNOWN, d_logData = ''''\<rparr>
           in (d, set_cfg_data cfg (cfg_data e cfg @ [d]) e)))"

text \<open>A change to the object behind the pointer that \<open>GetData\<close> returned.\<close>

definition upd_process :: "string \<Rightarrow> EventSource \<Rightarrow> (Data \<Rightarrow> Data) \<Rightarrow> EventHandler \<Rightarrow> EventHandler" where
  "upd_process cfg process f e =
     set_cfg_data cfg (update_first (\<lambda>d. d_ProcessName d = process) f (cfg_data e cfg)) e"

definition updateSpecState :: "EventChannel \<Rightarrow> EventHandler \<Rightarrow> EventHandler" where
  "updateSpecState ev e =
     (if ec_ProcessName ev = DPLL
      then e\<lparr>eh_outOfSpec := ec_OutOfSpec ev, eh_frequencyTraceable := ec_FrequencyTraceable ev\<rparr>
      else e)"

text \<open>
  \<open>addEvent\<close>; \<open>t\<close> is the time of day its log line shows. It returns the details of the event's
  interface (\<open>None\<close> would be Go's nil) and the notifications.
\<close>

definition addEvent :: "bool \<Rightarrow> int \<Rightarrow> EventChannel \<Rightarrow> EventHandler
    \<Rightarrow> DataDetails option \<times> (EventSource \<times> PTPState) list \<times> EventHandler" where
  "addEvent hasSubs t ev e =
     (let (d, e1) = GetData (ec_CfgName ev) (ec_ProcessName ev) e;
          (d1, notes) = AddEvent hasSubs t ev d;
          e2 = updateSpecState ev e1;
          d2 = Data_UpdateState d1
      in (GetDataDetails d2 (ec_IFace ev), notes,
          upd_process (ec_CfgName ev) (ec_ProcessName ev) (\<lambda>_. d2) e2))"

definition GetPTPState :: "EventSource \<Rightarrow> string \<Rightarrow> EventHandler \<Rightarrow> PTPState" where
  "GetPTPState source cfg e =
     (case find (\<lambda>d. d_ProcessName d = source) (cfg_data e cfg) of
        Some d \<Rightarrow> d_State d
      | None \<Rightarrow> PTP_UNKNOWN)"

section \<open>The grandmaster state\<close>

definition isSourceLost :: "string \<Rightarrow> EventHandler \<Rightarrow> bool" where
  "isSourceLost cfg e =
     (case find (\<lambda>d. d_ProcessName d = GNSS \<and> d_Details d \<noteq> []) (cfg_data e cfg) of
        Some d \<Rightarrow> dd_sourceLost (hd (d_Details d))
      | None \<Rightarrow> False)"

fun gnss_iface :: "Data list \<Rightarrow> string" where
  "gnss_iface [] = GM_INTERFACE_UNKNOWN"
| "gnss_iface (d # ds) =
     (if d_ProcessName d = GNSS \<and> d_Details d \<noteq> [] then dd_IFace (hd (d_Details d))
      else if d_ProcessName d = TS2PHC \<and> d_Details d \<noteq> [] then
        (case find (\<lambda>dd. dd_signalSource dd = GNSS) (d_Details d) of
           Some dd \<Rightarrow> dd_IFace dd
         | None \<Rightarrow> gnss_iface ds)
      else gnss_iface ds)"

definition getGNSSInterface :: "string \<Rightarrow> EventHandler \<Rightarrow> string" where
  "getGNSSInterface cfg e = gnss_iface (cfg_data e cfg)"

text \<open>The loop that collects the states; a later entry of the same process overwrites an earlier one.\<close>

definition last_state :: "EventSource \<Rightarrow> PTPState \<Rightarrow> Data list \<Rightarrow> PTPState" where
  "last_state process init ds = foldl (\<lambda>st d. if d_ProcessName d = process then d_State d else st) init ds"

definition gm_set :: "PTPState \<Rightarrow> ClockClass \<Rightarrow> ClockAccuracy \<Rightarrow> grandMasterSyncState \<Rightarrow> grandMasterSyncState" where
  "gm_set st cls acc g = g\<lparr>gm_state := st, gm_clockClass := cls, gm_clockAccuracy := acc\<rparr>"

definition gm_freerun :: "grandMasterSyncState \<Rightarrow> grandMasterSyncState" where
  "gm_freerun = gm_set PTP_FREERUN ClockClassFreerun ClockAccuracyUnknown"

definition gm_locked :: "grandMasterSyncState \<Rightarrow> grandMasterSyncState" where
  "gm_locked = gm_set PTP_LOCKED ClockClass6 ClockAccuracyNanosecond100"

definition gm_holdover :: "grandMasterSyncState \<Rightarrow> grandMasterSyncState" where
  "gm_holdover g = g\<lparr>gm_state := PTP_HOLDOVER, gm_clockClass := ClockClass7\<rparr>"

text \<open>The three switches: DPLL free-running or in holdover, DPLL locked or absent, any other DPLL state.\<close>

definition gm_decide_dpll_locked :: "bool \<Rightarrow> PTPState \<Rightarrow> PTPState \<Rightarrow> grandMasterSyncState \<Rightarrow> grandMasterSyncState" where
  "gm_decide_dpll_locked gnssSrcLost gnssState ts2phcState g =
     (case gnssState of
        PTP_LOCKED \<Rightarrow>
          (case ts2phcState of
             PTP_FREERUN \<Rightarrow> gm_freerun g
           | PTP_LOCKED \<Rightarrow> gm_locked g
           | PTP_HOLDOVER \<Rightarrow> gm_holdover g
           | _ \<Rightarrow> g)
      | PTP_FREERUN \<Rightarrow>
          if gnssSrcLost then
            (case ts2phcState of
               PTP_HOLDOVER \<Rightarrow> gm_holdover g
             | _ \<Rightarrow> g)
          else
            (case ts2phcState of
               PTP_FREERUN \<Rightarrow> gm_freerun g
             | PTP_LOCKED \<Rightarrow> gm_freerun g
             | PTP_UNKNOWN \<Rightarrow> gm_freerun g
             | PTP_NOTSET \<Rightarrow> gm_freerun g
             | _ \<Rightarrow> g)
      | _ \<Rightarrow> g)"

definition gm_decide_dpll_other :: "PTPState \<Rightarrow> PTPState \<Rightarrow> grandMasterSyncState \<Rightarrow> grandMasterSyncState" where
  "gm_decide_dpll_other gnssState ts2phcState g =
     (case gnssState of
        PTP_LOCKED \<Rightarrow>
          (case ts2phcState of
             PTP_FREERUN \<Rightarrow> gm_freerun g
           | PTP_UNKNOWN \<Rightarrow> gm_freerun g
           | PTP_NOTSET \<Rightarrow> gm_freerun g
           | PTP_LOCKED \<Rightarrow> gm_locked g
           | PTP_HOLDOVER \<Rightarrow> gm_holdover g
           | _ \<Rightarrow> g)
      | PTP_FREERUN \<Rightarrow>
          (case ts2phcState of
             PTP_HOLDOVER \<Rightarrow> gm_holdover g
           | PTP_EMPTY \<Rightarrow> g
           | _ \<Rightarrow> gm_freerun g)
      | _ \<Rightarrow>
          (let g' = g\<lparr>gm_state := ts2phcState\<rparr> in
           case ts2phcState of
             PTP_FREERUN \<Rightarrow> g'\<lparr>gm_clockClass := ClockClassFreerun, gm_clockAccuracy := ClockAccuracyUnknown\<rparr>
           | PTP_LOCKED \<Rightarrow> g'\<lparr>gm_clockClass := ClockClass7, gm_clockAccuracy := ClockAccuracyNanosecond100\<rparr>
           | _ \<Rightarrow> g'))"

definition gm_decide :: "bool \<Rightarrow> bool \<Rightarrow> PTPState \<Rightarrow> PTPState \<Rightarrow> PTPState \<Rightarrow> bool
    \<Rightarrow> grandMasterSyncState \<Rightarrow> grandMasterSyncState" where
  "gm_decide outOfSpec frequencyTraceable dpllState gnssState ts2phcState gnssSrcLost g =
     (case dpllState of
        PTP_FREERUN \<Rightarrow>
          gm_set dpllState (if outOfSpec \<and> frequencyTraceable then ClockClassOutOfSpec else ClockClassFreerun)
            ClockAccuracyUnknown g
      | PTP_HOLDOVER \<Rightarrow> gm_holdover g
      | PTP_LOCKED \<Rightarrow> gm_decide_dpll_locked gnssSrcLost gnssState ts2phcState g
      | PTP_NOTSET \<Rightarrow> gm_decide_dpll_locked gnssSrcLost gnssState ts2phcState g
      | _ \<Rightarrow> gm_decide_dpll_other gnssState ts2phcState g)"

definition gm_log_line :: "int \<Rightarrow> string \<Rightarrow> string \<Rightarrow> PTPState \<Rightarrow> string" where
  "gm_log_line t cfg iface st =
     clocktype_str GM @ ''['' @ fmt_int t @ '']:['' @ cfg @ ''] '' @ iface @ '' T-GM-STATUS '' @ ptp_str st @ ''\<newline>''"

definition put_gm :: "string \<Rightarrow> grandMasterSyncState \<Rightarrow> EventHandler \<Rightarrow> EventHandler" where
  "put_gm cfg g e = e\<lparr>eh_gmSyncState := AList.update cfg g (eh_gmSyncState e)\<rparr>"

text \<open>\<open>t\<close> is the time of day at the end of the call.\<close>

definition updateGMState :: "int \<Rightarrow> string \<Rightarrow> EventHandler \<Rightarrow> grandMasterSyncState \<times> EventHandler" where
  "updateGMState t cfg e =
     (let gnssSrcLost = isSourceLost cfg e;
          gmInterface = getGNSSInterface cfg e
      in
      if gmInterface = GM_INTERFACE_UNKNOWN then (zero_gm\<lparr>gm_gmIFace := gmInterface\<rparr>, e)
      else
        let g0 = (case map_of (eh_gmSyncState e) cfg of
                    Some g \<Rightarrow> g
                  | None \<Rightarrow> zero_gm\<lparr>gm_state := PTP_FREERUN, gm_clockClass := ClockClassUninitialized,
                                  gm_clockAccuracy := ClockAccuracyUnknown\<rparr>);
            g1 = g0\<lparr>gm_sourceLost := gnssSrcLost, gm_gmIFace := gmInterface\<rparr>
        in
        case map_of (eh_data e) cfg of
          None \<Rightarrow>
            let g2 = g1\<lparr>gm_state := PTP_FREERUN, gm_clockClass := ClockClassFreerun,
                        gm_clockAccuracy := ClockAccuracyUnknown, gm_lastLoggedTime := t,
                        gm_gmLog := gm_log_line t cfg gmInterface PTP_FREERUN\<rparr>
            in (g2, put_gm cfg g2 e)
        | Some data \<Rightarrow>
            let g2 = gm_decide (eh_outOfSpec e) (eh_frequencyTraceable e)
                       (last_state DPLL PTP_NOTSET data) (last_state GNSS PTP_FREERUN data)
                       (last_state TS2PHC PTP_FREERUN data) gnssSrcLost g1;
                r = zero_gm\<lparr>gm_state := gm_state g2, gm_clockClass := gm_clockClass g2,
                            gm_clockAccuracy := gm_clockAccuracy g2, gm_sourceLost := gm_sourceLost g2,
                            gm_gmIFace := gm_gmIFace g2\<rparr>
            in
            if gm_lastLoggedTime g2 \<noteq> t then
              let gmLog = gm_log_line t cfg (gm_gmIFace g2) (gm_state g2)
              in (r\<lparr>gm_gmLog := gmLog\<rparr>, put_gm cfg (g2\<lparr>gm_lastLoggedTime := t, gm_gmLog := gmLog\<rparr>) e)
            else (r, put_gm cfg g2 e))"

definition getGMState :: "string \<Rightarrow> EventHandler \<Rightarrow> grandMasterSyncState" where
  "getGMState cfg e =
     (case map_of (eh_gmSyncState e) cfg of
        Some g \<Rightarrow> g
      | None \<Rightarrow> zero_gm\<lparr>gm_state := PTP_NOTSET\<rparr>)"

definition getGMClockClass :: "string \<Rightarrow> EventHandler \<Rightarrow> ClockClass" where
  "getGMClockClass cfg e =
     (case map_of (eh_gmSyncState e) cfg of
        Some g \<Rightarrow> gm_clockClass g
      | None \<Rightarrow> ClockClassUninitialized)"

section \<open>Well-formedness\<close>

definition processes_wf :: "Data list \<Rightarrow> bool" where
  "processes_wf ds \<longleftrightarrow> unique_on d_ProcessName ds \<and> (\<forall>d \<in> set ds. data_wf d)"

definition handler_wf :: "EventHandler \<Rightarrow> bool" where
  "handler_wf e \<longleftrightarrow>
     distinct (map fst (eh_data e)) \<and> distinct (map fst (eh_gmSyncState e))
     \<and> (\<forall>(c, ds) \<in> set (eh_data e). processes_wf ds)"

lemma cfg_data_wf: "handler_wf e \<Longrightarrow> processes_wf (cfg_data e cfg)"
  by (auto simp: handler_wf_def cfg_data_def processes_wf_def unique_on_def split: option.splits dest!: map_of_SomeD)

lemma set_cfg_data_wf [wf_intros]: "handler_wf e \<Longrightarrow> processes_wf ds \<Longrightarrow> handler_wf (set_cfg_data cfg ds e)"
  using set_alist_update_sub [of cfg ds "eh_data e"]
  by (fastforce simp: handler_wf_def set_cfg_data_def distinct_update)

lemma set_cfg_data_frame [simp]:
  "eh_gmSyncState (set_cfg_data cfg ds e) = eh_gmSyncState e"
  "eh_nodeName (set_cfg_data cfg ds e) = eh_nodeName e"
  "eh_stdoutToSocket (set_cfg_data cfg ds e) = eh_stdoutToSocket e"
  "eh_clockClass (set_cfg_data cfg ds e) = eh_clockClass e"
  "eh_clockAccuracy (set_cfg_data cfg ds e) = eh_clockAccuracy e"
  "eh_outOfSpec (set_cfg_data cfg ds e) = eh_outOfSpec e"
  "eh_frequencyTraceable (set_cfg_data cfg ds e) = eh_frequencyTraceable e"
  "eh_nextGauge (set_cfg_data cfg ds e) = eh_nextGauge e"
  by (simp_all add: set_cfg_data_def)

lemma cfg_data_set_cfg_data [simp]:
  "cfg_data (set_cfg_data cfg ds e) c = (if c = cfg then ds else cfg_data e c)"
  "map_of (eh_data (set_cfg_data cfg ds e)) c = (if c = cfg then Some ds else map_of (eh_data e) c)"
  by (simp_all add: cfg_data_def set_cfg_data_def update_conv')

text \<open>\<open>GetData\<close> in one equation: the process's data, created empty when missing.\<close>

definition blank_data :: "EventSource \<Rightarrow> Data" where
  "blank_data process = \<lparr>d_ProcessName = process, d_Details = [], d_State = PTP_UNKNOWN, d_logData = ''''\<rparr>"

definition process_data :: "string \<Rightarrow> EventSource \<Rightarrow> EventHandler \<Rightarrow> Data" where
  "process_data cfg process e =
     (case find (\<lambda>d. d_ProcessName d = process) (cfg_data e cfg) of Some d \<Rightarrow> d | None \<Rightarrow> blank_data process)"

lemma cfg_data_None [simp]: "map_of (eh_data e) cfg = None \<Longrightarrow> cfg_data e cfg = []"
  by (simp add: cfg_data_def)

lemma fst_GetData: "fst (GetData cfg p e) = process_data cfg p e"
  by (auto simp: GetData_def process_data_def blank_data_def Let_def split: option.splits)

lemma cfg_data_GetData:
  "cfg_data (snd (GetData cfg p e)) c =
     (if c = cfg \<and> find (\<lambda>d. d_ProcessName d = p) (cfg_data e cfg) = None
      then cfg_data e cfg @ [blank_data p] else cfg_data e c)"
  by (auto simp: GetData_def blank_data_def Let_def split: option.splits)

lemma GetData_frame [simp]:
  "eh_gmSyncState (snd (GetData cfg p e)) = eh_gmSyncState e"
  "eh_nodeName (snd (GetData cfg p e)) = eh_nodeName e"
  "eh_stdoutToSocket (snd (GetData cfg p e)) = eh_stdoutToSocket e"
  "eh_clockClass (snd (GetData cfg p e)) = eh_clockClass e"
  "eh_clockAccuracy (snd (GetData cfg p e)) = eh_clockAccuracy e"
  "eh_outOfSpec (snd (GetData cfg p e)) = eh_outOfSpec e"
  "eh_frequencyTraceable (snd (GetData cfg p e)) = eh_frequencyTraceable e"
  "eh_nextGauge (snd (GetData cfg p e)) = eh_nextGauge e"
  by (auto simp: GetData_def Let_def split: option.splits)

lemma data_wf_blank [simp]: "data_wf (blank_data p)"
  by (simp add: data_wf_def blank_data_def unique_on_def)

lemma processes_wf_Nil [simp]: "processes_wf []"
  by (simp add: processes_wf_def unique_on_def)

lemma processes_wf_snoc:
  "processes_wf ds \<Longrightarrow> find (\<lambda>d. d_ProcessName d = p) ds = None \<Longrightarrow> processes_wf (ds @ [blank_data p])"
  by (auto simp: processes_wf_def unique_on_snoc find_None_notin) (auto simp: blank_data_def)

lemma GetData_wf [wf_intros]: "handler_wf e \<Longrightarrow> handler_wf (snd (GetData cfg p e))"
  using cfg_data_wf [of e cfg] processes_wf_snoc [of "cfg_data e cfg" p]
  by (auto simp: GetData_def Let_def blank_data_def split: option.splits intro!: wf_intros)

lemma process_data_name [simp]: "d_ProcessName (process_data cfg p e) = p"
  by (auto simp: process_data_def blank_data_def find_Some_iff split: option.splits)

lemma process_data_wf: "handler_wf e \<Longrightarrow> data_wf (process_data cfg p e)"
  using cfg_data_wf [of e cfg]
  by (auto simp: process_data_def processes_wf_def find_Some_iff split: option.splits)

lemma set_update_first_const:
  "set (update_first P (\<lambda>_. y) xs) \<subseteq> insert y (set xs)"
  by (induction xs) auto

lemma map_update_first_const: "map key (update_first (\<lambda>x. key x = key y) (\<lambda>_. y) xs) = map key xs"
  by (induction xs) auto

lemma processes_wf_replace:
  assumes "processes_wf ds" and "data_wf d"
  shows "processes_wf (update_first (\<lambda>x. d_ProcessName x = d_ProcessName d) (\<lambda>_. d) ds)"
  using assms set_update_first_const [of _ d ds]
  by (fastforce simp: processes_wf_def unique_on_def map_update_first_const)

lemma upd_process_wf [wf_intros]:
  assumes "handler_wf e" and "data_wf d"
  shows "handler_wf (upd_process cfg (d_ProcessName d) (\<lambda>_. d) e)"
  unfolding upd_process_def using assms by (intro wf_intros processes_wf_replace cfg_data_wf)

lemma upd_process_frame [simp]:
  "eh_gmSyncState (upd_process cfg p f e) = eh_gmSyncState e"
  "eh_nodeName (upd_process cfg p f e) = eh_nodeName e"
  "eh_stdoutToSocket (upd_process cfg p f e) = eh_stdoutToSocket e"
  "eh_clockClass (upd_process cfg p f e) = eh_clockClass e"
  "eh_clockAccuracy (upd_process cfg p f e) = eh_clockAccuracy e"
  "eh_outOfSpec (upd_process cfg p f e) = eh_outOfSpec e"
  "eh_frequencyTraceable (upd_process cfg p f e) = eh_frequencyTraceable e"
  "eh_nextGauge (upd_process cfg p f e) = eh_nextGauge e"
  by (simp_all add: upd_process_def)

lemma updateSpecState_frame [simp]:
  "eh_data (updateSpecState ev e) = eh_data e"
  "eh_gmSyncState (updateSpecState ev e) = eh_gmSyncState e"
  "eh_nodeName (updateSpecState ev e) = eh_nodeName e"
  "eh_stdoutToSocket (updateSpecState ev e) = eh_stdoutToSocket e"
  "eh_clockClass (updateSpecState ev e) = eh_clockClass e"
  "eh_clockAccuracy (updateSpecState ev e) = eh_clockAccuracy e"
  "eh_nextGauge (updateSpecState ev e) = eh_nextGauge e"
  "cfg_data (updateSpecState ev e) c = cfg_data e c"
  by (simp_all add: updateSpecState_def cfg_data_def)

lemma updateSpecState_wf [wf_intros]: "handler_wf e \<Longrightarrow> handler_wf (updateSpecState ev e)"
  by (simp add: handler_wf_def)

section \<open>\<open>addEvent\<close> in closed form\<close>

text \<open>The data of the event's process after the event.\<close>

definition recorded :: "bool \<Rightarrow> int \<Rightarrow> EventChannel \<Rightarrow> EventHandler \<Rightarrow> Data" where
  "recorded hs t ev e = Data_UpdateState (fst (AddEvent hs t ev (process_data (ec_CfgName ev) (ec_ProcessName ev) e)))"

lemma recorded_name [simp]: "d_ProcessName (recorded hs t ev e) = ec_ProcessName ev"
  by (simp add: recorded_def)

lemma recorded_wf: "handler_wf e \<Longrightarrow> data_wf (recorded hs t ev e)"
  unfolding recorded_def by (intro wf_intros process_data_wf)

lemma addEvent_eq:
  "addEvent hs t ev e =
     (GetDataDetails (recorded hs t ev e) (ec_IFace ev),
      snd (AddEvent hs t ev (process_data (ec_CfgName ev) (ec_ProcessName ev) e)),
      upd_process (ec_CfgName ev) (ec_ProcessName ev) (\<lambda>_. recorded hs t ev e)
        (updateSpecState ev (snd (GetData (ec_CfgName ev) (ec_ProcessName ev) e))))"
  by (simp add: addEvent_def recorded_def Let_def fst_GetData [symmetric] split: prod.split)

lemma addEvent_wf [wf_intros]:
  assumes "handler_wf e"
  shows "handler_wf (snd (snd (addEvent hs t ev e)))"
proof -
  have "handler_wf (upd_process (ec_CfgName ev) (d_ProcessName (recorded hs t ev e)) (\<lambda>_. recorded hs t ev e)
          (updateSpecState ev (snd (GetData (ec_CfgName ev) (ec_ProcessName ev) e))))"
    using assms by (intro wf_intros recorded_wf)
  then show ?thesis by (simp add: addEvent_eq)
qed

lemma update_first_snoc:
  "update_first P f (xs @ [x]) = (if find P xs = None then xs @ (if P x then [f x] else [x]) else update_first P f xs @ [x])"
  by (induction xs) (auto split: if_splits)

lemma cfg_data_addEvent:
  "cfg_data (snd (snd (addEvent hs t ev e))) c =
     (if c = ec_CfgName ev then
        (if find (\<lambda>d. d_ProcessName d = ec_ProcessName ev) (cfg_data e c) = None
         then cfg_data e c @ [recorded hs t ev e]
         else update_first (\<lambda>d. d_ProcessName d = ec_ProcessName ev) (\<lambda>_. recorded hs t ev e) (cfg_data e c))
      else cfg_data e c)"
  by (simp add: addEvent_eq upd_process_def cfg_data_GetData update_first_snoc) (simp add: blank_data_def)

lemma find_process_addEvent:
  "find (\<lambda>d. d_ProcessName d = p) (cfg_data (snd (snd (addEvent hs t ev e))) c) =
     (if c = ec_CfgName ev \<and> p = ec_ProcessName ev then Some (recorded hs t ev e)
      else find (\<lambda>d. d_ProcessName d = p) (cfg_data e c))"
proof -
  have upd: "find (\<lambda>d. d_ProcessName d = p) (update_first (\<lambda>d. d_ProcessName d = q) (\<lambda>_. r) ds)
      = (if p = q then map_option (\<lambda>_. r) (find (\<lambda>d. d_ProcessName d = q) ds) else find (\<lambda>d. d_ProcessName d = p) ds)"
    if "d_ProcessName r = q" for q r and ds :: "Data list"
    using that by (induction ds) auto
  show ?thesis
    by (auto simp: cfg_data_addEvent find_snoc upd split: option.splits)
qed

section \<open>Lemmas on the grandmaster state\<close>

lemma last_state_absent: "find (\<lambda>d. d_ProcessName d = p) ds = None \<Longrightarrow> last_state p st ds = st"
  by (induction ds arbitrary: st) (auto simp: last_state_def split: if_splits)

lemma last_state_unique:
  "unique_on d_ProcessName ds \<Longrightarrow>
     last_state p st ds = (case find (\<lambda>d. d_ProcessName d = p) ds of Some d \<Rightarrow> d_State d | None \<Rightarrow> st)"
proof (induction ds arbitrary: st)
  case Nil
  then show ?case by (simp add: last_state_def)
next
  case (Cons d ds)
  have step: "last_state p st (d # ds) = last_state p (if d_ProcessName d = p then d_State d else st) ds"
    by (simp add: last_state_def)
  show ?case
  proof (cases "d_ProcessName d = p")
    case True
    with Cons.prems have "find (\<lambda>d. d_ProcessName d = p) ds = None"
      by (auto simp: unique_on_def find_None_notin)
    with True show ?thesis by (simp only: step last_state_absent) simp
  next
    case False
    with Cons show ?thesis by (simp add: step unique_on_def)
  qed
qed

lemma gm_decide_frame [simp]:
  "gm_sourceLost (gm_decide a b c d s f g) = gm_sourceLost g"
  "gm_gmIFace (gm_decide a b c d s f g) = gm_gmIFace g"
  "gm_lastLoggedTime (gm_decide a b c d s f g) = gm_lastLoggedTime g"
  "gm_gmLog (gm_decide a b c d s f g) = gm_gmLog g"
  by (simp_all add: gm_decide_def gm_decide_dpll_locked_def gm_decide_dpll_other_def gm_set_def gm_freerun_def
      gm_locked_def gm_holdover_def Let_def split: PTPState.splits)

lemmas gm_decide_defs =
  gm_decide_def gm_decide_dpll_locked_def gm_decide_dpll_other_def gm_set_def gm_freerun_def gm_locked_def
  gm_holdover_def Let_def

lemma put_gm_frame [simp]:
  "eh_data (put_gm cfg g e) = eh_data e"
  "cfg_data (put_gm cfg g e) c = cfg_data e c"
  "eh_nodeName (put_gm cfg g e) = eh_nodeName e"
  "eh_stdoutToSocket (put_gm cfg g e) = eh_stdoutToSocket e"
  "eh_clockClass (put_gm cfg g e) = eh_clockClass e"
  "eh_clockAccuracy (put_gm cfg g e) = eh_clockAccuracy e"
  "eh_outOfSpec (put_gm cfg g e) = eh_outOfSpec e"
  "eh_frequencyTraceable (put_gm cfg g e) = eh_frequencyTraceable e"
  "eh_nextGauge (put_gm cfg g e) = eh_nextGauge e"
  "map_of (eh_gmSyncState (put_gm cfg g e)) = (map_of (eh_gmSyncState e))(cfg \<mapsto> g)"
  by (simp_all add: put_gm_def cfg_data_def update_conv')

lemma put_gm_wf [wf_intros]: "handler_wf e \<Longrightarrow> handler_wf (put_gm cfg g e)"
  by (simp add: handler_wf_def) (simp add: put_gm_def distinct_update)

text \<open>\<open>updateGMState\<close> for a configuration whose GNSS interface is known: one decision on the stored state.\<close>

definition gm_before :: "string \<Rightarrow> EventHandler \<Rightarrow> grandMasterSyncState" where
  "gm_before cfg e =
     (case map_of (eh_gmSyncState e) cfg of
        Some g \<Rightarrow> g
      | None \<Rightarrow> zero_gm\<lparr>gm_state := PTP_FREERUN, gm_clockClass := ClockClassUninitialized,
                      gm_clockAccuracy := ClockAccuracyUnknown\<rparr>)
     \<lparr>gm_sourceLost := isSourceLost cfg e, gm_gmIFace := getGNSSInterface cfg e\<rparr>"

definition gm_after :: "string \<Rightarrow> EventHandler \<Rightarrow> grandMasterSyncState" where
  "gm_after cfg e =
     gm_decide (eh_outOfSpec e) (eh_frequencyTraceable e)
       (last_state DPLL PTP_NOTSET (cfg_data e cfg)) (last_state GNSS PTP_FREERUN (cfg_data e cfg))
       (last_state TS2PHC PTP_FREERUN (cfg_data e cfg)) (isSourceLost cfg e) (gm_before cfg e)"

lemma no_data_no_interface: "map_of (eh_data e) cfg = None \<Longrightarrow> getGNSSInterface cfg e = GM_INTERFACE_UNKNOWN"
  by (simp add: getGNSSInterface_def)

lemma updateGMState_unknown:
  "getGNSSInterface cfg e = GM_INTERFACE_UNKNOWN \<Longrightarrow>
     updateGMState t cfg e = (zero_gm\<lparr>gm_gmIFace := GM_INTERFACE_UNKNOWN\<rparr>, e)"
  by (simp add: updateGMState_def)

lemma updateGMState_known:
  assumes "getGNSSInterface cfg e \<noteq> GM_INTERFACE_UNKNOWN"
  obtains g where "snd (updateGMState t cfg e) = put_gm cfg g e"
    and "gm_state g = gm_state (gm_after cfg e)" and "gm_clockClass g = gm_clockClass (gm_after cfg e)"
    and "gm_clockAccuracy g = gm_clockAccuracy (gm_after cfg e)" and "gm_lastLoggedTime g = t"
    and "gm_state (fst (updateGMState t cfg e)) = gm_state g"
    and "gm_clockClass (fst (updateGMState t cfg e)) = gm_clockClass g"
    and "gm_gmIFace (fst (updateGMState t cfg e)) = getGNSSInterface cfg e"
    and "gm_gmLog (fst (updateGMState t cfg e)) =
           (if gm_lastLoggedTime (gm_before cfg e) = t then ''''
            else gm_log_line t cfg (getGNSSInterface cfg e) (gm_state g))"
proof -
  obtain data where data: "map_of (eh_data e) cfg = Some data"
    using assms no_data_no_interface by blast
  then have cd: "cfg_data e cfg = data" by (simp add: cfg_data_def)
  let ?g = "gm_after cfg e"
  have iface: "gm_gmIFace ?g = getGNSSInterface cfg e"
    and last: "gm_lastLoggedTime ?g = gm_lastLoggedTime (gm_before cfg e)"
    by (simp_all add: gm_after_def gm_before_def)
  have eq: "updateGMState t cfg e =
      (let r = zero_gm\<lparr>gm_state := gm_state ?g, gm_clockClass := gm_clockClass ?g,
                   gm_clockAccuracy := gm_clockAccuracy ?g, gm_sourceLost := gm_sourceLost ?g,
                   gm_gmIFace := gm_gmIFace ?g\<rparr>;
           l = gm_log_line t cfg (gm_gmIFace ?g) (gm_state ?g)
       in if gm_lastLoggedTime ?g \<noteq> t
          then (r\<lparr>gm_gmLog := l\<rparr>, put_gm cfg (?g\<lparr>gm_lastLoggedTime := t, gm_gmLog := l\<rparr>) e)
          else (r, put_gm cfg ?g e))"
    using assms data unfolding gm_after_def cd gm_before_def
    by (simp add: updateGMState_def Let_def)
  show ?thesis
    by (cases "gm_lastLoggedTime ?g = t")
      (rule that [of "?g"], simp_all add: eq iface last zero_gm_def Let_def,
       rule that [of "?g\<lparr>gm_lastLoggedTime := t, gm_gmLog := gm_log_line t cfg (gm_gmIFace ?g) (gm_state ?g)\<rparr>"],
       simp_all add: eq iface last zero_gm_def Let_def)
qed

lemma updateGMState_wf [wf_intros]: "handler_wf e \<Longrightarrow> handler_wf (snd (updateGMState t cfg e))"
  by (cases "getGNSSInterface cfg e = GM_INTERFACE_UNKNOWN")
    (simp add: updateGMState_unknown, metis updateGMState_known put_gm_wf)

lemma updateGMState_frame [simp]:
  "eh_data (snd (updateGMState t cfg e)) = eh_data e"
  "cfg_data (snd (updateGMState t cfg e)) c = cfg_data e c"
  "eh_nodeName (snd (updateGMState t cfg e)) = eh_nodeName e"
  "eh_stdoutToSocket (snd (updateGMState t cfg e)) = eh_stdoutToSocket e"
  "eh_clockClass (snd (updateGMState t cfg e)) = eh_clockClass e"
  "eh_clockAccuracy (snd (updateGMState t cfg e)) = eh_clockAccuracy e"
  "eh_outOfSpec (snd (updateGMState t cfg e)) = eh_outOfSpec e"
  "eh_frequencyTraceable (snd (updateGMState t cfg e)) = eh_frequencyTraceable e"
  "eh_nextGauge (snd (updateGMState t cfg e)) = eh_nextGauge e"
  by (cases "getGNSSInterface cfg e = GM_INTERFACE_UNKNOWN";
      (simp add: updateGMState_unknown)?; metis updateGMState_known put_gm_frame)+

section \<open>The decision table\<close>

text \<open>
  The table ``FINAL GM STATE'' of the comment above \<open>updateGMState\<close>, and the table for an absent DPLL
  below it, as data. An empty list is the table's ``NA''; \<open>row_lost\<close> is the mark SL (source lost), and
  \<open>row_oos\<close> the difference between ``FREERUN'' and ``FREERUN OUT OF SPEC''. In the table without DPLL the
  rows with a free-running GNSS are stated for a source that is not lost.
\<close>

datatype gm_outcome = Become PTPState ClockClass | Keep

record gm_row =
  row_dpll :: "PTPState list"
  row_gnss :: "PTPState list"
  row_lost :: "bool list"
  row_oos :: "bool list"
  row_ts2phc :: "PTPState list"
  row_out :: gm_outcome

definition mk_row :: "PTPState list \<Rightarrow> PTPState list \<Rightarrow> bool list \<Rightarrow> bool list \<Rightarrow> PTPState list \<Rightarrow> gm_outcome \<Rightarrow> gm_row" where
  "mk_row d g l s ts out =
     \<lparr>row_dpll = d, row_gnss = g, row_lost = l, row_oos = s, row_ts2phc = ts, row_out = out\<rparr>"

definition gm_table :: "gm_row list" where
  "gm_table =
     [mk_row [PTP_FREERUN] [] [] [False] [] (Become PTP_FREERUN 248),
      mk_row [PTP_HOLDOVER] [] [] [] [] (Become PTP_HOLDOVER 7),
      mk_row [PTP_FREERUN] [] [] [True] [] (Become PTP_FREERUN 140),
      mk_row [PTP_LOCKED] [PTP_LOCKED] [] [] [PTP_LOCKED] (Become PTP_LOCKED 6),
      mk_row [PTP_LOCKED] [PTP_LOCKED] [] [] [PTP_FREERUN] (Become PTP_FREERUN 248),
      mk_row [PTP_LOCKED] [PTP_FREERUN] [True] [] [PTP_LOCKED] Keep,
      mk_row [PTP_LOCKED] [PTP_FREERUN] [True] [] [PTP_FREERUN] Keep,
      mk_row [PTP_LOCKED] [PTP_FREERUN] [False] [] [PTP_LOCKED] (Become PTP_FREERUN 248),
      mk_row [PTP_LOCKED] [PTP_FREERUN] [False] [] [PTP_FREERUN] (Become PTP_FREERUN 248),
      mk_row [PTP_NOTSET] [PTP_FREERUN] [False] [] [PTP_LOCKED] (Become PTP_FREERUN 248),
      mk_row [PTP_NOTSET] [PTP_FREERUN] [False] [] [PTP_FREERUN] (Become PTP_FREERUN 248),
      mk_row [PTP_NOTSET] [PTP_LOCKED] [] [] [PTP_FREERUN] (Become PTP_FREERUN 248),
      mk_row [PTP_NOTSET] [PTP_LOCKED] [] [] [PTP_LOCKED] (Become PTP_LOCKED 6)]"

definition cell_matches :: "'a list \<Rightarrow> 'a \<Rightarrow> bool" where
  "cell_matches c x \<longleftrightarrow> c = [] \<or> x \<in> set c"

definition row_matches :: "gm_row \<Rightarrow> PTPState \<Rightarrow> PTPState \<Rightarrow> bool \<Rightarrow> bool \<Rightarrow> PTPState \<Rightarrow> bool" where
  "row_matches r dpll gnss lost oos ts \<longleftrightarrow>
     cell_matches (row_dpll r) dpll \<and> cell_matches (row_gnss r) gnss \<and> cell_matches (row_lost r) lost
     \<and> cell_matches (row_oos r) oos \<and> cell_matches (row_ts2phc r) ts"

lemma gm_decide_table:
  assumes "row \<in> set gm_table" and "row_matches row dpll gnss lost (oos \<and> ft) ts"
  shows "(gm_state (gm_decide oos ft dpll gnss ts lost g), gm_clockClass (gm_decide oos ft dpll gnss ts lost g)) =
     (case row_out row of Become st cls \<Rightarrow> (st, cls) | Keep \<Rightarrow> (gm_state g, gm_clockClass g))"
  using assms(1) unfolding gm_table_def list.set
  by (elim insertE emptyE; use assms(2) in
      \<open>simp add: mk_row_def row_matches_def cell_matches_def gm_decide_defs clock_class_defs split: if_splits\<close>)

text \<open>The state of a process in a configuration, \<open>st\<close> if the process has sent nothing yet.\<close>

definition proc_state :: "EventSource \<Rightarrow> PTPState \<Rightarrow> string \<Rightarrow> EventHandler \<Rightarrow> PTPState" where
  "proc_state p st cfg e =
     (case find (\<lambda>d. d_ProcessName d = p) (cfg_data e cfg) of Some d \<Rightarrow> d_State d | None \<Rightarrow> st)"

lemma gm_after_proc_state:
  assumes "handler_wf e"
  shows "gm_after cfg e =
     gm_decide (eh_outOfSpec e) (eh_frequencyTraceable e) (proc_state DPLL PTP_NOTSET cfg e)
       (proc_state GNSS PTP_FREERUN cfg e) (proc_state TS2PHC PTP_FREERUN cfg e) (isSourceLost cfg e) (gm_before cfg e)"
  using cfg_data_wf [OF assms, of cfg]
  by (simp add: gm_after_def proc_state_def last_state_unique processes_wf_def)

lemma gm_before_state:
  "(gm_state (gm_before cfg e), gm_clockClass (gm_before cfg e)) =
     (if map_of (eh_gmSyncState e) cfg = None then (PTP_FREERUN, ClockClassUninitialized)
      else (gm_state (getGMState cfg e), gm_clockClass (getGMState cfg e)))"
  by (auto simp: gm_before_def getGMState_def zero_gm_def split: option.splits)

lemma updateGMState_outcome:
  assumes "handler_wf e" and "getGNSSInterface cfg e \<noteq> GM_INTERFACE_UNKNOWN"
    and "row \<in> set gm_table"
    and "row_matches row (proc_state DPLL PTP_NOTSET cfg e) (proc_state GNSS PTP_FREERUN cfg e)
           (isSourceLost cfg e) (eh_outOfSpec e \<and> eh_frequencyTraceable e) (proc_state TS2PHC PTP_FREERUN cfg e)"
    and "updateGMState t cfg e = (r, e')"
  shows "(gm_state r, gm_clockClass r) =
       (case row_out row of
          Become st cls \<Rightarrow> (st, cls)
        | Keep \<Rightarrow> (gm_state (gm_before cfg e), gm_clockClass (gm_before cfg e)))"
    and "(gm_state (getGMState cfg e'), gm_clockClass (getGMState cfg e')) = (gm_state r, gm_clockClass r)"
proof -
  obtain g where g: "e' = put_gm cfg g e" "gm_state r = gm_state g" "gm_clockClass r = gm_clockClass g"
      "gm_state g = gm_state (gm_after cfg e)" "gm_clockClass g = gm_clockClass (gm_after cfg e)"
    using updateGMState_known [OF assms(2), of t] assms(5) by (metis fst_conv snd_conv)
  show "(gm_state r, gm_clockClass r) =
       (case row_out row of
          Become st cls \<Rightarrow> (st, cls)
        | Keep \<Rightarrow> (gm_state (gm_before cfg e), gm_clockClass (gm_before cfg e)))"
    using gm_decide_table [OF assms(3,4), of "gm_before cfg e"] g
    by (simp add: gm_after_proc_state [OF assms(1)])
  show "(gm_state (getGMState cfg e'), gm_clockClass (getGMState cfg e')) = (gm_state r, gm_clockClass r)"
    using g by (simp add: getGMState_def)
qed

section \<open>Consistency of state and class\<close>

definition gm_ok :: "grandMasterSyncState \<Rightarrow> bool" where
  "gm_ok g \<longleftrightarrow>
     (gm_state g = PTP_LOCKED \<and> gm_clockClass g = ClockClass6 \<and> gm_clockAccuracy g = ClockAccuracyNanosecond100)
     \<or> (gm_state g = PTP_HOLDOVER \<and> gm_clockClass g = ClockClass7)
     \<or> (gm_state g = PTP_FREERUN \<and> gm_clockAccuracy g = ClockAccuracyUnknown
        \<and> gm_clockClass g \<in> {ClockClassUninitialized, ClockClassOutOfSpec, ClockClassFreerun})"

lemma gm_ok_before:
  assumes "\<forall>g \<in> snd ` set (eh_gmSyncState e). gm_ok g"
  shows "gm_ok (gm_before cfg e)"
proof (cases "map_of (eh_gmSyncState e) cfg")
  case None
  then show ?thesis by (simp add: gm_before_def gm_ok_def)
next
  case (Some g)
  then have "gm_ok g" using assms by (force dest: map_of_SomeD)
  then show ?thesis using Some by (simp add: gm_before_def gm_ok_def)
qed

lemma gm_ok_decide:
  "gm_ok g \<Longrightarrow> gnss \<in> {PTP_FREERUN, PTP_LOCKED} \<Longrightarrow> gm_ok (gm_decide oos ft dpll gnss ts lost g)"
  by (auto simp: gm_ok_def gm_decide_defs split: PTPState.splits)

lemma updateGMState_gm_ok:
  assumes "handler_wf e" and "\<forall>g \<in> snd ` set (eh_gmSyncState e). gm_ok g"
    and "proc_state GNSS PTP_FREERUN cfg e \<in> {PTP_FREERUN, PTP_LOCKED}"
  shows "\<forall>g \<in> snd ` set (eh_gmSyncState (snd (updateGMState t cfg e))). gm_ok g"
proof (cases "getGNSSInterface cfg e = GM_INTERFACE_UNKNOWN")
  case True
  with assms(2) show ?thesis by (simp add: updateGMState_unknown)
next
  case False
  obtain g where g: "snd (updateGMState t cfg e) = put_gm cfg g e"
      "gm_state g = gm_state (gm_after cfg e)" "gm_clockClass g = gm_clockClass (gm_after cfg e)"
      "gm_clockAccuracy g = gm_clockAccuracy (gm_after cfg e)"
    using updateGMState_known [OF False, of t] by metis
  have "gm_ok (gm_after cfg e)"
    unfolding gm_after_proc_state [OF assms(1)] by (intro gm_ok_decide gm_ok_before assms)
  then have "gm_ok g" using g by (simp add: gm_ok_def)
  then show ?thesis
    using g(1) assms(2) set_alist_update_sub [of cfg g "eh_gmSyncState e"] by (auto simp: put_gm_def)
qed

section \<open>Properties\<close>


text \<open>A handler in which each process has sent one event.\<close>

definition one_detail :: "string \<Rightarrow> PTPState \<Rightarrow> bool \<Rightarrow> DataDetails" where
  "one_detail iface st lost =
     \<lparr>dd_IFace = iface, dd_State = st, dd_ClockType = GM, dd_Metrics = [], dd_time = 1, dd_logData = '''',
      dd_signalSource = NoSource, dd_sourceLost = lost\<rparr>"

definition one_process :: "EventSource \<Rightarrow> PTPState \<Rightarrow> bool \<Rightarrow> Data" where
  "one_process p st lost =
     \<lparr>d_ProcessName = p, d_Details = [one_detail ''ens1f0'' st lost], d_State = st, d_logData = ''''\<rparr>"

definition demo_handler :: "Data list \<Rightarrow> EventHandler" where
  "demo_handler ds = (fst (Init ''n1'' False))\<lparr>eh_data := [(''ts2phc.0.config'', ds)]\<rparr>"

lemmas demo_simps =
  demo_handler_def one_process_def one_detail_def Init_def handler_wf_def processes_wf_def data_wf_def
  unique_on_def cfg_data_def getGNSSInterface_def GM_INTERFACE_UNKNOWN_def proc_state_def isSourceLost_def


text \<open>
  C2. Class 6 is earned: if a call of \<open>updateGMState\<close> changes the clock class to 6, then GNSS and ts2phc
  are LOCKED, the DPLL is neither free-running nor in holdover, and the GM state becomes LOCKED.
\<close>

theorem gm_class6_needs_lock:
  assumes "handler_wf e" and "updateGMState t cfg e = (r, e')"
    and "gm_clockClass r = ClockClass6" and "gm_clockClass (getGMState cfg e) \<noteq> ClockClass6"
  shows "proc_state GNSS PTP_FREERUN cfg e = PTP_LOCKED \<and> proc_state TS2PHC PTP_FREERUN cfg e = PTP_LOCKED
    \<and> proc_state DPLL PTP_NOTSET cfg e \<notin> {PTP_FREERUN, PTP_HOLDOVER} \<and> gm_state r = PTP_LOCKED"
proof -
  have known: "getGNSSInterface cfg e \<noteq> GM_INTERFACE_UNKNOWN"
    using assms(2,3) updateGMState_unknown [of cfg e t] by (auto simp: zero_gm_def clock_class_defs)
  from updateGMState_known [OF known, of t] assms(2)
  have r: "gm_state r = gm_state (gm_after cfg e)" "gm_clockClass r = gm_clockClass (gm_after cfg e)"
    by (metis fst_conv)+
  have "gm_clockClass (gm_before cfg e) \<noteq> ClockClass6"
    using assms(4) by (auto simp: gm_before_def getGMState_def clock_class_defs split: option.splits)
  with assms(3) show ?thesis
    unfolding r gm_after_proc_state [OF assms(1)]
    by (auto simp: gm_decide_defs clock_class_defs split: PTPState.splits if_splits)
qed

theorem gm_class6_needs_lock_witness:
  "proc_state TS2PHC PTP_FREERUN ''ts2phc.0.config''
     (demo_handler [one_process GNSS PTP_LOCKED False, one_process TS2PHC PTP_LOCKED False]) = PTP_LOCKED"
proof -
  let ?e = "demo_handler [one_process GNSS PTP_LOCKED False, one_process TS2PHC PTP_LOCKED False]"
  obtain r e' where r: "updateGMState 7 ''ts2phc.0.config'' ?e = (r, e')" by fastforce
  have "gm_clockClass (fst (updateGMState 7 ''ts2phc.0.config'' ?e)) = ClockClass6" by code_simp
  moreover have "handler_wf ?e" and "gm_clockClass (getGMState ''ts2phc.0.config'' ?e) \<noteq> ClockClass6"
    by (simp_all add: demo_simps) (simp add: getGMState_def zero_gm_def clock_class_defs)
  ultimately show ?thesis using gm_class6_needs_lock [OF _ r] r by simp
qed

text \<open>
  Source lost without a DPLL: if no DPLL has reported and GNSS is free-running with its source
  lost, then as long as ts2phc is LOCKED or FREERUN every call of \<open>updateGMState\<close> keeps the GM state and
  clock class it had, so a grandmaster that was LOCKED with class 6 stays so. (The comment's table for
  an absent DPLL gives FREERUN and 248 for these inputs.)
\<close>

theorem gm_source_lost_without_dpll:
  assumes "handler_wf e" and "getGNSSInterface cfg e \<noteq> GM_INTERFACE_UNKNOWN"
    and "map_of (eh_gmSyncState e) cfg = Some g"
    and "proc_state DPLL PTP_NOTSET cfg e = PTP_NOTSET" and "proc_state GNSS PTP_FREERUN cfg e = PTP_FREERUN"
    and "isSourceLost cfg e" and "proc_state TS2PHC PTP_FREERUN cfg e \<in> {PTP_LOCKED, PTP_FREERUN}"
    and "updateGMState t cfg e = (r, e')"
  shows "gm_state r = gm_state g \<and> gm_clockClass r = gm_clockClass g
    \<and> gm_state (getGMState cfg e') = gm_state g \<and> gm_clockClass (getGMState cfg e') = gm_clockClass g"
proof -
  have "gm_after cfg e = gm_before cfg e"
    using assms(4-7) by (auto simp: gm_after_proc_state [OF assms(1)] gm_decide_defs)
  moreover have "gm_state (gm_before cfg e) = gm_state g" "gm_clockClass (gm_before cfg e) = gm_clockClass g"
    using assms(3) by (simp_all add: gm_before_def)
  ultimately show ?thesis
    using updateGMState_known [OF assms(2), of t] assms(8)
    by (smt (verit, ccfv_threshold) fst_conv snd_conv fun_upd_same getGMState_def option.simps(5) put_gm_frame(10))
qed

theorem gm_source_lost_without_dpll_witness:
  "gm_clockClass (fst (updateGMState 7 ''ts2phc.0.config''
     (put_gm ''ts2phc.0.config'' (gm_locked zero_gm)
        (demo_handler [one_process GNSS PTP_FREERUN True, one_process TS2PHC PTP_FREERUN False])))) = 6"
proof -
  let ?e = "put_gm ''ts2phc.0.config'' (gm_locked zero_gm)
              (demo_handler [one_process GNSS PTP_FREERUN True, one_process TS2PHC PTP_FREERUN False])"
  obtain r e' where r: "updateGMState 7 ''ts2phc.0.config'' ?e = (r, e')" by fastforce
  have "handler_wf ?e" by (rule put_gm_wf) (simp add: demo_simps)
  then have "gm_clockClass r = gm_clockClass (gm_locked zero_gm)"
    using gm_source_lost_without_dpll [of ?e "''ts2phc.0.config''" "gm_locked zero_gm" 7 r e'] r
    by (simp add: getGNSSInterface_def proc_state_def isSourceLost_def)
      (simp add: demo_simps)
  then show ?thesis using r by (simp add: gm_locked_def gm_set_def clock_class_defs)
qed

text \<open>
  The branch of \<open>updateGMState\<close> for a configuration without data is dead: without data there is no
  GNSS interface, so the call returns early with an empty state and leaves the handler untouched, stale
  GM state included.
\<close>

theorem gm_state_without_data:
  assumes "map_of (eh_data e) cfg = None"
  shows "updateGMState t cfg e = (zero_gm\<lparr>gm_gmIFace := GM_INTERFACE_UNKNOWN\<rparr>, e)"
  using assms by (intro updateGMState_unknown no_data_no_interface)

theorem gm_state_without_data_witness:
  "gm_clockClass (fst (updateGMState 7 ''ts2phc.1.config'' (demo_handler []))) = 0"
  using gm_state_without_data [of "demo_handler []" "''ts2phc.1.config''" 7]
  by (simp add: demo_handler_def zero_gm_def)

text \<open>
  The GM status line is rate limited: of two calls in the same second for a configuration whose GNSS
  interface is known, the second returns no log line.
\<close>

theorem gm_log_once_per_second:
  assumes "getGNSSInterface cfg e \<noteq> GM_INTERFACE_UNKNOWN" and "updateGMState t cfg e = (r, e')"
  shows "gm_gmLog (fst (updateGMState t cfg e')) = ''''
    \<and> (\<forall>g. map_of (eh_gmSyncState e) cfg = Some g \<longrightarrow> gm_lastLoggedTime g \<noteq> t \<longrightarrow>
         gm_gmLog r = gm_log_line t cfg (getGNSSInterface cfg e) (gm_state r))"
proof -
  obtain g where e': "e' = put_gm cfg g e" and g: "gm_lastLoggedTime g = t"
    and r: "gm_state r = gm_state g"
      "gm_gmLog r = (if gm_lastLoggedTime (gm_before cfg e) = t then ''''
                     else gm_log_line t cfg (getGNSSInterface cfg e) (gm_state g))"
    using updateGMState_known [OF assms(1), of t] assms(2) by (metis fst_conv snd_conv)
  have known': "getGNSSInterface cfg e' \<noteq> GM_INTERFACE_UNKNOWN"
    using assms(1) by (simp add: e' getGNSSInterface_def)
  have "gm_lastLoggedTime (gm_before cfg e') = t" by (simp add: e' gm_before_def g)
  then have "gm_gmLog (fst (updateGMState t cfg e')) = ''''"
    using updateGMState_known [OF known', of t] by metis
  then show ?thesis using r by (auto simp: gm_before_def)
qed

theorem gm_log_once_per_second_witness:
  "gm_gmLog (fst (updateGMState 7 ''ts2phc.0.config''
     (snd (updateGMState 7 ''ts2phc.0.config'' (demo_handler [one_process GNSS PTP_LOCKED False]))))) = ''''"
  using gm_log_once_per_second [of "''ts2phc.0.config''" "demo_handler [one_process GNSS PTP_LOCKED False]" 7
      "fst (updateGMState 7 ''ts2phc.0.config'' (demo_handler [one_process GNSS PTP_LOCKED False]))"
      "snd (updateGMState 7 ''ts2phc.0.config'' (demo_handler [one_process GNSS PTP_LOCKED False]))"]
  by (simp add: getGNSSInterface_def) (simp add: demo_simps)

end
