(* ===== verification/Pubsub.thy ===== *)
theory Pubsub
  imports Event_Types "HOL-Library.AList"
begin

text \<open>
  The state notifier of \<open>pkg/event/pubsub.go\<close>: a registry of subscribers keyed by topic and id,
  delivery of a state change to the subscribers of its source, and the one-time start of monitors.

  The registry's contract is the locale \<open>subscriber_registry\<close> (what a lookup returns after a
  registration or its removal); it is interpreted on \<open>Register\<close> and \<open>Unregister\<close>. A subscriber's \<open>Monitor\<close>
  and \<open>Notify\<close> methods belong to the components that implement them; here the operations return the
  subscribers on which they are called, in the order of the calls.
\<close>

record 'obj Subscriber =
  sub_Topic :: EventSource
  sub_ID :: string
  sub_obj :: 'obj

text \<open>The map \<open>Subscribers\<close>, with distinct keys; the list order is the order of one \<open>range\<close>.\<close>

type_synonym 'obj StateNotifier = "(string \<times> 'obj Subscriber) list"

definition NewStateNotifier :: "'obj StateNotifier" where
  "NewStateNotifier = []"

definition sub_key :: "'obj Subscriber \<Rightarrow> string" where
  "sub_key s = source_str (sub_Topic s) @ ''_'' @ sub_ID s"

definition Register :: "'obj Subscriber \<Rightarrow> 'obj StateNotifier \<Rightarrow> 'obj StateNotifier" where
  "Register s n = AList.update (sub_key s) s n"

definition Unregister :: "'obj Subscriber \<Rightarrow> 'obj StateNotifier \<Rightarrow> 'obj StateNotifier" where
  "Unregister s n = (if map_of n (sub_key s) \<noteq> None then AList.delete (sub_key s) n else n)"

definition monitor :: "'obj StateNotifier \<Rightarrow> 'obj Subscriber list \<times> 'obj StateNotifier" where
  "monitor n =
     (if n = [] then ([], n)
      else (map snd (filter (\<lambda>(k, s). sub_Topic s = MONITORING) n),
            filter (\<lambda>(k, s). sub_Topic s \<noteq> MONITORING) n))"

definition notify :: "EventSource \<Rightarrow> 'obj StateNotifier \<Rightarrow> 'obj Subscriber list" where
  "notify source n = map snd (filter (\<lambda>(k, s). sub_Topic s = source \<and> sub_Topic s \<noteq> MONITORING) n)"

text \<open>Every key is the key of its subscriber, and keys are distinct.\<close>

definition notifier_wf :: "'obj StateNotifier \<Rightarrow> bool" where
  "notifier_wf n \<longleftrightarrow> distinct (map fst n) \<and> (\<forall>(k, s) \<in> set n. k = sub_key s)"

section \<open>The registry interface\<close>

locale subscriber_registry =
  fixes empty :: "'n"
    and register :: "'s \<Rightarrow> 'n \<Rightarrow> 'n"
    and unregister :: "'s \<Rightarrow> 'n \<Rightarrow> 'n"
    and lookup :: "'n \<Rightarrow> 'k \<Rightarrow> 's option"
    and key :: "'s \<Rightarrow> 'k"
    and invar :: "'n \<Rightarrow> bool"
  assumes lookup_empty: "lookup empty = (\<lambda>_. None)"
    and lookup_register: "invar n \<Longrightarrow> lookup (register s n) = (lookup n)(key s \<mapsto> s)"
    and lookup_unregister: "invar n \<Longrightarrow> lookup (unregister s n) = (lookup n)(key s := None)"
    and invar_empty: "invar empty"
    and invar_register: "invar n \<Longrightarrow> invar (register s n)"
    and invar_unregister: "invar n \<Longrightarrow> invar (unregister s n)"
begin

lemma register_unregister: "invar n \<Longrightarrow> lookup (unregister s (register s n)) = (lookup n)(key s := None)"
  by (simp add: lookup_register lookup_unregister invar_register)

lemma register_commute:
  assumes "invar n" and "key s \<noteq> key t"
  shows "lookup (register s (register t n)) = lookup (register t (register s n))"
  using assms by (simp add: lookup_register invar_register fun_upd_twist)

lemma fold_register_invar: "invar n \<Longrightarrow> invar (fold register ss n)"
  by (induction ss arbitrary: n) (simp_all add: invar_register)

lemma lookup_fold_register:
  "invar n \<Longrightarrow> key ` set ss = K \<Longrightarrow> k \<notin> K \<Longrightarrow> lookup (fold register ss n) k = lookup n k"
proof (induction ss arbitrary: n K)
  case Nil
  then show ?case by simp
next
  case (Cons s ss)
  then show ?case by (auto simp: lookup_register invar_register)
qed

lemma fold_unregister_invar: "invar n \<Longrightarrow> invar (fold unregister ss n)"
  by (induction ss arbitrary: n) (simp_all add: invar_unregister)

lemma lookup_fold_unregister:
  "invar n \<Longrightarrow> lookup (fold unregister ss n) k = (if k \<in> key ` set ss then None else lookup n k)"
  by (induction ss arbitrary: n) (auto simp: lookup_unregister invar_unregister)

end

section \<open>The notifier implements it\<close>

lemma set_alist_update: "set (AList.update k v al) \<subseteq> insert (k, v) (set al)"
  by (induction al) auto

lemma set_alist_delete: "set (AList.delete k al) \<subseteq> set al"
  by (auto simp: AList.delete_eq)

lemma notifier_wf_Register [wf_intros]: "notifier_wf n \<Longrightarrow> notifier_wf (Register s n)"
  using set_alist_update [of "sub_key s" s n]
  by (auto simp: notifier_wf_def Register_def distinct_update)

lemma notifier_wf_Unregister [wf_intros]: "notifier_wf n \<Longrightarrow> notifier_wf (Unregister s n)"
  using set_alist_delete [of "sub_key s" n]
  by (auto simp: notifier_wf_def Unregister_def distinct_delete)

lemma notifier_wf_monitor [wf_intros]: "notifier_wf n \<Longrightarrow> notifier_wf (snd (monitor n))"
  by (auto simp: notifier_wf_def monitor_def distinct_map_filter)

interpretation sr: subscriber_registry NewStateNotifier Register Unregister map_of sub_key notifier_wf
proof unfold_locales
  fix n :: "'a StateNotifier" and s :: "'a Subscriber"
  show "map_of (NewStateNotifier :: 'a StateNotifier) = (\<lambda>_. None)"
    by (simp add: NewStateNotifier_def fun_eq_iff)
  show "map_of (Register s n) = (map_of n)(sub_key s \<mapsto> s)"
    by (simp add: Register_def update_conv')
  show "map_of (Unregister s n) = (map_of n)(sub_key s := None)"
    by (auto simp: Unregister_def delete_conv' fun_eq_iff)
  show "notifier_wf (NewStateNotifier :: 'a StateNotifier)"
    by (simp add: notifier_wf_def NewStateNotifier_def)
qed (rule wf_intros, assumption)+

text \<open>Topics contain no underscore, so the key determines topic and id.\<close>

lemma underscore_free: "CHR ''_'' \<notin> set (source_str t)"
  by (cases t) auto

lemma append_char_inj:
  assumes "c \<notin> set xs" and "c \<notin> set ys" and "xs @ c # us = ys @ c # vs"
  shows "xs = ys \<and> us = vs"
  using assms
proof (induction xs arbitrary: ys)
  case Nil
  then show ?case by (cases ys) auto
next
  case (Cons x xs)
  then show ?case by (cases ys) auto
qed

lemma sub_key_inject: "sub_key s = sub_key t \<longleftrightarrow> sub_Topic s = sub_Topic t \<and> sub_ID s = sub_ID t"
  using append_char_inj [OF underscore_free underscore_free, of "sub_Topic s" "sub_ID s" "sub_Topic t" "sub_ID t"]
  by (auto simp: sub_key_def)

lemma map_snd_filter: "map snd (filter (\<lambda>(k, s). P s) n) = filter P (map snd n)"
  by (induction n) auto

lemma notify_filter: "notify src n = filter (\<lambda>s. sub_Topic s = src \<and> sub_Topic s \<noteq> MONITORING) (map snd n)"
  by (simp add: notify_def map_snd_filter)

lemma distinct_subscribers:
  assumes "notifier_wf n"
  shows "distinct (map snd n)"
proof -
  have k: "fst x = sub_key (snd x)" if "x \<in> set n" for x
    using assms that by (auto simp: notifier_wf_def)
  have "inj_on snd (set n)"
    by (rule inj_onI) (simp add: k prod_eq_iff)
  moreover have "distinct n"
    using assms by (auto simp: notifier_wf_def distinct_map)
  ultimately show ?thesis by (simp add: distinct_map)
qed

lemma set_notify:
  assumes "notifier_wf n"
  shows "set (notify src n) = {s. map_of n (sub_key s) = Some s \<and> sub_Topic s = src \<and> src \<noteq> MONITORING}"
proof -
  have "map_of n (sub_key s) = Some s \<longleftrightarrow> (\<exists>k. (k, s) \<in> set n)" for s
    using assms by (fastforce simp: notifier_wf_def)
  moreover have "set (notify src n) = {s. (\<exists>k. (k, s) \<in> set n) \<and> sub_Topic s = src \<and> src \<noteq> MONITORING}"
    by (force simp: notify_filter)
  ultimately show ?thesis by simp
qed

text \<open>
  Delivery: after registering \<open>s\<close> (topic not \<open>MONITORING\<close>) in a well-formed notifier, a state change
  of a source reaches exactly the subscribers registered for that source, \<open>s\<close> among them if and only
  if the source is its topic; each is notified once, and \<open>s\<close> replaces only an earlier subscriber with
  the same topic and id.
\<close>

theorem notify_after_register:
  assumes "notifier_wf n" and "sub_Topic s \<noteq> MONITORING"
  shows "distinct (notify src (Register s n))
    \<and> set (notify src (Register s n))
      = (if sub_Topic s = src
         then insert s {t \<in> set (notify src n). sub_ID t \<noteq> sub_ID s}
         else set (notify src n))"
proof
  have wf: "notifier_wf (Register s n)" using assms(1) by (rule notifier_wf_Register)
  show "distinct (notify src (Register s n))"
    using distinct_subscribers [OF wf] by (simp add: notify_filter)
  have look: "map_of (Register s n) = (map_of n)(sub_key s \<mapsto> s)"
    using assms(1) by (rule sr.lookup_register)
  show "set (notify src (Register s n))
      = (if sub_Topic s = src
         then insert s {t \<in> set (notify src n). sub_ID t \<noteq> sub_ID s}
         else set (notify src n))"
    unfolding set_notify [OF wf] set_notify [OF assms(1)] look
    using assms(2) by (auto simp: sub_key_inject split: if_splits)
qed

theorem notify_after_register_witness:
  "set (notify GNSS (Register \<lparr>sub_Topic = GNSS, sub_ID = ''dpll-1'', sub_obj = ()\<rparr> NewStateNotifier))
   = {\<lparr>sub_Topic = GNSS, sub_ID = ''dpll-1'', sub_obj = ()\<rparr>}"
  using notify_after_register [of NewStateNotifier "\<lparr>sub_Topic = GNSS, sub_ID = ''dpll-1'', sub_obj = ()\<rparr>" GNSS]
  by (simp add: sr.invar_empty) (simp add: notify_def NewStateNotifier_def)

text \<open>
  Monitors start once: \<open>monitor\<close> starts exactly the subscribers with topic \<open>MONITORING\<close>, removes them,
  keeps the delivery of every other topic, and a second call with no registration in between starts
  nothing and changes nothing.
\<close>

theorem monitor_once:
  "monitor n = (started, n') \<Longrightarrow>
     set started = {s \<in> snd ` set n. sub_Topic s = MONITORING}
     \<and> (\<forall>src. notify src n' = notify src n)
     \<and> monitor n' = ([], n')"
proof -
  assume m: "monitor n = (started, n')"
  have started: "started = filter (\<lambda>s. sub_Topic s = MONITORING) (map snd n)"
    and n': "n' = filter (\<lambda>(k, s). sub_Topic s \<noteq> MONITORING) n"
    using m by (auto simp: monitor_def map_snd_filter split: if_splits)
  have "notify src n' = notify src n" for src
    unfolding n' notify_filter map_snd_filter filter_filter by (rule filter_cong) auto
  moreover have "monitor n' = ([], n')"
    by (auto simp: monitor_def n' filter_empty_conv)
  ultimately show ?thesis using started by auto
qed

theorem monitor_once_witness:
  "monitor [(''monitoring_gnss'', \<lparr>sub_Topic = MONITORING, sub_ID = ''gnss'', sub_obj = ()\<rparr>)]
     = ([\<lparr>sub_Topic = MONITORING, sub_ID = ''gnss'', sub_obj = ()\<rparr>], [])
   \<and> monitor ([] :: unit StateNotifier) = ([], [])"
  using monitor_once [of "[(''monitoring_gnss'', \<lparr>sub_Topic = MONITORING, sub_ID = ''gnss'', sub_obj = ()\<rparr>)]"
      "[\<lparr>sub_Topic = MONITORING, sub_ID = ''gnss'', sub_obj = ()\<rparr>]" "[]"]
  by (simp add: monitor_def)

end
