(* ===== verification/Event_Loop.thy ===== *)
theory Event_Loop
  imports Event_Handler Pubsub
begin

text \<open>
  The operations of the event handler that act on its surroundings: the metrics, the reset of a
  configuration or a process, the handling of one event (\<open>handle\<close>), the update of the clock class
  through the \<open>pmc\<close> tool, and the main loop \<open>ProcessEvents\<close> with its socket, its clock-class channel and
  its helper goroutines as a step relation.

  Results: the removal loop of a reset removes exactly the named process, although it changes the slice
  it ranges over; every reachable handler is well-formed and keeps state and class consistent; a
  clock-class update writes the settings of the class and is idempotent; the loop's counters and its
  channel stay within their bounds.
\<close>

section \<open>Metrics\<close>

definition UpdateClockStateMetrics :: "string \<Rightarrow> PTPState \<Rightarrow> string \<Rightarrow> string \<Rightarrow> effect" where
  "UpdateClockStateMetrics node state process iFace =
     GaugeSet clockMetric [(''process'', process), (''node'', node), (''iface'', iFace)]
       (f64_of_int (if state = PTP_LOCKED then 1
                    else if state = PTP_FREERUN then 0
                    else if state = PTP_HOLDOVER then 2
                    else 3))"

definition getMetricName :: "ValueType \<Rightarrow> string" where
  "getMetricName valueType =
     (if HasSuffix (vt_str valueType) (vt_str OFFSET) then vt_str valueType @ ''_ns'' else vt_str valueType)"

definition hasMetric :: "string \<Rightarrow> EventHandler \<Rightarrow> gauge option option" where
  "hasMetric name e =
     map_option dm_GaugeMetric
       (find (\<lambda>mv. dm_Name mv = name)
          (concat (map (\<lambda>(cfg, ds). concat (map (\<lambda>d. concat (map (\<lambda>dd. map snd (dd_Metrics dd)) (d_Details d))) ds))
                       (eh_data e))))"

text \<open>The metrics of one interface, read and written through the pointer \<open>d\<close> of the source.\<close>

definition metrics_of :: "string \<Rightarrow> EventSource \<Rightarrow> string \<Rightarrow> EventHandler \<Rightarrow> (ValueType \<times> DataMetric) list" where
  "metrics_of cfg process iface e =
     (case GetDataDetails (process_data cfg process e) iface of Some dd \<Rightarrow> dd_Metrics dd | None \<Rightarrow> [])"

definition put_metric :: "string \<Rightarrow> EventSource \<Rightarrow> string \<Rightarrow> ValueType \<Rightarrow> DataMetric \<Rightarrow> EventHandler \<Rightarrow> EventHandler" where
  "put_metric cfg process iface vt m e =
     upd_process cfg process
       (\<lambda>d. d\<lparr>d_Details := update_first (\<lambda>dd. dd_IFace dd = iface)
                 (\<lambda>dd. dd\<lparr>dd_Metrics := AList.update vt m (dd_Metrics dd)\<rparr>) (d_Details d)\<rparr>) e"

definition metric_labels :: "string \<Rightarrow> string \<Rightarrow> EventSource \<Rightarrow> string \<Rightarrow> labels" where
  "metric_labels from node process iface =
     [(''from'', from), (''node'', node), (''process'', source_str process), (''iface'', iface)]"

definition metric_value :: "goval \<Rightarrow> f64 option" where
  "metric_value v = (case v of VInt64 i \<Rightarrow> Some (f64_of_int i) | VFloat f \<Rightarrow> Some f | _ \<Rightarrow> None)"

text \<open>
  One iteration of the loop of \<open>updateMetrics\<close>; only \<open>int64\<close> and \<open>float64\<close> values are exported. A nil gauge
  (\<open>None\<close>) would panic; the invariant \<open>handler_inv\<close> below shows that no stored metric has one.
\<close>

definition metric_step :: "string \<Rightarrow> EventSource \<Rightarrow> string \<Rightarrow> ValueType \<times> goval
    \<Rightarrow> EventHandler \<times> effect list \<Rightarrow> EventHandler \<times> effect list" where
  "metric_step cfg process iface kv acc =
     (let (e, effs) = acc; (dataType, value) = kv;
          masked = mask_iface iface;
          pName = (if dataType = OFFSET \<and> process = TS2PHC then ''master'' else source_str process);
          labels = metric_labels pName (eh_nodeName e) process masked
      in
      case metric_value value of
        None \<Rightarrow> (e, effs)
      | Some dataValue \<Rightarrow>
          (case map_of (metrics_of cfg process iface e) dataType of
             None \<Rightarrow>
               if dataType = OFFSET then
                 (put_metric cfg process iface dataType
                    \<lparr>dm_isRegistered = True, dm_GaugeMetric = Some offsetMetric, dm_Name = '''', dm_Labels = [],
                     dm_Value = f64_of_int 0\<rparr> e,
                  effs @ [GaugeSet offsetMetric labels dataValue])
               else
                 (case hasMetric (getMetricName dataType) e of
                    Some g \<Rightarrow>
                      (put_metric cfg process iface dataType
                         \<lparr>dm_isRegistered = True, dm_GaugeMetric = g, dm_Name = vt_str dataType, dm_Labels = labels,
                          dm_Value = dataValue\<rparr> e,
                       effs @ (case g of Some i \<Rightarrow> [GaugeSet i labels dataValue] | None \<Rightarrow> []))
                  | None \<Rightarrow>
                      let g = eh_nextGauge e in
                      (put_metric cfg process iface dataType
                         \<lparr>dm_isRegistered = True, dm_GaugeMetric = Some g, dm_Name = vt_str dataType, dm_Labels = labels,
                          dm_Value = dataValue\<rparr> (e\<lparr>eh_nextGauge := Suc g\<rparr>),
                       effs @ [GaugeRegister g (getMetricName dataType), GaugeSet g labels dataValue]))
           | Some s \<Rightarrow>
               (e, effs @ (case dm_GaugeMetric s of Some i \<Rightarrow> [GaugeSet i labels dataValue] | None \<Rightarrow> []))))"

definition updateMetrics :: "string \<Rightarrow> EventSource \<Rightarrow> (ValueType \<times> goval) list \<Rightarrow> string
    \<Rightarrow> EventHandler \<Rightarrow> EventHandler \<times> effect list" where
  "updateMetrics cfg process processData iface e = fold (metric_step cfg process iface) processData (e, [])"

definition delete_metrics :: "Data \<Rightarrow> effect list" where
  "delete_metrics d =
     concat (map (\<lambda>dd. concat (map (\<lambda>(vt, m). case dm_GaugeMetric m of
                                          Some g \<Rightarrow> [GaugeDelete g (dm_Labels m)]
                                        | None \<Rightarrow> []) (dd_Metrics dd))) (d_Details d))"

definition unregister_in :: "string \<Rightarrow> Data list \<Rightarrow> effect list" where
  "unregister_in processName data =
     concat (map (\<lambda>v. if source_str (d_ProcessName v) = processName \<or> processName = '''' then delete_metrics v else []) data)"

definition unregisterMetrics :: "string \<Rightarrow> string \<Rightarrow> EventHandler \<Rightarrow> effect list" where
  "unregisterMetrics configName processName e = unregister_in processName (cfg_data e configName)"

section \<open>Reset\<close>

text \<open>
  The removal loop ranges over the slice captured before the first iteration: \<open>arr\<close> is its backing
  array, \<open>cur\<close> the length of the slice now stored in the map. \<open>append(s[:i], s[i+1:]...)\<close> moves the
  elements behind \<open>i\<close> down in place, so the loop reads the moved elements, and the last cell of the array
  keeps its old content.
\<close>

definition append_in_place :: "nat \<Rightarrow> nat \<Rightarrow> 'a list \<Rightarrow> 'a list" where
  "append_in_place i cur arr = take i arr @ take (cur - Suc i) (drop (Suc i) arr) @ drop (cur - 1) arr"

definition reset_step :: "EventSource \<Rightarrow> nat \<Rightarrow> Data list \<times> nat \<times> effect list \<Rightarrow> Data list \<times> nat \<times> effect list" where
  "reset_step p i st =
     (let (arr, cur, effs) = st in
      if d_ProcessName (arr ! i) = p then
        (let effs' = effs @ unregister_in (source_str p) (take cur arr) in
         if i < cur then (append_in_place i cur arr, cur - 1, effs') else (arr, cur, effs'))
      else st)"

definition reset_process :: "EventSource \<Rightarrow> Data list \<Rightarrow> Data list \<times> effect list" where
  "reset_process p ds =
     (let (arr, cur, effs) = fold (reset_step p) [0..<length ds] (ds, length ds, []) in (take cur arr, effs))"

definition handle_reset :: "EventChannel \<Rightarrow> EventHandler \<Rightarrow> EventHandler \<times> effect list" where
  "handle_reset ev e =
     (if ec_ProcessName ev = TS2PHC then
        (e\<lparr>eh_data := AList.delete (ec_CfgName ev) (eh_data e), eh_clockClass := ClockClassUninitialized,
           eh_clockAccuracy := ClockAccuracyUnknown\<rparr>,
         Debug DClear # unregisterMetrics (ec_CfgName ev) '''' e)
      else
        (let (ds, effs) = reset_process (ec_ProcessName ev) (cfg_data e (ec_CfgName ev));
             e1 = (if map_of (eh_data e) (ec_CfgName ev) = None then e else set_cfg_data (ec_CfgName ev) ds e)
         in (e1\<lparr>eh_gmSyncState := AList.delete (ec_CfgName ev) (eh_gmSyncState e1), eh_outOfSpec := False,
                eh_frequencyTraceable := False\<rparr>,
             Debug DClear # effs)))"

section \<open>One event\<close>

definition zero_nmea :: "(ValueType \<times> goval) list \<Rightarrow> (ValueType \<times> goval) list" where
  "zero_nmea vs = (if map_of vs NMEA_STATUS \<noteq> None then AList.update NMEA_STATUS (VInt 0) vs else vs)"

definition debug_calls :: "EventChannel \<Rightarrow> PTPState \<Rightarrow> PTPState \<Rightarrow> effect list" where
  "debug_calls ev dState gmState =
     (case ec_ProcessName ev of
        GNSS \<Rightarrow> [Debug (DGnss (ptp_str (ec_State ev)) (map_of (ec_Values ev) OFFSET))]
      | DPLL \<Rightarrow> [Debug (DDpll (ptp_str (ec_State ev)) (map_of (ec_Values ev) OFFSET) (ec_IFace ev)),
                 Debug (DDpll (ptp_str dState) (Some (VInt 0)) OverallDpllKey)]
      | TS2PHC \<Rightarrow> [Debug (DTs2phc (ptp_str (ec_State ev)) (map_of (ec_Values ev) OFFSET) (ec_IFace ev)),
                   Debug (DTs2phc (ptp_str dState) (Some (VInt 0)) OverallTs2phcKey)]
      | _ \<Rightarrow> []) @ [Debug (DGM (ptp_str gmState))]"

text \<open>The accuracy of the request: the last one, or in holdover the one of the DPLL's offset.\<close>

definition request_accuracy :: "EventChannel \<Rightarrow> ClockClass \<Rightarrow> ClockAccuracy \<Rightarrow> ClockAccuracy" where
  "request_accuracy ev cls lastAcc =
     (if (cls = ClockClass7 \<or> cls = ClockClassOutOfSpec) \<and> ec_ProcessName ev = DPLL then
        (case map_of (ec_Values ev) OFFSET of
           Some (VInt64 offset) \<Rightarrow> ClockAccuracyFromOffset offset
         | _ \<Rightarrow> lastAcc)
      else lastAcc)"

text \<open>The metrics of an event, exported only when events do not go to the socket.\<close>

definition export_metrics :: "EventChannel \<Rightarrow> grandMasterSyncState \<Rightarrow> EventHandler \<Rightarrow> EventHandler \<times> effect list" where
  "export_metrics ev gmState e =
     (if eh_stdoutToSocket e then (e, [])
      else
        let (m1, f1) = updateMetrics (ec_CfgName ev) (ec_ProcessName ev) (ec_Values ev) (ec_IFace ev) e;
            (m2, f2) = updateMetrics (ec_CfgName ev) (ec_ProcessName ev) (ec_Values ev) (ec_IFace ev) m1
        in (m2, UpdateClockStateMetrics (eh_nodeName e) (ec_State ev) (source_str (ec_ProcessName ev)) (mask_iface (ec_IFace ev))
                  # f1 @ f2
                  @ (if gm_gmIFace gmState \<noteq> GM_INTERFACE_UNKNOWN
                     then [UpdateClockStateMetrics (eh_nodeName e) (gm_state gmState) (clocktype_str GM)
                             (mask_iface (gm_gmIFace gmState))]
                     else [])))"

text \<open>The request to change the clock class, made when the class or the accuracy differs from the last one set.\<close>

definition class_request :: "EventChannel \<Rightarrow> grandMasterSyncState \<Rightarrow> EventHandler \<Rightarrow> effect list" where
  "class_request ev gmState e =
     (let acc = request_accuracy ev (gm_clockClass gmState) (eh_clockAccuracy e) in
      if gm_clockClass gmState \<noteq> ClockClassUninitialized
         \<and> (gm_clockClass gmState \<noteq> eh_clockClass e \<or> acc \<noteq> eh_clockAccuracy e)
      then [Debug (DClockClass (gm_clockClass gmState)),
            RequestClass \<lparr>cr_cfgName = ec_CfgName ev, cr_gmState = gm_state gmState, cr_clockType = ec_ClockType ev,
                          cr_clockClass = gm_clockClass gmState, cr_clockAccuracy = acc\<rparr>]
      else [])"

text \<open>
  The handling of an event other than a reset or a SyncE event. \<open>t1\<close> and \<open>t2\<close> are the times of day read
  by \<open>addEvent\<close> and \<open>updateGMState\<close>. The result is the new handler, the effects, the lines to write, and
  the computed GM state.
\<close>

definition handle_data :: "bool \<Rightarrow> int \<Rightarrow> int \<Rightarrow> EventChannel \<Rightarrow> EventHandler
    \<Rightarrow> EventHandler \<times> effect list \<times> string list \<times> PTPState" where
  "handle_data hasSubs t1 t2 ev0 e0 =
     (let cfg = ec_CfgName ev0; process = ec_ProcessName ev0;
          (dd, notes, e1) = addEvent hasSubs t1 ev0 e0;
          (gmState, e2) = updateGMState t2 cfg e1;
          e3 = (case map_of (eh_gmSyncState e2) cfg of
                  Some g \<Rightarrow> put_gm cfg (g\<lparr>gm_sourceLost := ec_OutOfSpec ev0\<rparr>) e2
                | None \<Rightarrow> e2);
          ev = (if gm_state gmState \<noteq> PTP_LOCKED then ev0\<lparr>ec_Values := zero_nmea (ec_Values ev0)\<rparr> else ev0);
          logData = (case dd of Some x \<Rightarrow> dd_logData x | None \<Rightarrow> '''');
          log1 = (if ec_WriteToLog ev \<and> logData \<noteq> '''' then [logData] else []);
          (d, e4) = GetData cfg process e3;
          dbg = debug_calls ev (d_State d) (gm_state gmState);
          log2 = (if gm_gmLog gmState \<noteq> '''' \<and> gm_gmIFace gmState \<noteq> GM_INTERFACE_UNKNOWN then [gm_gmLog gmState] else []);
          (e5, meffs) = export_metrics ev gmState e4
      in (e5, map (\<lambda>(s, st). NotifyState s st) notes @ dbg @ meffs @ class_request ev gmState e5, log1 @ log2, gm_state gmState))"

definition handle_synce :: "int \<Rightarrow> EventChannel \<Rightarrow> EventHandler \<Rightarrow> effect list \<times> string list" where
  "handle_synce t1 ev e =
     ([UpdateClockStateMetrics (eh_nodeName e) (ec_State ev) (source_str (ec_ProcessName ev)) (ec_IFace ev)],
      if ec_WriteToLog ev \<and> GetLogData t1 ev \<noteq> '''' then [GetLogData t1 ev] else [])"

text \<open>The body of the event case of the main loop.\<close>

definition handle :: "bool \<Rightarrow> int \<Rightarrow> int \<Rightarrow> EventChannel \<Rightarrow> EventHandler \<Rightarrow> EventHandler \<times> effect list \<times> string list" where
  "handle hasSubs t1 t2 ev e =
     (if ec_Reset ev then (let (e', effs) = handle_reset ev e in (e', effs, []))
      else if ec_ProcessName ev = SYNCE then (let (effs, out) = handle_synce t1 ev e in (e, effs, out))
      else (let (e', effs, out, st) = handle_data hasSubs t1 t2 ev e in (e', effs, out)))"

section \<open>The clock class\<close>

definition PMC_cfgName :: "string \<Rightarrow> string" where
  "PMC_cfgName cfgName = replace_first cfgName ''ts2phc'' ''ptp4l''"

text \<open>The settings written for a clock class.\<close>

definition class_settings :: "ClockClass \<Rightarrow> bool \<Rightarrow> ClockAccuracy \<Rightarrow> TimeSource \<Rightarrow> u16
    \<Rightarrow> GrandmasterSettings \<Rightarrow> GrandmasterSettings" where
  "class_settings cls timeTraceable acc src variance g =
     g\<lparr>gs_ClockQuality := (gs_ClockQuality g)\<lparr>cq_ClockClass := cls, cq_ClockAccuracy := acc,
                                              cq_OffsetScaledLogVariance := variance\<rparr>,
       gs_TimePropertiesDS := (gs_TimePropertiesDS g)\<lparr>tp_TimeTraceable := timeTraceable, tp_TimeSource := src\<rparr>\<rparr>"

definition gm_time_properties :: "u32 \<Rightarrow> GrandmasterSettings \<Rightarrow> GrandmasterSettings" where
  "gm_time_properties utc g =
     g\<lparr>gs_TimePropertiesDS := (gs_TimePropertiesDS g)\<lparr>tp_PtpTimescale := True, tp_FrequencyTraceable := True,
         tp_CurrentUtcOffsetValid := True, tp_CurrentUtcOffset := utc\<rparr>\<rparr>"

text \<open>
  \<open>updateCLockClass\<close> with the getter's result and the setter as parameters; \<open>utc\<close> is
  \<open>int32(leap.GetUtcOffset())\<close>. The result is the error, the class and accuracy returned, and the
  settings handed to the setter, if it was called.
\<close>

definition updateCLockClass :: "ClockClass \<Rightarrow> ClockType \<Rightarrow> ClockAccuracy \<Rightarrow> u32 \<Rightarrow> GrandmasterSettings res
    \<Rightarrow> (GrandmasterSettings \<Rightarrow> go_error option)
    \<Rightarrow> go_error option \<times> ClockClass \<times> ClockAccuracy \<times> GrandmasterSettings option" where
  "updateCLockClass clkClass clockType clkAccuracy utc getter setter =
     (case getter of
        Inl err \<Rightarrow> (Some err, 0, 0, None)
      | Inr g0 \<Rightarrow>
          if clockType = GM then
            (let g1 = gm_time_properties utc g0;
                 cur = cq_ClockClass (gs_ClockQuality g1);
                 ret = (\<lambda>err g call. (err, cq_ClockClass (gs_ClockQuality g), cq_ClockAccuracy (gs_ClockQuality g), call));
                 put = (\<lambda>g. ret (setter g) g (Some g))
             in
             if clkClass = ClockClass6 then
               (if cur \<noteq> ClockClass6
                then put (class_settings ClockClass6 True ClockAccuracyNanosecond100 TimeSourceGNSS 0x4e5d g1)
                else ret None g1 None)
             else if clkClass = ClockClassOutOfSpec then
               (if cur \<noteq> ClockClassOutOfSpec
                then put (class_settings ClockClassOutOfSpec False clkAccuracy TimeSourceInternalOscillator 0xffff g1)
                else ret None g1 None)
             else if clkClass = ClockClass7 then
               (if cur \<noteq> ClockClass7
                then put (class_settings ClockClass7 True clkAccuracy TimeSourceInternalOscillator 0xffff g1)
                else ret None g1 None)
             else if clkClass = ClockClassFreerun then
               (if cur \<noteq> ClockClassFreerun
                then put (class_settings ClockClassFreerun False ClockAccuracyUnknown TimeSourceInternalOscillator 0xffff g1)
                else ret None g1 None)
             else ret None g1 None)
          else (None, cq_ClockClass (gs_ClockQuality g0), cq_ClockAccuracy (gs_ClockQuality g0), None))"

text \<open>
  \<open>UpdateClockClass\<close>: the handler, its effects, and the line written to the socket (if connected) and
  to standard output. \<open>t\<close> is the time of day.
\<close>

definition class_change_line :: "int \<Rightarrow> string \<Rightarrow> ClockClass \<Rightarrow> string" where
  "class_change_line t cfg cls =
     source_str PTP4l @ ''['' @ fmt_int t @ '']:['' @ cfg @ ''] CLOCK_CLASS_CHANGE '' @ fmt_int (uint cls) @ ''\<newline>''"

definition UpdateClockClass :: "int \<Rightarrow> u32 \<Rightarrow> (string \<Rightarrow> GrandmasterSettings res)
    \<Rightarrow> (string \<Rightarrow> GrandmasterSettings \<Rightarrow> go_error option) \<Rightarrow> ClockClassRequest \<Rightarrow> EventHandler
    \<Rightarrow> EventHandler \<times> effect list \<times> string list" where
  "UpdateClockClass t utc getter setter clk e =
     (let cfg = PMC_cfgName (cr_cfgName clk) in
      case updateCLockClass (cr_clockClass clk) (cr_clockType clk) (cr_clockAccuracy clk) utc (getter cfg) (setter cfg) of
        (Some err, _) \<Rightarrow> (e, [], [])
      | (None, clockClass, clockAccuracy, _) \<Rightarrow>
          (e\<lparr>eh_clockClass := clockClass, eh_clockAccuracy := clockAccuracy\<rparr>,
           if eh_stdoutToSocket e then []
           else [GaugeSet clockClassMetric [(''process'', ''ptp4l''), (''node'', eh_nodeName e)] (f64_of_int (uint clockClass))],
           [class_change_line t (cr_cfgName clk) clockClass]))"

section \<open>The removal loop\<close>

lemma reset_fold_no_match:
  "\<forall>i \<in> set is. d_ProcessName (arr ! i) \<noteq> p \<Longrightarrow> fold (reset_step p) is (arr, cur, effs) = (arr, cur, effs)"
  by (induction "is") (simp_all add: reset_step_def)

lemma reset_process_absent:
  assumes "\<forall>d \<in> set ds. d_ProcessName d \<noteq> p"
  shows "reset_process p ds = (ds, [])"
proof -
  have "\<forall>i \<in> set [0..<length ds]. d_ProcessName (ds ! i) \<noteq> p" using assms by simp
  from reset_fold_no_match [OF this] show ?thesis by (simp add: reset_process_def)
qed

lemma append_in_place_split:
  "append_in_place (length xs) (length (xs @ d # ys)) (xs @ d # ys) = xs @ ys @ [last (d # ys)]"
proof -
  have "drop (length ys) (d # ys) = [last (d # ys)]"
    by (metis append_butlast_last_id append_eq_conv_conj length_append_singleton length_butlast list.discI
        length_Cons diff_Suc_1)
  then show ?thesis by (simp add: append_in_place_def)
qed

lemma reset_process_present:
  assumes xs: "\<forall>x \<in> set xs. d_ProcessName x \<noteq> p" and ys: "\<forall>y \<in> set ys. d_ProcessName y \<noteq> p"
    and d: "d_ProcessName d = p"
  shows "reset_process p (xs @ d # ys) = (xs @ ys, unregister_in (source_str p) (xs @ d # ys))"
proof -
  let ?ds = "xs @ d # ys" and ?k = "length xs"
  let ?arr = "xs @ ys @ [last (d # ys)]"
  let ?effs = "unregister_in (source_str p) ?ds"
  have "[0..<length ?ds] = [0..<?k] @ [?k..<length ?ds]"
    by (metis le0 le_add1 length_append upt_add_eq_append le_add_diff_inverse)
  also have "[?k..<length ?ds] = ?k # [Suc ?k..<length ?ds]" by (rule upt_conv_Cons) simp
  finally have idx: "[0..<length ?ds] = [0..<?k] @ ?k # [Suc ?k..<length ?ds]" .
  have "\<forall>i \<in> set [0..<?k]. d_ProcessName (?ds ! i) \<noteq> p" using xs by (auto simp: nth_append)
  then have before: "fold (reset_step p) [0..<?k] (?ds, length ?ds, []) = (?ds, length ?ds, [])"
    by (rule reset_fold_no_match)
  have at: "reset_step p ?k (?ds, length ?ds, []) = (?arr, length ?ds - 1, ?effs)"
    using append_in_place_split [of xs d ys] d by (simp add: reset_step_def del: last.simps)
  have rest: "d_ProcessName (?arr ! i) \<noteq> p" if "Suc ?k \<le> i" "i < length ?ds" for i
  proof -
    from that have "?arr ! i \<in> set (ys @ [last (d # ys)])" and "ys \<noteq> []"
      by (auto simp: nth_append in_set_conv_nth intro!: exI [of _ "i - ?k"])
    then have "?arr ! i \<in> set ys" by auto
    with ys show ?thesis by blast
  qed
  have "\<forall>i \<in> set [Suc ?k..<length ?ds]. d_ProcessName (?arr ! i) \<noteq> p"
  proof
    fix i assume "i \<in> set [Suc ?k..<length ?ds]"
    then have "Suc ?k \<le> i" "i < length ?ds" by (simp_all only: set_upt atLeastLessThan_iff)
    then show "d_ProcessName (?arr ! i) \<noteq> p" by (rule rest)
  qed
  then have "fold (reset_step p) [Suc ?k..<length ?ds] (?arr, length ?ds - 1, ?effs) = (?arr, length ?ds - 1, ?effs)"
    by (rule reset_fold_no_match)
  with before at show ?thesis
    unfolding reset_process_def idx fold_append by (simp del: last.simps)
qed

lemma unregister_in_unique:
  assumes "\<forall>x \<in> set xs. d_ProcessName x \<noteq> p" and "\<forall>y \<in> set ys. d_ProcessName y \<noteq> p"
    and "d_ProcessName d = p" and "p \<noteq> NoSource"
  shows "unregister_in (source_str p) (xs @ d # ys) = delete_metrics d"
proof -
  have "source_str p \<noteq> ''''" using assms(4) by (cases p) auto
  then have none: "unregister_in (source_str p) zs = []" if "\<forall>z \<in> set zs. d_ProcessName z \<noteq> p" for zs
    using that by (induction zs) (auto simp: unregister_in_def)
  have "unregister_in (source_str p) (xs @ d # ys)
      = unregister_in (source_str p) xs @ delete_metrics d @ unregister_in (source_str p) ys"
    using assms(3) by (simp add: unregister_in_def)
  then show ?thesis by (simp add: none assms(1,2))
qed

lemma reset_process_filter:
  assumes "unique_on d_ProcessName ds" and "p \<noteq> NoSource"
  shows "reset_process p ds =
    (filter (\<lambda>d. d_ProcessName d \<noteq> p) ds,
     (case find (\<lambda>d. d_ProcessName d = p) ds of Some d \<Rightarrow> delete_metrics d | None \<Rightarrow> []))"
proof (cases "find (\<lambda>d. d_ProcessName d = p) ds")
  case None
  then have "\<forall>d \<in> set ds. d_ProcessName d \<noteq> p" by (simp add: find_None_iff)
  with None show ?thesis by (simp add: reset_process_absent)
next
  case (Some d)
  then have "d \<in> set ds" and d: "d_ProcessName d = p" by (auto simp: find_Some_iff)
  then obtain xs ys where ds: "ds = xs @ d # ys" by (meson split_list)
  with assms(1) have "d_ProcessName d \<notin> d_ProcessName ` set xs" "d_ProcessName d \<notin> d_ProcessName ` set ys"
    by (simp_all add: unique_on_def)
  then have xs: "\<forall>x \<in> set xs. d_ProcessName x \<noteq> p" and ys: "\<forall>y \<in> set ys. d_ProcessName y \<noteq> p"
    unfolding d by (metis image_eqI)+
  have "reset_process p ds = (xs @ ys, delete_metrics d)"
    unfolding ds reset_process_present [OF xs ys d] unregister_in_unique [OF xs ys d assms(2)] ..
  with Some ds xs ys d show ?thesis by simp
qed

lemma fst_reset_process:
  assumes "unique_on d_ProcessName ds"
  shows "fst (reset_process p ds) = filter (\<lambda>d. d_ProcessName d \<noteq> p) ds"
proof (cases "\<exists>d \<in> set ds. d_ProcessName d = p")
  case False
  then show ?thesis by (simp add: reset_process_absent)
next
  case True
  then obtain d xs ys where d: "d_ProcessName d = p" and ds: "ds = xs @ d # ys" by (metis split_list)
  with assms have "d_ProcessName d \<notin> d_ProcessName ` set xs" "d_ProcessName d \<notin> d_ProcessName ` set ys"
    by (simp_all add: unique_on_def)
  then have xs: "\<forall>x \<in> set xs. d_ProcessName x \<noteq> p" and ys: "\<forall>y \<in> set ys. d_ProcessName y \<noteq> p"
    unfolding d by (metis image_eqI)+
  with ds d show ?thesis by (simp add: reset_process_present [OF xs ys d])
qed

section \<open>Invariants of the handler\<close>

definition all_data :: "(Data \<Rightarrow> bool) \<Rightarrow> EventHandler \<Rightarrow> bool" where
  "all_data P e \<longleftrightarrow> (\<forall>c. \<forall>d \<in> set (cfg_data e c). P d)"

text \<open>GNSS reports only FREERUN and LOCKED; so does its overall state.\<close>

definition gnss_ok :: "Data \<Rightarrow> bool" where
  "gnss_ok d \<longleftrightarrow>
     (d_ProcessName d = GNSS \<longrightarrow>
        d_State d \<in> {PTP_FREERUN, PTP_LOCKED} \<and> (\<forall>dd \<in> set (d_Details d). dd_State dd \<in> {PTP_FREERUN, PTP_LOCKED}))"

text \<open>Every stored metric has a gauge that has been allocated.\<close>

definition metrics_ok :: "gauge \<Rightarrow> Data \<Rightarrow> bool" where
  "metrics_ok n d \<longleftrightarrow>
     (\<forall>dd \<in> set (d_Details d). \<forall>(vt, m) \<in> set (dd_Metrics dd). \<exists>g < n. dm_GaugeMetric m = Some g)"

definition event_ok :: "EventChannel \<Rightarrow> bool" where
  "event_ok ev \<longleftrightarrow> (ec_ProcessName ev = GNSS \<longrightarrow> ec_State ev \<in> {PTP_FREERUN, PTP_LOCKED})"

definition handler_inv :: "EventHandler \<Rightarrow> bool" where
  "handler_inv e \<longleftrightarrow>
     handler_wf e \<and> all_data gnss_ok e \<and> all_data (metrics_ok (eh_nextGauge e)) e \<and> 3 \<le> eh_nextGauge e
     \<and> (\<forall>g \<in> snd ` set (eh_gmSyncState e). gm_ok g)"

lemma all_data_addEvent:
  "all_data P e \<Longrightarrow> P (recorded hs t ev e) \<Longrightarrow> all_data P (snd (snd (addEvent hs t ev e)))"
  using set_update_first_const [of _ "recorded hs t ev e"] by (fastforce simp: all_data_def cfg_data_addEvent)

lemma all_data_process_data: "all_data P e \<Longrightarrow> P (blank_data p) \<Longrightarrow> P (process_data c p e)"
  by (auto simp: all_data_def process_data_def split: option.splits dest: find_SomeD)

lemma set_details_AddEvent:
  "set (d_Details (fst (AddEvent hs t ev d))) \<subseteq>
     set (d_Details d) \<union> {new_details t ev} \<union> refresh_details t ev ` set (d_Details d)"
proof (cases "GetDataDetails d (ec_IFace ev)")
  case None
  then show ?thesis by (simp add: AddEvent_details) blast
next
  case (Some dd)
  then have "dd \<in> set (d_Details d)" by (auto simp: GetDataDetails_def find_Some_iff)
  moreover have "set (update_first (\<lambda>x. dd_IFace x = ec_IFace ev) (refresh_details t ev) (d_Details d))
      \<subseteq> insert (refresh_details t ev dd) (set (d_Details d))"
    using Some by (intro set_update_first) (simp add: GetDataDetails_def)
  ultimately show ?thesis using Some by (auto simp: AddEvent_details)
qed

lemma recorded_details: "d_Details (recorded hs t ev e) = d_Details (fst (AddEvent hs t ev (process_data (ec_CfgName ev) (ec_ProcessName ev) e)))"
  by (simp add: recorded_def)

lemma recorded_details_nonempty: "d_Details (recorded hs t ev e) \<noteq> []"
  using GetDataDetails_AddEvent_same [of hs t ev "process_data (ec_CfgName ev) (ec_ProcessName ev) e"]
  by (auto simp: recorded_details GetDataDetails_def)

lemma overall_state_gnss: "S \<noteq> {} \<Longrightarrow> S \<subseteq> {PTP_FREERUN, PTP_LOCKED} \<Longrightarrow> overall_state S \<in> {PTP_FREERUN, PTP_LOCKED}"
  by (auto simp: overall_state_def)

lemma gnss_ok_recorded:
  assumes "all_data gnss_ok e" and "event_ok ev"
  shows "gnss_ok (recorded hs t ev e)"
proof (cases "ec_ProcessName ev = GNSS")
  case True
  let ?p = "process_data (ec_CfgName ev) (ec_ProcessName ev) e"
  have "\<forall>dd \<in> set (d_Details ?p). dd_State dd \<in> {PTP_FREERUN, PTP_LOCKED}"
    using all_data_process_data [of "\<lambda>d. d_ProcessName d = GNSS \<longrightarrow> (\<forall>dd \<in> set (d_Details d). dd_State dd \<in> {PTP_FREERUN, PTP_LOCKED})" e GNSS]
      assms(1) True by (auto simp: all_data_def gnss_ok_def blank_data_def)
  then have det: "\<forall>dd \<in> set (d_Details (recorded hs t ev e)). dd_State dd \<in> {PTP_FREERUN, PTP_LOCKED}"
    using set_details_AddEvent [of hs t ev ?p] assms(2) True
    by (auto simp: recorded_details event_ok_def)
  have "overall_state (dd_State ` set (d_Details (recorded hs t ev e))) \<in> {PTP_FREERUN, PTP_LOCKED}"
    using det recorded_details_nonempty [of hs t ev e] by (intro overall_state_gnss) auto
  then have "d_State (recorded hs t ev e) \<in> {PTP_FREERUN, PTP_LOCKED}"
    by (simp add: recorded_def Data_UpdateState_overall)
  with det show ?thesis unfolding gnss_ok_def by blast
qed (simp add: gnss_ok_def)

lemma metrics_ok_recorded:
  assumes "all_data (metrics_ok n) e"
  shows "metrics_ok n (recorded hs t ev e)"
proof -
  have "metrics_ok n (process_data (ec_CfgName ev) (ec_ProcessName ev) e)"
    using assms by (rule all_data_process_data) (simp add: metrics_ok_def blank_data_def)
  then show ?thesis
    using set_details_AddEvent [of hs t ev "process_data (ec_CfgName ev) (ec_ProcessName ev) e"]
    by (fastforce simp: metrics_ok_def recorded_details new_details_def)
qed

lemma proc_state_gnss: "all_data gnss_ok e \<Longrightarrow> proc_state GNSS PTP_FREERUN c e \<in> {PTP_FREERUN, PTP_LOCKED}"
  by (auto simp: proc_state_def all_data_def gnss_ok_def split: option.splits dest: find_SomeD)

lemma all_data_frame: "(\<And>c. cfg_data e' c = cfg_data e c) \<Longrightarrow> all_data P e' = all_data P e"
  by (simp add: all_data_def)

section \<open>The metrics keep the invariant\<close>

lemma put_metric_cfg_data:
  "cfg_data (put_metric cfg p i vt m e) c =
     (if c = cfg then update_first (\<lambda>d. d_ProcessName d = p)
        (\<lambda>d. d\<lparr>d_Details := update_first (\<lambda>dd. dd_IFace dd = i)
                 (\<lambda>dd. dd\<lparr>dd_Metrics := AList.update vt m (dd_Metrics dd)\<rparr>) (d_Details d)\<rparr>) (cfg_data e cfg)
      else cfg_data e c)"
  by (simp add: put_metric_def upd_process_def)

lemma set_update_first_image: "set (update_first P f xs) \<subseteq> set xs \<union> f ` set xs"
  by (induction xs) auto

lemma all_data_put_metric:
  assumes "all_data P e"
    and "\<And>d. P d \<Longrightarrow> P (d\<lparr>d_Details := update_first (\<lambda>dd. dd_IFace dd = i)
                 (\<lambda>dd. dd\<lparr>dd_Metrics := AList.update vt m (dd_Metrics dd)\<rparr>) (d_Details d)\<rparr>)"
  shows "all_data P (put_metric cfg p i vt m e)"
  unfolding all_data_def
proof (intro allI ballI)
  fix c d assume d: "d \<in> set (cfg_data (put_metric cfg p i vt m e) c)"
  show "P d"
  proof (cases "c = cfg")
    case True
    with d have "d \<in> set (cfg_data e cfg) \<union> (\<lambda>d. d\<lparr>d_Details := update_first (\<lambda>dd. dd_IFace dd = i)
                 (\<lambda>dd. dd\<lparr>dd_Metrics := AList.update vt m (dd_Metrics dd)\<rparr>) (d_Details d)\<rparr>) ` set (cfg_data e cfg)"
      using set_update_first_image unfolding put_metric_cfg_data by force
    with assms show ?thesis by (auto simp: all_data_def)
  next
    case False
    with d assms(1) show ?thesis by (simp add: put_metric_cfg_data all_data_def)
  qed
qed

lemma put_metric_frame [simp]:
  "eh_gmSyncState (put_metric cfg p i vt m e) = eh_gmSyncState e"
  "eh_nodeName (put_metric cfg p i vt m e) = eh_nodeName e"
  "eh_stdoutToSocket (put_metric cfg p i vt m e) = eh_stdoutToSocket e"
  "eh_clockClass (put_metric cfg p i vt m e) = eh_clockClass e"
  "eh_clockAccuracy (put_metric cfg p i vt m e) = eh_clockAccuracy e"
  "eh_nextGauge (put_metric cfg p i vt m e) = eh_nextGauge e"
  by (simp_all add: put_metric_def)

lemma map_update_first_same: "(\<And>x. x \<in> set xs \<Longrightarrow> key (f x) = key x) \<Longrightarrow> map key (update_first P f xs) = map key xs"
  by (induction xs) auto

lemma data_wf_put_metric:
  assumes "data_wf d"
  shows "data_wf (d\<lparr>d_Details := update_first (\<lambda>dd. dd_IFace dd = i) (\<lambda>dd. dd\<lparr>dd_Metrics := f dd\<rparr>) (d_Details d)\<rparr>)"
proof -
  have "map dd_IFace (update_first (\<lambda>dd. dd_IFace dd = i) (\<lambda>dd. dd\<lparr>dd_Metrics := f dd\<rparr>) (d_Details d)) = map dd_IFace (d_Details d)"
    by (rule map_update_first_same) simp
  then show ?thesis
    using assms set_update_first_image [of "\<lambda>dd. dd_IFace dd = i" "\<lambda>dd. dd\<lparr>dd_Metrics := f dd\<rparr>" "d_Details d"]
    unfolding data_wf_def unique_on_def by fastforce
qed

lemma put_metric_wf [wf_intros]:
  assumes "handler_wf e"
  shows "handler_wf (put_metric cfg p i vt m e)"
proof -
  let ?f = "\<lambda>d. d\<lparr>d_Details := update_first (\<lambda>dd. dd_IFace dd = i)
                 (\<lambda>dd. dd\<lparr>dd_Metrics := AList.update vt m (dd_Metrics dd)\<rparr>) (d_Details d)\<rparr>"
  have "map d_ProcessName (update_first (\<lambda>d. d_ProcessName d = p) ?f (cfg_data e cfg)) = map d_ProcessName (cfg_data e cfg)"
    by (rule map_update_first_same) simp
  then have "processes_wf (update_first (\<lambda>d. d_ProcessName d = p) ?f (cfg_data e cfg))"
    using cfg_data_wf [OF assms, of cfg] data_wf_put_metric
      set_update_first_image [of "\<lambda>d. d_ProcessName d = p" ?f "cfg_data e cfg"]
    unfolding processes_wf_def unique_on_def by fastforce
  then show ?thesis
    unfolding put_metric_def upd_process_def using assms by (intro set_cfg_data_wf)
qed

lemma gnss_ok_put_metric:
  assumes "gnss_ok d"
  shows "gnss_ok (d\<lparr>d_Details := update_first (\<lambda>dd. dd_IFace dd = i) (\<lambda>dd. dd\<lparr>dd_Metrics := f dd\<rparr>) (d_Details d)\<rparr>)"
  using assms set_update_first_image [of "\<lambda>dd. dd_IFace dd = i" "\<lambda>dd. dd\<lparr>dd_Metrics := f dd\<rparr>" "d_Details d"]
  unfolding gnss_ok_def by fastforce

lemma metrics_ok_mono: "metrics_ok n d \<Longrightarrow> n \<le> m \<Longrightarrow> metrics_ok m d"
  unfolding metrics_ok_def by fastforce

lemma metrics_ok_put_metric:
  assumes "metrics_ok n d" and "g < n" and "dm_GaugeMetric m = Some g"
  shows "metrics_ok n (d\<lparr>d_Details := update_first (\<lambda>dd. dd_IFace dd = i)
                 (\<lambda>dd. dd\<lparr>dd_Metrics := AList.update vt m (dd_Metrics dd)\<rparr>) (d_Details d)\<rparr>)"
  unfolding metrics_ok_def
proof (intro ballI, clarify)
  fix dd vt' m'
  assume dd: "dd \<in> set (d_Details (d\<lparr>d_Details := update_first (\<lambda>dd. dd_IFace dd = i)
                 (\<lambda>dd. dd\<lparr>dd_Metrics := AList.update vt m (dd_Metrics dd)\<rparr>) (d_Details d)\<rparr>))"
    and m': "(vt', m') \<in> set (dd_Metrics dd)"
  obtain dd0 where "dd0 \<in> set (d_Details d)"
    and "dd = dd0 \<or> dd = dd0\<lparr>dd_Metrics := AList.update vt m (dd_Metrics dd0)\<rparr>"
    using dd set_update_first_image [of "\<lambda>dd. dd_IFace dd = i"] by force
  then have "(vt', m') \<in> insert (vt, m) (set (dd_Metrics dd0))" and "dd0 \<in> set (d_Details d)"
    using m' set_alist_update_sub [of vt m "dd_Metrics dd0"] by auto
  with assms show "\<exists>g < n. dm_GaugeMetric m' = Some g" by (auto simp: metrics_ok_def)
qed

lemma hasMetric_ok:
  assumes "handler_wf e" and "all_data (metrics_ok n) e" and "hasMetric name e = Some g"
  shows "\<exists>k < n. g = Some k"
proof -
  obtain c ds d dd vt m where "(c, ds) \<in> set (eh_data e)" "d \<in> set ds" "dd \<in> set (d_Details d)"
      "(vt, m) \<in> set (dd_Metrics dd)" and g: "g = dm_GaugeMetric m"
    using assms(3) unfolding hasMetric_def by (auto dest!: find_SomeD)
  moreover from this assms(1) have "cfg_data e c = ds" by (auto simp: cfg_data_def handler_wf_def)
  ultimately show ?thesis using assms(2) unfolding all_data_def metrics_ok_def by fastforce
qed

lemma handler_inv_put_metric:
  assumes "handler_inv e" and "g < eh_nextGauge e" and "dm_GaugeMetric m = Some g"
  shows "handler_inv (put_metric cfg p i vt m e)"
  using assms unfolding handler_inv_def
  by (auto intro!: put_metric_wf all_data_put_metric gnss_ok_put_metric metrics_ok_put_metric)

lemma handler_inv_next_gauge: "handler_inv e \<Longrightarrow> handler_inv (e\<lparr>eh_nextGauge := Suc (eh_nextGauge e)\<rparr>)"
proof -
  assume inv: "handler_inv e"
  have "cfg_data (e\<lparr>eh_nextGauge := Suc (eh_nextGauge e)\<rparr>) = cfg_data e" by (simp add: cfg_data_def fun_eq_iff)
  with inv show ?thesis
    by (auto simp: handler_inv_def handler_wf_def all_data_def intro!: metrics_ok_mono [OF _ le_SucI [OF order_refl]])
qed

lemma metric_step_inv:
  assumes "handler_inv e"
  shows "handler_inv (fst (metric_step cfg p i kv (e, effs)))"
proof -
  have off: "offsetMetric < eh_nextGauge e" using assms by (simp add: handler_inv_def offsetMetric_def)
  have has: "\<exists>k < eh_nextGauge e. g = Some k" if "hasMetric name e = Some g" for name g
    using that assms by (auto simp: handler_inv_def dest: hasMetric_ok)
  obtain dt v where kv: "kv = (dt, v)" by (cases kv)
  show ?thesis
  proof (cases "metric_value v = None \<or> map_of (metrics_of cfg p i e) dt \<noteq> None \<or> dt = OFFSET")
    case True
    then show ?thesis using assms off
      by (auto simp: metric_step_def kv Let_def intro!: handler_inv_put_metric split: option.splits)
  next
    case False
    show ?thesis
    proof (cases "hasMetric (getMetricName dt) e")
      case None
      with False show ?thesis
        using handler_inv_put_metric [OF handler_inv_next_gauge [OF assms], of "eh_nextGauge e"]
        by (auto simp: metric_step_def kv Let_def split: option.splits)
    next
      case (Some g)
      from has [OF this] obtain k where "k < eh_nextGauge e" "g = Some k" by blast
      with Some False show ?thesis
        using handler_inv_put_metric [OF assms, of k]
        by (auto simp: metric_step_def kv Let_def split: option.splits)
    qed
  qed
qed

lemma metric_step_frame [simp]:
  "eh_gmSyncState (fst (metric_step cfg p i kv acc)) = eh_gmSyncState (fst acc)"
  "eh_nodeName (fst (metric_step cfg p i kv acc)) = eh_nodeName (fst acc)"
  "eh_stdoutToSocket (fst (metric_step cfg p i kv acc)) = eh_stdoutToSocket (fst acc)"
  "eh_clockClass (fst (metric_step cfg p i kv acc)) = eh_clockClass (fst acc)"
  "eh_clockAccuracy (fst (metric_step cfg p i kv acc)) = eh_clockAccuracy (fst acc)"
  by (auto simp: metric_step_def Let_def split: prod.splits option.splits)

lemma metric_fold_frame:
  "eh_gmSyncState (fst (fold (metric_step cfg p i) vs acc)) = eh_gmSyncState (fst acc)"
  "eh_nodeName (fst (fold (metric_step cfg p i) vs acc)) = eh_nodeName (fst acc)"
  "eh_stdoutToSocket (fst (fold (metric_step cfg p i) vs acc)) = eh_stdoutToSocket (fst acc)"
  "eh_clockClass (fst (fold (metric_step cfg p i) vs acc)) = eh_clockClass (fst acc)"
  "eh_clockAccuracy (fst (fold (metric_step cfg p i) vs acc)) = eh_clockAccuracy (fst acc)"
  by (induction vs arbitrary: acc) simp_all

lemma updateMetrics_frame [simp]:
  "eh_gmSyncState (fst (updateMetrics cfg p vs i e)) = eh_gmSyncState e"
  "eh_nodeName (fst (updateMetrics cfg p vs i e)) = eh_nodeName e"
  "eh_stdoutToSocket (fst (updateMetrics cfg p vs i e)) = eh_stdoutToSocket e"
  "eh_clockClass (fst (updateMetrics cfg p vs i e)) = eh_clockClass e"
  "eh_clockAccuracy (fst (updateMetrics cfg p vs i e)) = eh_clockAccuracy e"
  by (simp_all add: updateMetrics_def metric_fold_frame)

lemma updateMetrics_inv:
  assumes "handler_inv e"
  shows "handler_inv (fst (updateMetrics cfg p vs i e))"
proof -
  have step: "handler_inv (fst acc) \<Longrightarrow> handler_inv (fst (metric_step cfg p i kv acc))" for acc kv
    using metric_step_inv [of "fst acc" cfg p i kv "snd acc"] by simp
  have "handler_inv (fst acc) \<Longrightarrow> handler_inv (fst (fold (metric_step cfg p i) vs acc))" for acc
    by (induction vs arbitrary: acc) (simp_all add: step)
  with assms show ?thesis by (simp add: updateMetrics_def)
qed

section \<open>Each kind of event keeps the invariant\<close>

lemma handler_inv_addEvent:
  assumes "handler_inv e" and "event_ok ev"
  shows "handler_inv (snd (snd (addEvent hs t ev e)))"
proof -
  have "eh_nextGauge (snd (snd (addEvent hs t ev e))) = eh_nextGauge e"
    and "eh_gmSyncState (snd (snd (addEvent hs t ev e))) = eh_gmSyncState e"
    by (simp_all add: addEvent_eq)
  with assms show ?thesis unfolding handler_inv_def
    by (auto intro!: addEvent_wf all_data_addEvent gnss_ok_recorded metrics_ok_recorded)
qed

lemma handler_inv_updateGMState: "handler_inv e \<Longrightarrow> handler_inv (snd (updateGMState t cfg e))"
  using updateGMState_gm_ok [of e cfg t] proc_state_gnss [of e cfg]
  by (simp add: handler_inv_def updateGMState_wf all_data_def)

lemma gm_ok_sourceLost [simp]: "gm_ok (g\<lparr>gm_sourceLost := b\<rparr>) = gm_ok g"
  by (simp add: gm_ok_def)

lemma handler_inv_put_gm: "handler_inv e \<Longrightarrow> gm_ok g \<Longrightarrow> handler_inv (put_gm cfg g e)"
  using set_alist_update_sub [of cfg g "eh_gmSyncState e"]
  by (auto simp: handler_inv_def put_gm_wf all_data_def) (fastforce simp: put_gm_def)

lemma GetData_present:
  "find (\<lambda>d. d_ProcessName d = p) (cfg_data e cfg) = Some d \<Longrightarrow> GetData cfg p e = (d, e)"
  by (auto simp: GetData_def Let_def)

text \<open>The handler after the first half of \<open>handle_data\<close>.\<close>

definition after_gm :: "bool \<Rightarrow> int \<Rightarrow> int \<Rightarrow> EventChannel \<Rightarrow> EventHandler \<Rightarrow> EventHandler" where
  "after_gm hs t1 t2 ev e =
     (let e2 = snd (updateGMState t2 (ec_CfgName ev) (snd (snd (addEvent hs t1 ev e)))) in
      case map_of (eh_gmSyncState e2) (ec_CfgName ev) of
        Some g \<Rightarrow> put_gm (ec_CfgName ev) (g\<lparr>gm_sourceLost := ec_OutOfSpec ev\<rparr>) e2
      | None \<Rightarrow> e2)"

definition gm_result :: "bool \<Rightarrow> int \<Rightarrow> int \<Rightarrow> EventChannel \<Rightarrow> EventHandler \<Rightarrow> grandMasterSyncState" where
  "gm_result hs t1 t2 ev e = fst (updateGMState t2 (ec_CfgName ev) (snd (snd (addEvent hs t1 ev e))))"

lemma after_gm_inv:
  assumes "handler_inv e" and "event_ok ev"
  shows "handler_inv (after_gm hs t1 t2 ev e)"
proof -
  let ?e2 = "snd (updateGMState t2 (ec_CfgName ev) (snd (snd (addEvent hs t1 ev e))))"
  have inv: "handler_inv ?e2" using assms by (intro handler_inv_updateGMState handler_inv_addEvent)
  then have "gm_ok g" if "map_of (eh_gmSyncState ?e2) c = Some g" for c g
    using that by (force simp: handler_inv_def dest: map_of_SomeD)
  with inv show ?thesis by (auto simp: after_gm_def Let_def intro!: handler_inv_put_gm split: option.splits)
qed

lemma after_gm_frame:
  "cfg_data (after_gm hs t1 t2 ev e) c = cfg_data (snd (snd (addEvent hs t1 ev e))) c"
  "eh_clockClass (after_gm hs t1 t2 ev e) = eh_clockClass e"
  "eh_clockAccuracy (after_gm hs t1 t2 ev e) = eh_clockAccuracy e"
  "eh_nodeName (after_gm hs t1 t2 ev e) = eh_nodeName e"
  "eh_stdoutToSocket (after_gm hs t1 t2 ev e) = eh_stdoutToSocket e"
  by (auto simp: after_gm_def Let_def addEvent_eq split: option.splits)

lemma after_gm_GetData:
  "GetData (ec_CfgName ev) (ec_ProcessName ev) (after_gm hs t1 t2 ev e) = (recorded hs t1 ev e, after_gm hs t1 t2 ev e)"
  by (rule GetData_present) (simp add: after_gm_frame find_process_addEvent)

text \<open>\<open>handle_data\<close> in terms of the handler and GM state after its first half.\<close>

definition exported_event :: "grandMasterSyncState \<Rightarrow> EventChannel \<Rightarrow> EventChannel" where
  "exported_event gm ev = (if gm_state gm \<noteq> PTP_LOCKED then ev\<lparr>ec_Values := zero_nmea (ec_Values ev)\<rparr> else ev)"

lemma exported_event_frame [simp]:
  "ec_CfgName (exported_event gm ev) = ec_CfgName ev"
  "ec_ProcessName (exported_event gm ev) = ec_ProcessName ev"
  "ec_ClockType (exported_event gm ev) = ec_ClockType ev"
  by (simp_all add: exported_event_def)

lemma handle_data_eq:
  fixes hs t1 t2 ev e
  defines "gm \<equiv> gm_result hs t1 t2 ev e"
  defines "ev' \<equiv> exported_event gm ev"
  defines "r \<equiv> export_metrics ev' gm (after_gm hs t1 t2 ev e)"
  shows "\<exists>out. handle_data hs t1 t2 ev e =
     (fst r,
      map (\<lambda>(s, st). NotifyState s st) (snd (AddEvent hs t1 ev (process_data (ec_CfgName ev) (ec_ProcessName ev) e)))
        @ debug_calls ev' (d_State (recorded hs t1 ev e)) (gm_state gm) @ snd r @ class_request ev' gm (fst r),
      out, gm_state gm)"
proof -
  obtain dd nts e1 where a: "addEvent hs t1 ev e = (dd, nts, e1)" by (cases "addEvent hs t1 ev e")
  obtain gm' e2 where g: "updateGMState t2 (ec_CfgName ev) e1 = (gm', e2)" by fastforce
  have after: "(case map_of (eh_gmSyncState e2) (ec_CfgName ev) of
                  Some g \<Rightarrow> put_gm (ec_CfgName ev) (g\<lparr>gm_sourceLost := ec_OutOfSpec ev\<rparr>) e2
                | None \<Rightarrow> e2) = after_gm hs t1 t2 ev e"
    and gm': "gm' = gm"
    and nts: "nts = snd (AddEvent hs t1 ev (process_data (ec_CfgName ev) (ec_ProcessName ev) e))"
    using a by (simp_all add: after_gm_def gm_def gm_result_def g Let_def) (simp add: addEvent_eq)
  show ?thesis
    unfolding handle_data_def Let_def a prod.case g after after_gm_GetData gm' nts
      exported_event_def [symmetric] ev'_def [symmetric] r_def [symmetric]
    by (simp add: case_prod_beta)
qed

lemma export_metrics_frame [simp]:
  "eh_clockClass (fst (export_metrics ev gm e)) = eh_clockClass e"
  "eh_clockAccuracy (fst (export_metrics ev gm e)) = eh_clockAccuracy e"
  "eh_gmSyncState (fst (export_metrics ev gm e)) = eh_gmSyncState e"
  "eh_stdoutToSocket (fst (export_metrics ev gm e)) = eh_stdoutToSocket e"
  by (simp_all add: export_metrics_def Let_def case_prod_beta)

lemma export_metrics_inv: "handler_inv e \<Longrightarrow> handler_inv (fst (export_metrics ev gm e))"
  by (simp add: export_metrics_def Let_def case_prod_beta updateMetrics_inv)

lemma handle_data_inv:
  assumes "handler_inv e" and "event_ok ev"
  shows "handler_inv (fst (handle_data hs t1 t2 ev e))"
  using handle_data_eq [of hs t1 t2 ev e] assms by (auto intro!: export_metrics_inv after_gm_inv)

text \<open>The clock-class requests of an event.\<close>

lemma debug_calls_no_request: "RequestClass r \<notin> set (debug_calls ev d g)"
  by (auto simp: debug_calls_def split: EventSource.splits)

lemma metric_step_no_request:
  "RequestClass r \<notin> set (snd acc) \<Longrightarrow> RequestClass r \<notin> set (snd (metric_step cfg p i kv acc))"
  by (auto simp: metric_step_def Let_def split: prod.splits option.splits if_splits)

lemma updateMetrics_no_request: "RequestClass r \<notin> set (snd (updateMetrics cfg p vs i e))"
proof -
  have "RequestClass r \<notin> set (snd acc) \<Longrightarrow> RequestClass r \<notin> set (snd (fold (metric_step cfg p i) vs acc))" for acc
    by (induction vs arbitrary: acc) (simp_all add: metric_step_no_request)
  then show ?thesis by (simp add: updateMetrics_def)
qed

lemma export_metrics_no_request: "RequestClass r \<notin> set (snd (export_metrics ev gm e))"
  by (simp add: export_metrics_def Let_def case_prod_beta updateMetrics_no_request UpdateClockStateMetrics_def)

lemma handle_data_request:
  "RequestClass r \<in> set (fst (snd (handle_data hs t1 t2 ev e))) \<longleftrightarrow>
     RequestClass r \<in> set (class_request (exported_event (gm_result hs t1 t2 ev e) ev) (gm_result hs t1 t2 ev e)
                            (after_gm hs t1 t2 ev e))"
proof -
  have "class_request ev' gm (fst (export_metrics ev' gm a)) = class_request ev' gm a" for ev' gm a
    by (simp add: class_request_def)
  moreover have "RequestClass r \<notin> (\<lambda>(s, st). NotifyState s st) ` A" for A by auto
  ultimately show ?thesis
    using handle_data_eq [of hs t1 t2 ev e] debug_calls_no_request export_metrics_no_request by fastforce
qed

lemma gm_result_ok:
  assumes "handler_inv e" and "event_ok ev"
  shows "gm_clockClass (gm_result hs t1 t2 ev e) = ClockClassUninitialized
    \<or> (gm_state (gm_result hs t1 t2 ev e), gm_clockClass (gm_result hs t1 t2 ev e))
        \<in> {(PTP_LOCKED, ClockClass6), (PTP_HOLDOVER, ClockClass7), (PTP_FREERUN, ClockClassOutOfSpec), (PTP_FREERUN, ClockClassFreerun)}"
proof -
  let ?e1 = "snd (snd (addEvent hs t1 ev e))"
  have inv: "handler_inv (snd (updateGMState t2 (ec_CfgName ev) ?e1))"
    using assms by (intro handler_inv_updateGMState handler_inv_addEvent)
  show ?thesis
  proof (cases "getGNSSInterface (ec_CfgName ev) ?e1 = GM_INTERFACE_UNKNOWN")
    case True
    then show ?thesis by (simp add: gm_result_def updateGMState_unknown zero_gm_def clock_class_defs)
  next
    case False
    obtain g where g: "snd (updateGMState t2 (ec_CfgName ev) ?e1) = put_gm (ec_CfgName ev) g ?e1"
      and "gm_state (gm_result hs t1 t2 ev e) = gm_state g" "gm_clockClass (gm_result hs t1 t2 ev e) = gm_clockClass g"
      using updateGMState_known [OF False, of t2] unfolding gm_result_def by metis
    moreover have "map_of (eh_gmSyncState (put_gm (ec_CfgName ev) g ?e1)) (ec_CfgName ev) = Some g" by simp
    then have "gm_ok g" using inv unfolding g handler_inv_def by (metis map_of_SomeD imageI snd_conv)
    ultimately show ?thesis by (auto simp: gm_ok_def)
  qed
qed

lemma cfg_data_delete:
  "cfg_data (e\<lparr>eh_data := AList.delete c (eh_data e)\<rparr>) c' = (if c' = c then [] else cfg_data e c')"
  by (simp add: cfg_data_def delete_conv')

lemma handle_reset_wf: "handler_wf e \<Longrightarrow> handler_wf (fst (handle_reset ev e))"
proof -
  assume wf: "handler_wf e"
  have "processes_wf (fst (reset_process p (cfg_data e c)))" for p c
    using cfg_data_wf [OF wf, of c] unfolding processes_wf_def
    by (auto simp: fst_reset_process unique_on_def distinct_map_filter)
  then have "handler_wf (set_cfg_data c (fst (reset_process p (cfg_data e c))) e)" for p c
    using wf by (intro set_cfg_data_wf)
  moreover have "set (AList.delete k al) \<subseteq> set al" for k and al :: "('x \<times> 'y) list"
    by (rule set_alist_delete)
  ultimately show ?thesis using wf
    by (fastforce simp: handle_reset_def Let_def case_prod_beta handler_wf_def distinct_delete)
qed

lemma handle_reset_cfg_data:
  assumes "handler_wf e"
  shows "set (cfg_data (fst (handle_reset ev e)) c) \<subseteq> set (cfg_data e c)"
proof -
  have u: "unique_on d_ProcessName (cfg_data e (ec_CfgName ev))"
    using cfg_data_wf [OF assms] by (simp add: processes_wf_def)
  have frame: "cfg_data (x\<lparr>eh_gmSyncState := a, eh_outOfSpec := b1, eh_frequencyTraceable := b2\<rparr>) c = cfg_data x c"
    "cfg_data (x\<lparr>eh_data := d, eh_clockClass := cc, eh_clockAccuracy := ca\<rparr>) c = cfg_data (x\<lparr>eh_data := d\<rparr>) c"
    for x a b1 b2 cc ca d by (simp_all add: cfg_data_def)
  show ?thesis
    by (auto simp: handle_reset_def Let_def case_prod_beta frame cfg_data_delete fst_reset_process [OF u] split: if_splits)
qed

lemma handle_reset_frame:
  "eh_nextGauge (fst (handle_reset ev e)) = eh_nextGauge e"
  "eh_stdoutToSocket (fst (handle_reset ev e)) = eh_stdoutToSocket e"
  "set (eh_gmSyncState (fst (handle_reset ev e))) \<subseteq> set (eh_gmSyncState e)"
  using set_alist_delete [of "ec_CfgName ev" "eh_gmSyncState e"]
  by (auto simp: handle_reset_def Let_def case_prod_beta)

lemma handle_reset_inv: "handler_inv e \<Longrightarrow> handler_inv (fst (handle_reset ev e))"
  using handle_reset_wf [of e ev] handle_reset_cfg_data [of e ev] handle_reset_frame(3) [of ev e]
  unfolding handler_inv_def all_data_def handle_reset_frame(1) by blast

lemma handle_inv:
  assumes "handler_inv e" and "event_ok ev"
  shows "handler_inv (fst (handle hs t1 t2 ev e))"
  using assms handle_reset_inv [of e ev] handle_data_inv [of e ev hs t1 t2]
  by (auto simp: handle_def case_prod_beta)

definition request_ok :: "ClockClassRequest \<Rightarrow> bool" where
  "request_ok r \<longleftrightarrow>
     (cr_gmState r, cr_clockClass r) \<in>
       {(PTP_LOCKED, ClockClass6), (PTP_HOLDOVER, ClockClass7), (PTP_FREERUN, ClockClassOutOfSpec),
        (PTP_FREERUN, ClockClassFreerun)}"

lemma unregister_no_request: "RequestClass r \<notin> set (unregister_in p ds)"
  by (auto simp: unregister_in_def delete_metrics_def split: option.splits)

lemma reset_process_no_request: "RequestClass r \<notin> set (snd (reset_process p ds))"
proof -
  have "RequestClass r \<notin> set (snd (snd st)) \<Longrightarrow> RequestClass r \<notin> set (snd (snd (fold (reset_step p) is st)))" for "is" st
    by (induction "is" arbitrary: st) (auto simp: reset_step_def Let_def unregister_no_request split: prod.splits if_splits)
  then show ?thesis by (simp add: reset_process_def case_prod_beta)
qed

lemma handle_request_ok:
  assumes "handler_inv e" and "event_ok ev" and "RequestClass r \<in> set (fst (snd (handle hs t1 t2 ev e)))"
  shows "request_ok r"
proof -
  have "RequestClass r \<notin> set (snd (handle_reset ev e))"
    by (simp add: handle_reset_def Let_def case_prod_beta unregisterMetrics_def unregister_no_request reset_process_no_request)
  with assms(3) have "RequestClass r \<in> set (fst (snd (handle_data hs t1 t2 ev e)))"
    by (auto simp: handle_def handle_synce_def UpdateClockStateMetrics_def case_prod_beta split: if_splits)
  then show ?thesis
    using gm_result_ok [OF assms(1,2), of hs t1 t2] unfolding handle_data_request
    by (auto simp: class_request_def Let_def request_ok_def split: if_splits)
qed

section \<open>The main loop\<close>

text \<open>
  The goroutines of \<open>ProcessEvents\<close>: the loop itself (connecting to the event socket, or running), the
  worker that serves the clock-class channel (started once), the monitors' ticker (one goroutine per
  connection), and the short-lived goroutines that each try to put one request into the channel of
  capacity one. \<open>l_pending\<close> are the requests whose goroutine has not run yet.
\<close>

datatype phase = Connecting | Running | Stopped

record 'obj loop_state =
  l_handler :: EventHandler
  l_phase :: phase
  l_retryCount :: nat
  l_worker :: bool
  l_monitors :: nat
  l_pending :: "ClockClassRequest list"
  l_chan :: "ClockClassRequest option"
  l_debug :: debug_state
  l_notifier :: "'obj StateNotifier"
  l_stdout :: "string list"
  l_socket :: "string list"

definition debug_effects :: "effect list \<Rightarrow> debug_call list" where
  "debug_effects effs = concat (map (\<lambda>x. case x of Debug c \<Rightarrow> [c] | _ \<Rightarrow> []) effs)"

definition class_requests :: "effect list \<Rightarrow> ClockClassRequest list" where
  "class_requests effs = concat (map (\<lambda>x. case x of RequestClass r \<Rightarrow> [r] | _ \<Rightarrow> []) effs)"

text \<open>
  The lines of an event go to standard output and to the socket one after the other; \<open>k\<close> is how many the
  socket accepts. The first refused line has been printed, ends the writing and sends the loop back to
  connecting.
\<close>

definition write_lines :: "nat \<Rightarrow> string list \<Rightarrow> 'obj loop_state \<Rightarrow> 'obj loop_state" where
  "write_lines k out s =
     (if \<not> eh_stdoutToSocket (l_handler s) then s\<lparr>l_stdout := l_stdout s @ out\<rparr>
      else if length out \<le> k then s\<lparr>l_stdout := l_stdout s @ out, l_socket := l_socket s @ out\<rparr>
      else s\<lparr>l_stdout := l_stdout s @ take (Suc k) out, l_socket := l_socket s @ take k out, l_phase := Connecting\<rparr>)"

definition start_loop :: "string \<Rightarrow> bool \<Rightarrow> 'obj loop_state" where
  "start_loop node toSocket =
     \<lparr>l_handler = fst (Init node toSocket), l_phase = Connecting, l_retryCount = 0, l_worker = False,
      l_monitors = 0, l_pending = [], l_chan = None, l_debug = ClearState, l_notifier = NewStateNotifier,
      l_stdout = [], l_socket = []\<rparr>"

text \<open>The parameters are the \<open>pmc\<close> getter and setter and the UTC offset.\<close>

inductive loop_step :: "(string \<Rightarrow> GrandmasterSettings res) \<Rightarrow> (string \<Rightarrow> GrandmasterSettings \<Rightarrow> go_error option)
    \<Rightarrow> u32 \<Rightarrow> 'obj loop_state \<Rightarrow> 'obj loop_state \<Rightarrow> bool"
  for getter setter utc where
  close: "l_phase s \<noteq> Stopped \<Longrightarrow> loop_step getter setter utc s (s\<lparr>l_phase := Stopped\<rparr>)"
| dial_fail:
    "l_phase s = Connecting \<Longrightarrow> eh_stdoutToSocket (l_handler s) \<Longrightarrow>
     loop_step getter setter utc s (s\<lparr>l_retryCount := (l_retryCount s + 1) mod 6\<rparr>)"
| dial_ok:
    "l_phase s = Connecting \<Longrightarrow>
     loop_step getter setter utc s
       (s\<lparr>l_retryCount := (if eh_stdoutToSocket (l_handler s) then 0 else l_retryCount s), l_phase := Running,
          l_worker := True, l_monitors := Suc (l_monitors s)\<rparr>)"
| event:
    "l_phase s = Running \<Longrightarrow> event_ok ev \<Longrightarrow>
     handle (l_notifier s \<noteq> []) t1 t2 ev (l_handler s) = (e', effs, out) \<Longrightarrow>
     debug_run (debug_effects effs) (l_debug s) = Inr ds \<Longrightarrow>
     loop_step getter setter utc s
       (write_lines k out (s\<lparr>l_handler := e', l_pending := l_pending s @ class_requests effs, l_debug := ds\<rparr>))"
| enqueue:
    "l_pending s = xs @ r # ys \<Longrightarrow> l_chan s = None \<Longrightarrow>
     loop_step getter setter utc s (s\<lparr>l_pending := xs @ ys, l_chan := Some r\<rparr>)"
| busy:
    "l_pending s = xs @ r # ys \<Longrightarrow> l_chan s = Some r' \<Longrightarrow>
     loop_step getter setter utc s (s\<lparr>l_pending := xs @ ys\<rparr>)"
| class_update:
    "l_worker s \<Longrightarrow> l_chan s = Some clk \<Longrightarrow>
     UpdateClockClass t utc getter setter clk (l_handler s) = (e', effs, out) \<Longrightarrow>
     loop_step getter setter utc s (s\<lparr>l_handler := e', l_chan := None, l_stdout := l_stdout s @ out\<rparr>)"
| monitor_tick:
    "0 < l_monitors s \<Longrightarrow> loop_step getter setter utc s (s\<lparr>l_notifier := snd (monitor (l_notifier s))\<rparr>)"
| register: "loop_step getter setter utc s (s\<lparr>l_notifier := Register sub (l_notifier s)\<rparr>)"
| unregister: "loop_step getter setter utc s (s\<lparr>l_notifier := Unregister sub (l_notifier s)\<rparr>)"

inductive loop_reach :: "(string \<Rightarrow> GrandmasterSettings res) \<Rightarrow> (string \<Rightarrow> GrandmasterSettings \<Rightarrow> go_error option)
    \<Rightarrow> u32 \<Rightarrow> 'obj loop_state \<Rightarrow> bool"
  for getter setter utc where
  start: "loop_reach getter setter utc (start_loop node toSocket)"
| step: "loop_reach getter setter utc s \<Longrightarrow> loop_step getter setter utc s s' \<Longrightarrow> loop_reach getter setter utc s'"

definition loop_inv :: "'obj loop_state \<Rightarrow> bool" where
  "loop_inv s \<longleftrightarrow>
     handler_inv (l_handler s) \<and> l_retryCount s < 6 \<and> debug_ok (l_debug s) \<and> notifier_wf (l_notifier s)
     \<and> (\<forall>r \<in> set (l_pending s) \<union> set_option (l_chan s). request_ok r)
     \<and> (l_phase s = Running \<longrightarrow> l_worker s \<and> 0 < l_monitors s)"

lemma handler_inv_class:
  "handler_inv (e\<lparr>eh_clockClass := c, eh_clockAccuracy := a\<rparr>) = handler_inv e"
  by (simp add: handler_inv_def handler_wf_def all_data_def cfg_data_def)

lemma UpdateClockClass_inv:
  "handler_inv e \<Longrightarrow> UpdateClockClass t utc getter setter clk e = (e', effs, out) \<Longrightarrow> handler_inv e'"
  by (auto simp: UpdateClockClass_def Let_def handler_inv_class split: prod.splits option.splits)

lemma Init_inv: "handler_inv (fst (Init node toSocket))"
  by (simp add: Init_def handler_inv_def handler_wf_def all_data_def cfg_data_def)

lemma loop_inv_start: "loop_inv (start_loop node toSocket)"
  by (simp add: loop_inv_def start_loop_def Init_inv sr.invar_empty) (simp add: ClearState_def debug_ok_def)

lemma write_lines_frame [simp]:
  "l_handler (write_lines k out s) = l_handler s"
  "l_retryCount (write_lines k out s) = l_retryCount s"
  "l_debug (write_lines k out s) = l_debug s"
  "l_notifier (write_lines k out s) = l_notifier s"
  "l_pending (write_lines k out s) = l_pending s"
  "l_chan (write_lines k out s) = l_chan s"
  "l_worker (write_lines k out s) = l_worker s"
  "l_monitors (write_lines k out s) = l_monitors s"
  "l_phase (write_lines k out s) = Running \<Longrightarrow> l_phase s = Running"
  by (auto simp: write_lines_def split: if_splits)

lemma set_class_requests: "r \<in> set (class_requests effs) \<longleftrightarrow> RequestClass r \<in> set effs"
  by (induction effs) (auto simp: class_requests_def split: effect.splits)

lemma loop_inv_step:
  assumes "loop_step getter setter utc s s'" and "loop_inv s"
  shows "loop_inv s'"
  using assms
proof (induction rule: loop_step.induct)
  case (event s ev t1 t2 e' effs out ds k)
  have "handler_inv e'" using handle_inv [of "l_handler s" ev] event by (metis fst_conv loop_inv_def)
  moreover have "request_ok r" if "r \<in> set (class_requests effs)" for r
    using that event handle_request_ok [of "l_handler s" ev r]
    by (metis fst_conv snd_conv loop_inv_def set_class_requests)
  moreover have "debug_ok ds"
    using event debug_run_ok [of "l_debug s" "debug_effects effs"] by (auto simp: loop_inv_def)
  ultimately show ?case using event by (auto simp: loop_inv_def)
next
  case (class_update s clk t e' effs out)
  then have "handler_inv e'" using UpdateClockClass_inv by (auto simp: loop_inv_def)
  with class_update show ?case by (auto simp: loop_inv_def)
next
  case (monitor_tick s)
  then show ?case using notifier_wf_monitor by (auto simp: loop_inv_def)
next
  case (register s sub)
  then show ?case using notifier_wf_Register by (auto simp: loop_inv_def)
next
  case (unregister s sub)
  then show ?case using notifier_wf_Unregister by (auto simp: loop_inv_def)
qed (auto simp: loop_inv_def)

lemma loop_reach_inv: "loop_reach getter setter utc s \<Longrightarrow> loop_inv s"
  by (induction rule: loop_reach.induct) (auto intro: loop_inv_start loop_inv_step)

section \<open>Properties\<close>


text \<open>An event of a GNSS receiver that has a fix.\<close>

definition gnss_event :: EventChannel where
  "gnss_event =
     \<lparr>ec_ProcessName = GNSS, ec_State = PTP_LOCKED, ec_IFace = ''ens1f0'', ec_CfgName = ''ts2phc.0.config'',
      ec_Values = [(GPS_STATUS, VInt64 3), (OFFSET, VInt64 5)], ec_ClockType = GM, ec_Time = 1, ec_OutOfSpec = False,
      ec_WriteToLog = False, ec_Reset = False, ec_SourceLost = False, ec_FrequencyTraceable = False\<rparr>"

definition demo_pmc :: "string \<Rightarrow> GrandmasterSettings res" where
  "demo_pmc cfg = Inr zero_settings"




text \<open>
  C5. Reset of a process other than ts2phc: although the loop shortens the slice it is ranging over, it
  removes exactly the data of that process and keeps the order of the rest; the metrics deleted are
  exactly those of that process; other configurations are untouched; the GM state of the configuration
  and both spec flags are cleared.
\<close>

theorem reset_removes_process:
  assumes "handler_wf e" and "ec_ProcessName ev \<notin> {TS2PHC, NoSource}" and "handle_reset ev e = (e', effs)"
  shows "cfg_data e' (ec_CfgName ev) = filter (\<lambda>d. d_ProcessName d \<noteq> ec_ProcessName ev) (cfg_data e (ec_CfgName ev))
    \<and> effs = Debug DClear #
        (case find (\<lambda>d. d_ProcessName d = ec_ProcessName ev) (cfg_data e (ec_CfgName ev)) of
           Some d \<Rightarrow> delete_metrics d | None \<Rightarrow> [])
    \<and> (\<forall>c. c = ec_CfgName ev \<or> cfg_data e' c = cfg_data e c)
    \<and> map_of (eh_gmSyncState e') (ec_CfgName ev) = None \<and> \<not> eh_outOfSpec e' \<and> \<not> eh_frequencyTraceable e'"
proof -
  have u: "unique_on d_ProcessName (cfg_data e (ec_CfgName ev))"
    using cfg_data_wf [OF assms(1)] by (simp add: processes_wf_def)
  have frame: "cfg_data (x\<lparr>eh_gmSyncState := a, eh_outOfSpec := b1, eh_frequencyTraceable := b2\<rparr>) c = cfg_data x c"
    for x a b1 b2 c by (simp add: cfg_data_def)
  have "ec_ProcessName ev \<noteq> NoSource" using assms(2) by simp
  note eq = reset_process_filter [OF u this]
  show ?thesis
    using assms(2,3) by (auto simp: handle_reset_def eq frame delete_conv' split: if_splits)
qed

theorem reset_removes_process_witness:
  "map d_ProcessName (cfg_data (fst (handle_reset (gnss_event\<lparr>ec_Reset := True\<rparr>)
      (demo_handler [one_process GNSS PTP_LOCKED False, one_process DPLL PTP_LOCKED False]))) ''ts2phc.0.config'') = [DPLL]"
proof -
  let ?e = "demo_handler [one_process GNSS PTP_LOCKED False, one_process DPLL PTP_LOCKED False]"
  have "handler_wf ?e" by (simp add: demo_simps)
  from reset_removes_process [OF this, of "gnss_event\<lparr>ec_Reset := True\<rparr>"]
  show ?thesis by (cases "handle_reset (gnss_event\<lparr>ec_Reset := True\<rparr>) ?e") (simp add: gnss_event_def demo_simps)
qed

text \<open>
  Reset of ts2phc: all data of the configuration go and the clock class is uninitialised again, but
  the stored GM state, the spec flags and every other configuration's data stay; the next call of
  \<open>updateGMState\<close> for the configuration reports no state.
\<close>

theorem reset_ts2phc_keeps_gm_state:
  assumes "ec_ProcessName ev = TS2PHC" and "handle_reset ev e = (e', effs)"
  shows "cfg_data e' (ec_CfgName ev) = [] \<and> (\<forall>c. c = ec_CfgName ev \<or> cfg_data e' c = cfg_data e c)
    \<and> eh_clockClass e' = ClockClassUninitialized \<and> eh_gmSyncState e' = eh_gmSyncState e
    \<and> eh_outOfSpec e' = eh_outOfSpec e \<and> getGMState (ec_CfgName ev) e' = getGMState (ec_CfgName ev) e
    \<and> gm_clockClass (fst (updateGMState t (ec_CfgName ev) e')) = ClockClassUninitialized"
proof -
  have e': "e' = e\<lparr>eh_data := AList.delete (ec_CfgName ev) (eh_data e), eh_clockClass := ClockClassUninitialized,
           eh_clockAccuracy := ClockAccuracyUnknown\<rparr>"
    using assms by (simp add: handle_reset_def)
  then have "map_of (eh_data e') (ec_CfgName ev) = None" by (simp add: delete_conv')
  then have "updateGMState t (ec_CfgName ev) e' = (zero_gm\<lparr>gm_gmIFace := GM_INTERFACE_UNKNOWN\<rparr>, e')"
    by (intro updateGMState_unknown no_data_no_interface)
  then show ?thesis
    by (simp add: e' cfg_data_def delete_conv' getGMState_def zero_gm_def clock_class_defs)
qed

theorem reset_ts2phc_keeps_gm_state_witness:
  "gm_clockClass (getGMState ''ts2phc.0.config'' (fst (handle_reset (gnss_event\<lparr>ec_Reset := True, ec_ProcessName := TS2PHC\<rparr>)
      (put_gm ''ts2phc.0.config'' (gm_locked zero_gm) (demo_handler []))))) = 6"
  using reset_ts2phc_keeps_gm_state [of "gnss_event\<lparr>ec_Reset := True, ec_ProcessName := TS2PHC\<rparr>"
      "put_gm ''ts2phc.0.config'' (gm_locked zero_gm) (demo_handler [])"
      "fst (handle_reset (gnss_event\<lparr>ec_Reset := True, ec_ProcessName := TS2PHC\<rparr>)
        (put_gm ''ts2phc.0.config'' (gm_locked zero_gm) (demo_handler [])))"
      "snd (handle_reset (gnss_event\<lparr>ec_Reset := True, ec_ProcessName := TS2PHC\<rparr>)
        (put_gm ''ts2phc.0.config'' (gm_locked zero_gm) (demo_handler [])))"]
  by (simp add: gnss_event_def) (simp add: getGMState_def gm_locked_def gm_set_def ClockClass6_def)

section \<open>Clock-class updates\<close>

text \<open>
  The settings G.8275.1 asks for, per class: traceability, time source, variance, and the accuracy
  advertised for the accuracy \<open>acc\<close> of the request.
\<close>

definition class_spec :: "ClockClass \<Rightarrow> ClockAccuracy \<Rightarrow> (bool \<times> TimeSource \<times> u16 \<times> ClockAccuracy) option" where
  "class_spec cls acc =
     (if cls = 6 then Some (True, 0x20, 0x4e5d, 0x21)
      else if cls = 7 then Some (True, 0xA0, 0xffff, acc)
      else if cls = 140 then Some (False, 0xA0, 0xffff, acc)
      else if cls = 248 then Some (False, 0xA0, 0xffff, 0xFE)
      else None)"

lemmas class_update_defs =
  updateCLockClass_def class_settings_def gm_time_properties_def class_spec_def clock_class_defs
  ClockAccuracyNanosecond100_def ClockAccuracyUnknown_def TimeSourceGNSS_def TimeSourceInternalOscillator_def Let_def

lemma updateCLockClass_no_write:
  assumes "clockType \<noteq> GM \<or> class_spec cls acc = None \<or> cq_ClockClass (gs_ClockQuality g0) = cls"
  shows "updateCLockClass cls clockType acc utc (Inr g0) setter =
    (None, cq_ClockClass (gs_ClockQuality g0), cq_ClockAccuracy (gs_ClockQuality g0), None)"
  using assms by (auto simp: class_update_defs split: if_splits)

text \<open>
  C6. What a clock-class update writes: for clock type GM, a class of the table and current settings of
  another class, the settings handed to \<open>pmc\<close> carry the class with exactly the traceability, time source,
  variance and accuracy the class requires, the PTP timescale, frequency traceability and the current
  UTC offset marked valid, and the leap flags as they were; the call returns the setter's error and the
  class and accuracy written.
\<close>

theorem clock_class_written:
  assumes "class_spec cls acc = Some (traceable, src, variance, acc')"
    and "cq_ClockClass (gs_ClockQuality g0) \<noteq> cls"
  shows "\<exists>g. updateCLockClass cls GM acc utc (Inr g0) setter = (setter g, cls, acc', Some g)
    \<and> gs_ClockQuality g = \<lparr>cq_ClockClass = cls, cq_ClockAccuracy = acc', cq_OffsetScaledLogVariance = variance\<rparr>
    \<and> gs_TimePropertiesDS g =
        \<lparr>tp_CurrentUtcOffset = utc, tp_CurrentUtcOffsetValid = True,
         tp_Leap59 = tp_Leap59 (gs_TimePropertiesDS g0), tp_Leap61 = tp_Leap61 (gs_TimePropertiesDS g0),
         tp_TimeTraceable = traceable, tp_FrequencyTraceable = True, tp_PtpTimescale = True, tp_TimeSource = src\<rparr>"
proof -
  have "cls = 6 \<or> cls = 7 \<or> cls = 140 \<or> cls = 248"
    using assms(1) by (auto simp: class_spec_def split: if_splits)
  then show ?thesis using assms by (elim disjE) (simp_all add: class_update_defs)
qed

theorem clock_class_written_witness:
  "\<exists>g. updateCLockClass 7 GM 0x22 37 (Inr zero_settings) (\<lambda>_. None) = (None, 7, 0x22, Some g)"
  using clock_class_written [of 7 "0x22" True "0xA0" "0xffff" "0x22" zero_settings 37 "\<lambda>_. None"]
  by (simp add: class_spec_def zero_settings_def) blast

text \<open>
  A clock-class update reaches the handler and is idempotent: if the getter answers and the setter
  accepts, then after \<open>UpdateClockClass\<close> for a class of the table (clock type GM) the handler's class is
  the requested one; and once the tool reports the settings written, the same request writes nothing.
\<close>

theorem clock_class_update_reaches_handler:
  assumes "class_spec (cr_clockClass clk) (cr_clockAccuracy clk) \<noteq> None" and "cr_clockType clk = GM"
    and "getter (PMC_cfgName (cr_cfgName clk)) = Inr g0" and "\<forall>c g. setter c g = None"
  shows "eh_clockClass (fst (UpdateClockClass t utc getter setter clk e)) = cr_clockClass clk
    \<and> (\<forall>g. snd (snd (snd (updateCLockClass (cr_clockClass clk) GM (cr_clockAccuracy clk) utc (Inr g0) (setter c)))) = Some g
         \<longrightarrow> snd (snd (snd (updateCLockClass (cr_clockClass clk) GM (cr_clockAccuracy clk) utc (Inr g) (setter c)))) = None)"
proof -
  obtain tr src v acc' where spec: "class_spec (cr_clockClass clk) (cr_clockAccuracy clk) = Some (tr, src, v, acc')"
    using assms(1) by auto
  show ?thesis
  proof (cases "cq_ClockClass (gs_ClockQuality g0) = cr_clockClass clk")
    case True
    then show ?thesis
      using updateCLockClass_no_write [of GM "cr_clockClass clk" "cr_clockAccuracy clk" g0 utc] assms
      by (simp add: UpdateClockClass_def)
  next
    case False
    have w: "\<exists>g. updateCLockClass (cr_clockClass clk) GM (cr_clockAccuracy clk) utc (Inr g0) s = (s g, cr_clockClass clk, acc', Some g)
        \<and> cq_ClockClass (gs_ClockQuality g) = cr_clockClass clk" for s
    proof -
      have "cr_clockClass clk = 6 \<or> cr_clockClass clk = 7 \<or> cr_clockClass clk = 140 \<or> cr_clockClass clk = 248"
        using spec by (auto simp: class_spec_def split: if_splits)
      then show ?thesis using spec False by (elim disjE) (simp_all add: class_update_defs)
    qed
    then obtain g where g: "updateCLockClass (cr_clockClass clk) GM (cr_clockAccuracy clk) utc (Inr g0) (setter c)
          = (None, cr_clockClass clk, acc', Some g)" "cq_ClockClass (gs_ClockQuality g) = cr_clockClass clk"
      using assms(4) by metis
    have "eh_clockClass (fst (UpdateClockClass t utc getter setter clk e)) = cr_clockClass clk"
      using w [of "setter (PMC_cfgName (cr_cfgName clk))"] assms(2-4) by (auto simp: UpdateClockClass_def Let_def)
    with g updateCLockClass_no_write [of GM "cr_clockClass clk" "cr_clockAccuracy clk" g utc] show ?thesis by auto
  qed
qed

definition demo_request :: ClockClassRequest where
  "demo_request = \<lparr>cr_cfgName = ''ts2phc.0.config'', cr_gmState = PTP_HOLDOVER, cr_clockType = GM,
                   cr_clockClass = 7, cr_clockAccuracy = 0x22\<rparr>"

theorem clock_class_update_reaches_handler_witness:
  "eh_clockClass (fst (UpdateClockClass 1 37 demo_pmc (\<lambda>_ _. None) demo_request (demo_handler []))) = 7"
  using clock_class_update_reaches_handler [of demo_request demo_pmc zero_settings "\<lambda>_ _. None" 1 37 "demo_handler []"]
  by (simp add: demo_request_def demo_pmc_def class_spec_def)

text \<open>
  An accuracy change alone is never written: if the tool already reports the requested class, then
  whatever accuracy is requested the setter is not called, and the handler takes over the accuracy the
  tool reports. So a request that was made because the accuracy changed is repeated by the next event.
\<close>

theorem accuracy_change_not_written:
  assumes "getter (PMC_cfgName (cr_cfgName clk)) = Inr g0"
    and "cq_ClockClass (gs_ClockQuality g0) = cr_clockClass clk"
  shows "snd (snd (snd (updateCLockClass (cr_clockClass clk) (cr_clockType clk) (cr_clockAccuracy clk) utc (Inr g0) s))) = None
    \<and> eh_clockAccuracy (fst (UpdateClockClass t utc getter setter clk e)) = cq_ClockAccuracy (gs_ClockQuality g0)
    \<and> eh_clockClass (fst (UpdateClockClass t utc getter setter clk e)) = cr_clockClass clk"
  using assms updateCLockClass_no_write [of "cr_clockType clk" "cr_clockClass clk" "cr_clockAccuracy clk" g0 utc]
  by (simp add: UpdateClockClass_def)

theorem accuracy_change_not_written_witness:
  "eh_clockAccuracy (fst (UpdateClockClass 1 37 demo_pmc (\<lambda>_ _. None) (demo_request\<lparr>cr_clockClass := 0\<rparr>) (demo_handler []))) = 0"
  using accuracy_change_not_written [of demo_pmc "demo_request\<lparr>cr_clockClass := 0\<rparr>" zero_settings 37 "\<lambda>_. None" 1 "\<lambda>_ _. None" "demo_handler []"]
  by (simp add: demo_request_def demo_pmc_def zero_settings_def)

text \<open>
  When an event asks for a clock class: a non-reset event of a process other than SyncE makes a
  request exactly if a GM class has been determined and it differs from the handler's class or the
  accuracy differs from the handler's; the request carries the event's configuration, the GM state and
  class, and in holdover (class 7 or 140) the accuracy computed from the DPLL's offset.
\<close>

theorem event_requests_class:
  "\<not> ec_Reset ev \<and> ec_ProcessName ev \<noteq> SYNCE \<Longrightarrow>
   RequestClass r \<in> set (fst (snd (handle hs t1 t2 ev e))) \<longleftrightarrow>
     (let gm = gm_result hs t1 t2 ev e;
          acc = request_accuracy (exported_event gm ev) (gm_clockClass gm) (eh_clockAccuracy e)
      in gm_clockClass gm \<noteq> ClockClassUninitialized
         \<and> (gm_clockClass gm \<noteq> eh_clockClass e \<or> acc \<noteq> eh_clockAccuracy e)
         \<and> r = \<lparr>cr_cfgName = ec_CfgName ev, cr_gmState = gm_state gm, cr_clockType = ec_ClockType ev,
                cr_clockClass = gm_clockClass gm, cr_clockAccuracy = acc\<rparr>)"
  using handle_data_request [of r hs t1 t2 ev e]
  by (auto simp: handle_def case_prod_beta class_request_def after_gm_frame Let_def split: if_splits)

theorem event_requests_class_witness:
  "\<exists>r. RequestClass r \<in> set (fst (snd (handle False 1 1 gnss_event (demo_handler [one_process TS2PHC PTP_LOCKED False]))))
     \<and> cr_clockClass r = 6"
proof -
  let ?e = "demo_handler [one_process TS2PHC PTP_LOCKED False]"
  have "gm_clockClass (gm_result False 1 1 gnss_event ?e) = 6" by code_simp
  then show ?thesis
    using event_requests_class [of gnss_event _ False 1 1 ?e]
    by (simp add: gnss_event_def demo_handler_def Init_def Let_def clock_class_defs)
qed

text \<open>
  The reset of the NMEA metric has no effect: when the GM state is not LOCKED the handler sets the
  event's NMEA status to 0, but as a value of type \<open>int\<close>, which \<open>updateMetrics\<close> skips; the exported metrics
  are those of the event without its NMEA status.
\<close>

theorem nmea_reset_not_exported:
  assumes "gm_state gm \<noteq> PTP_LOCKED" and "distinct (map fst (ec_Values ev))"
  shows "updateMetrics cfg p (ec_Values (exported_event gm ev)) i e
       = updateMetrics cfg p (filter (\<lambda>(k, v). k \<noteq> NMEA_STATUS) (ec_Values ev)) i e"
proof -
  have skip: "metric_step cfg p i (NMEA_STATUS, VInt n) acc = acc" for n acc
    by (cases acc) (simp add: metric_step_def metric_value_def)
  have absent: "filter (\<lambda>(k, v). k \<noteq> NMEA_STATUS) vs = vs" if "NMEA_STATUS \<notin> fst ` set vs" for vs :: "(ValueType \<times> goval) list"
    using that by (induction vs) auto
  have fold: "fold (metric_step cfg p i) (AList.update NMEA_STATUS (VInt 0) vs) acc
      = fold (metric_step cfg p i) (filter (\<lambda>(k, v). k \<noteq> NMEA_STATUS) vs) acc"
    if "distinct (map fst vs)" for vs acc
    using that by (induction vs arbitrary: acc) (auto simp: skip absent)
  show ?thesis
    using assms fold [of "ec_Values ev"] absent [of "ec_Values ev"]
    by (auto simp: updateMetrics_def exported_event_def zero_nmea_def map_of_eq_None_iff)
qed

theorem nmea_reset_not_exported_witness:
  "snd (updateMetrics ''c'' GNSS (ec_Values (exported_event zero_gm (gnss_event\<lparr>ec_Values := [(NMEA_STATUS, VInt64 1)]\<rparr>))) ''e0'' (demo_handler []))
   = []"
  using nmea_reset_not_exported [of zero_gm "gnss_event\<lparr>ec_Values := [(NMEA_STATUS, VInt64 1)]\<rparr>"]
  by (simp add: zero_gm_def updateMetrics_def)

end
