(* ===== verification/Regex.thy ===== *)
theory Regex
  imports Prelude
begin

text \<open>
  The regular expressions of the daemon. An expression is a function that matches it at the beginning of a text and returns
  its groups and the rest. The expressions used are sequences of literals, alternatives and greedy runs of a
  character class, each run followed by a character outside its class, so a run is never given back.
\<close>

definition is_dig :: "char \<Rightarrow> bool" where
  "is_dig c = (let n = of_char c :: nat in 48 \<le> n \<and> n \<le> 57)"

definition re_lit :: "string \<Rightarrow> string \<Rightarrow> string option" where
  "re_lit l s = (if HasPrefix s l then Some (drop (length l) s) else None)"

definition re_plus :: "(char \<Rightarrow> bool) \<Rightarrow> string \<Rightarrow> (string \<times> string) option" where
  "re_plus P s = (if takeWhile P s = [] then None else Some (takeWhile P s, dropWhile P s))"

fun re_alt :: "string list \<Rightarrow> (string \<Rightarrow> 'a option) \<Rightarrow> string \<Rightarrow> (string \<times> 'a) option" where
  "re_alt [] k s = None"
| "re_alt (n # ns) k s =
     (case Option.bind (re_lit n s) k of
        Some r \<Rightarrow> Some (n, r)
      | None \<Rightarrow> re_alt ns k s)"

text \<open>
  \<open>FindAllStringSubmatch(s, -1)\<close>: the leftmost match, then the next one after its end. A match of
  the expressions here is not empty, so the rest is shorter than the input.
\<close>

function FindAll :: "(string \<Rightarrow> ('g \<times> string) option) \<Rightarrow> string \<Rightarrow> 'g list" where
  "FindAll m [] = []"
| "FindAll m (c # s) =
     (case m (c # s) of
        None \<Rightarrow> FindAll m s
      | Some (g, r) \<Rightarrow> g # FindAll m (if length r \<le> length s then r else s))"
  by pat_completeness auto
termination
  by (relation "measure (\<lambda>(m, s). length s)") auto

text \<open>\<open>FindStringSubmatch\<close>: the groups of the leftmost match.\<close>

definition FindFirst :: "(string \<Rightarrow> ('g \<times> string) option) \<Rightarrow> string \<Rightarrow> 'g option" where
  "FindFirst m s = (case FindAll m s of [] \<Rightarrow> None | g # _ \<Rightarrow> Some g)"

section \<open>Lemmas\<close>

lemma FindAll_none: "(\<And>t. suffix t s \<Longrightarrow> t \<noteq> [] \<Longrightarrow> m t = None) \<Longrightarrow> FindAll m s = []"
  by (induction s) (simp_all add: suffix_Cons)

lemma FindAll_skip: "(\<And>t. suffix t u \<Longrightarrow> t \<noteq> [] \<Longrightarrow> m (t @ s) = None) \<Longrightarrow> FindAll m (u @ s) = FindAll m s"
proof (induction u)
  case (Cons c u)
  have "m (c # u @ s) = None" using Cons.prems [of "c # u"] by simp
  with Cons show ?case by (simp add: suffix_Cons)
qed simp

lemma FindAll_match: "m (c # s) = Some (g, r) \<Longrightarrow> length r \<le> length s \<Longrightarrow> FindAll m (c # s) = g # FindAll m r"
  by simp

lemma re_lit_None: "\<not> HasPrefix s l \<Longrightarrow> re_lit l s = None"
  by (simp add: re_lit_def)

lemma re_lit_append [simp]: "re_lit l (l @ s) = Some s"
  by (simp add: re_lit_def)

lemma re_plus_run:
  assumes "w \<noteq> []" and "\<forall>c \<in> set w. P c" and "s = [] \<or> \<not> P (hd s)"
  shows "re_plus P (w @ s) = Some (w, s)"
proof -
  have "takeWhile P (w @ s) = w @ takeWhile P s" "dropWhile P (w @ s) = dropWhile P s"
    using assms(2) by simp_all
  moreover have "takeWhile P s = []" "dropWhile P s = s" using assms(3) by (cases s; simp)+
  ultimately show ?thesis using assms(1) by (simp add: re_plus_def)
qed

lemma re_alt_None:
  "(\<And>n. n \<in> set ns \<Longrightarrow> \<not> HasPrefix s n) \<Longrightarrow> re_alt ns k s = None"
  by (induction ns) (simp_all add: re_lit_None)

end
