(* ===== verification/Ublox.thy ===== *)
theory Ublox
  imports Regex
begin

text \<open>
  \<open>pkg/ublox\<close>: the poller of the GNSS receiver (its buffer of output lines and its status), and the
  extraction of the fields of the receiver's messages, the commands sent to the receiver and the version
  query. The two queries through an expect session, which nothing calls, are not modelled.

  The buffer is used as a queue by its reader; the locale \<open>fifo\<close> is what the reader relies on, and it is
  interpreted on the buffer operations. Results: lines come out in the order they went in; a stopped
  poller stays stopped; the version that is taken over has no minor part; the leap-second message is read back from its printed form; a keyword at the
  end of a line makes the extraction panic.
\<close>

section \<open>The poller\<close>

datatype ubx_status = UBXTOOL_NEW | UBXTOOL_ACTIVE | UBXTOOL_DEAD | UBXTOOL_STOPPED

record UBlox =
  ub_status :: ubx_status
  ub_buffer :: "string list"
  ub_bufferlen :: int

definition NewUblox :: UBlox where
  "NewUblox = \<lparr>ub_status = UBXTOOL_NEW, ub_buffer = [], ub_bufferlen = 0\<rparr>"

text \<open>\<open>u.buffer[0]\<close> and \<open>u.buffer[1:]\<close> panic on an empty buffer.\<close>

definition UbloxPollPull :: "UBlox \<Rightarrow> (string \<times> UBlox) res" where
  "UbloxPollPull u =
     (if 0 < ub_bufferlen u then
        (case ub_buffer u of
           [] \<Rightarrow> Inl IndexOutOfRange
         | l # ls \<Rightarrow> Inr (l, u\<lparr>ub_buffer := ls, ub_bufferlen := ub_bufferlen u - 1\<rparr>))
      else Inr ('''', u))"

text \<open>\<open>started\<close> is whether the process could be started.\<close>

definition UbloxPollInit :: "bool \<Rightarrow> UBlox \<Rightarrow> UBlox" where
  "UbloxPollInit started u =
     (if ub_status u = UBXTOOL_NEW \<or> ub_status u = UBXTOOL_DEAD then
        u\<lparr>ub_bufferlen := 0, ub_buffer := [], ub_status := (if started then UBXTOOL_ACTIVE else UBXTOOL_STOPPED)\<rparr>
      else u)"

text \<open>One iteration of \<open>UbloxPollPushThread\<close>: a line read, or an error that ends the thread.\<close>

definition push_line :: "string \<Rightarrow> UBlox \<Rightarrow> UBlox" where
  "push_line output u =
     (if 0 < length output then u\<lparr>ub_bufferlen := ub_bufferlen u + 1, ub_buffer := ub_buffer u @ [output]\<rparr> else u)"

definition push_error :: "UBlox \<Rightarrow> UBlox" where
  "push_error u = (if ub_status u \<noteq> UBXTOOL_STOPPED then u\<lparr>ub_status := UBXTOOL_DEAD\<rparr> else u)"

definition UbloxPollReset :: "UBlox \<Rightarrow> UBlox" where
  "UbloxPollReset u = (if ub_status u \<noteq> UBXTOOL_STOPPED then u\<lparr>ub_status := UBXTOOL_DEAD\<rparr> else u)"

definition UbloxPollStop :: "UBlox \<Rightarrow> UBlox" where
  "UbloxPollStop u = u\<lparr>ub_status := UBXTOOL_STOPPED\<rparr>"

definition ublox_ok :: "UBlox \<Rightarrow> bool" where
  "ublox_ok u \<longleftrightarrow> ub_bufferlen u = int (length (ub_buffer u)) \<and> [] \<notin> set (ub_buffer u)"

section \<open>The queue interface\<close>

locale fifo =
  fixes put :: "'a \<Rightarrow> 'q \<Rightarrow> 'q"
    and get :: "'q \<Rightarrow> ('a \<times> 'q) res"
    and content :: "'q \<Rightarrow> 'a list"
    and invar :: "'q \<Rightarrow> bool"
    and item :: "'a \<Rightarrow> bool"
  assumes put_content: "invar q \<Longrightarrow> item x \<Longrightarrow> content (put x q) = content q @ [x]"
    and put_invar: "invar q \<Longrightarrow> item x \<Longrightarrow> invar (put x q)"
    and get_content: "invar q \<Longrightarrow> content q = x # xs \<Longrightarrow> \<exists>q'. get q = Inr (x, q') \<and> content q' = xs \<and> invar q'"
begin

fun drain :: "nat \<Rightarrow> 'q \<Rightarrow> ('a list \<times> 'q) res" where
  "drain 0 q = Inr ([], q)"
| "drain (Suc n) q = res_bind (get q) (\<lambda>(x, q'). res_bind (drain n q') (\<lambda>(xs, q''). Inr (x # xs, q'')))"

lemma put_all: "invar q \<Longrightarrow> \<forall>x \<in> set xs. item x \<Longrightarrow> content (fold put xs q) = content q @ xs \<and> invar (fold put xs q)"
  by (induction xs arbitrary: q) (simp_all add: put_content put_invar)

lemma drain_content:
  "invar q \<Longrightarrow> n \<le> length (content q) \<Longrightarrow>
     \<exists>q'. drain n q = Inr (take n (content q), q') \<and> content q' = drop n (content q) \<and> invar q'"
proof (induction n arbitrary: q)
  case 0
  then show ?case by simp
next
  case (Suc n)
  then obtain x xs where c: "content q = x # xs" by (cases "content q") auto
  with get_content [OF Suc.prems(1) c] obtain q1 where q1: "get q = Inr (x, q1)" "content q1 = xs" "invar q1" by blast
  with Suc.IH [of q1] Suc.prems(2) c obtain q2 where
    "drain n q1 = Inr (take n xs, q2)" "content q2 = drop n xs" "invar q2" by auto
  with q1 c show ?case by simp
qed

lemma fifo_order:
  assumes "invar q" and "content q = []" and "\<forall>x \<in> set xs. item x"
  shows "\<exists>q'. drain (length xs) (fold put xs q) = Inr (xs, q') \<and> content q' = []"
  using put_all [OF assms(1,3)] drain_content [of "fold put xs q" "length xs"] assms(2) by auto

end

interpretation ub: fifo push_line UbloxPollPull ub_buffer ublox_ok "\<lambda>l. l \<noteq> ''''"
  by unfold_locales (auto simp: push_line_def ublox_ok_def UbloxPollPull_def)

text \<open>Reading \<open>n\<close> lines one after the other.\<close>

fun pull_lines :: "nat \<Rightarrow> UBlox \<Rightarrow> (string list \<times> UBlox) res" where
  "pull_lines 0 u = Inr ([], u)"
| "pull_lines (Suc n) u =
     res_bind (UbloxPollPull u) (\<lambda>(l, u'). res_bind (pull_lines n u') (\<lambda>(ls, u''). Inr (l # ls, u'')))"

lemma pull_lines_drain: "pull_lines n u = ub.drain n u"
  by (induction n arbitrary: u) simp_all

section \<open>Status\<close>

datatype ubx_op = OpInit bool | OpPush string | OpError | OpReset | OpStop | OpPull

fun ubx_step :: "ubx_op \<Rightarrow> UBlox \<Rightarrow> UBlox" where
  "ubx_step (OpInit b) u = UbloxPollInit b u"
| "ubx_step (OpPush l) u = push_line l u"
| "ubx_step OpError u = push_error u"
| "ubx_step OpReset u = UbloxPollReset u"
| "ubx_step OpStop u = UbloxPollStop u"
| "ubx_step OpPull u = (case UbloxPollPull u of Inr (_, u') \<Rightarrow> u' | Inl _ \<Rightarrow> u)"

lemma ubx_step_ok: "ublox_ok u \<Longrightarrow> ublox_ok (ubx_step op u)"
  by (cases op)
    (auto simp: ublox_ok_def UbloxPollInit_def push_line_def push_error_def UbloxPollReset_def UbloxPollStop_def
      UbloxPollPull_def split: list.splits)

lemma ubx_steps_ok: "ublox_ok u \<Longrightarrow> ublox_ok (fold ubx_step ops u)"
  by (induction ops arbitrary: u) (simp_all add: ubx_step_ok)

lemma ubx_step_stopped: "ub_status u = UBXTOOL_STOPPED \<Longrightarrow> ub_status (ubx_step op u) = UBXTOOL_STOPPED"
  by (cases op)
    (auto simp: UbloxPollInit_def push_line_def push_error_def UbloxPollReset_def UbloxPollStop_def
      UbloxPollPull_def split: list.splits)

section \<open>Extraction of fields\<close>

text \<open>
  The value after a keyword: the first line that contains the keyword as a field, the field after it;
  \<open>fields[i+1]\<close> panics when the keyword is the last field. A value that does not parse counts as what
  \<open>ParseInt\<close> returns beside its error.
\<close>

fun value_after :: "string \<Rightarrow> string list \<Rightarrow> string res option" where
  "value_after key [] = None"
| "value_after key (f # fs) =
     (if f = key then Some (case fs of [] \<Rightarrow> Inl IndexOutOfRange | g # _ \<Rightarrow> Inr g) else value_after key fs)"

fun extract_int :: "string \<Rightarrow> string list \<Rightarrow> int res" where
  "extract_int key [] = Inr (- 1)"
| "extract_int key (line # ls) =
     (if Contains line key then
        (case value_after key (Fields line) of
           Some r \<Rightarrow> res_bind r (\<lambda>v. Inr (fst (ParseInt v 10 64)))
         | None \<Rightarrow> extract_int key ls)
      else extract_int key ls)"

definition ExtractOffset :: "string \<Rightarrow> int res" where
  "ExtractOffset output = extract_int ''tAcc'' (Split output CHR 0x0A)"

definition ExtractNavStatus :: "string \<Rightarrow> int res" where
  "ExtractNavStatus output = extract_int ''gpsFix'' (Split output CHR 0x0A)"

record TimeLs =
  ls_SrcOfCurrLs :: u8
  ls_CurrLs :: int
  ls_SrcOfLsChange :: u8
  ls_LsChange :: int
  ls_TimeToLsEvent :: int
  ls_DateOfLsGpsWn :: nat
  ls_DateOfLsGpsDn :: u8
  ls_Valid :: u8

definition zero_timels :: TimeLs where
  "zero_timels = \<lparr>ls_SrcOfCurrLs = 0, ls_CurrLs = 0, ls_SrcOfLsChange = 0, ls_LsChange = 0, ls_TimeToLsEvent = 0,
                  ls_DateOfLsGpsWn = 0, ls_DateOfLsGpsDn = 0, ls_Valid = 0\<rparr>"

text \<open>
  \<open>ParseUint(s, 0, bits)\<close> for a string that starts with 0: the prefix gives the base. (Digit separators,
  which base 0 also allows, do not occur in the receiver's output.)
\<close>

definition ParseUint0 :: "string \<Rightarrow> nat \<Rightarrow> nat \<times> num_err option" where
  "ParseUint0 s bits =
     (case s of
        (z # p # rest) \<Rightarrow>
          if p \<in> {CHR ''x'', CHR ''X''} \<and> rest \<noteq> [] then ParseUint rest 16 bits
          else if p \<in> {CHR ''b'', CHR ''B''} \<and> rest \<noteq> [] then ParseUint rest 2 bits
          else if p \<in> {CHR ''o'', CHR ''O''} \<and> rest \<noteq> [] then ParseUint rest 8 bits
          else ParseUint (p # rest) 8 bits
      | _ \<Rightarrow> ParseUint s 8 bits)"

text \<open>One field of the leap-second message; \<open>next\<close> is the field after it, if any.\<close>

definition leap_field :: "string \<Rightarrow> string option \<Rightarrow> TimeLs \<Rightarrow> TimeLs res" where
  "leap_field field nxt d =
     (let get = (case nxt of None \<Rightarrow> Inl IndexOutOfRange | Some v \<Rightarrow> Inr v) in
      if field = ''srcOfCurrLs'' then res_bind get (\<lambda>v. Inr (d\<lparr>ls_SrcOfCurrLs := of_nat (fst (ParseUint v 10 8))\<rparr>))
      else if field = ''currLs'' then res_bind get (\<lambda>v. Inr (d\<lparr>ls_CurrLs := fst (ParseInt v 10 8)\<rparr>))
      else if field = ''srcOfLsChange'' then res_bind get (\<lambda>v. Inr (d\<lparr>ls_SrcOfLsChange := of_nat (fst (ParseUint v 10 8))\<rparr>))
      else if field = ''lsChange'' then res_bind get (\<lambda>v. Inr (d\<lparr>ls_LsChange := fst (ParseInt v 10 8)\<rparr>))
      else if field = ''timeToLsEvent'' then res_bind get (\<lambda>v. Inr (d\<lparr>ls_TimeToLsEvent := fst (ParseInt v 10 32)\<rparr>))
      else if field = ''dateOfLsGpsWn'' then res_bind get (\<lambda>v. Inr (d\<lparr>ls_DateOfLsGpsWn := fst (ParseUint v 10 16)\<rparr>))
      else if field = ''dateOfLsGpsDn'' then res_bind get (\<lambda>v. Inr (d\<lparr>ls_DateOfLsGpsDn := of_nat (fst (ParseUint v 10 16))\<rparr>))
      else if field = ''valid'' then res_bind get (\<lambda>v. Inr (d\<lparr>ls_Valid := of_nat (fst (ParseUint0 (CHR ''0'' # v) 8))\<rparr>))
      else Inr d)"

fun leap_fields :: "string list \<Rightarrow> TimeLs \<Rightarrow> TimeLs res" where
  "leap_fields [] d = Inr d"
| "leap_fields (f # fs) d =
     res_bind (leap_field f (case fs of [] \<Rightarrow> None | g # _ \<Rightarrow> Some g) d) (leap_fields fs)"

fun leap_lines :: "string list \<Rightarrow> TimeLs \<Rightarrow> TimeLs res" where
  "leap_lines [] d = Inr d"
| "leap_lines (l # ls) d = res_bind (leap_fields (Fields l) d) (leap_lines ls)"

definition ExtractLeapSec :: "string list \<Rightarrow> TimeLs res" where
  "ExtractLeapSec output = leap_lines output zero_timels"

section \<open>Properties\<close>



text \<open>
  The poller never panics and a stopped poller stays stopped: after any sequence of operations on a
  new poller a pull succeeds (an empty string means no line), and once \<open>UbloxPollStop\<close> has been called, or
  the tool could not be started, no later operation changes the status.
\<close>

theorem poller_safe_and_stops:
  "(\<exists>r. UbloxPollPull (fold ubx_step ops NewUblox) = Inr r)
   \<and> (ub_status (fold ubx_step ops NewUblox) = UBXTOOL_STOPPED \<longrightarrow>
        ub_status (fold ubx_step (ops @ ops') NewUblox) = UBXTOOL_STOPPED)"
proof -
  have "ublox_ok NewUblox" by (simp add: ublox_ok_def NewUblox_def)
  then have ok: "ublox_ok (fold ubx_step ops NewUblox)" by (rule ubx_steps_ok)
  have stop: "ub_status u = UBXTOOL_STOPPED \<Longrightarrow> ub_status (fold ubx_step ops' u) = UBXTOOL_STOPPED" for u
    by (induction ops' arbitrary: u) (simp_all add: ubx_step_stopped)
  from ok have "\<exists>r. UbloxPollPull (fold ubx_step ops NewUblox) = Inr r"
    by (auto simp: UbloxPollPull_def ublox_ok_def split: list.splits)
  with stop show ?thesis by simp
qed

theorem poller_safe_and_stops_witness:
  "ub_status (fold ubx_step [OpInit True, OpStop, OpInit True, OpReset] NewUblox) = UBXTOOL_STOPPED"
  using poller_safe_and_stops [of "[OpInit True, OpStop]" "[OpInit True, OpReset]"]
  by (simp add: UbloxPollInit_def UbloxPollStop_def NewUblox_def)

section \<open>Commands to the receiver\<close>

definition UBXCommand :: string where "UBXCommand = ''/usr/local/bin/ubxtool''"
definition CMD_PROTO_VERSION :: string where "CMD_PROTO_VERSION = '' -p MON-VER''"

text \<open>\<open>PROTVER=+(\d+)\<close>\<close>

definition PorotoVersionRegEx :: "string \<Rightarrow> (string \<times> string) option" where
  "PorotoVersionRegEx s =
     Option.bind (re_lit ''PROTVER'' s) (\<lambda>s. Option.bind (re_plus (\<lambda>c. c = CHR ''='') s) (\<lambda>(_, s). re_plus is_dig s))"

definition match :: "string \<Rightarrow> (string \<Rightarrow> (string \<times> string) option) \<Rightarrow> string + string" where
  "match stdout re = (case FindFirst re stdout of Some g \<Rightarrow> Inr g | None \<Rightarrow> Inl (''error parsing '' @ stdout))"

text \<open>\<open>run\<close> is what a command prints, or its error. A command is its name and arguments.\<close>

definition query :: "(string list \<Rightarrow> string + string) \<Rightarrow> string \<Rightarrow> (string \<Rightarrow> (string \<times> string) option) \<Rightarrow> string + string" where
  "query run command promptRE =
     (case run (Fields (UBXCommand @ '' '' @ command)) of Inl e \<Rightarrow> Inl e | Inr out \<Rightarrow> match out promptRE)"

text \<open>\<open>MonVersion\<close> uses neither of its arguments.\<close>

definition MonVersion :: "(string list \<Rightarrow> string + string) \<Rightarrow> string \<Rightarrow> (string \<Rightarrow> (string \<times> string) option) \<Rightarrow> string + string" where
  "MonVersion run command regEx = query run CMD_PROTO_VERSION PorotoVersionRegEx"

definition DisableBinary :: "string list" where
  "DisableBinary = [UBXCommand, ''-d'', ''BINARY'', ''-P'', ''29.20'']"

definition EnableNMEA :: "string list" where
  "EnableNMEA = [UBXCommand, ''-e'', ''NMEA'', ''-P'', ''29.20'']"

definition new_commands :: "string list list" where
  "new_commands = [EnableNMEA, DisableBinary]"

text \<open>\<open>Init\<close>: the protocol version from then on, the commands run after the query, and the error.\<close>

definition ublox_Init :: "(string list \<Rightarrow> string + string) \<Rightarrow> string option \<Rightarrow> string option \<times> string list list \<times> string option" where
  "ublox_Init run protoVersion =
     (case MonVersion run CMD_PROTO_VERSION PorotoVersionRegEx of
        Inr v \<Rightarrow> (Some v, [DisableBinary, EnableNMEA], None)
      | Inl e \<Rightarrow> (protoVersion, [], Some (''UBlox could not find version for method MON-VER with error '' @ e)))"

text \<open>\<open>EnableDisableVoltageController\<close>: the quotation marks are part of the argument of \<open>bash -c\<close>.\<close>

definition EnableDisableVoltageController :: "string option \<Rightarrow> string \<Rightarrow> int \<Rightarrow> string + string list" where
  "EnableDisableVoltageController protoVersion command val =
     (case protoVersion of
        None \<Rightarrow> Inl ''Cannot query UBlox without protocol version ''
      | Some v \<Rightarrow>
          Inr [''/usr/bin/bash'', ''-c'',
               [CHR 0x22] @ UBXCommand @ ''  -v 1 -P '' @ v @ ''  -p '' @ command @ '','' @ fmt_int val @ [CHR 0x22]])"

text \<open>
  The protocol version that \<open>Init\<close> takes over is a number: of \<open>PROTVER=29.20\<close> it takes 29, where the default is 29.20.
\<close>

lemma FindAll_groups: "(\<And>s g r. m s = Some (g, r) \<Longrightarrow> P g) \<Longrightarrow> g \<in> set (FindAll m s) \<Longrightarrow> P g"
  by (induction m s rule: FindAll.induct) (auto split: option.splits)

theorem version_is_number:
  assumes "ublox_Init run old = (Some v, cmds, None)"
  shows "v \<noteq> [] \<and> list_all is_dig v"
proof -
  obtain out where "FindFirst PorotoVersionRegEx out = Some v"
    using assms by (auto simp: ublox_Init_def MonVersion_def query_def match_def split: sum.splits option.splits)
  then have "v \<in> set (FindAll PorotoVersionRegEx out)" by (auto simp: FindFirst_def split: list.splits)
  moreover have "g \<noteq> [] \<and> list_all is_dig g" if "PorotoVersionRegEx s = Some (g, r)" for s g r
    using that set_takeWhileD [of _ is_dig]
    by (auto simp: PorotoVersionRegEx_def re_plus_def list_all_iff split: bind_splits if_splits)
  ultimately show ?thesis by (rule FindAll_groups [rotated])
qed

theorem version_is_number_witness:
  "ublox_Init (\<lambda>_. Inr ''  PROTVER=29.20'') None = (Some ''29'', [DisableBinary, EnableNMEA], None) \<and> list_all is_dig ''29''"
proof -
  have "ublox_Init (\<lambda>_. Inr ''  PROTVER=29.20'') None = (Some ''29'', [DisableBinary, EnableNMEA], None)"
    by (simp add: ublox_Init_def MonVersion_def query_def match_def FindFirst_def PorotoVersionRegEx_def re_lit_def re_plus_def
        HasPrefix_def is_dig_def)
  with version_is_number [OF this] show ?thesis by simp
qed

section \<open>The leap-second message\<close>

text \<open>The receiver tool's print-out of a NAV-TIMELS message.\<close>

definition leap_message :: "TimeLs \<Rightarrow> string list" where
  "leap_message d =
     [Join [''srcOfCurrLs'', fmt_base 10 (unat (ls_SrcOfCurrLs d))] '' '',
      Join [''currLs'', fmt_int (ls_CurrLs d), ''srcOfLsChange'', fmt_base 10 (unat (ls_SrcOfLsChange d)),
            ''lsChange'', fmt_int (ls_LsChange d), ''timeToLsEvent'', fmt_int (ls_TimeToLsEvent d)] '' '',
      Join [''dateOfLsGpsWn'', fmt_base 10 (ls_DateOfLsGpsWn d), ''dateOfLsGpsDn'', fmt_base 10 (unat (ls_DateOfLsGpsDn d)),
            ''reserved2'', ''0'', ''0'', ''0''] '' '',
      Join [''valid'', CHR ''x'' # fmt_base 16 (unat (ls_Valid d))] '' '']"

lemma leap_field_other: "c \<notin> set ''scltdv'' \<Longrightarrow> leap_field (c # cs) nxt d = Inr d"
  by (simp add: leap_field_def Let_def)

lemma digit_other: "(of_char c :: nat) \<in> {48..57} \<Longrightarrow> c \<notin> set ''scltdv''"
  by auto

lemma leap_field_number [simp]:
  "leap_field (fmt_base 10 n) nxt d = Inr d" "leap_field (fmt_int i) nxt d = Inr d"
proof -
  obtain c cs where "fmt_base 10 n = c # cs" "(of_char c :: nat) \<in> {48..57}" by (rule fmt_base10_head)
  then show "leap_field (fmt_base 10 n) nxt d = Inr d" by (metis leap_field_other digit_other)
  obtain c cs where "fmt_int i = c # cs" "c = CHR ''-'' \<or> (of_char c :: nat) \<in> {48..57}" by (rule fmt_int_head)
  moreover have "CHR ''-'' \<notin> set ''scltdv''" by simp
  ultimately show "leap_field (fmt_int i) nxt d = Inr d" by (metis leap_field_other digit_other)
qed

lemma leap_field_word [simp]:
  "leap_field (CHR ''x'' # s) nxt d = Inr d" "leap_field ''reserved2'' nxt d = Inr d" "leap_field ''0'' nxt d = Inr d"
  by (simp_all add: leap_field_def)

lemma is_word_x_hex: "is_word (CHR ''x'' # fmt_base 16 n)"
  using is_word_fmt_base [of 16 n] by (simp add: is_word_def is_space_def)

lemma parse_u8 [simp]: "ParseUint (fmt_base 10 (unat (w :: u8))) 10 8 = (unat w, None)"
  using unsigned_less [of w, where 'a = nat] by (intro ParseUint_fmt_base) simp_all

lemma parse_u8_16 [simp]: "ParseUint (fmt_base 10 (unat (w :: u8))) 10 16 = (unat w, None)"
proof -
  have "unat w < 2 ^ 8" using unsigned_less [of w, where 'a = nat] by simp
  then have "unat w < 2 ^ 16" by simp
  then show ?thesis by (intro ParseUint_fmt_base) simp_all
qed

lemma parse_valid: "ParseUint0 (CHR ''0'' # CHR ''x'' # fmt_base 16 (unat (w :: u8))) 8 = (unat w, None)"
proof -
  have "ParseUint (fmt_base 16 (unat w)) 16 8 = (unat w, None)"
    using unsigned_less [of w, where 'a = nat] by (intro ParseUint_fmt_base) simp_all
  then show ?thesis by (simp add: ParseUint0_def)
qed

text \<open>
  The leap-second message is read back: \<open>ExtractLeapSec\<close> applied to the print-out of a message returns
  the message, for every content the protocol's field widths allow.
\<close>

theorem leap_message_roundtrip:
  assumes "- 128 \<le> ls_CurrLs d" "ls_CurrLs d < 128" "- 128 \<le> ls_LsChange d" "ls_LsChange d < 128"
    and "- (2 ^ 31) \<le> ls_TimeToLsEvent d" "ls_TimeToLsEvent d < 2 ^ 31" "ls_DateOfLsGpsWn d < 2 ^ 16"
  shows "ExtractLeapSec (leap_message d) = Inr d"
proof -
  have w: "is_word ''srcOfCurrLs'' \<and> is_word ''currLs'' \<and> is_word ''srcOfLsChange'' \<and> is_word ''lsChange''
      \<and> is_word ''timeToLsEvent'' \<and> is_word ''dateOfLsGpsWn'' \<and> is_word ''dateOfLsGpsDn'' \<and> is_word ''reserved2''
      \<and> is_word ''0'' \<and> is_word ''valid''"
    by (simp add: is_word_def is_space_def)
  have p8: "ParseInt (fmt_int (ls_CurrLs d)) 10 8 = (ls_CurrLs d, None)" "ParseInt (fmt_int (ls_LsChange d)) 10 8 = (ls_LsChange d, None)"
    and p32: "ParseInt (fmt_int (ls_TimeToLsEvent d)) 10 32 = (ls_TimeToLsEvent d, None)"
    and p16: "ParseUint (fmt_base 10 (ls_DateOfLsGpsWn d)) 10 16 = (ls_DateOfLsGpsWn d, None)"
    using assms by (auto intro!: ParseInt_fmt_int ParseUint_fmt_base)
  have f: "leap_field ''srcOfCurrLs'' (Some v) x = Inr (x\<lparr>ls_SrcOfCurrLs := of_nat (fst (ParseUint v 10 8))\<rparr>)"
    "leap_field ''currLs'' (Some v) x = Inr (x\<lparr>ls_CurrLs := fst (ParseInt v 10 8)\<rparr>)"
    "leap_field ''srcOfLsChange'' (Some v) x = Inr (x\<lparr>ls_SrcOfLsChange := of_nat (fst (ParseUint v 10 8))\<rparr>)"
    "leap_field ''lsChange'' (Some v) x = Inr (x\<lparr>ls_LsChange := fst (ParseInt v 10 8)\<rparr>)"
    "leap_field ''timeToLsEvent'' (Some v) x = Inr (x\<lparr>ls_TimeToLsEvent := fst (ParseInt v 10 32)\<rparr>)"
    "leap_field ''dateOfLsGpsWn'' (Some v) x = Inr (x\<lparr>ls_DateOfLsGpsWn := fst (ParseUint v 10 16)\<rparr>)"
    "leap_field ''dateOfLsGpsDn'' (Some v) x = Inr (x\<lparr>ls_DateOfLsGpsDn := of_nat (fst (ParseUint v 10 16))\<rparr>)"
    "leap_field ''valid'' (Some v) x = Inr (x\<lparr>ls_Valid := of_nat (fst (ParseUint0 (CHR ''0'' # v) 8))\<rparr>)"
    for v x by (simp_all add: leap_field_def)
  have "ExtractLeapSec (leap_message d) =
      leap_lines [] (zero_timels\<lparr>ls_SrcOfCurrLs := ls_SrcOfCurrLs d, ls_CurrLs := ls_CurrLs d,
        ls_SrcOfLsChange := ls_SrcOfLsChange d, ls_LsChange := ls_LsChange d, ls_TimeToLsEvent := ls_TimeToLsEvent d,
        ls_DateOfLsGpsWn := ls_DateOfLsGpsWn d, ls_DateOfLsGpsDn := ls_DateOfLsGpsDn d, ls_Valid := ls_Valid d\<rparr>)"
    unfolding ExtractLeapSec_def leap_message_def leap_lines.simps
    by (simp add: Fields_Join w is_word_x_hex f p8 p32 p16 parse_valid del: Join.simps)
  then show ?thesis by (simp add: zero_timels_def)
qed

theorem leap_message_roundtrip_witness:
  "ExtractLeapSec (leap_message (zero_timels\<lparr>ls_CurrLs := 18, ls_DateOfLsGpsWn := 2441, ls_Valid := 3\<rparr>))
   = Inr (zero_timels\<lparr>ls_CurrLs := 18, ls_DateOfLsGpsWn := 2441, ls_Valid := 3\<rparr>)"
  by (rule leap_message_roundtrip) (simp_all add: zero_timels_def)

text \<open>
  A truncated line panics: if the first line that contains \<open>tAcc\<close> ends with the field \<open>tAcc\<close>,
  \<open>ExtractOffset\<close> indexes out of range; if the field has a number after it, the number is the result.
\<close>

theorem extract_offset_value_or_panic:
  assumes "\<forall>w \<in> set ws. is_word w \<and> w \<noteq> ''tAcc''" and "Contains (Join (ws @ [''tAcc'']) '' '') ''tAcc''"
    and "Contains (Join (ws @ [''tAcc'', fmt_int n]) '' '') ''tAcc''" and "- (2 ^ 63) \<le> n" and "n < 2 ^ 63"
  shows "extract_int ''tAcc'' [Join (ws @ [''tAcc'']) '' ''] = Inl IndexOutOfRange
    \<and> extract_int ''tAcc'' [Join (ws @ [''tAcc'', fmt_int n]) '' ''] = Inr n"
proof -
  have va: "value_after ''tAcc'' (ws @ ''tAcc'' # rest) = Some (case rest of [] \<Rightarrow> Inl IndexOutOfRange | g # _ \<Rightarrow> Inr g)" for rest
    using assms(1) by (induction ws) auto
  have "is_word ''tAcc''" by (simp add: is_word_def is_space_def)
  then have f: "Fields (Join (ws @ [''tAcc'']) '' '') = ws @ [''tAcc'']"
    "Fields (Join (ws @ [''tAcc'', fmt_int n]) '' '') = ws @ [''tAcc'', fmt_int n]"
    using assms(1) by (auto intro!: Fields_Join)
  show ?thesis using assms(2,3) va [of "[]"] va [of "[fmt_int n]"] ParseInt_fmt_int [of 64 n] assms(4,5)
    by (simp add: f)
qed

theorem extract_offset_value_or_panic_witness:
  "extract_int ''tAcc'' [''tAcc''] = Inl IndexOutOfRange \<and> extract_int ''tAcc'' [''tAcc 5''] = Inr 5"
proof -
  have "Join ([] @ [''tAcc'', fmt_int 5]) '' '' = ''tAcc 5''" by code_simp
  then show ?thesis using extract_offset_value_or_panic [of "[]" 5] by (simp add: Contains_def HasPrefix_def)
qed

end
