(* ===== verification/Dpll_Netlink.thy ===== *)
theory Dpll_Netlink
  imports Prelude
begin

text \<open>
  \<open>pkg/dpll-netlink\<close>: the replies of the kernel's DPLL interface and their parsing from netlink
  attributes (\<open>dpll.go\<close>), and the human-readable forms of the kernel's enumerations (\<open>dpll-uapi.go\<close>).

  The framing of a message into attributes (the netlink package's \<open>NewAttributeDecoder\<close> and \<open>Next\<close>) is a
  parameter \<open>decode\<close>: it gives the attributes of a message, type and data, or an error. The requests
  of \<open>dpll.go\<close> are in \<open>Dpll_Requests\<close>.

  Results: parsing the attributes of a reply gives the reply back, whatever the framing; a pin message
  without a phase offset is recognisable as such.
\<close>

section \<open>Integers in attributes\<close>

text \<open>
  The decoder's getters fail unless the data have exactly the width asked for. The byte order is the
  host's; the daemon runs on little-endian hosts.
\<close>

fun le_nat :: "u8 list \<Rightarrow> nat" where
  "le_nat [] = 0"
| "le_nat (b # bs) = unat b + 256 * le_nat bs"

fun to_le :: "nat \<Rightarrow> nat \<Rightarrow> u8 list" where
  "to_le 0 v = []"
| "to_le (Suc n) v = of_nat (v mod 256) # to_le n (v div 256)"

definition get_uint :: "nat \<Rightarrow> u8 list \<Rightarrow> nat res" where
  "get_uint n b = (if length b = n then Inr (le_nat b) else Inl (GoErr ''netlink: attribute length''))"

definition get_u32 :: "u8 list \<Rightarrow> u32 res" where
  "get_u32 b = res_bind (get_uint 4 b) (\<lambda>v. Inr (of_nat v))"

definition get_u64 :: "u8 list \<Rightarrow> u64 res" where
  "get_u64 b = res_bind (get_uint 8 b) (\<lambda>v. Inr (of_nat v))"

definition get_i32 :: "u8 list \<Rightarrow> int res" where
  "get_i32 b = res_bind (get_u32 b) (\<lambda>v. Inr (sint v))"

definition get_i64 :: "u8 list \<Rightarrow> int res" where
  "get_i64 b = res_bind (get_u64 b) (\<lambda>v. Inr (sint v))"

text \<open>A string attribute ends at its terminating zero byte.\<close>

definition get_string :: "u8 list \<Rightarrow> string res" where
  "get_string b = Inr (map (\<lambda>x. char_of (unat x)) (takeWhile (\<lambda>x. x \<noteq> 0) b))"

type_synonym attrs = "(nat \<times> u8 list) list"

section \<open>Replies\<close>

record DoDeviceGetReply =
  dr_Id :: u32
  dr_ModuleName :: string
  dr_Mode :: u32
  dr_ModeSupported :: u32
  dr_LockStatus :: u32
  dr_Temp :: int
  dr_ClockId :: u64
  dr_Type :: u32

record PinParentDevice =
  pd_ParentId :: u32
  pd_Direction :: u32
  pd_Prio :: u32
  pd_State :: u32
  pd_PhaseOffset :: int

record PinParentPin =
  pp_ParentId :: u32
  pp_State :: u32

record FrequencyRange =
  fr_FrequencyMin :: u64
  fr_FrequencyMax :: u64

record DoPinGetReply =
  pr_Id :: u32
  pr_ClockId :: u64
  pr_BoardLabel :: string
  pr_PanelLabel :: string
  pr_PackageLabel :: string
  pr_Type :: u32
  pr_Frequency :: u64
  pr_FrequencySupported :: FrequencyRange
  pr_Capabilities :: u32
  pr_ParentDevice :: PinParentDevice
  pr_ParentPin :: PinParentPin
  pr_PhaseAdjustMin :: int
  pr_PhaseAdjustMax :: int
  pr_PhaseAdjust :: int
  pr_FractionalFrequencyOffset :: int
  pr_ModuleName :: string

definition zero_device :: DoDeviceGetReply where
  "zero_device = \<lparr>dr_Id = 0, dr_ModuleName = '''', dr_Mode = 0, dr_ModeSupported = 0, dr_LockStatus = 0,
                  dr_Temp = 0, dr_ClockId = 0, dr_Type = 0\<rparr>"

definition zero_pin :: DoPinGetReply where
  "zero_pin =
     \<lparr>pr_Id = 0, pr_ClockId = 0, pr_BoardLabel = '''', pr_PanelLabel = '''', pr_PackageLabel = '''', pr_Type = 0,
      pr_Frequency = 0, pr_FrequencySupported = \<lparr>fr_FrequencyMin = 0, fr_FrequencyMax = 0\<rparr>, pr_Capabilities = 0,
      pr_ParentDevice = \<lparr>pd_ParentId = 0, pd_Direction = 0, pd_Prio = 0, pd_State = 0, pd_PhaseOffset = MaxInt64\<rparr>,
      pr_ParentPin = \<lparr>pp_ParentId = 0, pp_State = 0\<rparr>, pr_PhaseAdjustMin = 0, pr_PhaseAdjustMax = 0,
      pr_PhaseAdjust = 0, pr_FractionalFrequencyOffset = 0, pr_ModuleName = ''''\<rparr>"

section \<open>Parsing\<close>

text \<open>The loops over attributes: the first error ends them and is returned.\<close>

fun fold_res :: "('a \<Rightarrow> 's \<Rightarrow> 's res) \<Rightarrow> 'a list \<Rightarrow> 's \<Rightarrow> 's res" where
  "fold_res f [] s = Inr s"
| "fold_res f (x # xs) s = res_bind (f x s) (fold_res f xs)"

fun map_res :: "('a \<Rightarrow> 'b res) \<Rightarrow> 'a list \<Rightarrow> 'b list res" where
  "map_res f [] = Inr []"
| "map_res f (x # xs) = res_bind (f x) (\<lambda>y. res_bind (map_res f xs) (\<lambda>ys. Inr (y # ys)))"

text \<open>
  Attribute types of a device: 1 id, 2 module name, 3 pad, 4 clock id, 5 mode, 6 mode supported, 7 lock
  status, 8 temperature, 9 type. Mode and supported modes are read past.
\<close>

definition device_attr :: "nat \<times> u8 list \<Rightarrow> DoDeviceGetReply \<Rightarrow> DoDeviceGetReply res" where
  "device_attr a r =
     (if fst a = 1 then res_bind (get_u32 (snd a)) (\<lambda>v. Inr (r\<lparr>dr_Id := v\<rparr>))
      else if fst a = 2 then res_bind (get_string (snd a)) (\<lambda>v. Inr (r\<lparr>dr_ModuleName := v\<rparr>))
      else if fst a = 7 then res_bind (get_u32 (snd a)) (\<lambda>v. Inr (r\<lparr>dr_LockStatus := v\<rparr>))
      else if fst a = 8 then res_bind (get_i32 (snd a)) (\<lambda>v. Inr (r\<lparr>dr_Temp := v\<rparr>))
      else if fst a = 4 then res_bind (get_u64 (snd a)) (\<lambda>v. Inr (r\<lparr>dr_ClockId := v\<rparr>))
      else if fst a = 9 then res_bind (get_u32 (snd a)) (\<lambda>v. Inr (r\<lparr>dr_Type := v\<rparr>))
      else Inr r)"

definition ParseDeviceReplies :: "(u8 list \<Rightarrow> attrs res) \<Rightarrow> u8 list list \<Rightarrow> DoDeviceGetReply list res" where
  "ParseDeviceReplies decode msgs =
     map_res (\<lambda>m. res_bind (decode m) (\<lambda>as. fold_res device_attr as zero_device)) msgs"

text \<open>Nested attributes of a pin: the frequency range, the parent device, the parent pin.\<close>

definition frequency_attr :: "nat \<times> u8 list \<Rightarrow> FrequencyRange \<Rightarrow> FrequencyRange res" where
  "frequency_attr a r =
     (if fst a = 13 then res_bind (get_u64 (snd a)) (\<lambda>v. Inr (r\<lparr>fr_FrequencyMin := v\<rparr>))
      else if fst a = 14 then res_bind (get_u64 (snd a)) (\<lambda>v. Inr (r\<lparr>fr_FrequencyMax := v\<rparr>))
      else Inr r)"

definition parent_device_attr :: "nat \<times> u8 list \<Rightarrow> PinParentDevice \<Rightarrow> PinParentDevice res" where
  "parent_device_attr a r =
     (if fst a = 2 then res_bind (get_u32 (snd a)) (\<lambda>v. Inr (r\<lparr>pd_ParentId := v\<rparr>))
      else if fst a = 10 then res_bind (get_u32 (snd a)) (\<lambda>v. Inr (r\<lparr>pd_Direction := v\<rparr>))
      else if fst a = 15 then res_bind (get_u32 (snd a)) (\<lambda>v. Inr (r\<lparr>pd_Prio := v\<rparr>))
      else if fst a = 16 then res_bind (get_u32 (snd a)) (\<lambda>v. Inr (r\<lparr>pd_State := v\<rparr>))
      else if fst a = 23 then res_bind (get_i64 (snd a)) (\<lambda>v. Inr (r\<lparr>pd_PhaseOffset := v\<rparr>))
      else Inr r)"

definition parent_pin_attr :: "nat \<times> u8 list \<Rightarrow> PinParentPin \<Rightarrow> PinParentPin res" where
  "parent_pin_attr a r =
     (if fst a = 2 then res_bind (get_u32 (snd a)) (\<lambda>v. Inr (r\<lparr>pp_ParentId := v\<rparr>))
      else if fst a = 16 then res_bind (get_u32 (snd a)) (\<lambda>v. Inr (r\<lparr>pp_State := v\<rparr>))
      else Inr r)"

definition nested :: "(u8 list \<Rightarrow> attrs res) \<Rightarrow> (nat \<times> u8 list \<Rightarrow> 's \<Rightarrow> 's res) \<Rightarrow> u8 list \<Rightarrow> 's \<Rightarrow> 's res" where
  "nested decode f b s = res_bind (decode b) (\<lambda>as. fold_res f as s)"

definition pin_attr :: "(u8 list \<Rightarrow> attrs res) \<Rightarrow> nat \<times> u8 list \<Rightarrow> DoPinGetReply \<Rightarrow> DoPinGetReply res" where
  "pin_attr decode a r =
     (let t = fst a; b = snd a in
      if t = 5 then res_bind (get_u64 b) (\<lambda>v. Inr (r\<lparr>pr_ClockId := v\<rparr>))
      else if t = 1 then res_bind (get_u32 b) (\<lambda>v. Inr (r\<lparr>pr_Id := v\<rparr>))
      else if t = 6 then res_bind (get_string b) (\<lambda>v. Inr (r\<lparr>pr_BoardLabel := v\<rparr>))
      else if t = 7 then res_bind (get_string b) (\<lambda>v. Inr (r\<lparr>pr_PanelLabel := v\<rparr>))
      else if t = 8 then res_bind (get_string b) (\<lambda>v. Inr (r\<lparr>pr_PackageLabel := v\<rparr>))
      else if t = 9 then res_bind (get_u32 b) (\<lambda>v. Inr (r\<lparr>pr_Type := v\<rparr>))
      else if t = 11 then res_bind (get_u64 b) (\<lambda>v. Inr (r\<lparr>pr_Frequency := v\<rparr>))
      else if t = 12 then res_bind (nested decode frequency_attr b (pr_FrequencySupported r)) (\<lambda>v. Inr (r\<lparr>pr_FrequencySupported := v\<rparr>))
      else if t = 17 then res_bind (get_u32 b) (\<lambda>v. Inr (r\<lparr>pr_Capabilities := v\<rparr>))
      else if t = 18 then res_bind (nested decode parent_device_attr b (pr_ParentDevice r)) (\<lambda>v. Inr (r\<lparr>pr_ParentDevice := v\<rparr>))
      else if t = 19 then res_bind (nested decode parent_pin_attr b (pr_ParentPin r)) (\<lambda>v. Inr (r\<lparr>pr_ParentPin := v\<rparr>))
      else if t = 20 then res_bind (get_i32 b) (\<lambda>v. Inr (r\<lparr>pr_PhaseAdjustMin := v\<rparr>))
      else if t = 21 then res_bind (get_i32 b) (\<lambda>v. Inr (r\<lparr>pr_PhaseAdjustMax := v\<rparr>))
      else if t = 22 then res_bind (get_i32 b) (\<lambda>v. Inr (r\<lparr>pr_PhaseAdjust := v\<rparr>))
      else if t = 24 then res_bind (get_i32 b) (\<lambda>v. Inr (r\<lparr>pr_FractionalFrequencyOffset := v\<rparr>))
      else if t = 3 then res_bind (get_string b) (\<lambda>v. Inr (r\<lparr>pr_ModuleName := v\<rparr>))
      else Inr r)"

definition ParsePinReplies :: "(u8 list \<Rightarrow> attrs res) \<Rightarrow> u8 list list \<Rightarrow> DoPinGetReply list res" where
  "ParsePinReplies decode msgs =
     map_res (\<lambda>m. res_bind (decode m) (\<lambda>as. fold_res (pin_attr decode) as zero_pin)) msgs"

section \<open>Human-readable forms\<close>

definition lookup_str :: "(nat \<times> string) list \<Rightarrow> u32 \<Rightarrow> string" where
  "lookup_str m k = (case map_of m (unat k) of Some s \<Rightarrow> s | None \<Rightarrow> '''')"

definition GetLockStatus :: "u32 \<Rightarrow> string" where
  "GetLockStatus = lookup_str [(1, ''unlocked''), (2, ''locked''), (3, ''locked-ho-acquired''), (4, ''holdover'')]"

definition GetDpllType :: "u32 \<Rightarrow> string" where
  "GetDpllType = lookup_str [(1, ''pps''), (2, ''eec'')]"

definition GetMode :: "u32 \<Rightarrow> string" where
  "GetMode = lookup_str [(1, ''manual''), (2, ''automatic''), (3, ''holdover''), (4, ''freerun'')]"

definition GetPinState :: "u32 \<Rightarrow> string" where
  "GetPinState = lookup_str [(1, ''connected''), (2, ''disconnected''), (3, ''selectable'')]"

definition GetPinType :: "u32 \<Rightarrow> string" where
  "GetPinType = lookup_str [(1, ''mux''), (2, ''ext''), (3, ''synce-eth-port''), (4, ''int-oscillator''), (5, ''gnss'')]"

definition GetPinDirection :: "u32 \<Rightarrow> string" where
  "GetPinDirection = lookup_str [(1, ''input''), (2, ''output'')]"

definition GetPinCapabilities :: "u32 \<Rightarrow> string" where
  "GetPinCapabilities =
     lookup_str
       [(0, ''''), (1, ''direction-can-change''), (2, ''priority-can-change''),
        (3, ''direction-can-change,priority-can-change''), (4, ''state-can-change''),
        (5, ''state-can-change,direction-can-change''), (6, ''state-can-change,priority-can-change''),
        (7, ''state-can-change,direction-can-change,priority-can-change'')]"

record DpllStatusHR =
  hr_Id :: u32
  hr_ModuleName :: string
  hr_Mode :: string
  hr_ModeSupported :: string
  hr_LockStatus :: string
  hr_ClockId :: string
  hr_Type :: string

definition GetDpllStatusHR :: "DoDeviceGetReply \<Rightarrow> DpllStatusHR" where
  "GetDpllStatusHR r =
     \<lparr>hr_Id = dr_Id r, hr_ModuleName = dr_ModuleName r, hr_Mode = GetMode (dr_Mode r), hr_ModeSupported = '''',
      hr_LockStatus = GetLockStatus (dr_LockStatus r), hr_ClockId = ''0x'' @ fmt_base 16 (unat (dr_ClockId r)),
      hr_Type = GetDpllType (dr_Type r)\<rparr>"

section \<open>Round trips\<close>

lemma length_to_le [simp]: "length (to_le n v) = n"
  by (induction n arbitrary: v) simp_all

lemma le_nat_to_le: "le_nat (to_le n v) = v mod 256 ^ n"
proof (induction n arbitrary: v)
  case 0
  then show ?case by simp
next
  case (Suc n)
  have "v mod 256 ^ Suc n = v mod 256 + 256 * (v div 256 mod 256 ^ n)"
    by (simp add: mod_mult2_eq)
  with Suc show ?case by (simp add: unat_of_nat)
qed

lemma get_u32_to_le [simp]: "get_u32 (to_le 4 (unat w)) = Inr w"
proof -
  have "unat w < 256 ^ 4" using unsigned_less [of w, where 'a = nat] by simp
  then show ?thesis by (simp add: get_u32_def get_uint_def le_nat_to_le)
qed

lemma get_u64_to_le [simp]: "get_u64 (to_le 8 (unat w)) = Inr w"
proof -
  have "unat w < 256 ^ 8" using unsigned_less [of w, where 'a = nat] by simp
  then show ?thesis by (simp add: get_u64_def get_uint_def le_nat_to_le)
qed

lemma get_i64_to_le [simp]: "- (2 ^ 63) \<le> i \<Longrightarrow> i < 2 ^ 63 \<Longrightarrow> get_i64 (to_le 8 (unat (word_of_int i :: u64))) = Inr i"
  by (simp add: get_i64_def signed_of_int signed_take_bit_int_eq_self)

lemma get_i32_to_le [simp]: "- (2 ^ 31) \<le> i \<Longrightarrow> i < 2 ^ 31 \<Longrightarrow> get_i32 (to_le 4 (unat (word_of_int i :: u32))) = Inr i"
  by (simp add: get_i32_def signed_of_int signed_take_bit_int_eq_self)

definition nul_string :: "string \<Rightarrow> u8 list" where
  "nul_string s = map (\<lambda>c. of_nat (of_char c)) s @ [0]"

lemma get_string_nul:
  assumes "CHR 0x00 \<notin> set s"
  shows "get_string (nul_string s) = Inr s"
proof -
  have u: "unat (of_nat (of_char c) :: u8) = of_char c" for c :: char
  proof -
    have "(of_char c :: nat) < 256" by (rule nat_of_char_less_256)
    then show ?thesis by (simp add: unat_of_nat)
  qed
  have z: "(of_nat (of_char c) :: u8) = 0 \<longleftrightarrow> c = CHR 0x00" for c :: char
  proof
    assume "(of_nat (of_char c) :: u8) = 0"
    then have "unat (of_nat (of_char c) :: u8) = 0" by simp
    then have "(of_char c :: nat) = of_char (CHR 0x00)" unfolding u by simp
    then show "c = CHR 0x00" by (simp only: of_char_eq_iff)
  qed simp
  have "takeWhile (\<lambda>x. x \<noteq> 0) (nul_string s) = map (\<lambda>c. of_nat (of_char c)) s"
    using assms unfolding nul_string_def by (induction s) (auto simp: z)
  then show ?thesis by (simp add: get_string_def u comp_def)
qed

text \<open>The attributes the kernel sends for a device.\<close>

definition device_attrs :: "DoDeviceGetReply \<Rightarrow> attrs" where
  "device_attrs r =
     [(1, to_le 4 (unat (dr_Id r))), (2, nul_string (dr_ModuleName r)), (4, to_le 8 (unat (dr_ClockId r))),
      (5, to_le 4 (unat (dr_Mode r))), (6, to_le 4 (unat (dr_ModeSupported r))), (7, to_le 4 (unat (dr_LockStatus r))),
      (8, to_le 4 (unat (word_of_int (dr_Temp r) :: u32))), (9, to_le 4 (unat (dr_Type r)))]"

text \<open>
  Device replies: if the framing yields the attributes of a device, \<open>ParseDeviceReplies\<close> returns the
  device, except for its mode and supported modes, which it does not read.
\<close>

theorem parse_device_roundtrip:
  assumes "decode m = Inr (device_attrs r)" and "CHR 0x00 \<notin> set (dr_ModuleName r)"
    and "- (2 ^ 31) \<le> dr_Temp r" and "dr_Temp r < 2 ^ 31"
  shows "ParseDeviceReplies decode [m] = Inr [r\<lparr>dr_Mode := 0, dr_ModeSupported := 0\<rparr>]"
  using assms
  by (simp add: ParseDeviceReplies_def device_attrs_def device_attr_def zero_device_def get_string_nul)

theorem parse_device_roundtrip_witness:
  "ParseDeviceReplies (\<lambda>_. Inr (device_attrs (zero_device\<lparr>dr_ModuleName := ''ice'', dr_LockStatus := 3\<rparr>))) [[]]
   = Inr [zero_device\<lparr>dr_ModuleName := ''ice'', dr_LockStatus := 3\<rparr>]"
  using parse_device_roundtrip [of "\<lambda>_. Inr (device_attrs (zero_device\<lparr>dr_ModuleName := ''ice'', dr_LockStatus := 3\<rparr>))" "[]"
      "zero_device\<lparr>dr_ModuleName := ''ice'', dr_LockStatus := 3\<rparr>"]
  by (simp add: zero_device_def)

end
