(* ===== verification/Dpll.thy ===== *)
theory Dpll
  imports Event_Types Dpll_Netlink Pubsub
begin

text \<open>
  \<open>pkg/dpll/dpll.go\<close>: the DPLL process. It keeps the lock states and the phase offset the kernel reports
  (netlink or sysfs), decides the PTP state of the DPLL (\<open>stateDecision\<close>), and runs the holdover timer as a
  goroutine of its own.

  \<open>stateDecision\<close> talks to the holdover goroutine over an unbuffered channel. A decision is therefore a
  value with three parts: what it assigns before the channel operation, the operation, and what it
  does after it. The theory first treats the decision as one sequential step, then the decision and
  the holdover goroutine as a step relation in which a blocked send is visible.

  Results: the decision as a table; the event it sends mirrors the state it decided; the worse of two
  lock states; the timers derived from the settings; holdover ends in FREERUN at the first tick whose
  offset leaves the spec; closing a holdover while the source is still lost restarts it; a decision
  that waits for a holdover goroutine already on its way out waits for ever; an exit
  at the end of a holdover makes the daemon panic.
\<close>

section \<open>Constants and state\<close>

abbreviation (input) DPLL_UNKNOWN :: int where "DPLL_UNKNOWN \<equiv> - 1"

abbreviation (input) DPLL_INVALID :: int where "DPLL_INVALID \<equiv> 0"

abbreviation (input) DPLL_FREERUN :: int where "DPLL_FREERUN \<equiv> 1"

abbreviation (input) DPLL_LOCKED :: int where "DPLL_LOCKED \<equiv> 2"

abbreviation (input) DPLL_LOCKED_HO_ACQ :: int where "DPLL_LOCKED_HO_ACQ \<equiv> 3"

abbreviation (input) DPLL_HOLDOVER :: int where "DPLL_HOLDOVER \<equiv> 4"

definition LocalMaxHoldoverOffSet :: u64 where "LocalMaxHoldoverOffSet = 1500"

definition LocalHoldoverTimeout :: u64 where "LocalHoldoverTimeout = 14400"

definition MaxInSpecOffset :: u64 where "MaxInSpecOffset = 100"

definition FaultyPhaseOffset :: int where "FaultyPhaseOffset = 99999999999"

datatype dpllApiType = SYSFS | NETLINK | MOCK | NONE

text \<open>The part of \<open>config.ProcessConfig\<close> the DPLL uses; \<open>pc_hasChannel\<close> is \<open>EventChannel != nil\<close>.\<close>

record ProcessConfig =
  pc_ClockType :: ClockType
  pc_ConfigName :: string
  pc_hasChannel :: bool
  pc_GMThreshold_Max :: int
  pc_GMThreshold_Min :: int

record DpllConfig =
  dp_LocalMaxHoldoverOffSet :: u64
  dp_LocalHoldoverTimeout :: u64
  dp_MaxInSpecOffset :: u64
  dp_iface :: string
  dp_slope :: f64
  dp_timer :: int
  dp_inSpec :: bool
  dp_frequencyTraceable :: bool
  dp_state :: PTPState
  dp_onHoldover :: bool
  dp_sourceLost :: bool
  dp_processConfig :: ProcessConfig
  dp_dependsOn :: "EventSource list"
  dp_apiType :: dpllApiType
  dp_phaseStatus :: int
  dp_frequencyStatus :: int
  dp_phaseOffset :: int
  dp_clockId :: u64
  dp_isMonitoring :: bool
  dp_subscriber :: "(EventSource \<times> string) list"
  dp_phaseOffsetPinFilter :: "(string \<times> (string \<times> string) list) list"

definition f64_of_u64 :: "u64 \<Rightarrow> f64" where
  "f64_of_u64 w = f64_of_int (uint w)"

definition NewDpll :: "u64 \<Rightarrow> u64 \<Rightarrow> u64 \<Rightarrow> u64 \<Rightarrow> string \<Rightarrow> EventSource list \<Rightarrow> dpllApiType
    \<Rightarrow> (string \<times> (string \<times> string) list) list \<Rightarrow> DpllConfig" where
  "NewDpll clockId localMaxHoldoverOffSet localHoldoverTimeout maxInSpecOffset iface dependsOn apiType pinFilter =
     (let slope = f64_div (f64_of_u64 localMaxHoldoverOffSet) (f64_of_u64 localHoldoverTimeout) in
      \<lparr>dp_LocalMaxHoldoverOffSet = localMaxHoldoverOffSet, dp_LocalHoldoverTimeout = localHoldoverTimeout,
       dp_MaxInSpecOffset = maxInSpecOffset, dp_iface = iface, dp_slope = slope,
       dp_timer = f64_to_i64 (math_Round (f64_div (f64_of_u64 maxInSpecOffset) slope)),
       dp_inSpec = False, dp_frequencyTraceable = False, dp_state = PTP_FREERUN, dp_onHoldover = False,
       dp_sourceLost = False,
       dp_processConfig = \<lparr>pc_ClockType = NoClockType, pc_ConfigName = '''', pc_hasChannel = False,
                           pc_GMThreshold_Max = 0, pc_GMThreshold_Min = 0\<rparr>,
       dp_dependsOn = dependsOn, dp_apiType = apiType, dp_phaseStatus = 0, dp_frequencyStatus = 0,
       dp_phaseOffset = FaultyPhaseOffset, dp_clockId = clockId, dp_isMonitoring = False, dp_subscriber = [],
       dp_phaseOffsetPinFilter = pinFilter\<rparr>)"

section \<open>Offsets, pins and device updates\<close>

definition SetPhaseOffset :: "int \<Rightarrow> DpllConfig \<Rightarrow> DpllConfig" where
  "SetPhaseOffset phaseOffset d =
     d\<lparr>dp_phaseOffset := f64_to_i64 (math_Round (f64_of_int (go_div (go_div phaseOffset 1000) 1000)))\<rparr>"

text \<open>The loop over the filter of the clock id; its order does not matter, every entry must agree.\<close>

fun pin_filter_ok :: "(string \<times> string) list \<Rightarrow> DoPinGetReply \<Rightarrow> bool" where
  "pin_filter_ok [] pin = True"
| "pin_filter_ok ((k, v) # kvs) pin =
     (if k = ''boardLabel'' \<and> pr_BoardLabel pin \<noteq> v then False
      else if k = ''panelLabel'' \<and> pr_PanelLabel pin \<noteq> v then False
      else pin_filter_ok kvs pin)"

definition PhaseOffsetPin :: "DpllConfig \<Rightarrow> DoPinGetReply \<Rightarrow> bool" where
  "PhaseOffsetPin d pin \<longleftrightarrow>
     pr_ClockId pin = dp_clockId d \<and> pd_PhaseOffset (pr_ParentDevice pin) \<noteq> MaxInt64
     \<and> (case map_of (dp_phaseOffsetPinFilter d) (fmt_base 10 (unat (dp_clockId d))) of
          Some kvs \<Rightarrow> pin_filter_ok kvs pin
        | None \<Rightarrow> True)"

definition device_step :: "DpllConfig \<times> bool \<Rightarrow> DoDeviceGetReply \<Rightarrow> DpllConfig \<times> bool" where
  "device_step dv reply =
     (let (d, valid) = dv in
      if dr_ClockId reply = dp_clockId d \<and> uint (dr_LockStatus reply) \<noteq> DPLL_INVALID then
        (if GetDpllType (dr_Type reply) = ''eec'' then (d\<lparr>dp_frequencyStatus := uint (dr_LockStatus reply)\<rparr>, True)
         else if GetDpllType (dr_Type reply) = ''pps'' then (d\<lparr>dp_phaseStatus := uint (dr_LockStatus reply)\<rparr>, True)
         else dv)
      else dv)"

definition pin_step :: "DpllConfig \<times> bool \<Rightarrow> DoPinGetReply \<Rightarrow> DpllConfig \<times> bool" where
  "pin_step dv pin =
     (let (d, valid) = dv in
      if PhaseOffsetPin d pin then (SetPhaseOffset (pd_PhaseOffset (pr_ParentDevice pin)) d, True) else dv)"

definition nlUpdateState :: "DoDeviceGetReply list \<Rightarrow> DoPinGetReply list \<Rightarrow> DpllConfig \<Rightarrow> DpllConfig \<times> bool" where
  "nlUpdateState devices pins d = foldl pin_step (foldl device_step (d, False) devices) pins"

text \<open>
  One iteration of \<open>monitorNtf\<close> on the messages received: each message resets both lists, so only the last
  message counts. Commands 6 and 12 are the device-change and pin-change notifications. An error ends
  the monitoring. The result tells whether to decide.
\<close>

fun ntf_messages :: "(u8 list \<Rightarrow> attrs res) \<Rightarrow> (nat \<times> u8 list) list
    \<Rightarrow> DoDeviceGetReply list \<times> DoPinGetReply list \<Rightarrow> (DoDeviceGetReply list \<times> DoPinGetReply list) res" where
  "ntf_messages decode [] acc = Inr acc"
| "ntf_messages decode ((cmd, data) # msgs) acc =
     (if cmd = 6 then res_bind (ParseDeviceReplies decode [data]) (\<lambda>ds. ntf_messages decode msgs (ds, []))
      else if cmd = 12 then res_bind (ParsePinReplies decode [data]) (\<lambda>ps. ntf_messages decode msgs ([], ps))
      else ntf_messages decode msgs ([], []))"

definition monitorNtf_step :: "(u8 list \<Rightarrow> attrs res) \<Rightarrow> (nat \<times> u8 list) list \<Rightarrow> DpllConfig \<Rightarrow> (DpllConfig \<times> bool) res" where
  "monitorNtf_step decode msgs d =
     res_bind (ntf_messages decode msgs ([], [])) (\<lambda>(devices, pins). Inr (nlUpdateState devices pins d))"

text \<open>
  A batch of notifications acts like its last one: what the ones before it report is lost, even if that one is of no interest.
\<close>

lemma ntf_messages_snoc:
  "ntf_messages decode (msgs @ [m]) acc = Inr r \<Longrightarrow> ntf_messages decode [m] acc' = Inr r"
proof (induction decode msgs acc rule: ntf_messages.induct)
  case (1 decode acc)
  then show ?case by (cases m) (auto simp: res_bind_def split: if_splits sum.splits)
next
  case (2 decode cmd data msgs acc)
  then show ?case by (auto simp: res_bind_def split: if_splits sum.splits)
qed

theorem batch_acts_like_last:
  assumes "monitorNtf_step decode (msgs @ [m]) d = Inr r"
  shows "monitorNtf_step decode [m] d = Inr r"
proof -
  obtain p where p: "ntf_messages decode (msgs @ [m]) ([], []) = Inr p"
    using assms by (auto simp: monitorNtf_step_def res_bind_def split: sum.splits)
  with assms ntf_messages_snoc [OF p, of "([], [])"] show ?thesis by (simp add: monitorNtf_step_def)
qed

theorem batch_acts_like_last_witness:
  "monitorNtf_step (\<lambda>_. Inr []) [(1, [])] d = Inr (d, False)"
  by (rule batch_acts_like_last [of _ "[(2, [])]"]) (simp add: monitorNtf_step_def nlUpdateState_def res_bind_def)

definition isMaxHoldoverOffsetInRange :: "DpllConfig \<Rightarrow> bool" where
  "isMaxHoldoverOffsetInRange d \<longleftrightarrow> dp_phaseOffset d \<le> to_i64 (uint (dp_LocalMaxHoldoverOffSet d))"

definition isInSpecOffsetInRange :: "DpllConfig \<Rightarrow> bool" where
  "isInSpecOffsetInRange d \<longleftrightarrow> dp_phaseOffset d \<le> to_i64 (uint (dp_MaxInSpecOffset d))"

definition isOffsetInRange :: "DpllConfig \<Rightarrow> bool" where
  "isOffsetInRange d \<longleftrightarrow>
     dp_phaseOffset d \<le> pc_GMThreshold_Max (dp_processConfig d) \<and> pc_GMThreshold_Min (dp_processConfig d) \<le> dp_phaseOffset d"

text \<open>
  \<open>sysfs\<close>: \<open>read\<close> gives the content of a file, or \<open>None\<close>. A file that cannot be read or parsed counts
  as 0.
\<close>

definition readInt64FromFile :: "(string \<Rightarrow> string option) \<Rightarrow> string \<Rightarrow> int option" where
  "readInt64FromFile read path =
     (case read path of
        None \<Rightarrow> None
      | Some content \<Rightarrow> (case ParseInt (TrimSpace content) 10 64 of (v, None) \<Rightarrow> Some v | _ \<Rightarrow> None))"

definition sysfs :: "(string \<Rightarrow> string option) \<Rightarrow> string \<Rightarrow> int \<times> int \<times> int" where
  "sysfs read iface =
     (if iface = '''' then (DPLL_INVALID, DPLL_INVALID, 0)
      else
        let dir = ''/sys/class/net/'' @ iface @ ''/device/'';
            val = \<lambda>f. (case readInt64FromFile read (dir @ f) of Some v \<Rightarrow> v | None \<Rightarrow> 0)
        in (val ''dpll_1_state'', val ''dpll_0_state'',
            case readInt64FromFile read (dir @ ''dpll_1_offset'') of Some v \<Rightarrow> go_div v 100 | None \<Rightarrow> 0))"

text \<open>
  The settings of a profile; the list order is the order of one \<open>range\<close> over the map. A value that does
  not parse as an unsigned 64-bit number is skipped.
\<close>

definition setting_step :: "u64 \<times> u64 \<times> u64 \<Rightarrow> string \<times> string \<Rightarrow> u64 \<times> u64 \<times> u64" where
  "setting_step s kv =
     (let (maxOff, timeout, inSpec) = s in
      case ParseUint (snd kv) 10 64 of
        (i, None) \<Rightarrow>
          (if fst kv = ''LocalMaxHoldoverOffSet'' then of_nat i else maxOff,
           if fst kv = ''LocalHoldoverTimeout'' then of_nat i else timeout,
           if fst kv = ''MaxInSpecOffset'' then of_nat i else inSpec)
      | (_, Some _) \<Rightarrow> s)"

definition CalculateTimer :: "(string \<times> string) list \<Rightarrow> int \<times> int \<times> int \<times> int \<times> bool" where
  "CalculateTimer settings =
     (let (maxOff, timeout, inSpec) =
            foldl setting_step (LocalMaxHoldoverOffSet, LocalHoldoverTimeout, MaxInSpecOffset) settings;
          slope = f64_div (f64_of_u64 maxOff) (f64_of_u64 timeout);
          timer = f64_to_i64 (math_Round (f64_div (f64_of_u64 inSpec) slope))
      in (to_i64 (uint inSpec), to_i64 (uint maxOff), to_i64 (uint timeout), timer, False))"

section \<open>The decision\<close>

text \<open>
  The quality of a lock state; a state that is not in Go's map reads as the zero value.
\<close>

definition getStateQuality :: "int \<Rightarrow> int" where
  "getStateQuality s =
     (if s = DPLL_UNKNOWN then - 1 else if s = DPLL_INVALID then 0 else if s = DPLL_FREERUN then 1
      else if s = DPLL_HOLDOVER then 2 else if s = DPLL_LOCKED then 3 else if s = DPLL_LOCKED_HO_ACQ then 4 else 0)"

definition getWorseState :: "int \<Rightarrow> int \<Rightarrow> int" where
  "getWorseState pstate fstate = (if getStateQuality pstate < getStateQuality fstate then pstate else fstate)"

text \<open>\<open>now\<close> is the time in milliseconds; without an event channel nothing is sent.\<close>

definition sendDpllEvent :: "int \<Rightarrow> DpllConfig \<Rightarrow> EventChannel list" where
  "sendDpllEvent now d =
     (if \<not> pc_hasChannel (dp_processConfig d) then []
      else
        [\<lparr>ec_ProcessName = DPLL, ec_State = dp_state d, ec_IFace = dp_iface d,
          ec_CfgName = pc_ConfigName (dp_processConfig d),
          ec_Values = [(FREQUENCY_STATUS, VInt64 (dp_frequencyStatus d)), (OFFSET, VInt64 (dp_phaseOffset d)),
                       (PHASE_STATUS, VInt64 (dp_phaseStatus d)),
                       (PPS_STATUS, VInt (if dp_sourceLost d then 0 else 1))],
          ec_ClockType = pc_ClockType (dp_processConfig d), ec_Time = now, ec_OutOfSpec = \<not> dp_inSpec d,
          ec_WriteToLog = True, ec_Reset = False, ec_SourceLost = dp_sourceLost d,
          ec_FrequencyTraceable = dp_frequencyTraceable d\<rparr>])"

definition sendDpllTerminationEvent :: "int \<Rightarrow> DpllConfig \<Rightarrow> EventChannel" where
  "sendDpllTerminationEvent now d =
     \<lparr>ec_ProcessName = DPLL, ec_State = PTP_EMPTY, ec_IFace = dp_iface d,
      ec_CfgName = pc_ConfigName (dp_processConfig d), ec_Values = [],
      ec_ClockType = pc_ClockType (dp_processConfig d), ec_Time = now, ec_OutOfSpec = False,
      ec_WriteToLog = False, ec_Reset = True, ec_SourceLost = False, ec_FrequencyTraceable = False\<rparr>"

definition hasGNSSAsSource :: "DpllConfig \<Rightarrow> bool" where
  "hasGNSSAsSource d \<longleftrightarrow> hd (dp_dependsOn d) = GNSS"

definition hasPPSAsSource :: "DpllConfig \<Rightarrow> bool" where
  "hasPPSAsSource d \<longleftrightarrow> hd (dp_dependsOn d) = PPS"

datatype close_op = NoClose | MustClose | TryClose

text \<open>
  A decision: the configuration before the channel operation, the operation on \<open>holdoverCloseCh\<close>, the
  rest of the decision (given the configuration after the operation, the final configuration and the
  events sent), and whether it starts the holdover goroutine.
\<close>

record decision =
  de_before :: DpllConfig
  de_close :: close_op
  de_after :: "DpllConfig \<Rightarrow> DpllConfig \<times> EventChannel list"
  de_start :: bool

definition decision_log :: "DpllConfig \<Rightarrow> DpllConfig" where
  "decision_log d = (if hasPPSAsSource d then d\<lparr>dp_sourceLost := False\<rparr> else d)"

definition decide_with :: "DpllConfig \<Rightarrow> close_op \<Rightarrow> int \<Rightarrow> (DpllConfig \<Rightarrow> DpllConfig) \<Rightarrow> decision" where
  "decide_with before close now assign =
     \<lparr>de_before = before, de_close = close,
      de_after = (\<lambda>d. let d' = assign d in (decision_log d', sendDpllEvent now d')), de_start = False\<rparr>"

definition holdover_decision :: "int \<Rightarrow> int \<Rightarrow> DpllConfig \<Rightarrow> decision" where
  "holdover_decision now dpllStatus d =
     (if hasPPSAsSource d then
        (if dpllStatus = DPLL_HOLDOVER then
           decide_with d NoClose now
             (\<lambda>d. d\<lparr>dp_state := PTP_FREERUN, dp_phaseOffset := FaultyPhaseOffset, dp_sourceLost := True\<rparr>)
         else if isOffsetInRange d then
           decide_with d NoClose now (\<lambda>d. d\<lparr>dp_state := PTP_LOCKED, dp_sourceLost := False\<rparr>)
         else
           decide_with d NoClose now (\<lambda>d. d\<lparr>dp_state := PTP_FREERUN, dp_sourceLost := False\<rparr>))
      else if \<not> dp_sourceLost d \<and> isOffsetInRange d then
        decide_with d (if hasGNSSAsSource d \<and> dp_onHoldover d then TryClose else NoClose) now
          (\<lambda>d. d\<lparr>dp_inSpec := True, dp_state := PTP_LOCKED\<rparr>)
      else if dp_sourceLost d \<and> dp_inSpec d then
        (if \<not> dp_onHoldover d then
           \<lparr>de_before = d\<lparr>dp_onHoldover := True, dp_state := PTP_HOLDOVER\<rparr>, de_close = NoClose,
            de_after = (\<lambda>d. (d, [])), de_start = True\<rparr>
         else \<lparr>de_before = d, de_close = NoClose, de_after = (\<lambda>d. (d, [])), de_start = False\<rparr>)
      else if \<not> dp_inSpec d then
        decide_with (d\<lparr>dp_state := PTP_FREERUN, dp_phaseOffset := FaultyPhaseOffset\<rparr>) TryClose now id
      else decide_with d NoClose now id)"

text \<open>
  \<open>stateDecision\<close>; \<open>dependsOn[0]\<close> is read on every path, so an empty list of sources panics.
\<close>

definition stateDecision :: "int \<Rightarrow> DpllConfig \<Rightarrow> decision res" where
  "stateDecision now d =
     (if dp_dependsOn d = [] then Inl IndexOutOfRange
      else
        let dpllStatus = getWorseState (dp_phaseStatus d) (dp_frequencyStatus d);
            mustClose = (if hasGNSSAsSource d \<and> dp_onHoldover d then MustClose else NoClose)
        in Inr
          (if dpllStatus = DPLL_FREERUN \<or> dpllStatus = DPLL_INVALID \<or> dpllStatus = DPLL_UNKNOWN then
             decide_with (d\<lparr>dp_inSpec := False, dp_sourceLost := True\<rparr>) mustClose now
               (\<lambda>d. d\<lparr>dp_state := PTP_FREERUN, dp_phaseOffset := FaultyPhaseOffset\<rparr>)
           else if dpllStatus = DPLL_LOCKED then
             (if \<not> dp_sourceLost d \<and> isOffsetInRange d then
                decide_with d mustClose now (\<lambda>d. d\<lparr>dp_state := PTP_LOCKED, dp_inSpec := True\<rparr>)
              else
                decide_with d NoClose now (\<lambda>d. d\<lparr>dp_state := PTP_FREERUN, dp_inSpec := True\<rparr>))
           else if dpllStatus = DPLL_LOCKED_HO_ACQ \<or> dpllStatus = DPLL_HOLDOVER then
             holdover_decision now dpllStatus d
           else \<lparr>de_before = d, de_close = NoClose, de_after = (\<lambda>d. (decision_log d, [])), de_start = False\<rparr>))"

text \<open>The decision run to its end with nothing happening in between.\<close>

definition decided :: "int \<Rightarrow> DpllConfig \<Rightarrow> (DpllConfig \<times> EventChannel list) res" where
  "decided now d = res_bind (stateDecision now d) (\<lambda>de. Inr (de_after de (de_before de)))"

section \<open>Notifications and subscriptions\<close>

record DependingStates =
  dep_states :: "(EventSource \<times> PTPState) list"
  dep_currentState :: PTPState

definition UpdateState :: "DependingStates \<Rightarrow> DependingStates" where
  "UpdateState s =
     s\<lparr>dep_currentState := foldl (\<lambda>lowest st. if st < lowest then st else lowest) PTP_FREERUN (map snd (dep_states s))\<rparr>"

text \<open>
  \<open>Notify\<close> of the DPLL's subscriber. The guard's error message reads \<open>s.dpll.isMonitoring\<close> also when
  \<open>s.dpll\<close> is nil. The first component of the result is the shared map of states.
\<close>

definition Notify :: "int \<Rightarrow> EventSource \<Rightarrow> PTPState \<Rightarrow> DependingStates \<Rightarrow> DpllConfig option
    \<Rightarrow> (DependingStates \<times> DpllConfig \<times> EventChannel list) res" where
  "Notify now source state deps dpll =
     (case dpll of
        None \<Rightarrow> Inl NilDereference
      | Some d \<Rightarrow>
          if \<not> dp_isMonitoring d then Inr (deps, d, [])
          else if (case map_of (dep_states deps) source of Some st \<Rightarrow> st | None \<Rightarrow> PTP_EMPTY) \<noteq> state then
            let deps1 = deps\<lparr>dep_states := AList.update source state (dep_states deps)\<rparr>;
                d1 = (if source = GNSS then d\<lparr>dp_sourceLost := (state \<noteq> PTP_LOCKED)\<rparr> else d)
            in res_bind (decided now d1) (\<lambda>(d2, evs). Inr (UpdateState deps1, d2, evs))
          else Inr (deps, d, []))"

definition subscriber_id :: "DpllConfig \<Rightarrow> string" where
  "subscriber_id d = source_str DPLL @ ''-'' @ fmt_base 16 (unat (dp_clockId d))"

text \<open>\<open>MonitorProcess\<close>: one subscription per GNSS dependency and one for the monitor.\<close>

definition MonitorProcess :: "ProcessConfig \<Rightarrow> DependingStates \<Rightarrow> DpllConfig \<Rightarrow> DependingStates \<times> DpllConfig" where
  "MonitorProcess cfg deps d =
     (let d1 = d\<lparr>dp_processConfig := cfg\<rparr>;
          gnss = filter (\<lambda>dep. dep = GNSS) (dp_dependsOn d)
      in (foldl (\<lambda>s dep. s\<lparr>dep_states := AList.update dep PTP_UNKNOWN (dep_states s)\<rparr>) deps gnss,
          d1\<lparr>dp_subscriber := dp_subscriber d @ map (\<lambda>dep. (dep, subscriber_id d)) gnss @ [(MONITORING, subscriber_id d)]\<rparr>))"

definition to_subscriber :: "'obj \<Rightarrow> EventSource \<times> string \<Rightarrow> 'obj Subscriber" where
  "to_subscriber obj s = \<lparr>sub_Topic = fst s, sub_ID = snd s, sub_obj = obj\<rparr>"

definition registerAllSubscriber :: "'obj \<Rightarrow> DpllConfig \<Rightarrow> 'obj StateNotifier \<Rightarrow> 'obj StateNotifier" where
  "registerAllSubscriber obj d n = fold Register (map (to_subscriber obj) (dp_subscriber d)) n"

definition unRegisterAllSubscriber :: "'obj \<Rightarrow> DpllConfig \<Rightarrow> 'obj StateNotifier \<Rightarrow> DpllConfig \<times> 'obj StateNotifier" where
  "unRegisterAllSubscriber obj d n =
     (d\<lparr>dp_subscriber := []\<rparr>, fold Unregister (map (to_subscriber obj) (dp_subscriber d)) n)"

definition setAPIType :: "bool \<Rightarrow> bool \<Rightarrow> DpllConfig \<Rightarrow> DpllConfig" where
  "setAPIType sysFsPresent netLinkPresent d =
     d\<lparr>dp_apiType := (if sysFsPresent then SYSFS else if netLinkPresent then NETLINK else NONE)\<rparr>"

definition CmdInit :: "bool \<Rightarrow> bool \<Rightarrow> DpllConfig \<Rightarrow> DpllConfig" where
  "CmdInit sysFsPresent netLinkPresent d =
     (if dp_apiType d \<noteq> MOCK then setAPIType sysFsPresent netLinkPresent d else d)"

definition MonitorDpll :: "DpllConfig \<Rightarrow> DpllConfig" where
  "MonitorDpll d = (if dp_apiType d = SYSFS \<or> dp_apiType d = NETLINK then d\<lparr>dp_isMonitoring := True\<rparr> else d)"

section \<open>Holdover\<close>

text \<open>\<open>secs\<close> is \<open>time.Since(start).Seconds()\<close>; the last component tells whether the loop goes on.\<close>

definition holdover_offset :: "DpllConfig \<Rightarrow> f64 \<Rightarrow> int" where
  "holdover_offset d secs = f64_to_i64 (math_Round (f64_mul (dp_slope d) secs))"

definition holdover_tick :: "int \<Rightarrow> f64 \<Rightarrow> DpllConfig \<Rightarrow> DpllConfig \<times> EventChannel list \<times> bool" where
  "holdover_tick now secs d =
     (let d1 = d\<lparr>dp_phaseOffset := holdover_offset d secs\<rparr> in
      if dp_frequencyTraceable d1 then (d1, sendDpllEvent now d1, True)
      else if \<not> isInSpecOffsetInRange d1 then
        (let d2 = d1\<lparr>dp_inSpec := False, dp_state := PTP_FREERUN\<rparr> in (d2, sendDpllEvent now d2, False))
      else (d1, sendDpllEvent now d1, True))"

definition holdover_timeout :: "int \<Rightarrow> DpllConfig \<Rightarrow> DpllConfig \<times> EventChannel list" where
  "holdover_timeout now d =
     (let d1 = d\<lparr>dp_inSpec := False, dp_state := PTP_FREERUN, dp_phaseOffset := FaultyPhaseOffset\<rparr>
      in (d1, sendDpllEvent now d1))"

text \<open>The loop of \<open>holdover\<close> when it is neither closed nor timed out, on the times of its ticks.\<close>

fun holdover_run :: "int \<Rightarrow> f64 list \<Rightarrow> DpllConfig \<Rightarrow> DpllConfig \<times> EventChannel list \<times> bool" where
  "holdover_run now [] d = (d, [], True)"
| "holdover_run now (s # ss) d =
     (case holdover_tick now s d of
        (d1, evs, go) \<Rightarrow>
          if go then (case holdover_run now ss d1 of (d2, evs2, go2) \<Rightarrow> (d2, evs @ evs2, go2))
          else (d1, evs, False))"

section \<open>The decision and the holdover goroutine together\<close>

text \<open>
  \<open>HSpawned\<close>: started, before its first event; \<open>HSelect\<close>: waiting for a tick, the timeout or a close;
  \<open>HClosed\<close>: has received a close; \<open>HReturning\<close>: has left the loop, its deferred function not yet run.
  The deferred function (clear \<open>onHoldover\<close>, decide again) is one step.

  Every holdover makes a channel of its own: \<open>sy_chan\<close> numbers them, \<open>sy_closed\<close> says whether the last one has
  been closed. \<open>sy_blocked\<close> is a decision that waits in its send on a channel: which, and the rest of
  the decision; one decision is under way at a time. A send on a closed channel panics (\<open>sy_crashed\<close>), a send that waits when
  its channel is closed too. The exit is that of the netlink monitor.
\<close>

datatype hpc = HNone | HSpawned | HSelect | HClosed | HReturning

record dpll_sys =
  sy_d :: DpllConfig
  sy_pc :: hpc
  sy_chan :: nat
  sy_closed :: bool
  sy_blocked :: "(nat \<times> (DpllConfig \<Rightarrow> DpllConfig \<times> EventChannel list)) option"
  sy_events :: "EventChannel list"
  sy_exited :: bool
  sy_crashed :: bool

text \<open>A decision in a system: it blocks when it must close and the goroutine is not waiting.\<close>

definition start_holdover :: "dpll_sys \<Rightarrow> dpll_sys" where
  "start_holdover s = s\<lparr>sy_pc := HSpawned, sy_chan := Suc (sy_chan s), sy_closed := False\<rparr>"

definition run_decision :: "decision \<Rightarrow> dpll_sys \<Rightarrow> dpll_sys" where
  "run_decision de s =
     (let s1 = s\<lparr>sy_d := de_before de\<rparr>;
          finish = \<lambda>s. (let (d, evs) = de_after de (sy_d s) in s\<lparr>sy_d := d, sy_events := sy_events s @ evs\<rparr>)
      in
      case de_close de of
        NoClose \<Rightarrow> (if de_start de then start_holdover (finish s1) else finish s1)
      | TryClose \<Rightarrow>
          if sy_closed s then s1\<lparr>sy_crashed := True\<rparr>
          else finish (if sy_pc s = HSelect then s1\<lparr>sy_pc := HClosed\<rparr> else s1)
      | MustClose \<Rightarrow>
          if sy_closed s then s1\<lparr>sy_crashed := True\<rparr>
          else if sy_pc s = HSelect then finish (s1\<lparr>sy_pc := HClosed\<rparr>)
          else s1\<lparr>sy_blocked := Some (sy_chan s, de_after de)\<rparr>)"

inductive dpll_step :: "dpll_sys \<Rightarrow> dpll_sys \<Rightarrow> bool" where
  kernel_update:
    "nlUpdateState devices pins (sy_d s) = (d, valid) \<Longrightarrow>
     dpll_step s (s\<lparr>sy_d := d\<rparr>)"
| source_change:
    "dpll_step s (s\<lparr>sy_d := (sy_d s)\<lparr>dp_sourceLost := lost\<rparr>\<rparr>)"
| decide:
    "sy_blocked s = None \<Longrightarrow> \<not> sy_exited s \<Longrightarrow> stateDecision now (sy_d s) = Inr de \<Longrightarrow> dpll_step s (run_decision de s)"
| unblock:
    "sy_blocked s = Some (sy_chan s, rest) \<Longrightarrow> sy_pc s = HSelect \<Longrightarrow> rest (sy_d s) = (d, evs) \<Longrightarrow>
     dpll_step s (s\<lparr>sy_d := d, sy_events := sy_events s @ evs, sy_blocked := None, sy_pc := HClosed\<rparr>)"
| first_event:
    "sy_pc s = HSpawned \<Longrightarrow>
     dpll_step s (s\<lparr>sy_events := sy_events s @ sendDpllEvent now (sy_d s), sy_pc := HSelect\<rparr>)"
| tick:
    "sy_pc s = HSelect \<Longrightarrow> holdover_tick now secs (sy_d s) = (d, evs, go) \<Longrightarrow>
     dpll_step s (s\<lparr>sy_d := d, sy_events := sy_events s @ evs, sy_pc := (if go then HSelect else HReturning)\<rparr>)"
| timeout:
    "sy_pc s = HSelect \<Longrightarrow> holdover_timeout now (sy_d s) = (d, evs) \<Longrightarrow>
     dpll_step s (s\<lparr>sy_d := d, sy_events := sy_events s @ evs, sy_pc := HReturning\<rparr>)"
| sees_close:
    "sy_pc s = HSelect \<Longrightarrow> sy_closed s \<Longrightarrow> dpll_step s (s\<lparr>sy_pc := HClosed\<rparr>)"
| closed:
    "sy_pc s = HClosed \<Longrightarrow> dpll_step s (s\<lparr>sy_d := (sy_d s)\<lparr>dp_inSpec := True\<rparr>, sy_pc := HReturning\<rparr>)"
| deferred:
    "sy_pc s = HReturning \<Longrightarrow> stateDecision now ((sy_d s)\<lparr>dp_onHoldover := False\<rparr>) = Inr de \<Longrightarrow>
     dpll_step s (run_decision de (s\<lparr>sy_d := (sy_d s)\<lparr>dp_onHoldover := False\<rparr>, sy_pc := HNone\<rparr>))"
| exit:
    "\<not> sy_exited s \<Longrightarrow>
     dpll_step s
       (s\<lparr>sy_exited := True,
          sy_events := sy_events s @ [sendDpllTerminationEvent now (sy_d s)],
          sy_d := (sy_d s)\<lparr>dp_onHoldover := False, dp_subscriber := []\<rparr>,
          sy_closed := (dp_onHoldover (sy_d s) \<or> sy_closed s),
          sy_crashed := (dp_onHoldover (sy_d s) \<and> (\<exists>rest. sy_blocked s = Some (sy_chan s, rest)))\<rparr>)"

text \<open>A program that has panicked takes no step.\<close>

inductive dpll_steps :: "dpll_sys \<Rightarrow> dpll_sys \<Rightarrow> bool" where
  refl: "dpll_steps s s"
| step: "dpll_steps s s' \<Longrightarrow> \<not> sy_crashed s' \<Longrightarrow> dpll_step s' s'' \<Longrightarrow> dpll_steps s s''"

inductive_cases dpll_stepE: "dpll_step s s'"

section \<open>Lemmas\<close>

lemma decision_log_sel [simp]:
  "dp_state (decision_log d) = dp_state d"
  "dp_inSpec (decision_log d) = dp_inSpec d"
  "dp_onHoldover (decision_log d) = dp_onHoldover d"
  "dp_phaseOffset (decision_log d) = dp_phaseOffset d"
  by (simp_all add: decision_log_def)

lemma has_source_upd [simp]:
  "hasPPSAsSource (d\<lparr>dp_state := a\<rparr>) = hasPPSAsSource d"
  "hasPPSAsSource (d\<lparr>dp_inSpec := b\<rparr>) = hasPPSAsSource d"
  "hasPPSAsSource (d\<lparr>dp_sourceLost := b\<rparr>) = hasPPSAsSource d"
  "hasPPSAsSource (d\<lparr>dp_phaseOffset := i\<rparr>) = hasPPSAsSource d"
  "hasPPSAsSource (d\<lparr>dp_onHoldover := b\<rparr>) = hasPPSAsSource d"
  "hasGNSSAsSource (d\<lparr>dp_onHoldover := b\<rparr>) = hasGNSSAsSource d"
  by (simp_all add: hasPPSAsSource_def hasGNSSAsSource_def)

lemma isOffsetInRange_upd [simp]:
  "isOffsetInRange (d\<lparr>dp_onHoldover := b\<rparr>) = isOffsetInRange d"
  "isOffsetInRange (d\<lparr>dp_inSpec := b\<rparr>) = isOffsetInRange d"
  "isOffsetInRange (d\<lparr>dp_sourceLost := b\<rparr>) = isOffsetInRange d"
  by (simp_all add: isOffsetInRange_def)

lemma GNSS_not_PPS: "hd (dp_dependsOn d) = GNSS \<Longrightarrow> \<not> hasPPSAsSource d \<and> hasGNSSAsSource d"
  by (simp add: hasPPSAsSource_def hasGNSSAsSource_def)

lemmas decision_defs = stateDecision_def holdover_decision_def decide_with_def Let_def

definition dpll_status :: "DpllConfig \<Rightarrow> int" where
  "dpll_status d = getWorseState (dp_phaseStatus d) (dp_frequencyStatus d)"

lemma dpll_status_upd [simp]:
  "dpll_status (d\<lparr>dp_onHoldover := b\<rparr>) = dpll_status d"
  "dpll_status (d\<lparr>dp_inSpec := b\<rparr>) = dpll_status d"
  "dpll_status (d\<lparr>dp_sourceLost := b\<rparr>) = dpll_status d"
  by (simp_all add: dpll_status_def)

lemma decision_onHoldover:
  assumes "stateDecision now d = Inr de"
  shows "dp_onHoldover (de_before de) = (if de_start de then True else dp_onHoldover d)"
    and "dp_onHoldover (fst (de_after de x)) = dp_onHoldover x"
    and "de_start de \<Longrightarrow> de_close de = NoClose"
  using assms by (auto simp: decision_defs split: if_splits)

text \<open>The sequential decision of a DPLL disciplined by GNSS, by lock state.\<close>

definition with_event :: "int \<Rightarrow> DpllConfig \<Rightarrow> (DpllConfig \<times> EventChannel list) res" where
  "with_event now d = Inr (d, sendDpllEvent now d)"

lemma decided_gnss:
  assumes "dp_dependsOn d = GNSS # rest"
  shows "dpll_status d \<in> {- 1, 0, 1} \<Longrightarrow> decided now d =
      with_event now (d\<lparr>dp_inSpec := False, dp_sourceLost := True, dp_state := PTP_FREERUN, dp_phaseOffset := FaultyPhaseOffset\<rparr>)"
    and "dpll_status d = 2 \<Longrightarrow> decided now d =
      with_event now (d\<lparr>dp_state := (if \<not> dp_sourceLost d \<and> isOffsetInRange d then PTP_LOCKED else PTP_FREERUN), dp_inSpec := True\<rparr>)"
    and "dpll_status d \<in> {3, 4} \<Longrightarrow> decided now d =
      (if \<not> dp_sourceLost d \<and> isOffsetInRange d then with_event now (d\<lparr>dp_inSpec := True, dp_state := PTP_LOCKED\<rparr>)
       else if dp_sourceLost d \<and> dp_inSpec d
       then Inr (if dp_onHoldover d then d else d\<lparr>dp_onHoldover := True, dp_state := PTP_HOLDOVER\<rparr>, [])
       else if \<not> dp_inSpec d then with_event now (d\<lparr>dp_state := PTP_FREERUN, dp_phaseOffset := FaultyPhaseOffset\<rparr>)
       else with_event now d)"
    and "dpll_status d \<notin> {- 1, 0, 1, 2, 3, 4} \<Longrightarrow> decided now d = Inr (d, [])"
proof -
  have src: "\<not> hasPPSAsSource d" "hasGNSSAsSource d" "dp_dependsOn d \<noteq> []"
    using assms by (simp_all add: hasPPSAsSource_def hasGNSSAsSource_def)
  note defs = decided_def decision_defs dpll_status_def [symmetric] decision_log_def with_event_def
  show "dpll_status d \<in> {- 1, 0, 1} \<Longrightarrow> decided now d =
      with_event now (d\<lparr>dp_inSpec := False, dp_sourceLost := True, dp_state := PTP_FREERUN, dp_phaseOffset := FaultyPhaseOffset\<rparr>)"
    using src by (elim insertE emptyE; simp add: defs)
  show "dpll_status d = 2 \<Longrightarrow> decided now d =
      with_event now (d\<lparr>dp_state := (if \<not> dp_sourceLost d \<and> isOffsetInRange d then PTP_LOCKED else PTP_FREERUN), dp_inSpec := True\<rparr>)"
    using src by (simp add: defs)
  show "dpll_status d \<in> {3, 4} \<Longrightarrow> decided now d =
      (if \<not> dp_sourceLost d \<and> isOffsetInRange d then with_event now (d\<lparr>dp_inSpec := True, dp_state := PTP_LOCKED\<rparr>)
       else if dp_sourceLost d \<and> dp_inSpec d
       then Inr (if dp_onHoldover d then d else d\<lparr>dp_onHoldover := True, dp_state := PTP_HOLDOVER\<rparr>, [])
       else if \<not> dp_inSpec d then with_event now (d\<lparr>dp_state := PTP_FREERUN, dp_phaseOffset := FaultyPhaseOffset\<rparr>)
       else with_event now d)"
    using src by (elim insertE emptyE; simp add: defs)
  show "dpll_status d \<notin> {- 1, 0, 1, 2, 3, 4} \<Longrightarrow> decided now d = Inr (d, [])"
    using src by (simp add: defs)
qed

lemma with_event_sends:
  assumes "with_event now x = Inr (d', evs)" and "pc_hasChannel (dp_processConfig x)"
  shows "\<exists>ev. evs = [ev] \<and> ec_ProcessName ev = DPLL \<and> ec_State ev = dp_state d' \<and> ec_IFace ev = dp_iface d'
      \<and> map_of (ec_Values ev) OFFSET = Some (VInt64 (dp_phaseOffset d'))
      \<and> (ec_OutOfSpec ev \<longleftrightarrow> \<not> dp_inSpec d') \<and> (ec_SourceLost ev \<longleftrightarrow> dp_sourceLost d')"
proof -
  have d': "d' = x" and evs: "evs = sendDpllEvent now x" using assms(1) by (auto simp: with_event_def)
  show ?thesis unfolding d' evs sendDpllEvent_def using assms(2) by simp
qed

lemma known_status: "(x :: int) \<in> {- 1 .. 4} \<Longrightarrow> x \<in> {- 1, 0, 1, 2, 3, 4}"
  unfolding atLeastAtMost_iff insert_iff empty_iff by arith

lemma status_cases:
  obtains "dpll_status d \<in> {- 1, 0, 1}" | "dpll_status d = 2" | "dpll_status d \<in> {3, 4}"
  | "dpll_status d \<notin> {- 1, 0, 1, 2, 3, 4}"
  by blast

section \<open>Properties of one decision\<close>


definition demo_dpll :: DpllConfig where
  "demo_dpll =
     (NewDpll 5799633565432596414 1000 1000 100 ''ens1f0'' [GNSS] NETLINK [])
       \<lparr>dp_phaseStatus := 4, dp_frequencyStatus := 3, dp_inSpec := True, dp_sourceLost := True, dp_state := PTP_LOCKED,
        dp_phaseOffset := 5,
        dp_processConfig := \<lparr>pc_ClockType = GM, pc_ConfigName = ''ts2phc.0.config'', pc_hasChannel = True,
                             pc_GMThreshold_Max = 100, pc_GMThreshold_Min = - 100\<rparr>\<rparr>"

lemma demo_dpll_sel:
  "dp_dependsOn demo_dpll = [GNSS]" "dp_onHoldover demo_dpll = False" "dpll_status demo_dpll = 4"
  "dp_sourceLost demo_dpll" "dp_inSpec demo_dpll" "pc_hasChannel (dp_processConfig demo_dpll)"
  by (simp_all add: demo_dpll_def NewDpll_def Let_def dpll_status_def getWorseState_def getStateQuality_def)

lemma demo_dpll_decision:
  "stateDecision 1 demo_dpll =
     Inr \<lparr>de_before = demo_dpll\<lparr>dp_onHoldover := True, dp_state := PTP_HOLDOVER\<rparr>, de_close = NoClose,
          de_after = (\<lambda>d. (d, [])), de_start = True\<rparr>"
  using demo_dpll_sel by (simp add: decision_defs dpll_status_def hasPPSAsSource_def)


text \<open>
  The event of a decision: with an event channel and a lock state the code knows, a decision sends
  exactly one event, carrying the decided state, the offset and the spec flag of the configuration it
  leaves; only when the source is lost while in spec, in holdover states, it sends none (the holdover
  goroutine reports instead).
\<close>

theorem decision_sends_its_state:
  assumes "dp_dependsOn d = GNSS # rest" and "pc_hasChannel (dp_processConfig d)" and "dpll_status d \<in> {- 1 .. 4}"
    and "decided now d = Inr (d', evs)"
  shows "if dpll_status d \<in> {DPLL_LOCKED_HO_ACQ, DPLL_HOLDOVER} \<and> dp_sourceLost d \<and> dp_inSpec d then evs = []
    else \<exists>ev. evs = [ev] \<and> ec_ProcessName ev = DPLL \<and> ec_State ev = dp_state d' \<and> ec_IFace ev = dp_iface d'
      \<and> map_of (ec_Values ev) OFFSET = Some (VInt64 (dp_phaseOffset d'))
      \<and> (ec_OutOfSpec ev \<longleftrightarrow> \<not> dp_inSpec d') \<and> (ec_SourceLost ev \<longleftrightarrow> dp_sourceLost d')"
proof (cases rule: status_cases [of d])
  case 1
  then show ?thesis
    using with_event_sends [of now _ d' evs] assms(2,4) unfolding decided_gnss(1) [OF assms(1) 1]
    by (elim insertE emptyE; simp)
next
  case 2
  then show ?thesis
    using with_event_sends [of now _ d' evs] assms(2,4) unfolding decided_gnss(2) [OF assms(1) 2] by simp
next
  case 3
  show ?thesis
  proof (cases "dp_sourceLost d \<and> dp_inSpec d")
    case True
    with 3 assms(4) show ?thesis unfolding decided_gnss(3) [OF assms(1) 3] by simp
  next
    case False
    then show ?thesis
      using with_event_sends [of now _ d' evs] assms(2,4) unfolding decided_gnss(3) [OF assms(1) 3]
      by (simp split: if_splits)
  qed
next
  case 4
  with known_status [OF assms(3)] show ?thesis by contradiction
qed

theorem decision_sends_its_state_witness:
  "\<exists>d' ev. decided 1 (demo_dpll\<lparr>dp_sourceLost := False\<rparr>) = Inr (d', [ev]) \<and> ec_State ev = dp_state d'"
proof -
  let ?d = "demo_dpll\<lparr>dp_sourceLost := False\<rparr>"
  obtain d' evs where r: "decided 1 ?d = Inr (d', evs)"
    using demo_dpll_sel by (cases "decided 1 ?d") (auto simp: decided_def stateDecision_def res_bind_def Let_def)
  with decision_sends_its_state [of ?d "[]" 1 d' evs] demo_dpll_sel show ?thesis by auto
qed

text \<open>
  \<open>getWorseState\<close> returns one of its arguments, of a quality no better than either; on the six known
  states, when the two differ the result is the strictly worse one, whatever the order.
\<close>

theorem worse_state_is_worse:
  "getWorseState p f \<in> {p, f} \<and> getStateQuality (getWorseState p f) = min (getStateQuality p) (getStateQuality f)
   \<and> (p \<in> {- 1 .. 4} \<and> f \<in> {- 1 .. 4} \<longrightarrow> getWorseState p f = getWorseState f p)"
proof -
  have inj: "p = f" if "p \<in> {- 1 .. 4}" "f \<in> {- 1 .. 4}" "getStateQuality p = getStateQuality f"
  proof -
    have "p \<in> {- 1, 0, 1, 2, 3, 4}" "f \<in> {- 1, 0, 1, 2, 3, 4}" using that(1,2) known_status by blast+
    then show ?thesis using that(3) by (elim insertE emptyE; simp add: getStateQuality_def)
  qed
  show ?thesis using inj by (auto simp: getWorseState_def)
qed

theorem worse_state_is_worse_witness: "getWorseState 2 4 = 4 \<and> getWorseState 4 2 = 4"
  using worse_state_is_worse [of 2 4] by (simp add: getWorseState_def getStateQuality_def)

section \<open>Properties of holdover\<close>

lemma holdover_tick_slope: "dp_slope (fst (holdover_tick now s d)) = dp_slope d"
  "dp_MaxInSpecOffset (fst (holdover_tick now s d)) = dp_MaxInSpecOffset d"
  "dp_frequencyTraceable (fst (holdover_tick now s d)) = dp_frequencyTraceable d"
  by (simp_all add: holdover_tick_def Let_def)

lemma holdover_tick_in:
  assumes "holdover_offset d s \<le> to_i64 (uint (dp_MaxInSpecOffset d))"
  shows "holdover_tick now s d = (d\<lparr>dp_phaseOffset := holdover_offset d s\<rparr>, sendDpllEvent now (d\<lparr>dp_phaseOffset := holdover_offset d s\<rparr>), True)"
  using assms by (simp add: holdover_tick_def Let_def isInSpecOffsetInRange_def)

lemma holdover_tick_out:
  assumes "\<not> dp_frequencyTraceable d" and "to_i64 (uint (dp_MaxInSpecOffset d)) < holdover_offset d s"
  shows "holdover_tick now s d =
    (let d' = d\<lparr>dp_phaseOffset := holdover_offset d s, dp_inSpec := False, dp_state := PTP_FREERUN\<rparr>
     in (d', sendDpllEvent now d', False))"
  using assms by (simp add: holdover_tick_def Let_def isInSpecOffsetInRange_def)

lemma holdover_offset_upd [simp]: "holdover_offset (d\<lparr>dp_phaseOffset := i\<rparr>) s = holdover_offset d s"
  by (simp add: holdover_offset_def)

lemma holdover_run_in:
  assumes "\<forall>s \<in> set ss. holdover_offset d s \<le> to_i64 (uint (dp_MaxInSpecOffset d))"
  shows "\<exists>i. holdover_run now (ss @ rest) d =
    (case holdover_run now rest (d\<lparr>dp_phaseOffset := i\<rparr>) of
       (d', evs, go) \<Rightarrow> (d', concat (map (\<lambda>s. sendDpllEvent now (d\<lparr>dp_phaseOffset := holdover_offset d s\<rparr>)) ss) @ evs, go))"
  using assms
proof (induction ss arbitrary: d)
  case Nil
  have "holdover_run now rest d = holdover_run now rest (d\<lparr>dp_phaseOffset := dp_phaseOffset d\<rparr>)" by simp
  then show ?case by (intro exI [of _ "dp_phaseOffset d"]) (simp split: prod.split)
next
  case (Cons s ss)
  let ?d = "d\<lparr>dp_phaseOffset := holdover_offset d s\<rparr>"
  from Cons.prems have "holdover_offset d s \<le> to_i64 (uint (dp_MaxInSpecOffset d))" by simp
  note tick = holdover_tick_in [OF this, of now]
  from Cons.IH [of ?d] Cons.prems obtain i where
    "holdover_run now (ss @ rest) ?d =
      (case holdover_run now rest (d\<lparr>dp_phaseOffset := i\<rparr>) of
         (d', evs, go) \<Rightarrow> (d', concat (map (\<lambda>s. sendDpllEvent now (d\<lparr>dp_phaseOffset := holdover_offset d s\<rparr>)) ss) @ evs, go))"
    by auto
  then show ?case by (intro exI [of _ i]) (simp add: tick split: prod.split)
qed

text \<open>
  C9. Holdover ends at the first tick out of spec: if no tick before has driven the offset
  (slope times elapsed seconds, rounded) above the in-spec maximum and the next one does, the loop
  sends one event per tick, the in-spec ones with the unchanged state and the offset of the tick, the
  last one FREERUN and out of spec, and stops, whatever ticks would follow.
\<close>

theorem holdover_ends_out_of_spec:
  assumes "\<not> dp_frequencyTraceable d"
    and "\<forall>s \<in> set ss. holdover_offset d s \<le> to_i64 (uint (dp_MaxInSpecOffset d))"
    and "to_i64 (uint (dp_MaxInSpecOffset d)) < holdover_offset d s"
  shows "holdover_run now (ss @ s # rest) d =
    (let d' = d\<lparr>dp_phaseOffset := holdover_offset d s, dp_inSpec := False, dp_state := PTP_FREERUN\<rparr>
     in (d', concat (map (\<lambda>s. sendDpllEvent now (d\<lparr>dp_phaseOffset := holdover_offset d s\<rparr>)) ss) @ sendDpllEvent now d', False))"
proof -
  have "holdover_run now (s # rest) (d\<lparr>dp_phaseOffset := i\<rparr>) =
      (let d' = d\<lparr>dp_phaseOffset := holdover_offset d s, dp_inSpec := False, dp_state := PTP_FREERUN\<rparr>
       in (d', sendDpllEvent now d', False))" for i
    using holdover_tick_out [of "d\<lparr>dp_phaseOffset := i\<rparr>" s now] assms(1,3) by (simp add: Let_def)
  with holdover_run_in [OF assms(2), of now "s # rest"] show ?thesis by (auto simp: Let_def)
qed

text \<open>With a slope of one nanosecond per second: one second stays in spec, 1000 seconds do not.\<close>

lemma demo_dpll_offsets:
  "holdover_offset demo_dpll (f64_of_int 1) = 1" "holdover_offset demo_dpll (f64_of_int 1000) = 1000"
  "to_i64 (uint (dp_MaxInSpecOffset demo_dpll)) = 100" "\<not> dp_frequencyTraceable demo_dpll"
proof -
  have "dp_slope demo_dpll = Fin 1" by code_simp
  moreover have "f64_to_i64 (math_Round (f64_mul (Fin 1) (f64_of_int 1))) = 1"
    and "f64_to_i64 (math_Round (f64_mul (Fin 1) (f64_of_int 1000))) = 1000"
    by code_simp+
  ultimately show "holdover_offset demo_dpll (f64_of_int 1) = 1" "holdover_offset demo_dpll (f64_of_int 1000) = 1000"
    by (simp_all add: holdover_offset_def)
  show "to_i64 (uint (dp_MaxInSpecOffset demo_dpll)) = 100" "\<not> dp_frequencyTraceable demo_dpll"
    by (simp_all add: demo_dpll_def NewDpll_def Let_def to_i64_id)
qed

theorem holdover_ends_out_of_spec_witness:
  "snd (snd (holdover_run 1 [f64_of_int 1, f64_of_int 1000, f64_of_int 1001] demo_dpll)) = False
   \<and> dp_state (fst (holdover_run 1 [f64_of_int 1, f64_of_int 1000, f64_of_int 1001] demo_dpll)) = PTP_FREERUN"
  using holdover_ends_out_of_spec [of demo_dpll "[f64_of_int 1]" "f64_of_int 1000" 1 "[f64_of_int 1001]"] demo_dpll_offsets
  by (simp add: Let_def)

section \<open>The system\<close>

lemma dpll_steps_two: "dpll_step s s1 \<Longrightarrow> dpll_step s1 s2 \<Longrightarrow> \<not> sy_crashed s \<Longrightarrow> \<not> sy_crashed s1 \<Longrightarrow> dpll_steps s s2"
  by (metis dpll_steps.refl dpll_steps.step)

lemma dpll_steps_three:
  "dpll_step s s1 \<Longrightarrow> dpll_step s1 s2 \<Longrightarrow> dpll_step s2 s3 \<Longrightarrow> \<not> sy_crashed s \<Longrightarrow> \<not> sy_crashed s1 \<Longrightarrow> \<not> sy_crashed s2 \<Longrightarrow>
     dpll_steps s s3"
  by (metis dpll_steps_two dpll_steps.step)

lemma dpll_steps_four:
  "dpll_step s s1 \<Longrightarrow> dpll_step s1 s2 \<Longrightarrow> dpll_step s2 s3 \<Longrightarrow> dpll_step s3 s4 \<Longrightarrow> \<not> sy_crashed s \<Longrightarrow> \<not> sy_crashed s1 \<Longrightarrow>
     \<not> sy_crashed s2 \<Longrightarrow> \<not> sy_crashed s3 \<Longrightarrow> dpll_steps s s4"
  by (metis dpll_steps_three dpll_steps.step)

lemma run_decision_frame [simp]:
  "sy_exited (run_decision de s) = sy_exited s"
  by (simp add: run_decision_def start_holdover_def Let_def case_prod_beta split: close_op.split)

lemma run_decision_noclose:
  assumes "de_close de = NoClose" and "\<not> de_start de"
  shows "sy_blocked (run_decision de s) = sy_blocked s" and "sy_pc (run_decision de s) = sy_pc s"
  using assms by (simp_all add: run_decision_def Let_def case_prod_beta)

text \<open>While the process runs, \<open>onHoldover\<close> says exactly whether a holdover goroutine is alive.\<close>

definition sys_inv :: "dpll_sys \<Rightarrow> bool" where
  "sys_inv s \<longleftrightarrow>
     (\<not> sy_exited s \<longrightarrow> (dp_onHoldover (sy_d s) \<longleftrightarrow> sy_pc s \<noteq> HNone))
     \<and> (\<forall>ch rest. sy_blocked s = Some (ch, rest) \<longrightarrow> (\<forall>d. dp_onHoldover (fst (rest d)) = dp_onHoldover d))"

lemma nlUpdateState_onHoldover: "dp_onHoldover (fst (nlUpdateState devices pins d)) = dp_onHoldover d"
proof -
  have "dp_onHoldover (fst (foldl device_step dv devices)) = dp_onHoldover (fst dv)" for dv
    by (induction devices arbitrary: dv) (auto simp: device_step_def Let_def split: prod.splits)
  moreover have "dp_onHoldover (fst (foldl pin_step dv pins)) = dp_onHoldover (fst dv)" for dv
    by (induction pins arbitrary: dv) (auto simp: pin_step_def SetPhaseOffset_def Let_def split: prod.splits)
  ultimately show ?thesis by (simp add: nlUpdateState_def)
qed

lemma run_decision_inv:
  assumes "stateDecision now (sy_d s) = Inr de" and "sys_inv s" and "sy_blocked s = None \<or> de_close de \<noteq> MustClose"
  shows "sys_inv (run_decision de s)"
  using assms decision_onHoldover [OF assms(1)]
  by (auto simp: sys_inv_def run_decision_def start_holdover_def Let_def case_prod_beta split: close_op.splits)

lemma not_on_holdover_no_must:
  "stateDecision now (d\<lparr>dp_onHoldover := False\<rparr>) = Inr de \<Longrightarrow> de_close de \<noteq> MustClose"
  by (auto simp: decision_defs split: if_splits)

lemma sys_inv_step:
  assumes "dpll_step s s'" and "sys_inv s"
  shows "sys_inv s'"
  using assms
proof (induction rule: dpll_step.induct)
  case (kernel_update devices pins s d valid)
  then show ?case using nlUpdateState_onHoldover [of devices pins "sy_d s"] by (simp add: sys_inv_def)
next
  case (decide s now de)
  then show ?case by (intro run_decision_inv) auto
next
  case (unblock s rest d evs)
  then have "dp_onHoldover d = dp_onHoldover (sy_d s)" unfolding sys_inv_def by (metis fst_conv)
  with unblock show ?case by (simp add: sys_inv_def)
next
  case (tick s now secs d evs go)
  then show ?case by (auto simp: sys_inv_def holdover_tick_def Let_def split: if_splits)
next
  case (timeout s now d evs)
  then show ?case by (auto simp: sys_inv_def holdover_timeout_def Let_def)
next
  case (deferred s now de)
  then show ?case using not_on_holdover_no_must [of now "sy_d s" de] by (intro run_decision_inv) (auto simp: sys_inv_def)
qed (auto simp: sys_inv_def)

definition start_sys :: "DpllConfig \<Rightarrow> dpll_sys" where
  "start_sys d =
     \<lparr>sy_d = d, sy_pc = HNone, sy_chan = 0, sy_closed = False, sy_blocked = None, sy_events = [], sy_exited = False,
      sy_crashed = False\<rparr>"

lemma sys_inv_steps: "dpll_steps s s' \<Longrightarrow> sys_inv s \<Longrightarrow> sys_inv s'"
  by (induction rule: dpll_steps.induct) (auto intro: sys_inv_step)



lemma start_decision:
  assumes "dp_dependsOn d = GNSS # rest" and "dpll_status d \<in> {3, 4}" and "dp_sourceLost d" and "dp_inSpec d"
  shows "stateDecision now (d\<lparr>dp_onHoldover := False\<rparr>) =
    Inr \<lparr>de_before = d\<lparr>dp_onHoldover := True, dp_state := PTP_HOLDOVER\<rparr>, de_close = NoClose,
         de_after = (\<lambda>d. (d, [])), de_start = True\<rparr>"
proof -
  have "\<not> hasPPSAsSource d" "dp_dependsOn d \<noteq> []" using assms(1) by (simp_all add: hasPPSAsSource_def)
  with assms(2-4) show ?thesis
    by (elim insertE emptyE; simp add: decision_defs dpll_status_def [symmetric])
qed

lemma out_of_spec_decision:
  assumes "dp_dependsOn d = GNSS # rest" and "dpll_status d \<in> {3, 4}" and "dp_sourceLost d" and "\<not> dp_inSpec d"
  shows "\<exists>de. stateDecision now d = Inr de \<and> de_close de = TryClose"
proof -
  have "\<not> hasPPSAsSource d" "dp_dependsOn d \<noteq> []" using assms(1) by (simp_all add: hasPPSAsSource_def)
  with assms(2-4) show ?thesis
    by (elim insertE emptyE; simp add: decision_defs dpll_status_def [symmetric])
qed

text \<open>
  The exit restarts the holdover: if the process exits while the holdover goroutine waits and the
  GNSS source is still lost, the goroutine, told to stop, decides once more, finds itself in spec with the
  source lost, and starts a new holdover; that one reports HOLDOVER after the reset event the exit has
  sent.
\<close>

theorem exit_restarts_holdover:
  assumes "\<not> sy_exited s" and "\<not> sy_crashed s" and "sy_blocked s = None" and "sy_pc s = HSelect" and "dp_onHoldover (sy_d s)"
    and "dp_dependsOn (sy_d s) = GNSS # rest" and "dpll_status (sy_d s) \<in> {DPLL_LOCKED_HO_ACQ, DPLL_HOLDOVER}"
    and "dp_sourceLost (sy_d s)" and "pc_hasChannel (dp_processConfig (sy_d s))"
  shows "\<exists>s' ev. dpll_steps s s' \<and> sy_exited s' \<and> sy_pc s' = HSelect \<and> \<not> sy_closed s'
    \<and> sy_events s' = sy_events s @ [sendDpllTerminationEvent now (sy_d s), ev]
    \<and> ec_State ev = PTP_HOLDOVER \<and> \<not> ec_Reset ev"
proof -
  let ?d1 = "(sy_d s)\<lparr>dp_onHoldover := False, dp_subscriber := []\<rparr>"
  let ?s1 = "s\<lparr>sy_exited := True, sy_events := sy_events s @ [sendDpllTerminationEvent now (sy_d s)], sy_d := ?d1,
               sy_closed := True, sy_crashed := False\<rparr>"
  have 1: "dpll_step s ?s1" using dpll_step.exit [OF assms(1), of now] assms(3,5) by simp
  have 2: "dpll_step ?s1 (?s1\<lparr>sy_pc := HClosed\<rparr>)" using assms(4) by (intro dpll_step.sees_close) simp_all
  let ?s2 = "?s1\<lparr>sy_pc := HClosed, sy_d := ?d1\<lparr>dp_inSpec := True\<rparr>, sy_pc := HReturning\<rparr>"
  have 3: "dpll_step (?s1\<lparr>sy_pc := HClosed\<rparr>) ?s2" using dpll_step.closed [of "?s1\<lparr>sy_pc := HClosed\<rparr>"] by simp
  let ?d2 = "sy_d ?s2"
  let ?de = "\<lparr>de_before = ?d2\<lparr>dp_onHoldover := True, dp_state := PTP_HOLDOVER\<rparr>, de_close = NoClose,
              de_after = (\<lambda>d. (d, [])), de_start = True\<rparr>"
  have "dpll_status ?d2 \<in> {3, 4}" using assms(7) by (simp add: dpll_status_def)
  then have de: "stateDecision now (?d2\<lparr>dp_onHoldover := False\<rparr>) = Inr ?de"
    using assms(6,8) by (intro start_decision [of _ rest]) simp_all
  let ?s3 = "run_decision ?de (?s2\<lparr>sy_d := ?d2\<lparr>dp_onHoldover := False\<rparr>, sy_pc := HNone\<rparr>)"
  have 4: "dpll_step ?s2 ?s3" by (rule dpll_step.deferred [OF _ de]) simp
  have s3: "?s3 = start_holdover (?s2\<lparr>sy_d := ?d2\<lparr>dp_onHoldover := True, dp_state := PTP_HOLDOVER\<rparr>\<rparr>)"
    by (simp add: run_decision_def start_holdover_def)
  let ?s4 = "?s3\<lparr>sy_events := sy_events ?s3 @ sendDpllEvent now (sy_d ?s3), sy_pc := HSelect\<rparr>"
  have "sy_pc ?s3 = HSpawned" unfolding s3 by (simp add: start_holdover_def)
  then have 5: "dpll_step ?s3 ?s4" by (rule dpll_step.first_event)
  have nc: "\<not> sy_crashed ?s3" unfolding s3 by (simp add: start_holdover_def)
  have "dpll_steps s ?s3"
    using dpll_steps_four [OF 1 2 3 4] assms(2) by simp
  then have "dpll_steps s ?s4" using nc 5 by (rule dpll_steps.step)
  moreover have "sy_exited ?s4 \<and> sy_pc ?s4 = HSelect \<and> \<not> sy_closed ?s4" unfolding s3 by (simp add: start_holdover_def)
  moreover have "\<exists>ev. sy_events ?s4 = sy_events s @ [sendDpllTerminationEvent now (sy_d s), ev]
      \<and> ec_State ev = PTP_HOLDOVER \<and> \<not> ec_Reset ev"
    unfolding s3 sendDpllEvent_def start_holdover_def using assms(9) by simp
  ultimately show ?thesis by blast
qed

definition demo_holdover :: dpll_sys where
  "demo_holdover = (start_sys (demo_dpll\<lparr>dp_onHoldover := True, dp_state := PTP_HOLDOVER\<rparr>))\<lparr>sy_pc := HSelect\<rparr>"

lemma demo_holdover_sel:
  "\<not> sy_exited demo_holdover" "\<not> sy_crashed demo_holdover" "\<not> sy_closed demo_holdover" "sy_pc demo_holdover = HSelect" "sy_blocked demo_holdover = None"
  "sy_d demo_holdover = demo_dpll\<lparr>dp_onHoldover := True, dp_state := PTP_HOLDOVER\<rparr>"
  by (simp_all add: demo_holdover_def start_sys_def)

text \<open>
  C11. The exit can crash the daemon: if the DPLL process exits when the holdover has just timed out, it closes the channel of the
  holdover; the goroutine, out of spec, then decides once more and sends on the closed channel.
\<close>

theorem exit_can_crash:
  assumes "\<not> sy_exited s" and "\<not> sy_crashed s" and "sy_blocked s = None" and "sy_pc s = HSelect" and "dp_onHoldover (sy_d s)"
    and "dp_dependsOn (sy_d s) = GNSS # rest" and "dpll_status (sy_d s) \<in> {DPLL_LOCKED_HO_ACQ, DPLL_HOLDOVER}"
    and "dp_sourceLost (sy_d s)"
  shows "\<exists>s'. dpll_steps s s' \<and> sy_crashed s'"
proof -
  let ?d1 = "(sy_d s)\<lparr>dp_inSpec := False, dp_state := PTP_FREERUN, dp_phaseOffset := FaultyPhaseOffset\<rparr>"
  let ?s1 = "s\<lparr>sy_d := ?d1, sy_events := sy_events s @ sendDpllEvent 0 ?d1, sy_pc := HReturning\<rparr>"
  have 1: "dpll_step s ?s1" using assms(4) by (intro dpll_step.timeout [of s 0]) (simp_all add: holdover_timeout_def Let_def)
  let ?d2 = "?d1\<lparr>dp_onHoldover := False, dp_subscriber := []\<rparr>"
  let ?s2 = "?s1\<lparr>sy_exited := True, sy_events := sy_events ?s1 @ [sendDpllTerminationEvent 0 ?d1], sy_d := ?d2, sy_closed := True,
               sy_crashed := False\<rparr>"
  have 2: "dpll_step ?s1 ?s2" using dpll_step.exit [of ?s1 0] assms(1,3,5) by simp
  obtain de where de: "stateDecision 0 (?d2\<lparr>dp_onHoldover := False\<rparr>) = Inr de" "de_close de = TryClose"
    using out_of_spec_decision [of "?d2\<lparr>dp_onHoldover := False\<rparr>" rest 0] assms(6-8) by (auto simp: dpll_status_def)
  let ?s3 = "run_decision de (?s2\<lparr>sy_d := ?d2\<lparr>dp_onHoldover := False\<rparr>, sy_pc := HNone\<rparr>)"
  have 3: "dpll_step ?s2 ?s3" using dpll_step.deferred [of ?s2 0 de] de(1) by simp
  have "sy_crashed ?s3" using de(2) by (simp add: run_decision_def)
  moreover have "dpll_steps s ?s3" using dpll_steps_three [OF 1 2 3] assms(2) by simp
  ultimately show ?thesis by blast
qed

theorem exit_can_crash_witness: "\<exists>s'. dpll_steps demo_holdover s' \<and> sy_crashed s'"
  using exit_can_crash [of demo_holdover "[]"] demo_holdover_sel demo_dpll_sel
  by (auto simp: dpll_status_def)

theorem exit_restarts_holdover_witness:
  "\<exists>s'. dpll_steps demo_holdover s' \<and> sy_exited s' \<and> sy_pc s' = HSelect"
  using exit_restarts_holdover [of demo_holdover "[]" 1] demo_holdover_sel demo_dpll_sel
  by (auto simp: dpll_status_def)

lemma blocked_forever:
  assumes "dpll_steps s s'" and "sy_blocked s \<noteq> None" and "sy_pc s = HNone"
  shows "sy_blocked s' \<noteq> None \<and> sy_pc s' = HNone"
  using assms
proof (induction rule: dpll_steps.induct)
  case (step s s' s'')
  then have b: "sy_blocked s' \<noteq> None" "sy_pc s' = HNone" by auto
  from \<open>dpll_step s' s''\<close> b show ?case by (cases rule: dpll_step.cases) auto
qed simp

text \<open>
  C10. A decision can wait for ever: if the lock is found lost (free-running) after the holdover loop has
  ended by itself but before its deferred function has cleared \<open>onHoldover\<close>, the decision blocks in its
  send on the holdover channel, and no continuation unblocks it.
\<close>

theorem decision_can_block_forever:
  assumes "sy_pc s = HReturning" and "sy_blocked s = None" and "\<not> sy_exited s" and "\<not> sy_closed s"
    and "\<not> sy_crashed s" and "dp_onHoldover (sy_d s)" and "dp_dependsOn (sy_d s) = GNSS # rest" and "dpll_status (sy_d s) = DPLL_FREERUN"
  shows "\<exists>s1. dpll_steps s s1 \<and> (\<forall>s2. dpll_steps s1 s2 \<longrightarrow> sy_blocked s2 \<noteq> None)"
proof -
  have src: "hasGNSSAsSource (sy_d s)" "dp_dependsOn (sy_d s) \<noteq> []" using assms(7) by (simp_all add: hasGNSSAsSource_def)
  obtain de where de: "stateDecision 0 (sy_d s) = Inr de" "de_close de = MustClose" "\<not> de_start de"
      "de_before de = (sy_d s)\<lparr>dp_inSpec := False, dp_sourceLost := True\<rparr>"
    using src assms(6,8) by (simp add: decision_defs dpll_status_def [symmetric])
  let ?s1 = "run_decision de s"
  have 1: "dpll_step s ?s1" using de(1) assms(2,3) by (intro dpll_step.decide [of s 0]) auto
  have s1: "?s1 = s\<lparr>sy_d := (sy_d s)\<lparr>dp_inSpec := False, dp_sourceLost := True\<rparr>, sy_blocked := Some (sy_chan s, de_after de)\<rparr>"
    using de assms(1,4) by (simp add: run_decision_def)
  obtain de2 where de2: "stateDecision 0 ((sy_d ?s1)\<lparr>dp_onHoldover := False\<rparr>) = Inr de2" "de_close de2 = NoClose" "\<not> de_start de2"
    using src assms(8) unfolding s1 by (simp add: decision_defs dpll_status_def [symmetric])
  let ?s2 = "run_decision de2 (?s1\<lparr>sy_d := (sy_d ?s1)\<lparr>dp_onHoldover := False\<rparr>, sy_pc := HNone\<rparr>)"
  have 2: "dpll_step ?s1 ?s2" using assms(1) by (intro dpll_step.deferred [OF _ de2(1)]) (simp add: s1)
  have "sy_blocked ?s2 = sy_blocked ?s1" "sy_pc ?s2 = HNone"
    by (simp_all add: run_decision_noclose [OF de2(2,3)])
  then have "sy_blocked ?s2 \<noteq> None" "sy_pc ?s2 = HNone" by (simp_all add: s1)
  then have "\<forall>s3. dpll_steps ?s2 s3 \<longrightarrow> sy_blocked s3 \<noteq> None" using blocked_forever by blast
  moreover have "dpll_steps s ?s2" using dpll_steps_two [OF 1 2] assms(5) by (simp add: s1)
  ultimately show ?thesis by blast
qed

theorem decision_can_block_forever_witness:
  "\<exists>s1. dpll_steps (demo_holdover\<lparr>sy_pc := HReturning, sy_d := demo_dpll\<lparr>dp_onHoldover := True, dp_phaseStatus := 1\<rparr>\<rparr>) s1
     \<and> sy_blocked s1 \<noteq> None"
proof -
  let ?s = "demo_holdover\<lparr>sy_pc := HReturning, sy_d := demo_dpll\<lparr>dp_onHoldover := True, dp_phaseStatus := 1\<rparr>\<rparr>"
  have "dpll_status (sy_d ?s) = 1"
    by (simp add: dpll_status_def demo_dpll_def NewDpll_def Let_def getWorseState_def getStateQuality_def)
  then obtain s1 where "dpll_steps ?s s1" "\<forall>s2. dpll_steps s1 s2 \<longrightarrow> sy_blocked s2 \<noteq> None"
    using decision_can_block_forever [of ?s "[]"] demo_holdover_sel demo_dpll_sel by auto
  then show ?thesis using dpll_steps.refl by blast
qed

section \<open>Subscriptions, dependencies, timers\<close>

text \<open>
  Subscriptions come and go together: after \<open>registerAllSubscriber\<close> and \<open>unRegisterAllSubscriber\<close> on a
  well-formed notifier no subscription of this DPLL is left, every other subscription is found
  exactly as before, the notifier is still well-formed, and the DPLL forgets its subscriptions.
\<close>

theorem subscriptions_removed:
  assumes "notifier_wf n" and "unRegisterAllSubscriber obj d (registerAllSubscriber obj d n) = (d', n')"
  shows "notifier_wf n' \<and> dp_subscriber d' = []
    \<and> (\<forall>k. map_of n' k = (if k \<in> (\<lambda>s. sub_key (to_subscriber obj s)) ` set (dp_subscriber d) then None else map_of n k))"
proof -
  let ?ss = "map (to_subscriber obj) (dp_subscriber d)"
  have n': "n' = fold Unregister ?ss (fold Register ?ss n)" and d': "dp_subscriber d' = []"
    using assms(2) by (auto simp: unRegisterAllSubscriber_def registerAllSubscriber_def)
  have wf: "notifier_wf (fold Register ?ss n)" using assms(1) by (rule sr.fold_register_invar)
  have keys: "sub_key ` set ?ss = (\<lambda>s. sub_key (to_subscriber obj s)) ` set (dp_subscriber d)" by auto
  have "map_of n' k = (if k \<in> sub_key ` set ?ss then None else map_of n k)" for k
    unfolding n' sr.lookup_fold_unregister [OF wf] using sr.lookup_fold_register [OF assms(1) HOL.refl, of k ?ss] by simp
  moreover have "notifier_wf n'" unfolding n' using wf by (rule sr.fold_unregister_invar)
  ultimately show ?thesis using d' unfolding keys by simp
qed

theorem subscriptions_removed_witness:
  "map_of (snd (unRegisterAllSubscriber () (demo_dpll\<lparr>dp_subscriber := [(GNSS, ''dpll-1'')]\<rparr>)
     (registerAllSubscriber () (demo_dpll\<lparr>dp_subscriber := [(GNSS, ''dpll-1'')]\<rparr>) NewStateNotifier))) ''gnss_dpll-1'' = None"
  using subscriptions_removed [of NewStateNotifier "()" "demo_dpll\<lparr>dp_subscriber := [(GNSS, ''dpll-1'')]\<rparr>"
      "fst (unRegisterAllSubscriber () (demo_dpll\<lparr>dp_subscriber := [(GNSS, ''dpll-1'')]\<rparr>)
        (registerAllSubscriber () (demo_dpll\<lparr>dp_subscriber := [(GNSS, ''dpll-1'')]\<rparr>) NewStateNotifier))"
      "snd (unRegisterAllSubscriber () (demo_dpll\<lparr>dp_subscriber := [(GNSS, ''dpll-1'')]\<rparr>)
        (registerAllSubscriber () (demo_dpll\<lparr>dp_subscriber := [(GNSS, ''dpll-1'')]\<rparr>) NewStateNotifier))"]
  by (simp add: sr.invar_empty to_subscriber_def sub_key_def)

text \<open>
  The combined state of the processes a DPLL depends on never rises above FREERUN: the minimum
  starts from FREERUN, so whatever the sources report, LOCKED and HOLDOVER included, the current state
  is FREERUN or one of the values below it (unknown, not set).
\<close>

theorem depending_state_never_locked:
  "dep_currentState (UpdateState s) \<le> PTP_FREERUN \<and> dep_currentState (UpdateState s) \<notin> {PTP_LOCKED, PTP_HOLDOVER}"
proof -
  have "foldl (\<lambda>lowest st. if st < lowest then st else lowest) x sts \<le> x" for x :: PTPState and sts
    by (induction sts arbitrary: x) (auto intro: order_trans less_imp_le)
  then have "dep_currentState (UpdateState s) \<le> PTP_FREERUN" by (simp add: UpdateState_def)
  moreover have "\<not> PTP_LOCKED \<le> PTP_FREERUN" "\<not> PTP_HOLDOVER \<le> PTP_FREERUN" by code_simp+
  ultimately show ?thesis by auto
qed

text \<open>
  The timers agree: \<open>CalculateTimer\<close> on a profile's settings gives the in-spec offset, holdover offset,
  timeout and in-spec timer of the DPLL that \<open>NewDpll\<close> builds from the same settings.
\<close>

theorem timers_agree:
  "CalculateTimer settings =
     (let (maxOff, timeout, inSpec) = foldl setting_step (LocalMaxHoldoverOffSet, LocalHoldoverTimeout, MaxInSpecOffset) settings;
          d = NewDpll cid maxOff timeout inSpec iface deps api flt
      in (to_i64 (uint (dp_MaxInSpecOffset d)), to_i64 (uint (dp_LocalMaxHoldoverOffSet d)),
          to_i64 (uint (dp_LocalHoldoverTimeout d)), dp_timer d, False))"
  by (simp add: CalculateTimer_def NewDpll_def Let_def case_prod_beta)

end
