(* ===== verification/Gpsd.thy ===== *)
theory Gpsd
  imports Ublox Dpll
begin

text \<open>
  The GNSS monitor, \<open>pkg/daemon/gpsd.go\<close>: a tick of \<open>MonitorGNSSEventsWithUblox\<close>, which reads the messages the
  receiver has sent since the last tick, decides the GNSS state and offers an event to the handler, and the reset
  event of a monitor that ends.

  What successive calls of \<open>UbloxPollPull\<close> return during a tick is a list, the empty string where the poller has
  no line; after its end nothing comes any more. (In \<open>Ublox\<close> the lines are those of the poller's queue, in order.)

  Shown: the state and the flags of the event; a tick takes over the last status and offset read; a receiver that
  falls silent keeps its last state, LOCKED included, however long; if ubxtool cannot be started the monitor
  panics on its fourth silent tick.
\<close>

section \<open>Reading the messages of a tick\<close>

record gnss_reading =
  gr_nStatus :: int
  gr_nOffset :: int
  gr_missedTickers :: nat
  gr_timeLs :: "TimeLs option"

definition first_or_empty :: "string list \<Rightarrow> string" where
  "first_or_empty outs = (case outs of [] \<Rightarrow> '''' | l # _ \<Rightarrow> l)"

definition pad_lines :: "nat \<Rightarrow> string list \<Rightarrow> string list" where
  "pad_lines n outs = take n outs @ replicate (n - length outs) ''''"

text \<open>
  The end of the reading: after three ticks without a message the fourth resets the poller, which panics if
  \<open>cmd.Process\<close> is nil. The result says whether it was reset.
\<close>

definition missed_tick :: "bool \<Rightarrow> gnss_reading \<Rightarrow> (gnss_reading \<times> bool) res" where
  "missed_tick has_process r =
     (let n = Suc (gr_missedTickers r) in
      if 3 < n then
        (if has_process then Inr (r\<lparr>gr_missedTickers := 0\<rparr>, True) else Inl NilDereference)
      else Inr (r\<lparr>gr_missedTickers := n\<rparr>, False))"

function gnss_read :: "bool \<Rightarrow> nat \<Rightarrow> gnss_reading \<Rightarrow> string list \<Rightarrow> (gnss_reading \<times> bool) res" where
  "gnss_read has_process emptyCount r [] = missed_tick has_process r"
| "gnss_read has_process emptyCount r (line # outs) =
     (if Contains line ''UBX-NAV-CLOCK'' then
        (case ExtractOffset (first_or_empty outs) of
           Inl e \<Rightarrow> Inl e
         | Inr v \<Rightarrow> gnss_read has_process 0 (r\<lparr>gr_nOffset := v, gr_missedTickers := 0\<rparr>) (tl outs))
      else if Contains line ''UBX-NAV-STATUS'' then
        (case ExtractNavStatus (first_or_empty outs) of
           Inl e \<Rightarrow> Inl e
         | Inr v \<Rightarrow> gnss_read has_process 0 (r\<lparr>gr_nStatus := v, gr_missedTickers := 0\<rparr>) (tl outs))
      else if Contains line ''UBX-NAV-TIMELS'' then
        (case ExtractLeapSec (pad_lines 4 outs) of
           Inl e \<Rightarrow> Inl e
         | Inr ls \<Rightarrow> gnss_read has_process 0 (r\<lparr>gr_timeLs := Some ls, gr_missedTickers := 0\<rparr>) (drop 4 outs))
      else
        (let n = (if length line = 0 then Suc emptyCount else emptyCount) in
         if 10 \<le> n then missed_tick has_process r else gnss_read has_process n r outs))"
  by pat_completeness auto
termination
  by (relation "measure (\<lambda>(p, n, r, outs). length outs)") auto

section \<open>The state and the event\<close>

record GPSD =
  gp_state :: PTPState
  gp_offset :: int
  gp_sourceLost :: bool
  gp_gmInterface :: string
  gp_processConfig :: ProcessConfig

definition gpsd_isOffsetInRange :: "GPSD \<Rightarrow> bool" where
  "gpsd_isOffsetInRange g \<longleftrightarrow>
     gp_offset g \<le> pc_GMThreshold_Max (gp_processConfig g) \<and> pc_GMThreshold_Min (gp_processConfig g) \<le> gp_offset g"

definition gnss_state :: "gnss_reading \<Rightarrow> GPSD \<Rightarrow> GPSD" where
  "gnss_state r g =
     (let g1 = g\<lparr>gp_offset := gr_nOffset r, gp_sourceLost := False\<rparr> in
      if 3 \<le> gr_nStatus r
      then g1\<lparr>gp_state := (if gpsd_isOffsetInRange g1 then PTP_LOCKED else PTP_FREERUN)\<rparr>
      else g1\<lparr>gp_state := PTP_FREERUN, gp_sourceLost := True\<rparr>)"

definition gnss_event :: "int \<Rightarrow> gnss_reading \<Rightarrow> GPSD \<Rightarrow> EventChannel" where
  "gnss_event now r g =
     \<lparr>ec_ProcessName = GNSS, ec_State = gp_state g, ec_IFace = gp_gmInterface g,
      ec_CfgName = pc_ConfigName (gp_processConfig g),
      ec_Values = [(GPS_STATUS, VInt64 (gr_nStatus r)), (OFFSET, VInt64 (gp_offset g))],
      ec_ClockType = pc_ClockType (gp_processConfig g), ec_Time = now, ec_OutOfSpec = False, ec_WriteToLog = True,
      ec_Reset = False, ec_SourceLost = gp_sourceLost g, ec_FrequencyTraceable = False\<rparr>"

text \<open>The event of \<open>doneFn\<close>, sent when the monitor is cancelled.\<close>

definition gnss_reset_event :: "int \<Rightarrow> GPSD \<Rightarrow> EventChannel" where
  "gnss_reset_event now g =
     \<lparr>ec_ProcessName = GNSS, ec_State = PTP_UNKNOWN, ec_IFace = '''', ec_CfgName = pc_ConfigName (gp_processConfig g),
      ec_Values = [], ec_ClockType = pc_ClockType (gp_processConfig g), ec_Time = now, ec_OutOfSpec = False,
      ec_WriteToLog = False, ec_Reset = True, ec_SourceLost = False, ec_FrequencyTraceable = False\<rparr>"

text \<open>The monitor between ticks: the variables of the function and the struct.\<close>

record gnss_monitor =
  gm_reading :: gnss_reading
  gm_gpsd :: GPSD

definition start_monitor :: "GPSD \<Rightarrow> gnss_monitor" where
  "start_monitor g =
     \<lparr>gm_reading = \<lparr>gr_nStatus = 0, gr_nOffset = 99999999, gr_missedTickers = 0, gr_timeLs = None\<rparr>,
      gm_gpsd = g\<lparr>gp_state := PTP_FREERUN\<rparr>\<rparr>"

text \<open>One tick: the event offered, and the leap message offered to the leap manager.\<close>

definition gnss_tick :: "bool \<Rightarrow> int \<Rightarrow> string list \<Rightarrow> gnss_monitor
    \<Rightarrow> (gnss_monitor \<times> EventChannel \<times> TimeLs option) res" where
  "gnss_tick has_process now outs mo =
     res_bind (gnss_read has_process 0 ((gm_reading mo)\<lparr>gr_timeLs := None\<rparr>) outs)
       (\<lambda>(r, _). let g = gnss_state r (gm_gpsd mo) in
          Inr (\<lparr>gm_reading = r, gm_gpsd = g\<rparr>, gnss_event now r g, gr_timeLs r))"

fun gnss_ticks :: "bool \<Rightarrow> (int \<times> string list) list \<Rightarrow> gnss_monitor \<Rightarrow> (gnss_monitor \<times> EventChannel list) res" where
  "gnss_ticks has_process [] mo = Inr (mo, [])"
| "gnss_ticks has_process ((now, outs) # ts) mo =
     res_bind (gnss_tick has_process now outs mo) (\<lambda>(mo', ev, _).
       res_bind (gnss_ticks has_process ts mo') (\<lambda>(mo'', evs). Inr (mo'', ev # evs)))"

section \<open>The event of a tick\<close>

lemma gnss_state_sel [simp]:
  "gp_state (gnss_state r g) =
     (if 3 \<le> gr_nStatus r \<and> gr_nOffset r \<le> pc_GMThreshold_Max (gp_processConfig g)
         \<and> pc_GMThreshold_Min (gp_processConfig g) \<le> gr_nOffset r then PTP_LOCKED else PTP_FREERUN)"
  "gp_sourceLost (gnss_state r g) \<longleftrightarrow> gr_nStatus r < 3"
  "gp_offset (gnss_state r g) = gr_nOffset r"
  "gp_processConfig (gnss_state r g) = gp_processConfig g"
  "gp_gmInterface (gnss_state r g) = gp_gmInterface g"
  by (simp_all add: gnss_state_def gpsd_isOffsetInRange_def Let_def)

lemma gnss_event_of_tick_aux:
  assumes "gnss_tick has_process now outs mo = Inr (mo', ev, ls)"
  shows "ec_State ev = (if 3 \<le> gr_nStatus (gm_reading mo')
            \<and> gr_nOffset (gm_reading mo') \<le> pc_GMThreshold_Max (gp_processConfig (gm_gpsd mo))
            \<and> pc_GMThreshold_Min (gp_processConfig (gm_gpsd mo)) \<le> gr_nOffset (gm_reading mo') then PTP_LOCKED else PTP_FREERUN)
    \<and> (ec_SourceLost ev \<longleftrightarrow> gr_nStatus (gm_reading mo') < 3)
    \<and> ec_Values ev = [(GPS_STATUS, VInt64 (gr_nStatus (gm_reading mo'))), (OFFSET, VInt64 (gr_nOffset (gm_reading mo')))]
    \<and> gp_processConfig (gm_gpsd mo') = gp_processConfig (gm_gpsd mo)"
  using assms
  by (auto simp: gnss_tick_def gnss_event_def Let_def res_bind_Inr_iff)

text \<open>
  The event of a tick: LOCKED exactly if the fix status is at least 3 and the offset within the thresholds,
  else FREERUN; the source is lost exactly if the status is below 3; status and offset are its values.
\<close>

theorem gnss_event_of_tick:
  assumes "gnss_tick has_process now outs mo = Inr (mo', ev, ls)"
  shows "ec_State ev = (if 3 \<le> gr_nStatus (gm_reading mo')
            \<and> gr_nOffset (gm_reading mo') \<le> pc_GMThreshold_Max (gp_processConfig (gm_gpsd mo))
            \<and> pc_GMThreshold_Min (gp_processConfig (gm_gpsd mo)) \<le> gr_nOffset (gm_reading mo') then PTP_LOCKED else PTP_FREERUN)
    \<and> (ec_SourceLost ev \<longleftrightarrow> gr_nStatus (gm_reading mo') < 3)
    \<and> ec_Values ev = [(GPS_STATUS, VInt64 (gr_nStatus (gm_reading mo'))), (OFFSET, VInt64 (gr_nOffset (gm_reading mo')))]
    \<and> gp_processConfig (gm_gpsd mo') = gp_processConfig (gm_gpsd mo)"
  using assms by (rule gnss_event_of_tick_aux)

section \<open>A silent receiver\<close>

lemma Contains_empty [simp]: "p \<noteq> '''' \<Longrightarrow> \<not> Contains '''' p"
  by (simp add: Contains_def)

lemma silent_read:
  "\<forall>l \<in> set outs. l = '''' \<Longrightarrow> gnss_read has_process n r outs = missed_tick has_process r"
  by (induction outs arbitrary: n) (simp_all add: Let_def)

lemma missed_tick_reading:
  "\<exists>k b. missed_tick True r = Inr (r\<lparr>gr_missedTickers := k\<rparr>, b)"
  by (auto simp: missed_tick_def Let_def)

text \<open>
  A receiver that falls silent is never noticed: after a tick that ended locked, any number of ticks in which
  the poller returns no line reports LOCKED again, with the offset of the last message and the source
  present. Only the poller is restarted, every fourth tick.
\<close>

theorem silent_receiver_stays_locked:
  assumes "3 \<le> gr_nStatus (gm_reading mo)" and "gr_nOffset (gm_reading mo) \<le> pc_GMThreshold_Max (gp_processConfig (gm_gpsd mo))"
    and "pc_GMThreshold_Min (gp_processConfig (gm_gpsd mo)) \<le> gr_nOffset (gm_reading mo)"
    and "\<forall>(now, outs) \<in> set ts. \<forall>l \<in> set outs. l = ''''"
  shows "\<exists>mo' evs. gnss_ticks True ts mo = Inr (mo', evs) \<and> length evs = length ts
     \<and> (\<forall>ev \<in> set evs. ec_State ev = PTP_LOCKED \<and> \<not> ec_SourceLost ev
          \<and> map_of (ec_Values ev) OFFSET = Some (VInt64 (gr_nOffset (gm_reading mo))))"
  using assms
proof (induction ts arbitrary: mo)
  case (Cons t ts)
  obtain now outs where t: "t = (now, outs)" by (cases t)
  let ?r = "(gm_reading mo)\<lparr>gr_timeLs := None\<rparr>"
  obtain k b where m: "missed_tick True ?r = Inr (?r\<lparr>gr_missedTickers := k\<rparr>, b)" using missed_tick_reading by blast
  have "\<forall>l \<in> set outs. l = ''''" using Cons.prems(4) t by auto
  note rd = silent_read [OF this]
  obtain mo1 ev ls where tick: "gnss_tick True now outs mo = Inr (mo1, ev, ls)"
    by (simp add: gnss_tick_def rd m Let_def)
  have r1: "gm_reading mo1 = ?r\<lparr>gr_missedTickers := k\<rparr>" using tick by (auto simp: gnss_tick_def rd m Let_def)
  note ev = gnss_event_of_tick_aux [OF tick]
  from Cons.IH [of mo1] Cons.prems ev r1 t obtain mo' evs where
    "gnss_ticks True ts mo1 = Inr (mo', evs)" "length evs = length ts"
    "\<forall>ev \<in> set evs. ec_State ev = PTP_LOCKED \<and> \<not> ec_SourceLost ev
          \<and> map_of (ec_Values ev) OFFSET = Some (VInt64 (gr_nOffset (gm_reading mo1)))" by auto
  then show ?case using ev r1 Cons.prems(1-3) by (simp add: t tick)
qed simp

definition demo_gpsd :: GPSD where
  "demo_gpsd = \<lparr>gp_state = PTP_FREERUN, gp_offset = 0, gp_sourceLost = False, gp_gmInterface = ''ens1f0'',
     gp_processConfig = \<lparr>pc_ClockType = GM, pc_ConfigName = ''ts2phc.0.config'', pc_hasChannel = True,
                         pc_GMThreshold_Max = 100, pc_GMThreshold_Min = -100\<rparr>\<rparr>"

definition demo_locked :: gnss_monitor where
  "demo_locked = \<lparr>gm_reading = \<lparr>gr_nStatus = 3, gr_nOffset = 5, gr_missedTickers = 0, gr_timeLs = None\<rparr>, gm_gpsd = demo_gpsd\<rparr>"

theorem silent_receiver_stays_locked_witness:
  "\<exists>mo' evs. gnss_ticks True (replicate 5 (0, [])) demo_locked = Inr (mo', evs)
     \<and> (\<forall>ev \<in> set evs. ec_State ev = PTP_LOCKED)"
  using silent_receiver_stays_locked [of demo_locked "replicate 5 (0, [])"]
  by (auto simp: demo_locked_def demo_gpsd_def)

text \<open>
  If ubxtool cannot be started the poller returns no line and has no process: the first three ticks report a
  lost source, and the fourth, which resets the poller, panics.
\<close>

theorem unstarted_poller_panics:
  assumes "length ts = 3" and "\<forall>(now, outs) \<in> set (ts @ [t]). \<forall>l \<in> set outs. l = ''''"
  shows "(\<exists>mo evs. gnss_ticks False ts (start_monitor g) = Inr (mo, evs) \<and> (\<forall>ev \<in> set evs. ec_SourceLost ev))
     \<and> gnss_ticks False (ts @ [t]) (start_monitor g) = Inl NilDereference"
proof -
  obtain n1 o1 n2 o2 n3 o3 where ts: "ts = [(n1, o1), (n2, o2), (n3, o3)]"
    using assms(1) by (auto simp: length_Suc_conv numeral_3_eq_3)
  obtain n4 o4 where t: "t = (n4, o4)" by (cases t)
  have "\<forall>l \<in> set o1. l = ''''" "\<forall>l \<in> set o2. l = ''''" "\<forall>l \<in> set o3. l = ''''" "\<forall>l \<in> set o4. l = ''''"
    using assms(2) by (auto simp: ts t)
  note reads = this [THEN silent_read]
  show ?thesis
    by (simp add: ts t gnss_tick_def reads missed_tick_def start_monitor_def gnss_event_def Let_def)
qed

theorem unstarted_poller_panics_witness:
  "gnss_ticks False (replicate 3 (0, replicate 10 '''') @ [(0, [])]) (start_monitor demo_gpsd) = Inl NilDereference"
  using unstarted_poller_panics [of "replicate 3 (0, replicate 10 '''')" "(0, [])" demo_gpsd] by simp

section \<open>Messages\<close>

text \<open>A message of the receiver: its header line, and a second line from which its value is extracted.\<close>

datatype gnss_msg = ClockMsg string int | StatusMsg string int

fun msg_lines :: "gnss_msg \<Rightarrow> string list" where
  "msg_lines (ClockMsg body v) = [''UBX-NAV-CLOCK:'', body]"
| "msg_lines (StatusMsg body v) = [''UBX-NAV-STATUS:'', body]"

fun msg_ok :: "gnss_msg \<Rightarrow> bool" where
  "msg_ok (ClockMsg body v) \<longleftrightarrow> ExtractOffset body = Inr v"
| "msg_ok (StatusMsg body v) \<longleftrightarrow> ExtractNavStatus body = Inr v"

fun apply_msg :: "gnss_msg \<Rightarrow> gnss_reading \<Rightarrow> gnss_reading" where
  "apply_msg (ClockMsg body v) r = r\<lparr>gr_nOffset := v, gr_missedTickers := 0\<rparr>"
| "apply_msg (StatusMsg body v) r = r\<lparr>gr_nStatus := v, gr_missedTickers := 0\<rparr>"

lemma headers [simp]:
  "Contains ''UBX-NAV-CLOCK:'' ''UBX-NAV-CLOCK''" "Contains ''UBX-NAV-STATUS:'' ''UBX-NAV-STATUS''"
  "\<not> Contains ''UBX-NAV-STATUS:'' ''UBX-NAV-CLOCK''"
  by (simp_all add: Contains_def HasPrefix_def)

text \<open>
  The loop that reads the poller computes what the messages say: for any sequence of clock and status messages
  with a readable value, followed by silence, the tick has the offset of the last clock message and the
  status of the last status message, and keeps the old ones where there is none.
\<close>

theorem gnss_messages_read:
  assumes "\<forall>m \<in> set ms. msg_ok m"
  shows "gnss_read has_process n r (concat (map msg_lines ms)) = missed_tick has_process (fold apply_msg ms r)"
  using assms
proof (induction ms arbitrary: n r)
  case (Cons m ms)
  then show ?case by (cases m) (simp_all add: first_or_empty_def)
qed simp

theorem gnss_messages_read_witness:
  "gnss_read True 0 (gm_reading demo_locked)
     [''UBX-NAV-STATUS:'', '' iTOW 474605000 gpsFix 5 flags 0xdd'', ''UBX-NAV-CLOCK:'', '' clkB 61594 tAcc 7 fAcc 164'']
   = Inr (\<lparr>gr_nStatus = 5, gr_nOffset = 7, gr_missedTickers = 1, gr_timeLs = None\<rparr>, False)"
proof -
  have ok: "msg_ok (StatusMsg '' iTOW 474605000 gpsFix 5 flags 0xdd'' 5)" "msg_ok (ClockMsg '' clkB 61594 tAcc 7 fAcc 164'' 7)"
    by (simp_all add: ExtractNavStatus_def ExtractOffset_def Split_def Contains_def HasPrefix_def Fields_def is_space_def
        ParseInt_def ParseUint_def digit_val_def Let_def)
  then show ?thesis
    using gnss_messages_read [of "[StatusMsg '' iTOW 474605000 gpsFix 5 flags 0xdd'' 5, ClockMsg '' clkB 61594 tAcc 7 fAcc 164'' 7]"
        True 0 "gm_reading demo_locked"]
    by (simp add: demo_locked_def missed_tick_def)
qed

theorem gnss_event_of_tick_witness:
  "\<exists>mo ev ls. gnss_tick True 0 [] demo_locked = Inr (mo, ev, ls) \<and> \<not> ec_SourceLost ev"
proof -
  obtain mo ev ls where t: "gnss_tick True 0 [] demo_locked = Inr (mo, ev, ls)" "gr_nStatus (gm_reading mo) = 3"
    by (auto simp: gnss_tick_def missed_tick_def demo_locked_def Let_def)
  with gnss_event_of_tick [OF t(1)] show ?thesis by auto
qed

end
