(* ===== verification/Synce.thy ===== *)
theory Synce
  imports Event_Types Regex
begin

text \<open>
  SyncE: \<open>pkg/synce/synce.go\<close> (EEC states, quality levels and their tables, the device relations, the
  parser of synce4l's log lines), the methods of \<open>pkg/daemon/daemon.go\<close> that turn a log line into an
  event (\<open>ProcessSynceEvents\<close>, \<open>SyncEDeviceByInterface\<close>, \<open>SyncEDeviceByName\<close>), and the gauges of
  \<open>pkg/daemon/metrics.go\<close> that they write.

  Shown: the clock quality is the one level of the network's table with the two code points, whatever
  order Go visits the map in; the log lines of synce4l parse back; a QL line and an EXT_QL line in
  turn give one event with both; an EXT_QL line alone is taken for a QL of 0; every quality gauge that
  is written is deleted with the process.
\<close>

section \<open>EEC states\<close>

datatype EECState = EEC_UNKNOWN | EEC_INVALID | EEC_FREERUN | EEC_LOCKED | EEC_LOCKED_HO_ACQ | EEC_HOLDOVER

fun EECState_String :: "EECState \<Rightarrow> string" where
  "EECState_String EEC_UNKNOWN = ''EEC_UNKNOWN''"
| "EECState_String EEC_INVALID = ''EEC_INVALID''"
| "EECState_String EEC_FREERUN = ''EEC_FREERUN''"
| "EECState_String EEC_LOCKED = ''EEC_LOCKED''"
| "EECState_String EEC_LOCKED_HO_ACQ = ''EEC_LOCKED_HO_ACQ''"
| "EECState_String EEC_HOLDOVER = ''EEC_HOLDOVER''"

fun ToPTPState :: "EECState \<Rightarrow> PTPState" where
  "ToPTPState EEC_UNKNOWN = PTP_UNKNOWN"
| "ToPTPState EEC_INVALID = PTP_UNKNOWN"
| "ToPTPState EEC_FREERUN = PTP_FREERUN"
| "ToPTPState EEC_LOCKED = PTP_LOCKED"
| "ToPTPState EEC_LOCKED_HO_ACQ = PTP_LOCKED"
| "ToPTPState EEC_HOLDOVER = PTP_HOLDOVER"

definition StringToEECState :: "string \<Rightarrow> EECState" where
  "StringToEECState str =
     (if str = ''EEC_FREERUN'' then EEC_FREERUN
      else if str = ''EEC_LOCKED'' then EEC_LOCKED
      else if str = ''EEC_INVALID'' then EEC_INVALID
      else if str = ''EEC_LOCKED_HO_ACQ'' then EEC_LOCKED_HO_ACQ
      else if str = ''EEC_HOLDOVER'' then EEC_HOLDOVER
      else EEC_UNKNOWN)"

section \<open>Quality levels\<close>

datatype QualityLevel =
    EPRTC | PRTC | PRC | SSUA | SSUB | EEC1 | PRS | STU | ST2 | TNC | ST3E | EEC2 | PROV | DNU | DUS

text \<open>The \<open>switch\<close> has no case for \<open>TNC\<close>.\<close>

fun QualityLevel_String :: "QualityLevel \<Rightarrow> string" where
  "QualityLevel_String EPRTC = ''EPRTC''"
| "QualityLevel_String PRTC = ''PRTC''"
| "QualityLevel_String PRC = ''PRC''"
| "QualityLevel_String SSUA = ''SSUA''"
| "QualityLevel_String SSUB = ''SSUB''"
| "QualityLevel_String EEC1 = ''EEC1''"
| "QualityLevel_String PRS = ''PRS''"
| "QualityLevel_String STU = ''STU''"
| "QualityLevel_String ST2 = ''ST2''"
| "QualityLevel_String ST3E = ''ST3E''"
| "QualityLevel_String EEC2 = ''EEC2''"
| "QualityLevel_String PROV = ''PROV''"
| "QualityLevel_String DNU = ''DNU''"
| "QualityLevel_String DUS = ''DUS''"
| "QualityLevel_String TNC = ''UNKNOWN''"

record QualityLevelInfo =
  ql_Priority :: int
  ql_SSM :: u8
  ql_ExtendedSSM :: u8

definition QL_DEFAULT_SSM :: u8 where "QL_DEFAULT_SSM = 0x3"
definition QL_DEFAULT_ENHSSM :: u8 where "QL_DEFAULT_ENHSSM = 0xFF"
definition QL_DNU_SSM :: u8 where "QL_DNU_SSM = 0xF"
definition QL_DUS_SSM :: u8 where "QL_DUS_SSM = 0xF"
definition QL_DNU_ENHSSM :: u8 where "QL_DNU_ENHSSM = 0xFF"
definition QL_DUS_ENHSSM :: u8 where "QL_DUS_ENHSSM = 0xFF"
definition SYNCE_NETWORK_OPT_1 :: int where "SYNCE_NETWORK_OPT_1 = 1"
definition SYNCE_NETWORK_OPT_2 :: int where "SYNCE_NETWORK_OPT_2 = 2"
definition ExtendedTLV_ENABLED :: int where "ExtendedTLV_ENABLED = 1"
definition ExtendedTLV_DISABLED :: int where "ExtendedTLV_DISABLED = 0"

lemmas synce_consts =
  QL_DEFAULT_SSM_def QL_DEFAULT_ENHSSM_def QL_DNU_SSM_def QL_DUS_SSM_def QL_DNU_ENHSSM_def QL_DUS_ENHSSM_def
  SYNCE_NETWORK_OPT_1_def SYNCE_NETWORK_OPT_2_def ExtendedTLV_ENABLED_def ExtendedTLV_DISABLED_def

definition ql_info :: "int \<Rightarrow> u8 \<Rightarrow> u8 \<Rightarrow> QualityLevelInfo" where
  "ql_info p s e = \<lparr>ql_Priority = p, ql_SSM = s, ql_ExtendedSSM = e\<rparr>"

lemma ql_info_sel [simp]:
  "ql_Priority (ql_info p s e) = p" "ql_SSM (ql_info p s e) = s" "ql_ExtendedSSM (ql_info p s e) = e"
  by (simp_all add: ql_info_def)

type_synonym ql_table = "(QualityLevel \<times> QualityLevelInfo) list"

definition qualityLevelInfoOption1 :: ql_table where
  "qualityLevelInfoOption1 =
     [(EPRTC, ql_info 0 0x2 0x21), (PRTC, ql_info 1 0x2 0x20), (PRC, ql_info 2 0x2 0xFF),
      (SSUA, ql_info 3 0x4 0xFF), (SSUB, ql_info 4 0x8 0xFF), (EEC1, ql_info 5 0xB 0xFF),
      (DNU, ql_info 6 0xF 0xFF)]"

definition qualityLevelInfoOption2 :: ql_table where
  "qualityLevelInfoOption2 =
     [(EPRTC, ql_info 0 0x1 0x21), (PRTC, ql_info 1 0x1 0x20), (PRS, ql_info 2 0x1 0xFF),
      (STU, ql_info 3 0x0 0xFF), (ST2, ql_info 4 0x7 0xFF), (TNC, ql_info 5 0x4 0xFF),
      (ST3E, ql_info 6 0xD 0xFF), (EEC2, ql_info 7 0xA 0xFF), (PROV, ql_info 8 0xE 0xFF),
      (DUS, ql_info 9 0xF 0xFF)]"

definition Compare :: "QualityLevelInfo \<Rightarrow> QualityLevelInfo \<Rightarrow> bool" where
  "Compare q other \<longleftrightarrow>
     ql_SSM q = ql_SSM other
     \<and> (ql_ExtendedSSM other = QL_DEFAULT_SSM \<or> ql_ExtendedSSM q = ql_ExtendedSSM other)"

section \<open>Device relations\<close>

text \<open>
  \<open>LastQLState\<close> is \<^const>\<open>None\<close> for Go's nil map, which can be read but not written. The slice of
  pointers \<open>Devices\<close> is the list of the devices it points to: no two entries alias.
\<close>

record synce_config =
  sc_Name :: string
  sc_Ifaces :: "string list"
  sc_ClockId :: string
  sc_NetworkOption :: int
  sc_ExtendedTlv :: int
  sc_ExternalSource :: string
  sc_LastQLState :: "(string \<rightharpoonup> QualityLevelInfo) option"
  sc_LastClockState :: PTPState

definition empty_config :: synce_config where
  "empty_config =
     \<lparr>sc_Name = '''', sc_Ifaces = [], sc_ClockId = '''', sc_NetworkOption = 0, sc_ExtendedTlv = 0,
      sc_ExternalSource = '''', sc_LastQLState = None, sc_LastClockState = PTP_EMPTY\<rparr>"

type_synonym Relations = "synce_config list"

definition AddDeviceConfig :: "Relations \<Rightarrow> synce_config \<Rightarrow> Relations" where
  "AddDeviceConfig r config = r @ [config]"

text \<open>
  \<open>AddClockIds\<close> visits the settings in some order; the first device with the interface of a
  \<open>clockId[...]\<close> key gets the value, and the method returns there.
\<close>

definition clock_id_iface :: "string \<Rightarrow> string" where
  "clock_id_iface k = replace_all (replace_all k ''clockId['' '''') '']'' ''''"

fun AddClockIds :: "Relations \<Rightarrow> (string \<times> string) list \<Rightarrow> Relations" where
  "AddClockIds r [] = r"
| "AddClockIds r ((k, v) # settings) =
     (if HasPrefix k ''clockId'' \<and> (\<exists>d \<in> set r. clock_id_iface k \<in> set (sc_Ifaces d))
      then update_first (\<lambda>d. clock_id_iface k \<in> set (sc_Ifaces d)) (\<lambda>d. d\<lparr>sc_ClockId := v\<rparr>) r
      else AddClockIds r settings)"

definition AppendDeviceConfig :: "Relations \<Rightarrow> string list \<Rightarrow> string \<Rightarrow> int \<Rightarrow> int \<Rightarrow> Relations" where
  "AppendDeviceConfig r ifaces devName networkOption extendedTlv =
     (if 0 < length ifaces
      then r @ [empty_config\<lparr>sc_Name := devName, sc_Ifaces := ifaces, sc_NetworkOption := networkOption,
                             sc_ExtendedTlv := extendedTlv\<rparr>]
      else r)"

text \<open>The results of \<open>GetSyncERelation\<close>: the last device that matches overwrites the earlier ones.\<close>

type_synonym relation_result = "int \<times> int \<times> string \<times> string \<times> string list"

definition relation_of :: "synce_config \<Rightarrow> relation_result" where
  "relation_of v = (sc_NetworkOption v, sc_ExtendedTlv v, sc_Name v, sc_ExternalSource v, sc_Ifaces v)"

fun GetSyncERelation :: "Relations \<Rightarrow> string \<Rightarrow> string \<Rightarrow> string \<Rightarrow> relation_result \<Rightarrow> relation_result" where
  "GetSyncERelation [] deviceName extSourceName iface acc = acc"
| "GetSyncERelation (v # vs) deviceName extSourceName iface acc =
     GetSyncERelation vs deviceName extSourceName iface
       (if sc_Name v = deviceName \<or> sc_ExternalSource v = extSourceName \<or> iface \<in> set (sc_Ifaces v)
        then relation_of v else acc)"

text \<open>
  \<open>ClockQuality\<close>: \<open>ord1\<close> and \<open>ord2\<close> are the orders in which \<open>range\<close> visits the two tables in
  this call.
\<close>

definition ql_search :: "ql_table \<Rightarrow> QualityLevelInfo \<Rightarrow> (QualityLevel \<times> QualityLevelInfo) option" where
  "ql_search ord qi = find (\<lambda>(q, info). Compare info qi) ord"

definition ClockQuality ::
  "ql_table \<Rightarrow> ql_table \<Rightarrow> synce_config \<Rightarrow> QualityLevelInfo \<Rightarrow> string \<times> QualityLevelInfo" where
  "ClockQuality ord1 ord2 c qualityInfo =
     (let qi = (if sc_ExtendedTlv c = ExtendedTLV_DISABLED
                then qualityInfo\<lparr>ql_ExtendedSSM := QL_DEFAULT_ENHSSM\<rparr> else qualityInfo)
      in if sc_ExtendedTlv c \<noteq> ExtendedTLV_DISABLED \<and> sc_ExtendedTlv c = ExtendedTLV_ENABLED
            \<and> ql_ExtendedSSM qi = QL_DEFAULT_SSM
         then ('''', qi)
         else if sc_NetworkOption c = SYNCE_NETWORK_OPT_1
         then (case ql_search ord1 qi of
                 Some (q, info) \<Rightarrow> (QualityLevel_String q, info)
               | None \<Rightarrow> (QualityLevel_String DNU, ql_info 0 QL_DNU_SSM QL_DNU_ENHSSM))
         else if sc_NetworkOption c = SYNCE_NETWORK_OPT_2
         then (case ql_search ord2 qi of
                 Some (q, info) \<Rightarrow> (QualityLevel_String q, info)
               | None \<Rightarrow> (QualityLevel_String DUS, ql_info 0 QL_DUS_SSM QL_DUS_ENHSSM))
         else ('''', ql_info 0 0 0))"

section \<open>The log lines of synce4l\<close>

datatype LogType = SYNCE_STATE | QL_STATE | EXT_QL_STATE

record LogEntry =
  le_State :: "string option"
  le_QL :: u8
  le_ExtQl :: u8
  le_ExtSource :: "string option"
  le_Device :: "string option"
  le_Source :: "string option"
  le_LogType :: LogType

definition zero_entry :: LogEntry where
  "zero_entry =
     \<lparr>le_State = None, le_QL = 0, le_ExtQl = 0, le_ExtSource = None, le_Device = None, le_Source = None,
      le_LogType = SYNCE_STATE\<rparr>"

text \<open>
  \<open>String\<close>: \<open>string(l.QL)\<close> is the character with that code, in UTF-8, not the number.
\<close>

definition ToString :: "string option \<Rightarrow> string" where
  "ToString s = (case s of None \<Rightarrow> [] | Some t \<Rightarrow> t)"

definition rune_string :: "u8 \<Rightarrow> string" where
  "rune_string b =
     (let n = unat b in if n < 128 then [char_of n] else [char_of (192 + n div 64), char_of (128 + n mod 64)])"

definition LogEntry_String :: "LogEntry \<Rightarrow> string" where
  "LogEntry_String l =
     ''state: '' @ ToString (le_State l) @ ''\<newline>'' @ ''Device: '' @ ToString (le_Device l) @ ''\<newline>'' @
     ''Source: '' @ ToString (le_Source l) @ ''\<newline>'' @ ''ExtSource: '' @ ToString (le_ExtSource l) @ ''\<newline>'' @
     ''ql: '' @ rune_string (le_QL l) @ ''\<newline>'' @ ''extql: '' @ rune_string (le_ExtQl l) @ ''\<newline>''"

text \<open>
  The five regular expressions, matched at a position: literals, one of the state names, and greedy
  runs of a character class. Every run is followed in its expression by a character outside its class
  or by the end of the expression, so a greedy run is never given back. A match returns the groups
  and the rest of the input.
\<close>

definition is_wordchar :: "char \<Rightarrow> bool" where
  "is_wordchar c =
     (let n = of_char c :: nat in
      48 \<le> n \<and> n \<le> 57 \<or> 65 \<le> n \<and> n \<le> 90 \<or> 97 \<le> n \<and> n \<le> 122 \<or> c = CHR ''_'')"

definition is_word_slash :: "char \<Rightarrow> bool" where
  "is_word_slash c = (is_wordchar c \<or> c = CHR ''/'')"

definition is_hex :: "char \<Rightarrow> bool" where
  "is_hex c = (let n = of_char c :: nat in 48 \<le> n \<and> n \<le> 57 \<or> 97 \<le> n \<and> n \<le> 102 \<or> 65 \<le> n \<and> n \<le> 70)"

definition state_names :: "string list" where
  "state_names = [''EEC_FREERUN'', ''EEC_INVALID'', ''EEC_LOCKED'', ''EEC_HOLDOVER'', ''EEC_LOCKED_HO_ACQ'']"

definition stateRegexpOf :: "string \<Rightarrow> ((string \<times> string \<times> string) \<times> string) option" where
  "stateRegexpOf s =
     map_option (\<lambda>(n, a, b, r). ((n, a, b), r))
       (re_alt state_names
          (\<lambda>t. Option.bind (re_lit '' on '' t) (\<lambda>t. Option.bind (re_plus is_word_slash t)
             (\<lambda>(a, t). Option.bind (re_lit '' of '' t) (\<lambda>t.
                map_option (\<lambda>(b, r). (a, b, r)) (re_plus is_word_slash t))))) s)"

definition stateRegexpOn :: "string \<Rightarrow> ((string \<times> string) \<times> string) option" where
  "stateRegexpOn s =
     map_option (\<lambda>(n, a, r). ((n, a), r))
       (re_alt state_names (\<lambda>t. Option.bind (re_lit '' on '' t) (re_plus is_word_slash)) s)"

definition stateRegexpFor :: "string \<Rightarrow> ((string \<times> string) \<times> string) option" where
  "stateRegexpFor s =
     map_option (\<lambda>(n, a, r). ((n, a), r))
       (re_alt state_names (\<lambda>t. Option.bind (re_lit '' for '' t) (re_plus is_word_slash)) s)"

definition re_hex_on :: "string \<Rightarrow> string \<Rightarrow> ((string \<times> string) \<times> string) option" where
  "re_hex_on l s =
     Option.bind (re_lit l s) (\<lambda>t. Option.bind (re_plus is_hex t) (\<lambda>(h, t).
       Option.bind (re_lit '' on '' t) (\<lambda>t. map_option (\<lambda>(w, r). ((h, w), r)) (re_plus is_wordchar t))))"

definition qlRegexp :: "string \<Rightarrow> ((string \<times> string) \<times> string) option" where
  "qlRegexp = re_hex_on '' QL=0x''"

definition extQLRegexp :: "string \<Rightarrow> ((string \<times> string) \<times> string) option" where
  "extQLRegexp = re_hex_on ''EXT_QL=0x''"

text \<open>The loop over the QL matches: the first value that fits a byte.\<close>

fun first_byte :: "(string \<times> string) list \<Rightarrow> (u8 \<times> string) option" where
  "first_byte [] = None"
| "first_byte ((h, w) # ms) =
     (case ParseUint h 16 8 of
        (n, None) \<Rightarrow> Some (of_nat n, w)
      | (n, Some _) \<Rightarrow> first_byte ms)"

definition ParseLog :: "string \<Rightarrow> LogEntry" where
  "ParseLog output =
     (case FindAll stateRegexpOf output of
        (st, ext, dev) # _ \<Rightarrow>
          zero_entry\<lparr>le_State := Some st, le_ExtSource := Some ext, le_Device := Some dev, le_LogType := SYNCE_STATE\<rparr>
      | [] \<Rightarrow>
     (case FindAll stateRegexpOn output of
        (st, dev) # _ \<Rightarrow> zero_entry\<lparr>le_State := Some st, le_Device := Some dev, le_LogType := SYNCE_STATE\<rparr>
      | [] \<Rightarrow>
     (case FindAll stateRegexpFor output of
        (st, src) # _ \<Rightarrow> zero_entry\<lparr>le_State := Some st, le_Source := Some src, le_LogType := SYNCE_STATE\<rparr>
      | [] \<Rightarrow>
     (case first_byte (FindAll extQLRegexp output) of
        Some (v, src) \<Rightarrow> zero_entry\<lparr>le_ExtQl := v, le_Source := Some src, le_LogType := EXT_QL_STATE\<rparr>
      | None \<Rightarrow>
     (case first_byte (FindAll qlRegexp output) of
        Some (v, src) \<Rightarrow>
          zero_entry\<lparr>le_ExtQl := QL_DEFAULT_SSM, le_QL := v, le_Source := Some src, le_LogType := QL_STATE\<rparr>
      | None \<Rightarrow> zero_entry\<lparr>le_QL := QL_DEFAULT_SSM, le_ExtQl := QL_DEFAULT_SSM\<rparr>)))))"

section \<open>From a log line to an event\<close>

text \<open>
  The gauges of \<open>metrics.go\<close> that SyncE writes, with their label values (\<open>node\<close> is \<open>NodeName\<close>):
  \<open>SynceQLInfo\<close> has the labels process, node, profile, iface, network_option, device and ql_type,
  \<open>SynceClockQL\<close> the same without ql_type, \<open>ClockState\<close> process, node and iface.
\<close>

datatype synce_gauge =
    SynceQLInfo string string string string string string string
  | SynceClockQL string string string string string string
  | ClockState string string string

type_synonym gauge_store = "synce_gauge \<rightharpoonup> int"

definition UpdateSynceClockQlMetrics ::
  "string \<Rightarrow> string \<Rightarrow> string \<Rightarrow> string \<Rightarrow> int \<Rightarrow> string \<Rightarrow> int \<Rightarrow> gauge_store \<Rightarrow> gauge_store" where
  "UpdateSynceClockQlMetrics node process cfgName iface network_option device v g =
     g(SynceClockQL process node cfgName iface (fmt_int network_option) device \<mapsto> v)"

definition UpdateSynceQLMetrics ::
  "string \<Rightarrow> string \<Rightarrow> string \<Rightarrow> string \<Rightarrow> int \<Rightarrow> string \<Rightarrow> string \<Rightarrow> u8 \<Rightarrow> gauge_store \<Rightarrow> gauge_store" where
  "UpdateSynceQLMetrics node process cfgName iface network_option device qlType v g =
     g(SynceQLInfo process node cfgName iface (fmt_int network_option) device qlType \<mapsto> uint v)"

definition delete_iface_gauges ::
  "string \<Rightarrow> string \<Rightarrow> string \<Rightarrow> synce_config \<Rightarrow> string \<Rightarrow> gauge_store \<Rightarrow> gauge_store" where
  "delete_iface_gauges node process configName device iface g =
     g(SynceQLInfo process node configName iface (fmt_int (sc_NetworkOption device)) (sc_Name device) ''SSM'' := None,
       SynceQLInfo process node configName iface (fmt_int (sc_NetworkOption device)) (sc_Name device) ''Extended SSM'' := None,
       SynceClockQL process node configName iface (fmt_int (sc_NetworkOption device)) (sc_Name device) := None,
       ClockState process node iface := None)"

definition deleteSyncEMetrics :: "string \<Rightarrow> string \<Rightarrow> string \<Rightarrow> Relations \<Rightarrow> gauge_store \<Rightarrow> gauge_store" where
  "deleteSyncEMetrics node process configName relations g =
     fold (\<lambda>device. fold (delete_iface_gauges node process configName device) (sc_Ifaces device)) relations g"

definition syncEProcessName :: string where
  "syncEProcessName = ''synce4l''"

text \<open>The fields of \<open>ptpProcess\<close> that the method uses; \<open>sy_relations\<close> is a pointer and may be nil.\<close>

record synce_process =
  sy_configName :: string
  sy_relations :: "Relations option"

definition SyncEDeviceByInterface :: "synce_process \<Rightarrow> string \<Rightarrow> synce_config option" where
  "SyncEDeviceByInterface p iface =
     (case sy_relations p of
        None \<Rightarrow> None
      | Some devices \<Rightarrow> find (\<lambda>d. iface \<in> set (sc_Ifaces d)) devices)"

definition SyncEDeviceByName :: "synce_process \<Rightarrow> string \<Rightarrow> synce_config option" where
  "SyncEDeviceByName p name =
     (case sy_relations p of
        None \<Rightarrow> None
      | Some devices \<Rightarrow> find (\<lambda>d. sc_Name d = name) devices)"

text \<open>What one entry does to its device: the device after it, \<open>extraValue\<close>, \<open>state\<close> and the gauges.\<close>

record synce_update =
  su_device :: synce_config
  su_values :: "(ValueType \<times> goval) list"
  su_state :: PTPState
  su_gauges :: "gauge_store \<Rightarrow> gauge_store"

definition nil_map_write :: go_error where
  "nil_map_write = GoErr ''assignment to entry in nil map''"

definition state_entry :: "string \<Rightarrow> synce_config \<Rightarrow> synce_update" where
  "state_entry st d =
     (let state = ToPTPState (StringToEECState (replace_all st ''EEC_LOCKED_HO_ACQ'' ''EEC_LOCKED'')) in
      \<lparr>su_device = d\<lparr>sc_LastClockState := state\<rparr>,
       su_values = [(DEVICE, VString (sc_Name d)), (NETWORK_OPTION, VInt (sc_NetworkOption d)), (EEC_STATE, VString st)],
       su_state = state, su_gauges = id\<rparr>)"

definition ql_gauges :: "string \<Rightarrow> string \<Rightarrow> string \<Rightarrow> synce_config \<Rightarrow> u8 \<Rightarrow> u8 \<Rightarrow> gauge_store \<Rightarrow> gauge_store" where
  "ql_gauges node cfg src d ql ext g =
     UpdateSynceClockQlMetrics node syncEProcessName cfg src (sc_NetworkOption d) (sc_Name d) (uint ql + uint ext)
       (UpdateSynceQLMetrics node syncEProcessName cfg src (sc_NetworkOption d) (sc_Name d) ''Extended SSM'' ext
         (UpdateSynceQLMetrics node syncEProcessName cfg src (sc_NetworkOption d) (sc_Name d) ''SSM'' ql g))"

definition quality_value :: "string \<Rightarrow> (ValueType \<times> goval) list" where
  "quality_value q = (if q = '''' then [] else [(CLOCK_QUALITY, VString q)])"

definition ql_disabled ::
  "ql_table \<Rightarrow> ql_table \<Rightarrow> string \<Rightarrow> string \<Rightarrow> string \<Rightarrow> u8 \<Rightarrow> synce_config \<Rightarrow> synce_update res" where
  "ql_disabled ord1 ord2 node cfg src ql d =
     (case sc_LastQLState d of
        None \<Rightarrow> Inl nil_map_write
      | Some m \<Rightarrow> Inr
          \<lparr>su_device = d\<lparr>sc_LastQLState := Some (m(src \<mapsto> ql_info 0 ql QL_DEFAULT_ENHSSM))\<rparr>,
           su_values = [(DEVICE, VString (sc_Name d)), (NETWORK_OPTION, VInt (sc_NetworkOption d)), (QL, VByte ql)]
             @ quality_value (fst (ClockQuality ord1 ord2 d (ql_info 0 ql 0))),
           su_state = sc_LastClockState d,
           su_gauges = ql_gauges node cfg src d ql QL_DEFAULT_ENHSSM\<rparr>)"

text \<open>
  With extended TLVs: \<open>lastQLState\<close> is a pointer into the device's map, so a field set through it is
  set in the map.
\<close>

definition ql_enabled ::
  "ql_table \<Rightarrow> ql_table \<Rightarrow> string \<Rightarrow> string \<Rightarrow> string \<Rightarrow> u8 \<Rightarrow> u8 \<Rightarrow> synce_config \<Rightarrow> synce_update res" where
  "ql_enabled ord1 ord2 node cfg src ql ext d =
     (case sc_LastQLState d of
        None \<Rightarrow> Inl nil_map_write
      | Some m \<Rightarrow>
          let last = (case m src of None \<Rightarrow> ql_info 0 ql ext | Some l \<Rightarrow> l) in
          if ql_SSM last \<noteq> QL_DEFAULT_SSM \<and> ext \<noteq> QL_DEFAULT_SSM
          then Inr \<lparr>su_device = d\<lparr>sc_LastQLState := Some (m(src \<mapsto> last\<lparr>ql_ExtendedSSM := ext\<rparr>))\<rparr>,
                    su_values = [(NETWORK_OPTION, VInt (sc_NetworkOption d)), (DEVICE, VString (sc_Name d)),
                                 (EXT_QL, VByte ext), (QL, VByte (ql_SSM last))]
                      @ quality_value (fst (ClockQuality ord1 ord2 d (ql_info 0 (ql_SSM last) ext))),
                    su_state = sc_LastClockState d,
                    su_gauges = ql_gauges node cfg src d (ql_SSM last) ext\<rparr>
          else Inr \<lparr>su_device =
                      d\<lparr>sc_LastQLState :=
                          Some (m(src \<mapsto> (if ql \<noteq> QL_DEFAULT_SSM then last\<lparr>ql_SSM := ql\<rparr> else last)))\<rparr>,
                    su_values = [], su_state = PTP_UNKNOWN, su_gauges = id\<rparr>)"

definition no_update :: "synce_config \<Rightarrow> synce_update" where
  "no_update d = \<lparr>su_device = d, su_values = [], su_state = PTP_UNKNOWN, su_gauges = id\<rparr>"

definition ql_entry ::
  "ql_table \<Rightarrow> ql_table \<Rightarrow> string \<Rightarrow> string \<Rightarrow> string \<Rightarrow> u8 \<Rightarrow> u8 \<Rightarrow> synce_config \<Rightarrow> synce_update res" where
  "ql_entry ord1 ord2 node cfg src ql ext d =
     (if sc_ExtendedTlv d = ExtendedTLV_DISABLED \<and> ql \<noteq> QL_DEFAULT_SSM then ql_disabled ord1 ord2 node cfg src ql d
      else if sc_ExtendedTlv d = ExtendedTLV_ENABLED then ql_enabled ord1 ord2 node cfg src ql ext d
      else Inr (no_update d))"

text \<open>
  The whole method: the process after it (the device is changed through its pointer), the gauges, and
  the event offered to the event channel (the send does not wait; \<open>now\<close> is \<open>time.Now().UnixMilli()\<close>).
\<close>

definition synce_event :: "string \<Rightarrow> string \<Rightarrow> int \<Rightarrow> synce_update \<Rightarrow> EventChannel option" where
  "synce_event cfg src now u =
     (if su_values u = [] then None
      else Some \<lparr>ec_ProcessName = SYNCE, ec_State = su_state u, ec_IFace = src, ec_CfgName = cfg,
                 ec_Values = su_values u, ec_ClockType = NoClockType, ec_Time = now, ec_OutOfSpec = False,
                 ec_WriteToLog = True, ec_Reset = False, ec_SourceLost = False, ec_FrequencyTraceable = False\<rparr>)"

definition device_update :: "ql_table \<Rightarrow> ql_table \<Rightarrow> string \<Rightarrow> string \<Rightarrow> LogEntry \<Rightarrow> string \<Rightarrow> synce_config \<Rightarrow> synce_update res" where
  "device_update ord1 ord2 node cfg e src d =
     (case le_State e of
        Some st \<Rightarrow> Inr (state_entry st d)
      | None \<Rightarrow>
          if le_QL e \<noteq> QL_DEFAULT_SSM \<or> le_ExtQl e \<noteq> QL_DEFAULT_SSM
          then ql_entry ord1 ord2 node cfg src (le_QL e) (le_ExtQl e) d
          else Inr (no_update d))"

definition put_device :: "string \<Rightarrow> synce_config \<Rightarrow> synce_process \<Rightarrow> synce_process" where
  "put_device src d' p =
     p\<lparr>sy_relations := map_option (update_first (\<lambda>d. src \<in> set (sc_Ifaces d)) (\<lambda>_. d')) (sy_relations p)\<rparr>"

definition ProcessSynceEvents ::
  "ql_table \<Rightarrow> ql_table \<Rightarrow> string \<Rightarrow> int \<Rightarrow> LogEntry \<Rightarrow> synce_process \<Rightarrow> gauge_store
     \<Rightarrow> (synce_process \<times> gauge_store \<times> EventChannel option) res" where
  "ProcessSynceEvents ord1 ord2 node now e p g =
     (case le_Source e of
        None \<Rightarrow> Inr (p, g, None)
      | Some src \<Rightarrow>
          (case SyncEDeviceByInterface p src of
             None \<Rightarrow> Inr (p, g, None)
           | Some d \<Rightarrow>
               res_bind (device_update ord1 ord2 node (sy_configName p) e src d)
                 (\<lambda>u. Inr (put_device src (su_device u) p, su_gauges u g,
                           synce_event (sy_configName p) src now u))))"

text \<open>A run: the entries of the log in turn, each with its own visiting orders and time.\<close>

fun synce_run ::
  "string \<Rightarrow> (ql_table \<times> ql_table \<times> int \<times> LogEntry) list \<Rightarrow> synce_process \<Rightarrow> gauge_store
     \<Rightarrow> (synce_process \<times> gauge_store) res" where
  "synce_run node [] p g = Inr (p, g)"
| "synce_run node ((ord1, ord2, now, e) # es) p g =
     res_bind (ProcessSynceEvents ord1 ord2 node now e p g) (\<lambda>(p', g', ev). synce_run node es p' g')"

section \<open>Clock quality\<close>

definition ql_key :: "QualityLevel \<times> QualityLevelInfo \<Rightarrow> u8 \<times> u8" where
  "ql_key e = (ql_SSM (snd e), ql_ExtendedSSM (snd e))"

lemma ql_tables_distinct:
  "distinct (map ql_key qualityLevelInfoOption1)" "distinct (map ql_key qualityLevelInfoOption2)"
  by (simp_all add: ql_key_def qualityLevelInfoOption1_def qualityLevelInfoOption2_def)

lemma distinct_map_mset: "mset xs = mset ys \<Longrightarrow> distinct (map f xs) = distinct (map f ys)"
  by (rule mset_eq_imp_distinct_iff) simp

lemma find_unique:
  assumes "distinct (map key xs)" and "x \<in> set xs" and "\<And>y. P y \<longleftrightarrow> key y = key x"
  shows "find P xs = Some x"
  using assms by (induction xs) auto

lemma ql_search_unique:
  assumes "mset ord = mset tbl" and "distinct (map ql_key tbl)" and "ql_ExtendedSSM qi \<noteq> QL_DEFAULT_SSM"
  shows "(q, info) \<in> set tbl \<Longrightarrow> ql_SSM info = ql_SSM qi \<Longrightarrow> ql_ExtendedSSM info = ql_ExtendedSSM qi
           \<Longrightarrow> ql_search ord qi = Some (q, info)"
    and "\<forall>(q, info) \<in> set tbl. \<not> (ql_SSM info = ql_SSM qi \<and> ql_ExtendedSSM info = ql_ExtendedSSM qi)
           \<Longrightarrow> ql_search ord qi = None"
proof -
  have s: "set ord = set tbl" using assms(1) by (metis set_mset_mset)
  have d: "distinct (map ql_key ord)" using assms(1,2) distinct_map_mset by blast
  {
    assume "(q, info) \<in> set tbl" "ql_SSM info = ql_SSM qi" "ql_ExtendedSSM info = ql_ExtendedSSM qi"
    then show "ql_search ord qi = Some (q, info)"
      unfolding ql_search_def using s assms(3)
      by (intro find_unique [OF d]) (auto simp: Compare_def ql_key_def)
  }
  {
    assume "\<forall>(q, info) \<in> set tbl. \<not> (ql_SSM info = ql_SSM qi \<and> ql_ExtendedSSM info = ql_ExtendedSSM qi)"
    then show "ql_search ord qi = None"
      unfolding ql_search_def using s assms(3) by (auto simp: find_None_iff Compare_def)
  }
qed

text \<open>
  C38. The clock quality is the table's: for network option 1 or 2 and extended TLVs off, or on with an
  extended code that has been read, \<open>ClockQuality\<close> returns the name and the entry of the one level of
  the option's table whose two SSM codes match (the extended code being 0xFF when extended TLVs are
  off), and do-not-use when there is none, whatever order the maps are visited in.
\<close>

theorem clock_quality_is_table_entry:
  assumes "mset ord1 = mset qualityLevelInfoOption1" and "mset ord2 = mset qualityLevelInfoOption2"
    and "sc_NetworkOption c = 1 \<and> tbl = qualityLevelInfoOption1 \<and> dflt = DNU
       \<or> sc_NetworkOption c = 2 \<and> tbl = qualityLevelInfoOption2 \<and> dflt = DUS"
    and "sc_ExtendedTlv c = 0 \<and> ext = 0xFF \<or> sc_ExtendedTlv c = 1 \<and> ext = ql_ExtendedSSM qi \<and> ext \<noteq> 3"
  shows "(\<forall>(q, info) \<in> set tbl. ql_SSM info = ql_SSM qi \<and> ql_ExtendedSSM info = ext
            \<longrightarrow> ClockQuality ord1 ord2 c qi = (QualityLevel_String q, info))
       \<and> ((\<forall>(q, info) \<in> set tbl. \<not> (ql_SSM info = ql_SSM qi \<and> ql_ExtendedSSM info = ext))
            \<longrightarrow> ClockQuality ord1 ord2 c qi = (QualityLevel_String dflt, ql_info 0 0xF 0xFF))"
proof -
  define qi' where "qi' = (if sc_ExtendedTlv c = 0 then qi\<lparr>ql_ExtendedSSM := 0xFF\<rparr> else qi)"
  have qi': "ql_SSM qi' = ql_SSM qi" "ql_ExtendedSSM qi' = ext" "ext \<noteq> QL_DEFAULT_SSM"
    using assms(4) by (auto simp: qi'_def QL_DEFAULT_SSM_def)
  define ord where "ord = (if sc_NetworkOption c = 1 then ord1 else ord2)"
  have ord: "mset ord = mset tbl" "distinct (map ql_key tbl)"
    using assms(1-3) ql_tables_distinct by (auto simp: ord_def)
  have cq: "ClockQuality ord1 ord2 c qi =
      (case ql_search ord qi' of
         Some (q, info) \<Rightarrow> (QualityLevel_String q, info)
       | None \<Rightarrow> (QualityLevel_String dflt, ql_info 0 0xF 0xFF))"
    using assms(3,4) qi'(3)
    by (auto simp: ClockQuality_def qi'_def ord_def synce_consts Let_def split: option.splits)
  show ?thesis
    using ql_search_unique [OF ord, of qi'] qi' by (auto simp: cq)
qed

theorem clock_quality_is_table_entry_witness:
  "ClockQuality (rev qualityLevelInfoOption1) (rev qualityLevelInfoOption2)
     (empty_config\<lparr>sc_NetworkOption := 1, sc_ExtendedTlv := 1\<rparr>) (ql_info 0 0x2 0x20) = (''PRTC'', ql_info 1 0x2 0x20)"
  using clock_quality_is_table_entry
    [of "rev qualityLevelInfoOption1" "rev qualityLevelInfoOption2" "empty_config\<lparr>sc_NetworkOption := 1, sc_ExtendedTlv := 1\<rparr>"
        qualityLevelInfoOption1 DNU "0x20" "ql_info 0 0x2 0x20"]
  by (simp add: qualityLevelInfoOption1_def)

section \<open>Parsing the log lines\<close>

text \<open>An expression that cannot match at a position of \<open>s\<close> has no match in it.\<close>

lemma state_prefix: "n \<in> set state_names \<Longrightarrow> HasPrefix s n \<Longrightarrow> HasPrefix s ''EEC_''"
  unfolding HasPrefix_iff state_names_def
  by (auto intro: prefix_order.trans [of _ _ s] simp: prefix_def)

lemma state_regexps_None:
  assumes "\<not> HasPrefix s ''EEC_''"
  shows "stateRegexpOf s = None" "stateRegexpOn s = None" "stateRegexpFor s = None"
  using assms state_prefix [of _ s]
  by (auto simp: stateRegexpOf_def stateRegexpOn_def stateRegexpFor_def intro!: re_alt_None)

lemma no_state:
  assumes "\<And>t. suffix t s \<Longrightarrow> t \<noteq> [] \<Longrightarrow> \<not> HasPrefix t ''EEC_''"
  shows "FindAll stateRegexpOf s = []" "FindAll stateRegexpOn s = []" "FindAll stateRegexpFor s = []"
  using assms by (auto intro!: FindAll_none state_regexps_None)

lemma HasPrefix_hd: "HasPrefix t (c # p) \<Longrightarrow> c \<in> set t"
  by (cases t) (auto simp: HasPrefix_def)

lemma suffix_set: "suffix t s \<Longrightarrow> c \<in> set t \<Longrightarrow> c \<in> set s"
  by (auto simp: suffix_def)

lemma is_hex_fmt: "c \<in> set (fmt_base 16 n) \<Longrightarrow> is_hex c"
  using fmt_base_digits [of 16 n] by (auto simp: is_hex_def)

lemma hex_not_E: "c \<in> set (fmt_base 16 n) \<Longrightarrow> c \<noteq> CHR ''E''"
  using fmt_base_digits [of 16 n] by (auto dest!: arg_cong [where f = "of_char :: char \<Rightarrow> nat"] split: if_splits)

lemma ParseUint_byte: "ParseUint (fmt_base 16 (unat (b :: u8))) 16 8 = (unat b, None)"
  using unsigned_less [of b, where 'a = nat] by (intro ParseUint_fmt_base) simp_all

lemma re_hex_on_line:
  assumes "iface \<noteq> []" and "\<forall>c \<in> set iface. is_wordchar c"
  shows "re_hex_on l (l @ fmt_base 16 n @ '' on '' @ iface) = Some ((fmt_base 16 n, iface), [])"
proof -
  have hex: "re_plus is_hex (fmt_base 16 n @ '' on '' @ iface) = Some (fmt_base 16 n, '' on '' @ iface)"
  proof (rule re_plus_run)
    show "\<forall>c \<in> set (fmt_base 16 n). is_hex c" by (simp add: is_hex_fmt)
  qed (simp_all add: is_hex_def)
  have on: "re_lit '' on '' (CHR '' '' # CHR ''o'' # CHR ''n'' # CHR '' '' # iface) = Some iface"
    by (simp add: re_lit_def HasPrefix_def)
  have "re_plus is_wordchar iface = Some (iface, [])"
    using re_plus_run [of iface is_wordchar "[]"] assms by simp
  with hex on show ?thesis by (simp only: re_hex_on_def re_lit_append) simp
qed

lemma FindAll_hex_line:
  assumes "iface \<noteq> []" and "\<forall>c \<in> set iface. is_wordchar c" and "l \<noteq> []"
    and "\<And>t. suffix t pre \<Longrightarrow> t \<noteq> [] \<Longrightarrow> \<not> HasPrefix (t @ l @ fmt_base 16 n @ '' on '' @ iface) l"
  shows "FindAll (re_hex_on l) (pre @ l @ fmt_base 16 n @ '' on '' @ iface) = [(fmt_base 16 n, iface)]"
proof -
  have "FindAll (re_hex_on l) (pre @ l @ fmt_base 16 n @ '' on '' @ iface)
      = FindAll (re_hex_on l) (l @ fmt_base 16 n @ '' on '' @ iface)"
    using assms(4) by (intro FindAll_skip) (simp add: re_hex_on_def re_lit_None)
  moreover obtain c l' where "l = c # l'" using assms(3) by (cases l) auto
  ultimately show ?thesis using re_hex_on_line [OF assms(1,2), of l n] by simp
qed

lemma no_E_no_match:
  assumes "CHR ''E'' \<notin> set s"
  shows "FindAll stateRegexpOf s = []" "FindAll stateRegexpOn s = []" "FindAll stateRegexpFor s = []"
    "FindAll extQLRegexp s = []"
proof -
  have n: "\<not> HasPrefix t (CHR ''E'' # p)" if "suffix t s" for t p
    using assms that HasPrefix_hd suffix_set by metis
  show "FindAll stateRegexpOf s = []" by (rule no_state(1)) (rule n)
  show "FindAll stateRegexpOn s = []" by (rule no_state(2)) (rule n)
  show "FindAll stateRegexpFor s = []" by (rule no_state(3)) (rule n)
  show "FindAll extQLRegexp s = []"
  proof (rule FindAll_none)
    fix t assume "suffix t s"
    from n [OF this, of "''XT_QL=0x''"] show "extQLRegexp t = None"
      by (simp add: extQLRegexp_def re_hex_on_def re_lit_None)
  qed
qed

lemma EEC_not_in_ext_line:
  assumes "CHR ''E'' \<notin> set pre" and "CHR ''E'' \<notin> set rest" and "suffix t (pre @ ''EXT_QL=0x'' @ rest)"
  shows "\<not> HasPrefix t ''EEC_''"
proof
  assume p: "HasPrefix t ''EEC_''"
  have r: "\<not> HasPrefix u ''EEC_''" if "suffix u (''XT_QL=0x'' @ rest)" for u
    using HasPrefix_hd [of u "CHR ''E''" "''EC_''"] suffix_set [OF that] assms(2) by auto
  from assms(3) have "suffix t (''EXT_QL=0x'' @ rest) \<or> (\<exists>v. t = v @ ''EXT_QL=0x'' @ rest \<and> suffix v pre)"
    using suffix_append [of t pre "''EXT_QL=0x'' @ rest"] by blast
  moreover have "suffix t (''EXT_QL=0x'' @ rest) \<longleftrightarrow> t = [] @ ''EXT_QL=0x'' @ rest \<or> suffix t (''XT_QL=0x'' @ rest)"
    using suffix_Cons [of t "CHR ''E''" "''XT_QL=0x'' @ rest"] by simp
  ultimately consider "suffix t (''XT_QL=0x'' @ rest)" | v where "t = v @ ''EXT_QL=0x'' @ rest" "suffix v pre"
    using Nil_suffix [of pre] by blast
  then show False
  proof cases
    case 1
    with r p show ?thesis by blast
  next
    case 2
    then show ?thesis using p assms(1) suffix_set [of v pre] by (cases v) (auto simp: HasPrefix_def)
  qed
qed

text \<open>
  The quality lines of synce4l parse back. After a prefix without an \<open>E\<close> or a \<open>Q\<close> (as the time, the
  configuration name and the message of synce4l are), a line that ends in \<open> QL=0x<b> on <iface>\<close> gives a
  QL entry with the byte and the interface and an extended code marked as unread; a line that ends in
  \<open>EXT_QL=0x<b> on <iface>\<close> gives an extended entry with the byte and the interface, whose QL is 0 and not
  marked as unread. The interface name is a word without an \<open>E\<close>.
\<close>

theorem ql_lines_parsed:
  assumes "CHR ''E'' \<notin> set pre" and "CHR ''Q'' \<notin> set pre"
    and "iface \<noteq> []" and "\<forall>c \<in> set iface. is_wordchar c \<and> c \<noteq> CHR ''E''"
  shows "ParseLog (pre @ '' QL=0x'' @ fmt_base 16 (unat b) @ '' on '' @ iface)
           = zero_entry\<lparr>le_QL := b, le_ExtQl := QL_DEFAULT_SSM, le_Source := Some iface, le_LogType := QL_STATE\<rparr>
       \<and> ParseLog (pre @ ''EXT_QL=0x'' @ fmt_base 16 (unat b) @ '' on '' @ iface)
           = zero_entry\<lparr>le_QL := 0, le_ExtQl := b, le_Source := Some iface, le_LogType := EXT_QL_STATE\<rparr>"
proof
  let ?h = "fmt_base 16 (unat b)"
  have w: "\<forall>c \<in> set iface. is_wordchar c" and nE: "CHR ''E'' \<notin> set (?h @ '' on '' @ iface)"
    using assms(4) hex_not_E [of _ "unat b"] by auto
  have byte: "first_byte [(?h, iface)] = Some (b, iface)" by (simp add: ParseUint_byte)
  show "ParseLog (pre @ '' QL=0x'' @ ?h @ '' on '' @ iface)
      = zero_entry\<lparr>le_QL := b, le_ExtQl := QL_DEFAULT_SSM, le_Source := Some iface, le_LogType := QL_STATE\<rparr>"
  proof -
    have "CHR ''E'' \<notin> set (pre @ '' QL=0x'' @ ?h @ '' on '' @ iface)" using assms(1) nE by simp
    note none = no_E_no_match [OF this]
    have "FindAll qlRegexp (pre @ '' QL=0x'' @ ?h @ '' on '' @ iface) = [(?h, iface)]"
      unfolding qlRegexp_def
    proof (rule FindAll_hex_line [OF assms(3) w])
      fix t assume t: "suffix t pre" "t \<noteq> []"
      then have "CHR ''Q'' \<notin> set t" using suffix_set assms(2) by metis
      with t(2) show "\<not> HasPrefix (t @ '' QL=0x'' @ ?h @ '' on '' @ iface) '' QL=0x''"
        by (cases t rule: remdups_adj.cases) (auto simp: HasPrefix_def)
    qed simp
    then show ?thesis by (simp only: ParseLog_def none byte list.case option.case first_byte.simps(1)) simp
  qed
  show "ParseLog (pre @ ''EXT_QL=0x'' @ ?h @ '' on '' @ iface)
      = zero_entry\<lparr>le_QL := 0, le_ExtQl := b, le_Source := Some iface, le_LogType := EXT_QL_STATE\<rparr>"
  proof -
    note none = no_state [OF EEC_not_in_ext_line [OF assms(1) nE]]
    have "FindAll extQLRegexp (pre @ ''EXT_QL=0x'' @ ?h @ '' on '' @ iface) = [(?h, iface)]"
      unfolding extQLRegexp_def
    proof (rule FindAll_hex_line [OF assms(3) w])
      fix t assume t: "suffix t pre" "t \<noteq> []"
      then have "CHR ''E'' \<notin> set t" using suffix_set assms(1) by metis
      with t(2) show "\<not> HasPrefix (t @ ''EXT_QL=0x'' @ ?h @ '' on '' @ iface) ''EXT_QL=0x''"
        by (cases t) (auto simp: HasPrefix_def)
    qed simp
    then show ?thesis by (simp only: ParseLog_def none byte list.case option.case) (simp add: zero_entry_def)
  qed
qed

theorem ql_lines_parsed_witness:
  "ParseLog (''synce4l[622796.479]: [synce4l.0.config] tx_rebuild_tlv: attached new TLV,''
      @ '' QL=0x'' @ fmt_base 16 (unat (0xf :: u8)) @ '' on '' @ ''ens7f0'')
     = zero_entry\<lparr>le_QL := 0xf, le_ExtQl := QL_DEFAULT_SSM, le_Source := Some ''ens7f0'', le_LogType := QL_STATE\<rparr>"
  by (rule conjunct1, rule ql_lines_parsed) (simp_all add: is_wordchar_def)

section \<open>Events from quality entries\<close>

text \<open>What no entry changes of a device.\<close>

definition dev_static :: "synce_config \<Rightarrow> string \<times> string list \<times> int \<times> int" where
  "dev_static d = (sc_Name d, sc_Ifaces d, sc_NetworkOption d, sc_ExtendedTlv d)"

definition relations_ok :: "synce_process \<Rightarrow> bool" where
  "relations_ok p \<longleftrightarrow> (\<forall>ds. sy_relations p = Some ds \<longrightarrow> (\<forall>d \<in> set ds. sc_LastQLState d \<noteq> None))"

lemma update_keeps:
  assumes "device_update ord1 ord2 node cfg e src d = Inr u"
  shows "dev_static (su_device u) = dev_static d"
    and "sc_LastQLState d \<noteq> None \<Longrightarrow> sc_LastQLState (su_device u) \<noteq> None"
  using assms
  by (auto simp: device_update_def ql_entry_def ql_disabled_def ql_enabled_def no_update_def state_entry_def
      dev_static_def Let_def split: option.splits if_splits)

lemma update_no_panic: "sc_LastQLState d \<noteq> None \<Longrightarrow> \<exists>u. device_update ord1 ord2 node cfg e src d = Inr u"
  by (auto simp: device_update_def ql_entry_def ql_disabled_def ql_enabled_def Let_def split: option.splits)

lemma SyncEDeviceByInterface_SomeD:
  assumes "SyncEDeviceByInterface p src = Some d"
  obtains ds where "sy_relations p = Some ds" "find (\<lambda>d. src \<in> set (sc_Ifaces d)) ds = Some d"
    "d \<in> set ds" "src \<in> set (sc_Ifaces d)"
  using assms by (auto simp: SyncEDeviceByInterface_def split: option.splits dest: find_SomeD)

lemma put_device_static:
  assumes "SyncEDeviceByInterface p src = Some d" and "dev_static d' = dev_static d"
  shows "map_option (map dev_static) (sy_relations (put_device src d' p)) = map_option (map dev_static) (sy_relations p)"
    and "SyncEDeviceByInterface (put_device src d' p) src = Some d'"
    and "sy_configName (put_device src d' p) = sy_configName p"
proof -
  obtain ds where ds: "sy_relations p = Some ds" "find (\<lambda>d. src \<in> set (sc_Ifaces d)) ds = Some d" "src \<in> set (sc_Ifaces d)"
    using assms(1) by (rule SyncEDeviceByInterface_SomeD)
  have "src \<in> set (sc_Ifaces d')" using ds(3) assms(2) by (simp add: dev_static_def)
  then show "SyncEDeviceByInterface (put_device src d' p) src = Some d'"
    by (simp add: SyncEDeviceByInterface_def put_device_def ds find_replace_first [OF ds(2)])
  show "map_option (map dev_static) (sy_relations (put_device src d' p)) = map_option (map dev_static) (sy_relations p)"
    by (simp add: put_device_def ds map_replace_first [where key = dev_static, OF ds(2) assms(2)])
qed (simp add: put_device_def)

lemma put_device_ok:
  assumes "relations_ok p" and "SyncEDeviceByInterface p src = Some d" and "sc_LastQLState d' \<noteq> None"
  shows "relations_ok (put_device src d' p)"
proof -
  obtain ds where ds: "sy_relations p = Some ds" "find (\<lambda>d. src \<in> set (sc_Ifaces d)) ds = Some d"
    using assms(2) by (rule SyncEDeviceByInterface_SomeD)
  with assms(1,3) set_update_first [OF ds(2), of "\<lambda>_. d'"] show ?thesis
    by (auto simp: relations_ok_def put_device_def)
qed

text \<open>
  Both codes in one event: for an interface of a device with extended TLVs, a QL entry (with a code other
  than the unread mark) sends nothing, and the EXT_QL entry that follows sends one event with both codes,
  the network option, the device name, the last clock state and the clock quality of the two codes, whatever
  the device remembered before.
\<close>

theorem ql_then_ext_ql_reported:
  assumes "SyncEDeviceByInterface p src = Some d" and "relations_ok p" and "sc_ExtendedTlv d = 1"
    and "b \<noteq> 3" and "x \<noteq> 3"
    and "e1 = zero_entry\<lparr>le_QL := b, le_ExtQl := QL_DEFAULT_SSM, le_Source := Some src, le_LogType := QL_STATE\<rparr>"
    and "e2 = zero_entry\<lparr>le_ExtQl := x, le_Source := Some src, le_LogType := EXT_QL_STATE\<rparr>"
  shows "\<exists>p1. ProcessSynceEvents ord1 ord2 node t1 e1 p g = Inr (p1, g, None) \<and>
    (\<exists>p2 g2 ev. ProcessSynceEvents ord1 ord2 node t2 e2 p1 g = Inr (p2, g2, Some ev)
       \<and> ec_ProcessName ev = SYNCE \<and> ec_IFace ev = src \<and> ec_State ev = sc_LastClockState d
       \<and> map_of (ec_Values ev) QL = Some (VByte b) \<and> map_of (ec_Values ev) EXT_QL = Some (VByte x)
       \<and> map_of (ec_Values ev) DEVICE = Some (VString (sc_Name d))
       \<and> map_of (ec_Values ev) NETWORK_OPTION = Some (VInt (sc_NetworkOption d))
       \<and> (let q = fst (ClockQuality ord1 ord2 d (ql_info 0 b x)) in
          map_of (ec_Values ev) CLOCK_QUALITY = (if q = '''' then None else Some (VString q))))"
proof -
  obtain m where m: "sc_LastQLState d = Some m"
    using assms(1,2) by (auto simp: relations_ok_def elim!: SyncEDeviceByInterface_SomeD)
  define l where "l = (case m src of None \<Rightarrow> ql_info 0 b 3 | Some l \<Rightarrow> l)\<lparr>ql_SSM := b\<rparr>"
  define d1 where "d1 = d\<lparr>sc_LastQLState := Some (m(src \<mapsto> l))\<rparr>"
  let ?p1 = "put_device src d1 p"
  have st: "dev_static d1 = dev_static d" by (simp add: d1_def dev_static_def)
  have one: "ProcessSynceEvents ord1 ord2 node t1 e1 p g = Inr (?p1, g, None)"
    using assms(1,3,4) m
    by (simp add: assms(6) ProcessSynceEvents_def device_update_def ql_entry_def ql_enabled_def zero_entry_def
        synce_consts Let_def synce_event_def d1_def l_def)
  have cq: "ClockQuality ord1 ord2 d1 qi = ClockQuality ord1 ord2 d qi" for qi
    by (simp add: ClockQuality_def d1_def)
  have up: "device_update ord1 ord2 node (sy_configName ?p1) e2 src d1 =
     Inr \<lparr>su_device = d1\<lparr>sc_LastQLState := Some (m(src \<mapsto> l\<lparr>ql_ExtendedSSM := x\<rparr>))\<rparr>,
          su_values = [(NETWORK_OPTION, VInt (sc_NetworkOption d)), (DEVICE, VString (sc_Name d)),
             (EXT_QL, VByte x), (QL, VByte b)] @ quality_value (fst (ClockQuality ord1 ord2 d (ql_info 0 b x))),
          su_state = sc_LastClockState d,
          su_gauges = ql_gauges node (sy_configName ?p1) src d1 b x\<rparr>"
    using assms(3,4,5) cq
    by (simp add: assms(7) device_update_def ql_entry_def ql_enabled_def zero_entry_def synce_consts Let_def d1_def l_def)
  show ?thesis
    using one up put_device_static(2) [OF assms(1) st]
    by (auto simp: assms(7) ProcessSynceEvents_def zero_entry_def synce_event_def quality_value_def Let_def)
qed

definition demo_device :: synce_config where
  "demo_device = empty_config\<lparr>sc_Name := ''synce1'', sc_Ifaces := [''ens7f0''], sc_NetworkOption := 2,
     sc_ExtendedTlv := 1, sc_LastQLState := Some Map.empty, sc_LastClockState := PTP_LOCKED\<rparr>"

definition demo_synce :: synce_process where
  "demo_synce = \<lparr>sy_configName = ''synce4l.0.config'', sy_relations = Some [demo_device]\<rparr>"

lemma demo_synce_ok:
  "SyncEDeviceByInterface demo_synce ''ens7f0'' = Some demo_device" "relations_ok demo_synce"
  by (simp_all add: SyncEDeviceByInterface_def demo_synce_def demo_device_def relations_ok_def)

theorem ql_then_ext_ql_reported_witness:
  "\<exists>p1. ProcessSynceEvents qualityLevelInfoOption1 qualityLevelInfoOption2 ''node'' 1
      (zero_entry\<lparr>le_QL := 1, le_ExtQl := QL_DEFAULT_SSM, le_Source := Some ''ens7f0'', le_LogType := QL_STATE\<rparr>)
      demo_synce Map.empty = Inr (p1, Map.empty, None)"
  using ql_then_ext_ql_reported [OF demo_synce_ok, of 1 "0x20" _ _ qualityLevelInfoOption1 qualityLevelInfoOption2
      "''node''" 1 Map.empty 2, OF _ _ _ refl refl]
  by (simp add: demo_device_def) blast

text \<open>
  An EXT_QL line alone reports a QL that was never read: if the device remembers nothing for the interface,
  the first EXT_QL entry of a device with extended TLVs sends an event whose QL is 0, because the entry of an
  EXT_QL line leaves \<open>QL\<close> at Go's zero value and not at the unread mark. In an option 2 network an
  extended code of 0xFF then names the clock quality STU.
\<close>

theorem ext_ql_alone_reports_ql_zero:
  assumes "SyncEDeviceByInterface p src = Some d" and "sc_ExtendedTlv d = 1"
    and "sc_LastQLState d = Some m" and "m src = None" and "x \<noteq> 3"
    and "e = zero_entry\<lparr>le_ExtQl := x, le_Source := Some src, le_LogType := EXT_QL_STATE\<rparr>"
  shows "\<exists>p' g' ev. ProcessSynceEvents ord1 ord2 node now e p g = Inr (p', g', Some ev)
     \<and> map_of (ec_Values ev) QL = Some (VByte 0)
     \<and> (mset ord1 = mset qualityLevelInfoOption1 \<and> mset ord2 = mset qualityLevelInfoOption2
          \<and> sc_NetworkOption d = 2 \<and> x = 0xFF \<longrightarrow> map_of (ec_Values ev) CLOCK_QUALITY = Some (VString ''STU''))"
proof -
  have "fst (ClockQuality ord1 ord2 d (ql_info 0 0 0xFF)) = ''STU''"
    if "mset ord2 = mset qualityLevelInfoOption2" "sc_NetworkOption d = 2"
  proof -
    have "ql_search ord2 (ql_info 0 0 0xFF) = Some (STU, ql_info 3 0 0xFF)"
      using ql_tables_distinct(2)
      by (intro ql_search_unique(1) [OF that(1)]) (simp_all add: qualityLevelInfoOption2_def QL_DEFAULT_SSM_def)
    then show ?thesis using assms(2) that(2) by (simp add: ClockQuality_def synce_consts Let_def)
  qed
  then show ?thesis
    using assms(1-5)
    by (auto simp: assms(6) ProcessSynceEvents_def device_update_def ql_entry_def ql_enabled_def zero_entry_def
        synce_consts Let_def synce_event_def quality_value_def)
qed

theorem ext_ql_alone_reports_ql_zero_witness:
  "\<exists>p' g' ev. ProcessSynceEvents qualityLevelInfoOption1 qualityLevelInfoOption2 ''node'' 1
      (zero_entry\<lparr>le_ExtQl := 0xFF, le_Source := Some ''ens7f0'', le_LogType := EXT_QL_STATE\<rparr>) demo_synce Map.empty
        = Inr (p', g', Some ev)
     \<and> map_of (ec_Values ev) QL = Some (VByte 0) \<and> map_of (ec_Values ev) CLOCK_QUALITY = Some (VString ''STU'')"
  using ext_ql_alone_reports_ql_zero [OF demo_synce_ok(1), of Map.empty "0xFF" _ qualityLevelInfoOption1 qualityLevelInfoOption2
      "''node''" 1 Map.empty, OF _ _ _ _ refl]
  by (simp add: demo_device_def)

section \<open>The life of the quality gauges\<close>

definition iface_keys :: "string \<Rightarrow> string \<Rightarrow> synce_config \<Rightarrow> string \<Rightarrow> synce_gauge set" where
  "iface_keys node cfg d iface =
     {SynceQLInfo syncEProcessName node cfg iface (fmt_int (sc_NetworkOption d)) (sc_Name d) ''SSM'',
      SynceQLInfo syncEProcessName node cfg iface (fmt_int (sc_NetworkOption d)) (sc_Name d) ''Extended SSM'',
      SynceClockQL syncEProcessName node cfg iface (fmt_int (sc_NetworkOption d)) (sc_Name d),
      ClockState syncEProcessName node iface}"

definition process_keys :: "string \<Rightarrow> synce_process \<Rightarrow> synce_gauge set" where
  "process_keys node p =
     (case sy_relations p of None \<Rightarrow> {} | Some ds \<Rightarrow> \<Union>d \<in> set ds. \<Union>i \<in> set (sc_Ifaces d). iface_keys node (sy_configName p) d i)"

lemma delete_gauges:
  "deleteSyncEMetrics node syncEProcessName cfg ds g k =
     (if \<exists>d \<in> set ds. \<exists>i \<in> set (sc_Ifaces d). k \<in> iface_keys node cfg d i then None else g k)"
proof -
  have "delete_iface_gauges node syncEProcessName cfg d i g k = (if k \<in> iface_keys node cfg d i then None else g k)" for d i g k
    by (simp add: delete_iface_gauges_def iface_keys_def)
  then have "fold (delete_iface_gauges node syncEProcessName cfg d) (sc_Ifaces d) g k
      = (if k \<in> (\<Union>i \<in> set (sc_Ifaces d). iface_keys node cfg d i) then None else g k)" for d g k
    using fold_delete [of "delete_iface_gauges node syncEProcessName cfg d" "iface_keys node cfg d"] by simp
  then show ?thesis
    unfolding deleteSyncEMetrics_def
    by (subst fold_delete [where K = "\<lambda>d. \<Union>i \<in> set (sc_Ifaces d). iface_keys node cfg d i"]) simp_all
qed

lemma process_keys_static:
  assumes "map_option (map dev_static) (sy_relations p') = map_option (map dev_static) (sy_relations p)"
    and "sy_configName p' = sy_configName p"
  shows "process_keys node p' = process_keys node p"
proof (cases "sy_relations p")
  case (Some ds)
  then obtain ds' where ds': "sy_relations p' = Some ds'" "map dev_static ds' = map dev_static ds" using assms(1) by auto
  have rep: "(\<Union>d \<in> set xs. \<Union>i \<in> set (sc_Ifaces d). iface_keys node cfg d i)
     = (\<Union>t \<in> set (map dev_static xs). \<Union>i \<in> set (fst (snd t)).
          iface_keys node cfg (empty_config\<lparr>sc_Name := fst t, sc_NetworkOption := fst (snd (snd t))\<rparr>) i)" for xs cfg
    by (simp add: dev_static_def iface_keys_def)
  show ?thesis using Some ds' assms(2) by (simp only: process_keys_def option.case rep)
qed (use assms in \<open>simp add: process_keys_def\<close>)

lemma update_gauges:
  assumes "device_update ord1 ord2 node cfg e src d = Inr u" and "k \<notin> iface_keys node cfg d src"
  shows "su_gauges u g k = g k"
  using assms
  by (auto simp: device_update_def ql_entry_def ql_disabled_def ql_enabled_def no_update_def state_entry_def
      ql_gauges_def UpdateSynceQLMetrics_def UpdateSynceClockQlMetrics_def iface_keys_def Let_def
      split: option.splits if_splits)

lemma process_step:
  assumes "relations_ok p"
  shows "\<exists>p' g' ev. ProcessSynceEvents ord1 ord2 node now e p g = Inr (p', g', ev) \<and> relations_ok p'
     \<and> process_keys node p' = process_keys node p \<and> (\<forall>k. k \<notin> process_keys node p \<longrightarrow> g' k = g k)
     \<and> map_option (map dev_static) (sy_relations p') = map_option (map dev_static) (sy_relations p)
     \<and> sy_configName p' = sy_configName p"
proof (cases "le_Source e")
  case None
  then show ?thesis using assms by (simp add: ProcessSynceEvents_def)
next
  case (Some src)
  show ?thesis
  proof (cases "SyncEDeviceByInterface p src")
    case None
    then show ?thesis using assms Some by (simp add: ProcessSynceEvents_def)
  next
    case dev: (Some d)
    obtain ds where ds: "sy_relations p = Some ds" "d \<in> set ds" "src \<in> set (sc_Ifaces d)"
      using dev by (rule SyncEDeviceByInterface_SomeD)
    then have "sc_LastQLState d \<noteq> None" using assms by (simp add: relations_ok_def)
    moreover from update_no_panic [OF this]
    obtain u where u: "device_update ord1 ord2 node (sy_configName p) e src d = Inr u" by blast
    ultimately have ok: "relations_ok (put_device src (su_device u) p)"
      using put_device_ok [OF assms dev] update_keeps(2) by blast
    note st = put_device_static [OF dev update_keeps(1) [OF u]]
    have "iface_keys node (sy_configName p) d src \<subseteq> process_keys node p"
      using ds by (auto simp: process_keys_def)
    then have "\<forall>k. k \<notin> process_keys node p \<longrightarrow> su_gauges u g k = g k"
      using update_gauges [OF u] by blast
    then show ?thesis
      using Some dev u ok st process_keys_static [OF st(1,3)] by (simp add: ProcessSynceEvents_def)
  qed
qed

text \<open>
  No gauge outlives its process: a SyncE process whose devices have their maps never panics on any log
  entries, and when \<open>deleteSyncEMetrics\<close> runs on the relations it has then, every gauge is absent or what it
  was before the process ran.
\<close>

theorem synce_gauges_deleted:
  assumes "relations_ok p" and "sy_relations p \<noteq> None"
  shows "\<exists>p' g' ds. synce_run node es p g = Inr (p', g') \<and> sy_relations p' = Some ds
     \<and> (\<forall>k. deleteSyncEMetrics node syncEProcessName (sy_configName p') ds g' k \<in> {None, g k})"
proof -
  have "\<exists>p' g'. synce_run node es p g = Inr (p', g') \<and> sy_relations p' \<noteq> None
     \<and> process_keys node p' = process_keys node p \<and> (\<forall>k. k \<notin> process_keys node p \<longrightarrow> g' k = g k)"
    using assms
  proof (induction es arbitrary: p g)
    case (Cons a es)
    obtain ord1 ord2 now e where a: "a = (ord1, ord2, now, e)" by (cases a) auto
    obtain p1 g1 ev where s: "ProcessSynceEvents ord1 ord2 node now e p g = Inr (p1, g1, ev)" "relations_ok p1"
      "process_keys node p1 = process_keys node p" "\<forall>k. k \<notin> process_keys node p \<longrightarrow> g1 k = g k"
      "map_option (map dev_static) (sy_relations p1) = map_option (map dev_static) (sy_relations p)"
      using process_step [OF Cons.prems(1), of ord1 ord2 node now e g] by blast
    have "sy_relations p1 \<noteq> None" using s(5) Cons.prems(2) by auto
    from Cons.IH [OF s(2) this, of g1] obtain p' g' where
      "synce_run node es p1 g1 = Inr (p', g')" "sy_relations p' \<noteq> None"
      "process_keys node p' = process_keys node p1" "\<forall>k. k \<notin> process_keys node p1 \<longrightarrow> g' k = g1 k" by blast
    then show ?case using s a by simp
  qed simp
  then obtain p' g' ds where run: "synce_run node es p g = Inr (p', g')" "sy_relations p' = Some ds"
    and keys: "\<forall>k. k \<notin> process_keys node p' \<longrightarrow> g' k = g k" by auto
  have "deleteSyncEMetrics node syncEProcessName (sy_configName p') ds g' k \<in> {None, g k}" for k
    using spec [OF keys, of k] run(2) by (simp add: delete_gauges process_keys_def)
  with run show ?thesis by blast
qed

theorem synce_gauges_deleted_witness:
  "\<exists>p' g' ds. synce_run ''node''
       [(qualityLevelInfoOption1, qualityLevelInfoOption2, 1,
         zero_entry\<lparr>le_ExtQl := 0xFF, le_Source := Some ''ens7f0'', le_LogType := EXT_QL_STATE\<rparr>)] demo_synce Map.empty
     = Inr (p', g') \<and> sy_relations p' = Some ds
     \<and> (\<forall>k. deleteSyncEMetrics ''node'' syncEProcessName (sy_configName p') ds g' k \<in> {None, Map.empty k})"
  by (rule synce_gauges_deleted [OF demo_synce_ok(2)]) (simp add: demo_synce_def)

end
