(* ===== verification/Ptp_Config.thy ===== *)
theory Ptp_Config
  imports Synce "HOL-Library.AList"
begin

text \<open>
  The linuxptp configuration: \<open>pkg/daemon/config.go\<close> (parsing a \<open>ptp4lConf\<close> into sections, rendering it
  for ptp4l, ts2phc and phc2sys, rendering it for synce4l with the SyncE device relations, taking over a new
  set of profiles) and the interface table of \<open>pkg/config/config.go\<close>.

  Go's map of the options of a section is an association list; the order of the list is one order in which
  \<open>range\<close> may visit the map.

  Shown: parsing gives sections that name themselves in brackets and always one \<open>[global]\<close>; the clock type it
  computes is always \<open>GM\<close>; a rendered configuration is read back section by section, each value with one more
  leading space, but only without its header, whose blank line the parser refuses; the mapping lists exactly
  the port sections; SyncE devices get the ports of the devices before them; the \<open>clock_id\<close> of a device may
  be another's; the synce4l rendering panics only for a device section without a name.
\<close>

section \<open>Sections and the parser\<close>

record ptp4lConfSection =
  sectionName :: string
  options :: "(string \<times> string) list"

record ptp4lConf =
  cf_sections :: "ptp4lConfSection list"
  cf_mapping :: "string list"
  cf_profile_name :: string
  cf_clock_type :: ClockType
  cf_gnss_serial_port :: string

definition new_section :: "string \<Rightarrow> ptp4lConfSection" where
  "new_section n = \<lparr>sectionName = n, options = []\<rparr>"

definition zero_conf :: ptp4lConf where
  "zero_conf = \<lparr>cf_sections = [], cf_mapping = [], cf_profile_name = '''', cf_clock_type = NoClockType,
     cf_gnss_serial_port = ''''\<rparr>"

text \<open>The variables of the loop: \<open>currentSectionName\<close>, \<open>currentSection\<close>, the sections so far, and the two flags.\<close>

record conf_state =
  cs_name :: string
  cs_section :: ptp4lConfSection
  cs_sections :: "ptp4lConfSection list"
  cs_global :: bool
  cs_slave :: bool

definition conf_init :: conf_state where
  "conf_init = \<lparr>cs_name = '''', cs_section = new_section '''', cs_sections = [], cs_global = False, cs_slave = False\<rparr>"

definition IndexByte :: "string \<Rightarrow> char \<Rightarrow> int" where
  "IndexByte s c = (if c \<in> set s then int (length (takeWhile (\<lambda>x. x \<noteq> c) s)) else -1)"

definition close_section :: "conf_state \<Rightarrow> conf_state" where
  "close_section st = (if cs_name st \<noteq> '''' then st\<lparr>cs_sections := cs_sections st @ [cs_section st]\<rparr> else st)"

definition slave_option :: "string \<Rightarrow> string \<Rightarrow> bool" where
  "slave_option k v \<longleftrightarrow>
     k = ''masterOnly'' \<and> v = ''0'' \<or> k = ''serverOnly'' \<and> v = ''0''
     \<or> k = ''slaveOnly'' \<and> v = ''1'' \<or> k = ''clientOnly'' \<and> v = ''1''"

definition add_option :: "string \<Rightarrow> conf_state \<Rightarrow> conf_state" where
  "add_option line st =
     (let split = IndexByte line CHR '' '' in
      if 0 < split then
        (let k = take (nat split) line; v = drop (nat split) line in
         st\<lparr>cs_section := (cs_section st)\<lparr>options := AList.update k v (options (cs_section st))\<rparr>,
            cs_slave := cs_slave st \<or> slave_option k v\<rparr>)
      else st)"

definition conf_line :: "string \<Rightarrow> conf_state \<Rightarrow> conf_state res" where
  "conf_line raw st =
     (let line = TrimSpace raw in
      if HasPrefix line ''#'' then Inr st
      else if HasPrefix line ''['' then
        (let st1 = close_section st; currentLine = Split line CHR '']'' in
         if length currentLine < 2 then Inl (GoErr (''Section missing closing ']': '' @ line))
         else
           (let name = currentLine ! 0 @ '']'' in
            Inr (st1\<lparr>cs_name := name, cs_global := cs_global st1 \<or> name = ''[global]'', cs_section := new_section name\<rparr>)))
      else if cs_name st \<noteq> '''' then Inr (add_option line st)
      else Inl (GoErr (''Config option not in section: '' @ line)))"

fun conf_lines :: "string list \<Rightarrow> conf_state \<Rightarrow> conf_state res" where
  "conf_lines [] st = Inr st"
| "conf_lines (l # ls) st = res_bind (conf_line l st) (conf_lines ls)"

definition clock_type_of :: "bool \<Rightarrow> ptp4lConfSection list \<Rightarrow> ClockType" where
  "clock_type_of hasSlave sections = (if \<not> hasSlave then GM else if 2 < length sections then BC else OC)"

definition populatePtp4lConf :: "string option \<Rightarrow> ptp4lConf \<Rightarrow> ptp4lConf res" where
  "populatePtp4lConf config output =
     res_bind (case config of
                 None \<Rightarrow> Inr conf_init
               | Some c \<Rightarrow> res_bind (conf_lines (Split c CHR ''\<newline>'') conf_init) (\<lambda>st. Inr (close_section st)))
       (\<lambda>st. let sections = (if cs_global st then cs_sections st else cs_sections st @ [new_section ''[global]'']) in
             Inr (output\<lparr>cf_sections := sections, cf_clock_type := clock_type_of (cs_slave st) sections\<rparr>))"

section \<open>Rendering\<close>

definition getSource :: "string \<Rightarrow> EventSource" where
  "getSource isTs2phcMaster = (case ParseBool (TrimSpace isTs2phcMaster) of Some True \<Rightarrow> GNSS | _ \<Rightarrow> PPS)"

record Iface =
  if_Name :: string
  if_IsMaster :: bool
  if_Source :: EventSource
  if_PhcId :: string

definition zero_iface :: Iface where
  "zero_iface = \<lparr>if_Name = '''', if_IsMaster = False, if_Source = NoSource, if_PhcId = ''''\<rparr>"

definition render_options :: "string \<Rightarrow> (string \<times> string) list \<Rightarrow> string" where
  "render_options out opts = foldl (\<lambda>out (k, v). out @ ''\<newline>'' @ k @ '' '' @ v) out opts"

definition port_name :: "string \<Rightarrow> string" where
  "port_name s = replace_all (replace_all s ''['' '''') '']'' ''''"

text \<open>The loop of \<open>renderPtp4lConf\<close>: the text, the mapping, \<open>nmea_source\<close> and the interfaces.\<close>

type_synonym render_state = "string \<times> string list \<times> EventSource \<times> Iface list"

definition render_section :: "render_state \<Rightarrow> ptp4lConfSection \<Rightarrow> render_state" where
  "render_section st s =
     (let (out, mapping, nmea, ifaces) = st;
          master = map_of (options s) ''ts2phc.master'';
          nmea' = (if sectionName s = ''[nmea]'' then (case master of Some v \<Rightarrow> getSource v | None \<Rightarrow> nmea) else nmea);
          port = (sectionName s \<noteq> ''[global]'' \<and> sectionName s \<noteq> ''[nmea]'');
          i = port_name (sectionName s);
          src = (case master of Some v \<Rightarrow> getSource v | None \<Rightarrow> nmea')
      in (render_options (out @ ''\<newline>'' @ sectionName s) (options s),
          (if port then mapping @ [i] else mapping), nmea',
          (if port then ifaces @ [zero_iface\<lparr>if_Name := i, if_Source := src\<rparr>] else ifaces)))"

definition profile_header :: "ptp4lConf \<Rightarrow> string" where
  "profile_header conf = ''#profile: '' @ cf_profile_name conf @ ''\<newline>''"

definition renderPtp4lConf :: "ptp4lConf \<Rightarrow> ptp4lConf \<times> string \<times> Iface list" where
  "renderPtp4lConf conf =
     (let (out, mapping, nmea, ifaces) = foldl render_section (profile_header conf, [], NoSource, []) (cf_sections conf)
      in (conf\<lparr>cf_mapping := mapping\<rparr>, out, ifaces))"

section \<open>SyncE relations\<close>

text \<open>\<open>ReplaceAllString\<close> with the class \<open>[{}<>\[\] ]+\<close> and the empty string.\<close>

definition strip_brackets :: "string \<Rightarrow> string" where
  "strip_brackets s = filter (\<lambda>c. c \<notin> set ''{}<>[] '') s"

definition new_device :: "ptp4lConfSection \<Rightarrow> synce_config" where
  "new_device s =
     (let opt = (\<lambda>k dflt. case map_of (options s) k of None \<Rightarrow> dflt | Some v \<Rightarrow> fst (Atoi (TrimSpace v))) in
      empty_config\<lparr>sc_Name := strip_brackets (sectionName s),
        sc_NetworkOption := opt ''network_option'' SYNCE_NETWORK_OPT_1,
        sc_ExtendedTlv := opt ''extended_tlv'' ExtendedTLV_DISABLED,
        sc_LastQLState := Some Map.empty\<rparr>)"

text \<open>The loop: the relations so far, \<open>synceRelationInfo\<close> and \<open>ifaces\<close>.\<close>

type_synonym relation_state = "Relations \<times> synce_config \<times> string list"

definition with_ifaces :: "string list \<Rightarrow> synce_config \<Rightarrow> synce_config" where
  "with_ifaces ifaces d = (if 0 < length ifaces then d\<lparr>sc_Ifaces := ifaces\<rparr> else d)"

definition relation_step :: "relation_state \<Rightarrow> ptp4lConfSection \<Rightarrow> relation_state" where
  "relation_step st s =
     (let (r, info, ifaces) = st in
      if HasPrefix (sectionName s) ''[<'' then
        ((if sc_Name info \<noteq> '''' then AddDeviceConfig r (with_ifaces ifaces info) else r), new_device s, ifaces)
      else if HasPrefix (sectionName s) ''[{'' then
        (r, info\<lparr>sc_ExternalSource := strip_brackets (sectionName s)\<rparr>, ifaces)
      else if HasPrefix (sectionName s) ''['' \<and> sectionName s \<noteq> ''[global]'' then
        (r, info, ifaces @ [strip_brackets (sectionName s)])
      else st)"

definition extractSynceRelations :: "ptp4lConf \<Rightarrow> Relations" where
  "extractSynceRelations conf =
     (let (r, info, ifaces) = foldl relation_step ([], empty_config, []) (cf_sections conf);
          info' = with_ifaces ifaces info
      in if sc_Name info' \<noteq> '''' then AddDeviceConfig r info' else r)"

text \<open>The loop of \<open>renderSyncE4lConf\<close>: the text, \<open>deviceIdx\<close> and the sections, whose option maps it writes.\<close>

fun render_synce :: "Relations \<Rightarrow> string \<Rightarrow> nat \<Rightarrow> ptp4lConfSection list \<Rightarrow> (string \<times> ptp4lConfSection list) res" where
  "render_synce r out idx [] = Inr (out, [])"
| "render_synce r out idx (s # ss) =
     res_bind
       (if HasPrefix (sectionName s) ''[<'' \<and> map_of (options s) ''clock_id'' = None
        then res_bind (index_at r idx)
               (\<lambda>d. Inr (s\<lparr>options := AList.update ''clock_id'' (sc_ClockId d) (options s)\<rparr>, Suc idx))
        else Inr (s, idx))
       (\<lambda>(s', idx'). res_bind (render_synce r (render_options (out @ ''\<newline>'' @ sectionName s') (options s')) idx' ss)
          (\<lambda>(out', ss'). Inr (out', s' # ss')))"

definition renderSyncE4lConf :: "(string \<times> string) list \<Rightarrow> ptp4lConf \<Rightarrow> (ptp4lConf \<times> string \<times> Relations) res" where
  "renderSyncE4lConf ptpSettings conf =
     (let relations = AddClockIds (extractSynceRelations conf) ptpSettings in
      res_bind (render_synce relations (profile_header conf) 0 (cf_sections conf))
        (\<lambda>(out, ss). Inr (conf\<lparr>cf_sections := ss\<rparr>, out, relations)))"

section \<open>Interfaces\<close>

definition GetGMInterface :: "Iface list \<Rightarrow> Iface" where
  "GetGMInterface i = (case find (\<lambda>x. if_Source x = GNSS) i of Some x \<Rightarrow> x | None \<Rightarrow> zero_iface)"

definition Add :: "Iface list \<Rightarrow> Iface \<Rightarrow> Iface list" where
  "Add i iface = i @ [iface]"

definition GetEventSource :: "Iface list \<Rightarrow> string \<Rightarrow> EventSource" where
  "GetEventSource i iface = (case find (\<lambda>x. if_Name x = iface) i of Some x \<Rightarrow> if_Source x | None \<Rightarrow> PTP4l)"

definition GetPhcID2IFace :: "Iface list \<Rightarrow> string \<Rightarrow> string" where
  "GetPhcID2IFace i phcId = (case find (\<lambda>x. if_PhcId x = phcId) i of Some x \<Rightarrow> if_Name x | None \<Rightarrow> phcId)"

definition iface_text :: "Iface \<Rightarrow> string" where
  "iface_text ii =
     ''name :'' @ if_Name ii @ ''\<newline>'' @ ''source '' @ source_str (if_Source ii) @ ''\<newline>''
     @ ''IsMaster '' @ fmt_bool (if_IsMaster ii) @ ''\<newline>'' @ ''phcid '' @ if_PhcId ii @ ''\<newline>''"

definition IFaces_String :: "Iface list \<Rightarrow> string" where
  "IFaces_String i = concat (map iface_text i)"

section \<open>Taking over profiles\<close>

text \<open>
  \<open>UpdateConfig\<close>. Decoding JSON into the vendored profile type is a parameter: \<open>load\<close> for a list of profiles,
  \<open>load_old\<close> for one profile. \<open>prof\<close> is a profile with its two fields that matter here; \<open>up_signals\<close>
  counts the values sent on \<open>UpdateCh\<close>.
\<close>

record 'a profile =
  pf_Name :: "string option"
  pf_Interface :: "string option"
  pf_rest :: 'a

record 'a LinuxPTPConfUpdate =
  up_NodeProfiles :: "'a profile list"
  up_applied :: string
  up_signals :: nat

definition take_over :: "string \<Rightarrow> 'a profile list \<Rightarrow> 'a LinuxPTPConfUpdate \<Rightarrow> 'a LinuxPTPConfUpdate" where
  "take_over json ps l = l\<lparr>up_applied := json, up_NodeProfiles := ps, up_signals := Suc (up_signals l)\<rparr>"

definition UpdateConfig ::
  "(string \<Rightarrow> 'a profile list option) \<Rightarrow> (string \<Rightarrow> 'a profile option) \<Rightarrow> string \<Rightarrow> 'a LinuxPTPConfUpdate
     \<Rightarrow> 'a LinuxPTPConfUpdate \<times> go_error option" where
  "UpdateConfig load load_old json l =
     (if up_applied l = json then (l, None)
      else case load json of
        Some ps \<Rightarrow> (take_over json ps l, None)
      | None \<Rightarrow>
          (case load_old json of
             Some p \<Rightarrow>
               if pf_Name p = None \<or> pf_Interface p = None then (l, None)
               else (take_over json [p] l, None)
           | None \<Rightarrow> (l, Some (GoErr ''unable to load profile config''))))"

section \<open>The parser's results\<close>

lemma TrimSpace_ends:
  "TrimSpace s \<noteq> [] \<Longrightarrow> \<not> is_space (hd (TrimSpace s)) \<and> \<not> is_space (last (TrimSpace s))"
proof -
  let ?a = "dropWhile is_space s"
  let ?r = "dropWhile is_space (rev ?a)"
  assume "TrimSpace s \<noteq> []"
  then have r: "?r \<noteq> []" by (simp add: TrimSpace_def)
  then have a: "?a \<noteq> []" using dropWhile.simps(1) rev.simps(1) by metis
  have l: "\<not> is_space (last (TrimSpace s))" using hd_dropWhile [OF r] by (simp add: TrimSpace_def last_rev)
  have "?r \<noteq> [] \<longrightarrow> last ?r = last (rev ?a)"
    using takeWhile_dropWhile_id [of is_space "rev ?a"] by (metis last_appendR)
  then have "hd (TrimSpace s) = hd ?a" using r by (simp add: TrimSpace_def hd_rev last_rev)
  with l hd_dropWhile [OF a] show ?thesis by simp
qed

lemma TrimSpace_set: "c \<in> set (TrimSpace s) \<Longrightarrow> c \<in> set s"
  unfolding TrimSpace_def by (metis set_dropWhileD set_rev)

lemma TrimSpace_id: "s \<noteq> [] \<Longrightarrow> \<not> is_space (hd s) \<Longrightarrow> \<not> is_space (last s) \<Longrightarrow> TrimSpace s = s"
proof -
  assume a: "s \<noteq> []" "\<not> is_space (hd s)" "\<not> is_space (last s)"
  have "dropWhile is_space s = s" using a by (cases s) auto
  moreover have "dropWhile is_space (rev s) = rev s" using a by (cases "rev s") (auto simp: hd_rev [symmetric])
  ultimately show ?thesis by (simp add: TrimSpace_def)
qed

lemma HasPrefix_char: "HasPrefix s [c] \<longleftrightarrow> s \<noteq> [] \<and> hd s = c"
  by (cases s) (auto simp: HasPrefix_def)

text \<open>What the parser makes of a line with an option: the key, and the value with its leading space.\<close>

definition option_ok :: "string \<times> string \<Rightarrow> bool" where
  "option_ok kv \<longleftrightarrow>
     (let (k, v) = kv in
      k \<noteq> [] \<and> CHR '' '' \<notin> set k \<and> \<not> is_space (hd k) \<and> hd k \<noteq> CHR ''#'' \<and> hd k \<noteq> CHR ''[''
      \<and> v \<noteq> [] \<and> hd v = CHR '' '' \<and> \<not> is_space (last v) \<and> CHR ''\<newline>'' \<notin> set k \<union> set v)"

definition name_ok :: "string \<Rightarrow> bool" where
  "name_ok n \<longleftrightarrow> (\<exists>m. n = ''['' @ m @ '']'' \<and> CHR '']'' \<notin> set m \<and> CHR ''\<newline>'' \<notin> set m)"

definition section_ok :: "ptp4lConfSection \<Rightarrow> bool" where
  "section_ok s \<longleftrightarrow> name_ok (sectionName s) \<and> distinct (map fst (options s)) \<and> (\<forall>kv \<in> set (options s). option_ok kv)"

definition has_global :: "ptp4lConfSection list \<Rightarrow> bool" where
  "has_global ss \<longleftrightarrow> (\<exists>s \<in> set ss. sectionName s = ''[global]'')"

definition conf_inv :: "conf_state \<Rightarrow> bool" where
  "conf_inv st \<longleftrightarrow>
     (\<forall>s \<in> set (cs_sections st). section_ok s)
     \<and> (cs_name st \<noteq> '''' \<longrightarrow> section_ok (cs_section st) \<and> sectionName (cs_section st) = cs_name st)
     \<and> (cs_global st \<longleftrightarrow> has_global (cs_sections (close_section st))) \<and> \<not> cs_slave st"

lemma conf_inv_init: "conf_inv conf_init"
  by (simp add: conf_inv_def conf_init_def close_section_def has_global_def)

lemma IndexByte_at:
  assumes "c \<notin> set k"
  shows "IndexByte (k @ c # v) c = int (length k)"
proof -
  have "takeWhile (\<lambda>x. x \<noteq> c) (k @ c # v) = k" using assms by (induction k) auto
  then show ?thesis by (simp add: IndexByte_def)
qed

lemma IndexByte_pos:
  assumes "0 < IndexByte line c"
  obtains k v where "line = k @ c # v" "c \<notin> set k" "k \<noteq> []"
proof -
  have "c \<in> set line" using assms by (simp add: IndexByte_def split: if_splits)
  then obtain k v where kv: "line = k @ c # v" "c \<notin> set k" by (meson split_list_first)
  with assms have "k \<noteq> []" by (auto simp: IndexByte_at)
  with kv show ?thesis by (rule that)
qed

lemma update_mem: "kv \<in> set (AList.update k v al) \<Longrightarrow> kv = (k, v) \<or> kv \<in> set al"
  by (induction al) (auto split: if_splits)

lemma add_option_split:
  assumes "CHR '' '' \<notin> set k" and "k \<noteq> []"
  shows "add_option (k @ CHR '' '' # v) st =
     st\<lparr>cs_section := (cs_section st)\<lparr>options := AList.update k (CHR '' '' # v) (options (cs_section st))\<rparr>\<rparr>"
  using assms by (simp add: add_option_def IndexByte_at slave_option_def Let_def)

lemma add_option_inv:
  assumes "conf_inv st" and "cs_name st \<noteq> ''''" and "line \<noteq> [] \<Longrightarrow> \<not> is_space (hd line) \<and> \<not> is_space (last line)"
    and "\<not> HasPrefix line ''#''" and "\<not> HasPrefix line ''[''" and "CHR ''\<newline>'' \<notin> set line"
  shows "conf_inv (add_option line st)"
proof (cases "0 < IndexByte line CHR '' ''")
  case True
  then obtain k v where kv: "line = k @ CHR '' '' # v" "CHR '' '' \<notin> set k" "k \<noteq> []" by (rule IndexByte_pos)
  have "option_ok (k, CHR '' '' # v)"
    using assms(3-6) kv by (auto simp: option_ok_def HasPrefix_char)
  then show ?thesis
    using assms(1,2) kv
    by (auto simp: add_option_split conf_inv_def section_ok_def close_section_def has_global_def distinct_update
        dest!: update_mem)
next
  case False
  with assms(1) show ?thesis by (simp add: add_option_def)
qed

lemma split_pred_hd: "split_pred P s ! 0 = takeWhile (\<lambda>x. \<not> P x) s"
proof (induction s)
  case (Cons c s)
  then show ?case by (cases "split_pred P s") auto
qed simp

lemma split_pred_single: "length (split_pred P s) < 2 \<longleftrightarrow> (\<forall>x \<in> set s. \<not> P x)"
proof (induction s)
  case (Cons c s)
  have "length (split_pred P s) \<noteq> 0" by simp
  with Cons show ?case by (cases "split_pred P s") auto
qed simp

lemma header_name_ok:
  assumes "HasPrefix line ''[''" and "CHR '']'' \<in> set line" and "CHR ''\<newline>'' \<notin> set line"
  shows "name_ok (Split line CHR '']'' ! 0 @ '']'')"
proof -
  let ?n = "takeWhile (\<lambda>x. x \<noteq> CHR '']'') line"
  obtain m where "line = CHR ''['' # m" using assms(1) by (cases line) (auto simp: HasPrefix_char)
  then have "?n = CHR ''['' # takeWhile (\<lambda>x. x \<noteq> CHR '']'') m" by simp
  moreover have "CHR '']'' \<notin> set (takeWhile (\<lambda>x. x \<noteq> CHR '']'') m)" by (auto dest: set_takeWhileD)
  moreover have "CHR ''\<newline>'' \<notin> set (takeWhile (\<lambda>x. x \<noteq> CHR '']'') m)"
    using assms(3) \<open>line = CHR ''['' # m\<close> by (auto dest: set_takeWhileD)
  ultimately show ?thesis by (auto simp: Split_def split_pred_hd name_ok_def)
qed

lemma close_section_sel [simp]:
  "cs_name (close_section st) = cs_name st" "cs_global (close_section st) = cs_global st"
  "cs_slave (close_section st) = cs_slave st"
  by (simp_all add: close_section_def)

lemma close_section_ok:
  assumes "conf_inv st" and "s \<in> set (cs_sections (close_section st))"
  shows "section_ok s"
  using assms by (auto simp: close_section_def conf_inv_def split: if_splits)

lemma conf_line_inv:
  assumes "conf_inv st" and "CHR ''\<newline>'' \<notin> set raw" and "conf_line raw st = Inr st'"
  shows "conf_inv st'"
proof -
  let ?line = "TrimSpace raw"
  have nl: "CHR ''\<newline>'' \<notin> set ?line" using assms(2) TrimSpace_set by metis
  consider "st' = st" | "HasPrefix ?line ''[''" "CHR '']'' \<in> set ?line"
      "st' = (close_section st)\<lparr>cs_name := Split ?line CHR '']'' ! 0 @ '']'',
        cs_global := cs_global (close_section st) \<or> Split ?line CHR '']'' ! 0 @ '']'' = ''[global]'',
        cs_section := new_section (Split ?line CHR '']'' ! 0 @ '']'')\<rparr>"
    | "\<not> HasPrefix ?line ''#''" "\<not> HasPrefix ?line ''[''" "cs_name st \<noteq> ''''" "st' = add_option ?line st"
    using assms(3) split_pred_single [of "\<lambda>c. c = CHR '']''" ?line]
    by (fastforce simp: conf_line_def Let_def Split_def split: if_splits)
  then show ?thesis
  proof cases
    case 2
    note name = header_name_ok [OF 2(1,2) nl]
    have "\<forall>s \<in> set (cs_sections (close_section st)). section_ok s" using close_section_ok [OF assms(1)] by blast
    with name assms(1) show ?thesis
      by (auto simp: 2(3) conf_inv_def section_ok_def new_section_def has_global_def close_section_def)
  next
    case 3
    show ?thesis unfolding 3(4) using assms(1) 3(3) TrimSpace_ends 3(1,2) nl by (rule add_option_inv)
  qed (use assms(1) in simp)
qed

lemma conf_lines_inv:
  "conf_inv st \<Longrightarrow> \<forall>l \<in> set ls. CHR ''\<newline>'' \<notin> set l \<Longrightarrow> conf_lines ls st = Inr st' \<Longrightarrow> conf_inv st'"
  by (induction ls arbitrary: st) (auto simp: res_bind_Inr_iff intro: conf_line_inv)

lemma populate_cases:
  assumes "populatePtp4lConf config c = Inr c'"
  obtains st where "conf_inv st" "cs_sections (close_section st) = cs_sections st"
    "cf_sections c' = (if cs_global st then cs_sections st else cs_sections st @ [new_section ''[global]''])"
    "cf_clock_type c' = GM"
proof -
  obtain st0 where st0: "conf_inv st0" "cf_sections c' = (if cs_global st0 then cs_sections (close_section st0) else cs_sections (close_section st0) @ [new_section ''[global]''])"
      "cf_clock_type c' = GM"
  proof (cases config)
    case None
    then show ?thesis
      using assms that [OF conf_inv_init]
      by (auto simp: populatePtp4lConf_def clock_type_of_def conf_init_def close_section_def)
  next
    case (Some t)
    then obtain st where st: "conf_lines (Split t CHR ''\<newline>'') conf_init = Inr st"
      "c' = c\<lparr>cf_sections := (if cs_global st then cs_sections (close_section st) else cs_sections (close_section st) @ [new_section ''[global]'']),
          cf_clock_type := clock_type_of (cs_slave st) (if cs_global st then cs_sections (close_section st) else cs_sections (close_section st) @ [new_section ''[global]''])\<rparr>"
      using assms by (auto simp: populatePtp4lConf_def res_bind_Inr_iff Let_def)
    have "conf_inv st"
      using conf_lines_inv [OF conf_inv_init _ st(1)] split_pred_words [of _ "\<lambda>c. c = CHR ''\<newline>''" t]
      by (auto simp: Split_def)
    then show ?thesis using that [of st] st(2) by (simp add: clock_type_of_def conf_inv_def)
  qed
  define st where "st = st0\<lparr>cs_name := '''', cs_sections := cs_sections (close_section st0)\<rparr>"
  have "conf_inv st"
    using st0(1) close_section_ok [OF st0(1)] by (auto simp: st_def conf_inv_def close_section_def)
  then show ?thesis using that [of st] st0 by (simp add: st_def close_section_def)
qed

text \<open>
  C33. What a parsed configuration looks like: every section is named in brackets, without a bracket inside, its
  option keys are distinct, non-empty, free of blanks and not a comment or a section, every value starts
  with a blank and ends without white space; and one section at least is \<open>[global]\<close>.
\<close>

theorem parsed_sections_wellformed:
  assumes "populatePtp4lConf config c = Inr c'"
  shows "(\<forall>s \<in> set (cf_sections c'). section_ok s) \<and> has_global (cf_sections c')"
  using assms
proof (rule populate_cases)
  fix st
  assume st: "conf_inv st" "cs_sections (close_section st) = cs_sections st"
    "cf_sections c' = (if cs_global st then cs_sections st else cs_sections st @ [new_section ''[global]''])"
  have "section_ok (new_section ''[global]'')"
    by (auto simp: section_ok_def new_section_def name_ok_def intro!: exI [of _ "''global''"])
  with st show ?thesis
    by (auto simp: conf_inv_def has_global_def new_section_def)
qed

definition demo_text :: string where
  "demo_text = ''[global]\<newline>slaveOnly 1\<newline>#note\<newline>[ens1f0]\<newline>masterOnly 0\<newline>[ens1f1]''"

theorem parsed_sections_wellformed_witness:
  "populatePtp4lConf (Some demo_text) zero_conf
     = Inr (zero_conf\<lparr>cf_sections :=
         [\<lparr>sectionName = ''[global]'', options = [(''slaveOnly'', '' 1'')]\<rparr>,
          \<lparr>sectionName = ''[ens1f0]'', options = [(''masterOnly'', '' 0'')]\<rparr>,
          \<lparr>sectionName = ''[ens1f1]'', options = []\<rparr>], cf_clock_type := GM\<rparr>)
   \<and> has_global [\<lparr>sectionName = ''[global]'', options = [(''slaveOnly'', '' 1'')]\<rparr>,
          \<lparr>sectionName = ''[ens1f0]'', options = [(''masterOnly'', '' 0'')]\<rparr>,
          \<lparr>sectionName = ''[ens1f1]'', options = []\<rparr>]"
proof -
  have p: "populatePtp4lConf (Some demo_text) zero_conf
     = Inr (zero_conf\<lparr>cf_sections :=
         [\<lparr>sectionName = ''[global]'', options = [(''slaveOnly'', '' 1'')]\<rparr>,
          \<lparr>sectionName = ''[ens1f0]'', options = [(''masterOnly'', '' 0'')]\<rparr>,
          \<lparr>sectionName = ''[ens1f1]'', options = []\<rparr>], cf_clock_type := GM\<rparr>)"
    by code_simp
  with parsed_sections_wellformed [OF p] show ?thesis by simp
qed

text \<open>
  The clock type is always GM: whatever the configuration says, \<open>populatePtp4lConf\<close> computes \<open>GM\<close>, because
  the values it compares with \<open>0\<close> and \<open>1\<close> still have their leading blank. So a configuration with
  \<open>slaveOnly 1\<close> and two ports is reported as a grandmaster.
\<close>

theorem clock_type_always_gm:
  assumes "populatePtp4lConf config c = Inr c'"
  shows "cf_clock_type c' = GM"
  using assms by (rule populate_cases)

theorem clock_type_always_gm_witness:
  "\<exists>c'. populatePtp4lConf (Some demo_text) zero_conf = Inr c' \<and> cf_clock_type c' = GM"
  using clock_type_always_gm parsed_sections_wellformed_witness by blast

section \<open>Printing and parsing\<close>

definition sec_lines :: "ptp4lConfSection \<Rightarrow> string list" where
  "sec_lines s = sectionName s # map (\<lambda>(k, v). k @ '' '' @ v) (options s)"

definition conf_text :: "ptp4lConfSection list \<Rightarrow> string" where
  "conf_text ss = Join (concat (map sec_lines ss)) ''\<newline>''"

definition space_section :: "ptp4lConfSection \<Rightarrow> ptp4lConfSection" where
  "space_section s = s\<lparr>options := map (\<lambda>(k, v). (k, '' '' @ v)) (options s)\<rparr>"

lemma render_options_lines:
  "render_options out opts = out @ concat (map (\<lambda>kv. ''\<newline>'' @ (case kv of (k, v) \<Rightarrow> k @ '' '' @ v)) opts)"
  unfolding render_options_def by (induction opts arbitrary: out) (auto split: prod.splits)

lemma render_sections_text:
  "fst (foldl render_section (out, m, n, i) ss) = out @ concat (map (\<lambda>l. ''\<newline>'' @ l) (concat (map sec_lines ss)))"
proof (induction ss arbitrary: out m n i)
  case (Cons s ss)
  obtain m' n' i' where "render_section (out, m, n, i) s = (render_options (out @ ''\<newline>'' @ sectionName s) (options s), m', n', i')"
    by (simp add: render_section_def Let_def)
  with Cons show ?case by (simp add: render_options_lines sec_lines_def o_def case_prod_unfold)
qed simp

lemma Join_lines: "ls \<noteq> [] \<Longrightarrow> concat (map (\<lambda>l. ''\<newline>'' @ l) ls) = ''\<newline>'' @ Join ls ''\<newline>''"
  by (induction ls rule: induct_list012) auto

lemma Split_Join:
  assumes "ls \<noteq> []" and "\<forall>l \<in> set ls. c \<notin> set l"
  shows "Split (Join ls [c]) c = ls"
  using assms
proof (induction ls rule: induct_list012)
  case (2 l)
  then show ?case by (auto simp: Split_def intro!: split_pred_no_sep)
next
  case (3 l l' ls)
  have "split_pred (\<lambda>x. x = c) l = [l]" using 3(4) by (auto intro!: split_pred_no_sep)
  with 3 show ?case by (simp add: Split_def split_pred_append_sep)
qed simp

lemma conf_line_name:
  assumes "name_ok n"
  shows "conf_line n st = Inr ((close_section st)\<lparr>cs_name := n, cs_global := cs_global st \<or> n = ''[global]'', cs_section := new_section n\<rparr>)"
proof -
  obtain m where m: "n = ''['' @ m @ '']''" "CHR '']'' \<notin> set m" using assms by (auto simp: name_ok_def)
  have t: "TrimSpace n = n" by (rule TrimSpace_id) (simp_all add: m is_space_def)
  have "Split n CHR '']'' = [''['' @ m, []]"
    using split_pred_append_sep [of "\<lambda>c. c = CHR '']''" "CHR '']''" "''['' @ m" "[]"]
      split_pred_no_sep [of "''['' @ m" "\<lambda>c. c = CHR '']''"] m by (auto simp: Split_def)
  then show ?thesis using m t by (simp add: conf_line_def HasPrefix_def Let_def)
qed

lemma conf_line_option:
  assumes "option_ok (k, v)" and "cs_name st \<noteq> ''''" and "k \<notin> fst ` set (options (cs_section st))"
  shows "conf_line (k @ '' '' @ v) st =
     Inr (st\<lparr>cs_section := (cs_section st)\<lparr>options := options (cs_section st) @ [(k, '' '' @ v)]\<rparr>\<rparr>)"
proof -
  have kv: "k \<noteq> []" "CHR '' '' \<notin> set k" "\<not> is_space (hd k)" "hd k \<noteq> CHR ''#''" "hd k \<noteq> CHR ''[''" "v \<noteq> []" "\<not> is_space (last v)"
    using assms(1) by (auto simp: option_ok_def)
  have t: "TrimSpace (k @ CHR '' '' # v) = k @ CHR '' '' # v" using kv by (intro TrimSpace_id) auto
  have u: "AList.update k x al = al @ [(k, x)]" if "k \<notin> fst ` set al" for al :: "(string \<times> string) list" and x
    using that by (induction al) auto
  show ?thesis
    using kv assms(2) u [OF assms(3)] by (simp add: conf_line_def t HasPrefix_char add_option_split)
qed

lemma conf_lines_options:
  assumes "\<forall>kv \<in> set opts. option_ok kv" and "distinct (map fst opts)" and "cs_name st \<noteq> ''''"
    and "fst ` set opts \<inter> fst ` set (options (cs_section st)) = {}"
  shows "conf_lines (map (\<lambda>(k, v). k @ '' '' @ v) opts @ rest) st =
     conf_lines rest (st\<lparr>cs_section := (cs_section st)\<lparr>options := options (cs_section st) @ map (\<lambda>(k, v). (k, '' '' @ v)) opts\<rparr>\<rparr>)"
  using assms
proof (induction opts arbitrary: st)
  case (Cons kv opts)
  obtain k v where kv: "kv = (k, v)" by fastforce
  let ?st = "st\<lparr>cs_section := (cs_section st)\<lparr>options := options (cs_section st) @ [(k, '' '' @ v)]\<rparr>\<rparr>"
  have "conf_line (k @ '' '' @ v) st = Inr ?st" using Cons.prems kv by (intro conf_line_option) auto
  moreover have "conf_lines (map (\<lambda>(k, v). k @ '' '' @ v) opts @ rest) ?st =
     conf_lines rest (?st\<lparr>cs_section := (cs_section ?st)\<lparr>options := options (cs_section ?st) @ map (\<lambda>(k, v). (k, '' '' @ v)) opts\<rparr>\<rparr>)"
    using Cons.prems kv by (intro Cons.IH) (auto simp: image_iff)
  ultimately show ?case using kv by simp
qed simp

lemma conf_lines_sections:
  assumes "\<forall>s \<in> set ss. section_ok s"
  shows "\<exists>st'. conf_lines (concat (map sec_lines ss)) st = Inr st'
     \<and> cs_sections (close_section st') = cs_sections (close_section st) @ map space_section ss
     \<and> (cs_global st' \<longleftrightarrow> cs_global st \<or> has_global ss) \<and> cs_slave st' = cs_slave st"
  using assms
proof (induction ss arbitrary: st)
  case (Cons s ss)
  let ?st1 = "(close_section st)\<lparr>cs_name := sectionName s, cs_global := cs_global st \<or> sectionName s = ''[global]'', cs_section := new_section (sectionName s)\<rparr>"
  let ?st2 = "?st1\<lparr>cs_section := space_section s\<rparr>"
  have ok: "name_ok (sectionName s)" "distinct (map fst (options s))" "\<forall>kv \<in> set (options s). option_ok kv"
    using Cons.prems by (auto simp: section_ok_def)
  have ne: "sectionName s \<noteq> ''''" using ok(1) by (auto simp: name_ok_def)
  have "space_section s = (cs_section ?st1)\<lparr>options := options (cs_section ?st1) @ map (\<lambda>(k, v). (k, '' '' @ v)) (options s)\<rparr>"
    by (simp add: space_section_def new_section_def)
  then have "conf_lines (sec_lines s @ concat (map sec_lines ss)) st = conf_lines (concat (map sec_lines ss)) ?st2"
    using conf_lines_options [OF ok(3,2), of ?st1 "concat (map sec_lines ss)"] conf_line_name [OF ok(1), of st] ne
    by (simp add: sec_lines_def new_section_def)
  moreover obtain st' where "conf_lines (concat (map sec_lines ss)) ?st2 = Inr st'"
     "cs_sections (close_section st') = cs_sections (close_section ?st2) @ map space_section ss"
     "cs_global st' \<longleftrightarrow> cs_global ?st2 \<or> has_global ss" "cs_slave st' = cs_slave ?st2"
    using Cons.IH [of ?st2] Cons.prems by auto
  ultimately show ?case using ne by (auto simp: close_section_def has_global_def)
qed (simp add: has_global_def)

lemma TrimSpace_hd: "s \<noteq> [] \<Longrightarrow> \<not> is_space (hd s) \<Longrightarrow> TrimSpace s \<noteq> [] \<and> hd (TrimSpace s) = hd s"
proof -
  assume s: "s \<noteq> []" "\<not> is_space (hd s)"
  then obtain c t where ct: "s = c # t" "\<not> is_space c" by (cases s) auto
  have "dropWhile is_space (xs @ [c]) = dropWhile is_space xs @ [c]" for xs using ct(2) by (induction xs) auto
  then show ?thesis using ct by (simp add: TrimSpace_def)
qed

lemma sec_lines_no_newline: "section_ok s \<Longrightarrow> l \<in> set (sec_lines s) \<Longrightarrow> CHR ''\<newline>'' \<notin> set l"
  by (fastforce simp: sec_lines_def section_ok_def name_ok_def option_ok_def)

lemma parse_sections:
  assumes "\<forall>s \<in> set ss. section_ok s" and "has_global ss" and "ls = concat (map sec_lines ss)"
  shows "\<exists>c'. populatePtp4lConf (Some (Join ls ''\<newline>'')) c = Inr c' \<and> cf_sections c' = map space_section ss"
proof -
  have ls: "ls \<noteq> []" using assms(2,3) by (auto simp: has_global_def sec_lines_def)
  have nl: "\<forall>l \<in> set ls. CHR ''\<newline>'' \<notin> set l" using sec_lines_no_newline assms(1,3) by auto
  note sp = Split_Join [OF ls nl]
  from conf_lines_sections [OF assms(1), of conf_init] obtain st' where
    "conf_lines ls conf_init = Inr st'" "cs_sections (close_section st') = map space_section ss" "cs_global st'"
    using assms(2,3) by (auto simp: conf_init_def close_section_def)
  then show ?thesis using sp by (simp add: populatePtp4lConf_def Let_def)
qed

text \<open>
  C32. Printing and parsing: the rendering of any parsed configuration is a header (the profile name in a
  comment, and a blank line) and a body. The parser reads the body back as the same sections in the same
  order with the same options, each value with one more leading blank. The whole rendering it refuses,
  because of the blank line before the first section.
\<close>

theorem config_print_parse:
  assumes "populatePtp4lConf config c = Inr c1" and "CHR ''\<newline>'' \<notin> set (cf_profile_name c1)"
  shows "\<exists>c2 ifs body c3. renderPtp4lConf c1 = (c2, profile_header c1 @ ''\<newline>'' @ body, ifs)
     \<and> populatePtp4lConf (Some body) c = Inr c3 \<and> cf_sections c3 = map space_section (cf_sections c1)
     \<and> populatePtp4lConf (Some (profile_header c1 @ ''\<newline>'' @ body)) c = Inl (GoErr ''Config option not in section: '')"
proof -
  let ?ss = "cf_sections c1"
  let ?body = "conf_text ?ss"
  have ok: "\<forall>s \<in> set ?ss. section_ok s" "has_global ?ss" using parsed_sections_wellformed [OF assms(1)] by auto
  have ls: "concat (map sec_lines ?ss) \<noteq> []" using ok(2) by (auto simp: has_global_def sec_lines_def)
  obtain m n ifs where f: "foldl render_section (profile_header c1, [], NoSource, []) ?ss
      = (profile_header c1 @ ''\<newline>'' @ ?body, m, n, ifs)"
    using render_sections_text [of "profile_header c1" "[]" NoSource "[]" ?ss] Join_lines [OF ls]
    by (metis conf_text_def prod.collapse fst_conv)
  have body: "\<exists>c3. populatePtp4lConf (Some ?body) c = Inr c3 \<and> cf_sections c3 = map space_section ?ss"
    unfolding conf_text_def by (rule parse_sections [OF ok refl])
  let ?h = "''#profile: '' @ cf_profile_name c1"
  have sp: "Split (profile_header c1 @ ''\<newline>'' @ ?body) CHR ''\<newline>'' = ?h # [] # Split ?body CHR ''\<newline>''"
  proof -
    have "split_pred (\<lambda>x. x = CHR ''\<newline>'') ?h = [?h]" using assms(2) by (intro split_pred_no_sep) auto
    then show ?thesis
      using split_pred_append_sep [of "\<lambda>x. x = CHR ''\<newline>''" "CHR ''\<newline>''" ?h "CHR ''\<newline>'' # ?body"]
      by (simp add: Split_def profile_header_def)
  qed
  have "conf_line ?h conf_init = Inr conf_init"
    using TrimSpace_hd [of ?h] by (simp add: conf_line_def HasPrefix_char is_space_def)
  moreover have "conf_line [] conf_init = Inl (GoErr ''Config option not in section: '')"
    by (simp add: conf_line_def TrimSpace_def HasPrefix_def conf_init_def)
  ultimately have "populatePtp4lConf (Some (profile_header c1 @ ''\<newline>'' @ ?body)) c = Inl (GoErr ''Config option not in section: '')"
    by (simp add: populatePtp4lConf_def sp del: append_Cons)
  with f body show ?thesis by (auto simp: renderPtp4lConf_def)
qed

theorem config_print_parse_witness:
  "\<exists>c2 ifs body. renderPtp4lConf (zero_conf\<lparr>cf_sections := [new_section ''[global]''], cf_clock_type := GM\<rparr>)
       = (c2, profile_header zero_conf @ ''\<newline>'' @ body, ifs)"
proof -
  have p: "populatePtp4lConf None zero_conf = Inr (zero_conf\<lparr>cf_sections := [new_section ''[global]''], cf_clock_type := GM\<rparr>)"
    by code_simp
  show ?thesis using config_print_parse [OF p] by (simp add: zero_conf_def profile_header_def) blast
qed

section \<open>Ports and mapping\<close>

definition is_port :: "ptp4lConfSection \<Rightarrow> bool" where
  "is_port s \<longleftrightarrow> sectionName s \<noteq> ''[global]'' \<and> sectionName s \<noteq> ''[nmea]''"

text \<open>The source of a port: its own \<open>ts2phc.master\<close>, or that of the last \<open>[nmea]\<close> section before it.\<close>

fun port_ifaces :: "EventSource \<Rightarrow> ptp4lConfSection list \<Rightarrow> Iface list" where
  "port_ifaces nmea [] = []"
| "port_ifaces nmea (s # ss) =
     (let master = map_option getSource (map_of (options s) ''ts2phc.master'') in
      if is_port s
      then \<lparr>if_Name = port_name (sectionName s), if_IsMaster = False,
            if_Source = (case master of Some v \<Rightarrow> v | None \<Rightarrow> nmea), if_PhcId = ''''\<rparr> # port_ifaces nmea ss
      else port_ifaces (if sectionName s = ''[nmea]'' then (case master of Some v \<Rightarrow> v | None \<Rightarrow> nmea) else nmea) ss)"

lemma render_ifaces:
  "\<exists>out' n'. foldl render_section (out, m, nmea, i) ss
     = (out', m @ map (port_name \<circ> sectionName) (filter is_port ss), n', i @ port_ifaces nmea ss)"
proof (induction ss arbitrary: out m nmea i)
  case (Cons s ss)
  obtain o1 m1 n1 i1 where st: "render_section (out, m, nmea, i) s = (o1, m1, n1, i1)" by (metis prod_cases4)
  from Cons.IH [of o1 m1 n1 i1] st show ?case
    by (auto simp: render_section_def is_port_def zero_iface_def Let_def split: if_splits option.splits)
qed simp

text \<open>
  Ports and their sources: the interfaces and the mapping of a rendered configuration are its sections other
  than \<open>[global]\<close> and \<open>[nmea]\<close>, in order, named without brackets; the source of a port is GNSS or PPS by its
  own \<open>ts2phc.master\<close>, or else by the last \<open>[nmea]\<close> section before it that has one. No interface is a
  master, whatever its \<open>masterOnly\<close> option says. A configuration whose \<open>[nmea]\<close> section makes ts2phc a master
  and whose first port after it does not say otherwise has that port as its GM interface.
\<close>

theorem rendered_ports:
  "renderPtp4lConf conf = (c2, out, ifs) \<Longrightarrow>
     ifs = port_ifaces NoSource (cf_sections conf)
   \<and> cf_mapping c2 = map if_Name ifs \<and> cf_mapping c2 = map (port_name \<circ> sectionName) (filter is_port (cf_sections conf))
   \<and> (\<forall>x \<in> set ifs. \<not> if_IsMaster x)
   \<and> (cf_sections conf = pre @ [n] @ [p] @ post \<and> filter is_port pre = [] \<and> sectionName n = ''[nmea]''
        \<and> map_of (options n) ''ts2phc.master'' = Some v \<and> getSource v = GNSS \<and> is_port p
        \<and> map_of (options p) ''ts2phc.master'' = None \<longrightarrow> if_Name (GetGMInterface ifs) = port_name (sectionName p))"
proof -
  assume r: "renderPtp4lConf conf = (c2, out, ifs)"
  obtain out' n' where f: "foldl render_section (profile_header conf, [], NoSource, []) (cf_sections conf)
     = (out', map (port_name \<circ> sectionName) (filter is_port (cf_sections conf)), n', port_ifaces NoSource (cf_sections conf))"
    using render_ifaces [of "profile_header conf" "[]" NoSource "[]" "cf_sections conf"] by auto
  have names: "map if_Name (port_ifaces nmea ss) = map (port_name \<circ> sectionName) (filter is_port ss)" for nmea ss
    by (induction nmea ss rule: port_ifaces.induct) (auto simp: Let_def)
  have master: "\<forall>x \<in> set (port_ifaces nmea ss). \<not> if_IsMaster x" for nmea ss
    by (induction nmea ss rule: port_ifaces.induct) (auto simp: Let_def)
  have pre: "\<exists>nmea'. port_ifaces nmea (pre @ ss) = port_ifaces nmea' ss" if "filter is_port pre = []" for nmea pre ss
    using that by (induction pre arbitrary: nmea) (auto simp: Let_def split: if_splits)
  have port: "port_ifaces nmea' (n # p # post) = \<lparr>if_Name = port_name (sectionName p), if_IsMaster = False, if_Source = GNSS, if_PhcId = ''''\<rparr> # port_ifaces GNSS post"
    if "sectionName n = ''[nmea]''" "map_of (options n) ''ts2phc.master'' = Some v" "getSource v = GNSS" "is_port p" "map_of (options p) ''ts2phc.master'' = None" for nmea'
    using that by (simp add: is_port_def Let_def)
  have gm: "if_Name (GetGMInterface (port_ifaces NoSource (pre @ [n] @ [p] @ post))) = port_name (sectionName p)"
    if "filter is_port pre = []" "sectionName n = ''[nmea]''" "map_of (options n) ''ts2phc.master'' = Some v" "getSource v = GNSS" "is_port p" "map_of (options p) ''ts2phc.master'' = None"
  proof -
    from pre [OF that(1), of NoSource "[n] @ [p] @ post"] obtain nmea' where
      "port_ifaces NoSource (pre @ [n] @ [p] @ post) = port_ifaces nmea' (n # p # post)" by auto
    with port [OF that(2-)] show ?thesis by (simp add: GetGMInterface_def)
  qed
  have ifs: "ifs = port_ifaces NoSource (cf_sections conf)"
    and map: "cf_mapping c2 = map (port_name \<circ> sectionName) (filter is_port (cf_sections conf))"
    using r f by (auto simp: renderPtp4lConf_def)
  show ?thesis using gm by (simp add: ifs map names master)
qed

definition demo_ts2phc :: ptp4lConf where
  "demo_ts2phc = zero_conf\<lparr>cf_sections :=
     [new_section ''[global]'', \<lparr>sectionName = ''[nmea]'', options = [(''ts2phc.master'', '' 1'')]\<rparr>, new_section ''[ens1f0]'']\<rparr>"

theorem rendered_ports_witness:
  "\<exists>ifs. renderPtp4lConf demo_ts2phc =
      (demo_ts2phc\<lparr>cf_mapping := [''ens1f0'']\<rparr>,
       ''#profile: \<newline>\<newline>[global]\<newline>[nmea]\<newline>ts2phc.master  1\<newline>[ens1f0]'', ifs)
     \<and> if_Name (GetGMInterface ifs) = ''ens1f0''"
proof -
  have r: "renderPtp4lConf demo_ts2phc =
      (demo_ts2phc\<lparr>cf_mapping := [''ens1f0'']\<rparr>,
       ''#profile: \<newline>\<newline>[global]\<newline>[nmea]\<newline>ts2phc.master  1\<newline>[ens1f0]'',
       [zero_iface\<lparr>if_Name := ''ens1f0'', if_Source := GNSS\<rparr>])"
    by code_simp
  have g: "getSource '' 1'' = GNSS" by code_simp
  have "if_Name (GetGMInterface [zero_iface\<lparr>if_Name := ''ens1f0'', if_Source := GNSS\<rparr>]) = port_name ''[ens1f0]''"
    using rendered_ports [OF r, of "[new_section ''[global]'']" "\<lparr>sectionName = ''[nmea]'', options = [(''ts2phc.master'', '' 1'')]\<rparr>"
        "new_section ''[ens1f0]''" "[]" "'' 1''"] g
    by (simp add: demo_ts2phc_def is_port_def new_section_def GetGMInterface_def)
  with r show ?thesis by (simp add: port_name_def HasPrefix_def)
qed

section \<open>SyncE devices\<close>

definition is_device :: "ptp4lConfSection \<Rightarrow> bool" where
  "is_device s = HasPrefix (sectionName s) ''[<''"

definition is_synce_port :: "ptp4lConfSection \<Rightarrow> bool" where
  "is_synce_port s \<longleftrightarrow> \<not> is_device s \<and> \<not> HasPrefix (sectionName s) ''[{'' \<and> HasPrefix (sectionName s) ''[''
     \<and> sectionName s \<noteq> ''[global]''"

lemma relation_ports:
  "\<forall>s \<in> set ss. is_synce_port s \<Longrightarrow>
     foldl relation_step (r, info, ifaces) ss = (r, info, ifaces @ map (strip_brackets \<circ> sectionName) ss)"
  by (induction ss arbitrary: ifaces) (auto simp: relation_step_def is_synce_port_def is_device_def)

lemma relation_device:
  "is_device s \<Longrightarrow> relation_step (r, info, ifaces) s
     = (if sc_Name info \<noteq> '''' then r @ [with_ifaces ifaces info] else r, new_device s, ifaces)"
  by (simp add: relation_step_def is_device_def AddDeviceConfig_def)

text \<open>
  Ports accumulate over SyncE devices: for a configuration of two device sections, each followed by port
  sections, the first device has the ports of its own sections, but the second has those of the first as
  well, although the description of the sections gives a device the ports up to the next device. So the
  lookup of the ports of the second device by interface still finds the first device for the first ports.
\<close>

theorem synce_ports_accumulate:
  assumes "cf_sections conf = [d1] @ ports1 @ [d2] @ ports2" and "is_device d1" and "is_device d2"
    and "strip_brackets (sectionName d1) \<noteq> ''''" and "strip_brackets (sectionName d2) \<noteq> ''''"
    and "\<forall>s \<in> set (ports1 @ ports2). is_synce_port s" and "ports1 \<noteq> []"
  shows "extractSynceRelations conf =
      [(new_device d1)\<lparr>sc_Ifaces := map (strip_brackets \<circ> sectionName) ports1\<rparr>,
       (new_device d2)\<lparr>sc_Ifaces := map (strip_brackets \<circ> sectionName) (ports1 @ ports2)\<rparr>]"
proof -
  have "sc_Name (new_device d) = strip_brackets (sectionName d)" for d by (simp add: new_device_def Let_def)
  then show ?thesis
    using assms
    by (simp add: extractSynceRelations_def relation_device relation_ports empty_config_def with_ifaces_def
        AddDeviceConfig_def)
qed

definition demo_synce4l :: ptp4lConf where
  "demo_synce4l = zero_conf\<lparr>cf_sections :=
     [new_section ''[<synce1>]'', new_section ''[ens1f0]'',
      \<lparr>sectionName = ''[<synce2>]'', options = [(''extended_tlv'', '' 1'')]\<rparr>, new_section ''[ens2f0]'']\<rparr>"

theorem synce_ports_accumulate_witness:
  "map sc_Ifaces (extractSynceRelations demo_synce4l) = [[''ens1f0''], [''ens1f0'', ''ens2f0'']]"
  using synce_ports_accumulate [of demo_synce4l "new_section ''[<synce1>]''" "[new_section ''[ens1f0]'']"
      "\<lparr>sectionName = ''[<synce2>]'', options = [(''extended_tlv'', '' 1'')]\<rparr>" "[new_section ''[ens2f0]'']"]
  by (simp add: demo_synce4l_def new_section_def is_device_def is_synce_port_def HasPrefix_def strip_brackets_def)

lemma AddClockIds_length [simp]: "length (AddClockIds r settings) = length r"
  by (induction r settings rule: AddClockIds.induct) auto

lemma relation_count:
  assumes "foldl relation_step (r, info, ifaces) ss = (r', info', ifaces')"
    and "\<forall>s \<in> set ss. is_device s \<longrightarrow> strip_brackets (sectionName s) \<noteq> ''''"
  shows "length r' + (if sc_Name info' \<noteq> '''' then 1 else 0)
       = length r + (if sc_Name info \<noteq> '''' then 1 else 0) + length (filter is_device ss)"
  using assms
proof (induction ss arbitrary: r info ifaces)
  case (Cons s ss)
  obtain r1 info1 ifaces1 where st: "relation_step (r, info, ifaces) s = (r1, info1, ifaces1)" by (metis prod_cases3)
  have "length r1 + (if sc_Name info1 \<noteq> '''' then 1 else 0)
     = length r + (if sc_Name info \<noteq> '''' then 1 else 0) + (if is_device s then 1 else 0)"
    using st Cons.prems(2)
    by (auto simp: relation_step_def is_device_def new_device_def AddDeviceConfig_def Let_def split: if_splits)
  with Cons.IH [of r1 info1 ifaces1] Cons.prems st show ?case by simp
qed simp

lemma relations_length:
  assumes "\<forall>s \<in> set (cf_sections conf). is_device s \<longrightarrow> strip_brackets (sectionName s) \<noteq> ''''"
  shows "length (extractSynceRelations conf) = length (filter is_device (cf_sections conf))"
proof -
  obtain r info ifaces where f: "foldl relation_step ([], empty_config, []) (cf_sections conf) = (r, info, ifaces)"
    by (metis prod_cases3)
  have "sc_Name empty_config = ''''" by (simp add: empty_config_def)
  with relation_count [OF f assms] show ?thesis
    by (auto simp: extractSynceRelations_def f with_ifaces_def AddDeviceConfig_def Let_def)
qed

lemma render_synce_total:
  assumes "idx + length (filter is_device ss) \<le> length r"
  shows "\<exists>out' ss'. render_synce r out idx ss = Inr (out', ss') \<and> map sectionName ss' = map sectionName ss
     \<and> (\<forall>s \<in> set ss'. is_device s \<longrightarrow> map_of (options s) ''clock_id'' \<noteq> None)"
  using assms
proof (induction ss arbitrary: out idx)
  case (Cons s ss)
  show ?case
  proof (cases "is_device s \<and> map_of (options s) ''clock_id'' = None")
    case True
    then have idx: "idx < length r" using Cons.prems by simp
    let ?s = "s\<lparr>options := AList.update ''clock_id'' (sc_ClockId (r ! idx)) (options s)\<rparr>"
    let ?out = "render_options (out @ ''\<newline>'' @ sectionName s) (options ?s)"
    obtain out' ss' where IH: "render_synce r ?out (Suc idx) ss = Inr (out', ss')" "map sectionName ss' = map sectionName ss"
      "\<forall>s \<in> set ss'. is_device s \<longrightarrow> map_of (options s) ''clock_id'' \<noteq> None"
      using Cons.IH [of "Suc idx" ?out] Cons.prems True by auto
    have "render_synce r out idx (s # ss) = Inr (out', ?s # ss')"
      using True idx IH(1) by (simp add: index_at_def is_device_def)
    with IH(2,3) show ?thesis by (simp add: update_conv')
  next
    case False
    let ?out = "render_options (out @ ''\<newline>'' @ sectionName s) (options s)"
    obtain out' ss' where IH: "render_synce r ?out idx ss = Inr (out', ss')" "map sectionName ss' = map sectionName ss"
      "\<forall>s \<in> set ss'. is_device s \<longrightarrow> map_of (options s) ''clock_id'' \<noteq> None"
      using Cons.IH [of idx ?out] Cons.prems by (auto split: if_splits)
    have "render_synce r out idx (s # ss) = Inr (out', s # ss')"
      using False IH(1) by (auto simp: is_device_def)
    with IH(2,3) False show ?thesis by simp
  qed
qed simp

text \<open>
  The synce4l rendering does not panic when every device section has a name: it returns the text, the
  relations with one device per device section, and sections that all carry a \<open>clock_id\<close>. A device section
  without a name, as \<open>[<>]\<close>, has no device, and the rendering of it panics.
\<close>

theorem synce_render_named_devices:
  "((\<forall>s \<in> set (cf_sections conf). is_device s \<longrightarrow> strip_brackets (sectionName s) \<noteq> '''') \<longrightarrow>
      (\<exists>conf' out rels. renderSyncE4lConf settings conf = Inr (conf', out, rels)
         \<and> length rels = length (filter is_device (cf_sections conf))
         \<and> map sectionName (cf_sections conf') = map sectionName (cf_sections conf)
         \<and> (\<forall>s \<in> set (cf_sections conf'). is_device s \<longrightarrow> map_of (options s) ''clock_id'' \<noteq> None)))
   \<and> renderSyncE4lConf settings (conf\<lparr>cf_sections := [new_section ''[<>]'']\<rparr>) = Inl IndexOutOfRange"
proof (intro conjI impI)
  assume named: "\<forall>s \<in> set (cf_sections conf). is_device s \<longrightarrow> strip_brackets (sectionName s) \<noteq> ''''"
  let ?r = "AddClockIds (extractSynceRelations conf) settings"
  have len: "length ?r = length (filter is_device (cf_sections conf))" using relations_length [OF named] by simp
  then show "\<exists>conf' out rels. renderSyncE4lConf settings conf = Inr (conf', out, rels)
         \<and> length rels = length (filter is_device (cf_sections conf))
         \<and> map sectionName (cf_sections conf') = map sectionName (cf_sections conf)
         \<and> (\<forall>s \<in> set (cf_sections conf'). is_device s \<longrightarrow> map_of (options s) ''clock_id'' \<noteq> None)"
    using render_synce_total [of 0 "cf_sections conf" ?r "profile_header conf"]
    by (auto simp: renderSyncE4lConf_def Let_def)
next
  have "extractSynceRelations (conf\<lparr>cf_sections := [new_section ''[<>]'']\<rparr>) = []"
    by (simp add: extractSynceRelations_def relation_step_def new_section_def HasPrefix_def new_device_def Let_def
        strip_brackets_def with_ifaces_def empty_config_def)
  moreover have "AddClockIds [] s = []" for s by (induction s) auto
  ultimately show "renderSyncE4lConf settings (conf\<lparr>cf_sections := [new_section ''[<>]'']\<rparr>) = Inl IndexOutOfRange"
    by (simp add: renderSyncE4lConf_def new_section_def HasPrefix_def index_at_def)
qed

theorem synce_render_named_devices_witness:
  "\<exists>conf' out rels. renderSyncE4lConf [(''clockId[ens1f0]'', ''17'')] demo_synce4l = Inr (conf', out, rels) \<and> length rels = 2"
  using conjunct1 [OF synce_render_named_devices, of demo_synce4l "[(''clockId[ens1f0]'', ''17'')]"]
  by (simp add: demo_synce4l_def is_device_def new_section_def HasPrefix_def strip_brackets_def numeral_2_eq_2) blast

text \<open>
  The \<open>clock_id\<close> of another device: the index into the devices only advances for device sections without a
  \<open>clock_id\<close>, so when the first device section has one and the second does not, the second is written with
  the clock id of the first device.
\<close>

theorem clock_id_of_wrong_device:
  assumes "is_device s1" and "is_device s2" and "map_of (options s1) ''clock_id'' = Some c1"
    and "map_of (options s2) ''clock_id'' = None"
    and "strip_brackets (sectionName s1) \<noteq> ''''" and "strip_brackets (sectionName s2) \<noteq> ''''"
  shows "\<exists>conf' out d1 d2 s2'. renderSyncE4lConf settings (conf\<lparr>cf_sections := [s1, s2]\<rparr>) = Inr (conf', out, [d1, d2])
     \<and> cf_sections conf' = [s1, s2'] \<and> map_of (options s2') ''clock_id'' = Some (sc_ClockId d1)"
proof -
  let ?c = "conf\<lparr>cf_sections := [s1, s2]\<rparr>"
  have "length (AddClockIds (extractSynceRelations ?c) settings) = 2"
    using assms relations_length [of ?c] by simp
  moreover have "\<exists>d1 d2. xs = [d1, d2]" if "length xs = 2" for xs :: Relations
    using that by (auto simp: length_Suc_conv numeral_2_eq_2)
  ultimately obtain d1 d2 where d: "AddClockIds (extractSynceRelations ?c) settings = [d1, d2]" by blast
  show ?thesis
    using assms by (simp add: renderSyncE4lConf_def d index_at_def is_device_def update_conv')
qed

theorem clock_id_of_wrong_device_witness:
  "\<exists>conf' out d1 d2 s2'. renderSyncE4lConf [(''clockId[ens1f0]'', ''17'')]
       (zero_conf\<lparr>cf_sections := [\<lparr>sectionName = ''[<synce1>]'', options = [(''clock_id'', '' 5'')]\<rparr>, new_section ''[<synce2>]'']\<rparr>)
     = Inr (conf', out, [d1, d2])
     \<and> cf_sections conf' = [\<lparr>sectionName = ''[<synce1>]'', options = [(''clock_id'', '' 5'')]\<rparr>, s2']
     \<and> map_of (options s2') ''clock_id'' = Some (sc_ClockId d1)"
  by (rule clock_id_of_wrong_device) (simp_all add: is_device_def new_section_def HasPrefix_def strip_brackets_def)

end
