(* ===== verification/Metrics.thy ===== *)
theory Metrics
  imports Ptp_Config Regex
begin

text \<open>
  The log-line side of the daemon: \<open>pkg/daemon/metrics.go\<close> (the offset maps, the parsers of the lines of
  ptp4l, phc2sys and ts2phc, the gauges they set and their deletion, the flags added for monitoring) and the
  methods of \<open>pkg/daemon/daemon.go\<close> that feed it (\<open>removeMessageSuffix\<close>, \<open>replaceClockID\<close>,
  \<open>processPTPMetrics\<close>, \<open>ProcessTs2PhcEvents\<close>, \<open>updateGMStatusOnProcessDown\<close>).

  Shown: what a regular line and a summary line publish, field by field; the GM event of a ts2phc line; the
  offset thresholds never change the state of an event; a port id one past the interfaces and a summary line
  of eleven fields panic; a fault of the slave port is published once.
\<close>

section \<open>Parsing floats and replacing\<close>

text \<open>
  \<open>strconv.ParseFloat(s, 64)\<close> on decimal notation, infinities and NaN. Hexadecimal floats and digit
  separators, which the logs do not have, count as syntax errors here.
\<close>

definition digits_nat :: "string \<Rightarrow> nat" where
  "digits_nat ds = foldl (\<lambda>n c. 10 * n + (of_char c - 48)) 0 ds"

definition strip_sign :: "string \<Rightarrow> bool \<times> string" where
  "strip_sign s =
     (case s of
        c # t \<Rightarrow> if c = CHR ''-'' then (True, t) else if c = CHR ''+'' then (False, t) else (False, s)
      | [] \<Rightarrow> (False, s))"

definition parse_exponent :: "string \<Rightarrow> int option" where
  "parse_exponent s =
     (case s of
        [] \<Rightarrow> Some 0
      | c # t \<Rightarrow>
          if c \<in> {CHR ''e'', CHR ''E''} then
            (let (neg, ds) = strip_sign t in
             if ds \<noteq> [] \<and> list_all is_dig ds
             then Some (if neg then - int (digits_nat ds) else int (digits_nat ds)) else None)
          else None)"

definition parse_decimal :: "string \<Rightarrow> rat option" where
  "parse_decimal t =
     (let ip = takeWhile is_dig t; r = dropWhile is_dig t;
          (fp, r2) = (case r of
                        c # r' \<Rightarrow> if c = CHR ''.'' then (takeWhile is_dig r', dropWhile is_dig r') else ([], r)
                      | [] \<Rightarrow> ([], []))
      in if ip = [] \<and> fp = [] then None
         else case parse_exponent r2 of
                None \<Rightarrow> None
              | Some e \<Rightarrow>
                  (let e' = e - int (length fp); m = of_nat (digits_nat (ip @ fp)) in
                   Some (if 0 \<le> e' then m * 10 ^ nat e' else m / 10 ^ nat (- e'))))"

definition ParseFloat :: "string \<Rightarrow> f64 \<times> num_err option" where
  "ParseFloat s =
     (let (neg, t) = strip_sign s in
      if ToLower t \<in> {''inf'', ''infinity''} then (sgn_inf neg, None)
      else if ToLower s = ''nan'' then (NaN, None)
      else case parse_decimal t of
             None \<Rightarrow> (Fin 0, Some ErrSyntax)
           | Some x \<Rightarrow>
               (let f = rnd (if neg then - x else x) in
                (f, if f \<in> {PosInf, NegInf} then Some ErrRange else None)))"

text \<open>\<open>strings.NewReplacer\<close>: at each position the first of the old strings that matches.\<close>

function Replacer :: "(string \<times> string) list \<Rightarrow> string \<Rightarrow> string" where
  "Replacer ps [] = []"
| "Replacer ps (c # s) =
     (case find (\<lambda>(old, new). old \<noteq> [] \<and> HasPrefix (c # s) old) ps of
        Some (old, new) \<Rightarrow> new @ Replacer ps (drop (length old - 1) s)
      | None \<Rightarrow> c # Replacer ps s)"
  by pat_completeness auto
termination
  by (relation "measure (\<lambda>(ps, s). length s)") auto

text \<open>\<open>ReplaceAllString\<close>: each match is replaced by a function of its groups.\<close>

function ReplaceAll :: "(string \<Rightarrow> ('g \<times> string) option) \<Rightarrow> ('g \<Rightarrow> string) \<Rightarrow> string \<Rightarrow> string" where
  "ReplaceAll m f [] = []"
| "ReplaceAll m f (c # s) =
     (case m (c # s) of
        None \<Rightarrow> c # ReplaceAll m f s
      | Some (g, r) \<Rightarrow> f g @ ReplaceAll m f (if length r \<le> length s then r else s))"
  by pat_completeness auto
termination
  by (relation "measure (\<lambda>(m, f, s). length s)") auto

definition is_alnum :: "char \<Rightarrow> bool" where
  "is_alnum c = (is_wordchar c \<and> c \<noteq> CHR ''_'')"

text \<open>
  \<open>messageTagSuffixRegEx\<close>: a name of two alphanumeric parts and \<open>config\<close>, then one or two suffixes. The
  runs are followed by characters outside their class, so they are never given back.
\<close>

definition tag_suffix :: "string \<Rightarrow> (unit \<times> string) option" where
  "tag_suffix s = Option.bind (re_lit '':'' s) (\<lambda>t. map_option (\<lambda>(w, r). ((), r)) (re_plus is_alnum t))"

definition messageTagSuffixRegEx :: "string \<Rightarrow> (string \<times> string) option" where
  "messageTagSuffixRegEx s =
     Option.bind (re_plus is_alnum s) (\<lambda>(a, t). Option.bind (re_lit ''.'' t) (\<lambda>t.
       Option.bind (re_plus is_alnum t) (\<lambda>(b, t). Option.bind (re_lit ''.config'' t) (\<lambda>t.
         Option.bind (tag_suffix t) (\<lambda>(_, t).
           Some (a @ ''.'' @ b @ ''.config'', case tag_suffix t of None \<Rightarrow> t | Some (_, r) \<Rightarrow> r))))))"

definition removeMessageSuffix :: "string \<Rightarrow> string" where
  "removeMessageSuffix input =
     ReplaceAll messageTagSuffixRegEx id (Replacer [(''{'', ''''), (''}'', '''')] input)"

definition clockIDRegEx :: "string \<Rightarrow> (string \<times> string) option" where
  "clockIDRegEx s =
     Option.bind (re_lit ''/dev/ptp'' s) (\<lambda>t. map_option (\<lambda>(d, r). (''/dev/ptp'' @ d, r)) (re_plus is_dig t))"

definition ts2phcProcessName :: string where "ts2phcProcessName = ''ts2phc''"
definition ptp4lProcessName :: string where "ptp4lProcessName = ''ptp4l''"
definition phc2sysProcessName :: string where "phc2sysProcessName = ''phc2sys''"
definition clockRealTime :: string where "clockRealTime = ''CLOCK_REALTIME''"

definition replaceClockID :: "string \<Rightarrow> Iface list \<Rightarrow> string \<Rightarrow> string" where
  "replaceClockID name ifaces input =
     (if name \<noteq> ts2phcProcessName \<or> \<not> Contains input ''offset'' then input
      else case FindAll clockIDRegEx input of
             [] \<Rightarrow> input
           | m # _ \<Rightarrow> ReplaceAll clockIDRegEx (\<lambda>_. GetPhcID2IFace ifaces m) input)"

section \<open>The offset maps and the gauges\<close>

record ptpInterface =
  pi_name :: string
  pi_alias :: string

text \<open>Gauges by their label values; \<open>GSync\<close> are those shared with SyncE (\<open>ClockState\<close>).\<close>

datatype daemon_gauge =
    GOffset string string string string
  | GMaxOffset string string string string
  | GFrequencyAdjustment string string string string
  | GDelay string string string string
  | GInterfaceRole string string string
  | GProcessStatus string string string
  | GProcessRestartCount string string string
  | GClockClass string string
  | GPTPHA string string string
  | GSync synce_gauge

record metrics_state =
  ms_iface :: "(string \<times> ptpInterface) list"
  ms_slave :: "(string \<times> string) list"
  ms_source :: "(string \<times> string) list"
  ms_gauges :: "daemon_gauge \<rightharpoonup> f64"

definition InitializeOffsetMaps :: "metrics_state \<Rightarrow> metrics_state" where
  "InitializeOffsetMaps m = m\<lparr>ms_iface := [], ms_slave := [], ms_source := []\<rparr>"

definition no_iface :: ptpInterface where
  "no_iface = \<lparr>pi_name = '''', pi_alias = ''''\<rparr>"

definition masterOffsetIface_get :: "metrics_state \<Rightarrow> string \<Rightarrow> ptpInterface" where
  "masterOffsetIface_get m configName =
     (case map_of (ms_iface m) configName of Some s \<Rightarrow> s | None \<Rightarrow> no_iface)"

definition getByAlias :: "metrics_state \<Rightarrow> string \<Rightarrow> string \<Rightarrow> ptpInterface" where
  "getByAlias m configName alias =
     (case map_of (ms_iface m) configName of
        Some s \<Rightarrow> if pi_alias s = alias then s else \<lparr>pi_name = alias, pi_alias = alias\<rparr>
      | None \<Rightarrow> \<lparr>pi_name = alias, pi_alias = alias\<rparr>)"

definition getAliasByName :: "metrics_state \<Rightarrow> string \<Rightarrow> string \<Rightarrow> ptpInterface" where
  "getAliasByName m configName name =
     (if name = clockRealTime \<or> name = ''master'' then \<lparr>pi_name = name, pi_alias = name\<rparr>
      else case map_of (ms_iface m) configName of
             Some s \<Rightarrow> if pi_name s = name then s else \<lparr>pi_name = name, pi_alias = name\<rparr>
           | None \<Rightarrow> \<lparr>pi_name = name, pi_alias = name\<rparr>)"

definition masterOffsetIface_set :: "string \<Rightarrow> string \<Rightarrow> metrics_state \<Rightarrow> metrics_state" where
  "masterOffsetIface_set configName v m =
     m\<lparr>ms_iface := AList.update configName \<lparr>pi_name = v, pi_alias = mask_iface v\<rparr> (ms_iface m)\<rparr>"

definition slaveIface_set :: "string \<Rightarrow> string \<Rightarrow> metrics_state \<Rightarrow> metrics_state" where
  "slaveIface_set configName v m = m\<lparr>ms_slave := AList.update configName v (ms_slave m)\<rparr>"

definition isFaulty :: "metrics_state \<Rightarrow> string \<Rightarrow> string \<Rightarrow> bool" where
  "isFaulty m configName iface = (map_of (ms_slave m) configName = Some iface)"

definition masterOffsetSource_set :: "string \<Rightarrow> string \<Rightarrow> metrics_state \<Rightarrow> metrics_state" where
  "masterOffsetSource_set configName v m = m\<lparr>ms_source := AList.update configName v (ms_source m)\<rparr>"

definition masterOffsetSource_get :: "metrics_state \<Rightarrow> string \<Rightarrow> string" where
  "masterOffsetSource_get m configName =
     (case map_of (ms_source m) configName of Some s \<Rightarrow> s | None \<Rightarrow> ptp4lProcessName)"

definition set_gauge :: "daemon_gauge \<Rightarrow> f64 \<Rightarrow> metrics_state \<Rightarrow> metrics_state" where
  "set_gauge g v m = m\<lparr>ms_gauges := (ms_gauges m)(g \<mapsto> v)\<rparr>"

definition del_gauges :: "daemon_gauge list \<Rightarrow> metrics_state \<Rightarrow> metrics_state" where
  "del_gauges gs m = m\<lparr>ms_gauges := (\<lambda>g. if g \<in> set gs then None else ms_gauges m g)\<rparr>"

definition updatePTPMetrics ::
  "string \<Rightarrow> string \<Rightarrow> string \<Rightarrow> string \<Rightarrow> f64 \<Rightarrow> f64 \<Rightarrow> f64 \<Rightarrow> f64 \<Rightarrow> metrics_state \<Rightarrow> metrics_state" where
  "updatePTPMetrics node from process iface ptpOffset maxPtpOffset frequencyAdjustment delay m =
     set_gauge (GDelay from process node iface) delay
       (set_gauge (GFrequencyAdjustment from process node iface) frequencyAdjustment
         (set_gauge (GMaxOffset from process node iface) maxPtpOffset
           (set_gauge (GOffset from process node iface) ptpOffset m)))"

definition updateClockStateMetrics :: "string \<Rightarrow> string \<Rightarrow> string \<Rightarrow> string \<Rightarrow> metrics_state \<Rightarrow> metrics_state" where
  "updateClockStateMetrics node process iface state m =
     set_gauge (GSync (ClockState process node iface)) (if state = ''LOCKED'' then Fin 1 else Fin 0) m"

datatype ptpPortRole = PASSIVE | SLAVE | MASTER | FAULTY | UNKNOWN

fun role_val :: "ptpPortRole \<Rightarrow> int" where
  "role_val PASSIVE = 0"
| "role_val SLAVE = 1"
| "role_val MASTER = 2"
| "role_val FAULTY = 3"
| "role_val UNKNOWN = 4"

definition UpdateInterfaceRoleMetrics :: "string \<Rightarrow> string \<Rightarrow> string \<Rightarrow> ptpPortRole \<Rightarrow> metrics_state \<Rightarrow> metrics_state" where
  "UpdateInterfaceRoleMetrics node process iface role m =
     set_gauge (GInterfaceRole process node iface) (f64_of_int (role_val role)) m"

definition UpdateClockClassMetrics :: "string \<Rightarrow> f64 \<Rightarrow> metrics_state \<Rightarrow> metrics_state" where
  "UpdateClockClassMetrics node clockClass m = set_gauge (GClockClass ptp4lProcessName node) clockClass m"

definition UpdateProcessStatusMetrics :: "string \<Rightarrow> string \<Rightarrow> string \<Rightarrow> int \<Rightarrow> metrics_state \<Rightarrow> metrics_state" where
  "UpdateProcessStatusMetrics node process cfgName status m =
     (let m1 = set_gauge (GProcessStatus process node cfgName) (f64_of_int status) m;
          restarts = (case ms_gauges m (GProcessRestartCount process node cfgName) of None \<Rightarrow> Fin 0 | Some v \<Rightarrow> v)
      in if status = 1 then set_gauge (GProcessRestartCount process node cfgName) (f64_add restarts (Fin 1)) m1 else m1)"

definition UpdatePTPHAMetrics :: "string \<Rightarrow> string \<Rightarrow> string list \<Rightarrow> int \<Rightarrow> metrics_state \<Rightarrow> metrics_state" where
  "UpdatePTPHAMetrics node profile inActiveProfiles state m =
     fold (\<lambda>p. set_gauge (GPTPHA phc2sysProcessName node p) (Fin 0)) inActiveProfiles
       (set_gauge (GPTPHA phc2sysProcessName node profile) (f64_of_int state) m)"

definition deleteOsClockStateMetrics :: "string \<Rightarrow> (string \<times> string list) list \<Rightarrow> metrics_state \<Rightarrow> metrics_state" where
  "deleteOsClockStateMetrics node profiles m =
     del_gauges
       ([GSync (ClockState phc2sysProcessName node clockRealTime),
         GDelay ''phc'' phc2sysProcessName node clockRealTime, GFrequencyAdjustment ''phc'' phc2sysProcessName node clockRealTime,
         GMaxOffset ''phc'' phc2sysProcessName node clockRealTime, GOffset ''phc'' phc2sysProcessName node clockRealTime]
        @ map (\<lambda>(p, _). GPTPHA phc2sysProcessName node p) profiles) m"

definition deleteProcessStatusMetrics :: "string \<Rightarrow> string \<Rightarrow> string \<Rightarrow> metrics_state \<Rightarrow> metrics_state" where
  "deleteProcessStatusMetrics node config process m =
     del_gauges [GProcessStatus process node config, GProcessRestartCount process node config] m"

definition deleteMetrics ::
  "string \<Rightarrow> Iface list \<Rightarrow> (string \<times> string list) list \<Rightarrow> string \<Rightarrow> string \<Rightarrow> metrics_state \<Rightarrow> metrics_state" where
  "deleteMetrics node ifaces haProfiles process config m =
     (if process = phc2sysProcessName then deleteOsClockStateMetrics node haProfiles m
      else
        del_gauges
          (map (\<lambda>i. GInterfaceRole ptp4lProcessName node (if_Name i)) ifaces
           @ concat (map (\<lambda>(_, i).
               [GSync (ClockState process node (pi_alias i)), GDelay ''master'' process node (pi_alias i),
                GFrequencyAdjustment ''master'' process node (pi_alias i), GMaxOffset ''master'' process node (pi_alias i),
                GOffset ''master'' process node (pi_alias i)]) (ms_iface m)))
          (deleteProcessStatusMetrics node config process m))"

section \<open>Reading the lines\<close>

text \<open>
  What the extractors return. \<open>rm_err\<close> is the message of the error, without its details; the other results
  keep Go's zero values until they are assigned, also on an error.
\<close>

record regular =
  rm_err :: "string option"
  rm_iface :: string
  rm_state :: string
  rm_offset :: f64
  rm_max :: f64
  rm_freq :: f64
  rm_delay :: f64

definition zero_regular :: regular where
  "zero_regular = \<lparr>rm_err = None, rm_iface = '''', rm_state = '''', rm_offset = Fin 0, rm_max = Fin 0,
     rm_freq = Fin 0, rm_delay = Fin 0\<rparr>"

text \<open>The fields of a line from the configuration name on.\<close>

definition summary_tokens :: "string \<Rightarrow> string \<Rightarrow> string list option" where
  "summary_tokens configName output =
     (if \<not> Contains output ''rms'' then None
      else let out = Replacer [(''['', '' ''), ('']'', '' ''), ('':'', '' '')] output in
        map_option (\<lambda>i. Fields (drop i out)) (index_of out configName))"

definition summary_fields :: "metrics_state \<Rightarrow> string \<Rightarrow> string list \<Rightarrow> regular res" where
  "summary_fields m configName fs =
     (if length fs < 8 then Inr zero_regular
      else
        (let fs' = (if fs ! 1 = ''rms'' then hd fs # pi_name (masterOffsetIface_get m configName) # tl fs else fs) in
         if fs ! 1 \<noteq> ''rms'' \<and> fs ! 1 \<noteq> clockRealTime then Inr zero_regular
         else
           res_bind (if 11 \<le> length fs' then res_bind (index_at fs' 11) (\<lambda>d. Inr (fst (ParseFloat d))) else Inr (Fin 0))
             (\<lambda>delay. Inr (zero_regular\<lparr>rm_iface := fs' ! 1, rm_offset := fst (ParseFloat (fs' ! 3)),
                rm_max := fst (ParseFloat (fs' ! 5)), rm_freq := fst (ParseFloat (fs' ! 7)), rm_delay := delay\<rparr>))))"

definition extractSummaryMetrics :: "metrics_state \<Rightarrow> string \<Rightarrow> string \<Rightarrow> regular res" where
  "extractSummaryMetrics m configName output =
     (case summary_tokens configName output of
        None \<Rightarrow> Inr zero_regular
      | Some fs \<Rightarrow> summary_fields m configName fs)"

definition regular_tokens :: "string \<Rightarrow> string \<Rightarrow> (string \<times> string list) option" where
  "regular_tokens configName output =
     (if \<not> Contains output ''offset'' then None
      else let out = Replacer [(''['', '' ''), ('']'', '' ''), ('':'', '' ''), ('' phc '', '' ''), ('' sys '', '' '')]
                       (replace_first output ''path'' '''') in
        map_option (\<lambda>i. (drop i out, Fields (drop i out))) (index_of out configName))"

text \<open>
  The lines of ts2phc name an interface or a PHC device; it is remembered as the master interface, and
  \<open>master\<close> put in its place or moved up.
\<close>

definition ts2phc_fields :: "string \<Rightarrow> Iface list \<Rightarrow> string list \<Rightarrow> metrics_state \<Rightarrow> string list \<times> metrics_state" where
  "ts2phc_fields configName ifaces fs m =
     (if fs ! 2 = ''offset'' \<or> fs ! 3 = ''offset'' then
        (let i = GetPhcID2IFace ifaces (fs ! 1);
             m' = slaveIface_set configName i (masterOffsetIface_set configName i m)
         in (if fs ! 2 = ''offset'' then fs[1 := ''master''] else hd fs # drop 2 fs, m'))
      else (fs, m))"

definition clock_state_of :: "string \<Rightarrow> string \<Rightarrow> string \<Rightarrow> string" where
  "clock_state_of processName output s =
     (if processName = ts2phcProcessName \<and> Contains output ''holdover'' then ''HOLDOVER''
      else if s = ''s2'' \<or> s = ''s3'' then ''LOCKED'' else ''FREERUN'')"

definition regular_fields :: "string \<Rightarrow> string \<Rightarrow> string \<Rightarrow> string list \<Rightarrow> metrics_state \<Rightarrow> regular" where
  "regular_fields configName processName output fs m =
     (if length fs < 7 then zero_regular\<lparr>rm_err := Some ''unexpected number of fields''\<rparr>
      else if fs ! 2 \<noteq> ''offset'' then zero_regular\<lparr>rm_err := Some ''offset is not in right order''\<rparr>
      else if fs ! 1 \<noteq> clockRealTime \<and> fs ! 1 \<noteq> ''master'' then zero_regular\<lparr>rm_iface := fs ! 1\<rparr>
      else
        (let iface = (if fs ! 1 = ''master'' then pi_alias (masterOffsetIface_get m configName) else fs ! 1);
             (off, e) = ParseFloat (fs ! 3);
             r1 = zero_regular\<lparr>rm_iface := iface, rm_offset := off\<rparr>
         in if e \<noteq> None then r1\<lparr>rm_err := Some ''failed to parse offset''\<rparr>
         else
           (let (freq, e2) = ParseFloat (fs ! 6);
                r2 = r1\<lparr>rm_max := off, rm_state := clock_state_of processName output (fs ! 4), rm_freq := freq\<rparr>
            in if e2 \<noteq> None then r2\<lparr>rm_err := Some ''failed to parse frequency adjustment''\<rparr>
            else if processName = ts2phcProcessName \<or> length fs \<le> 8 then r2
            else
              (let (delay, e3) = ParseFloat (fs ! 8) in
               r2\<lparr>rm_delay := delay, rm_err := (if e3 \<noteq> None then Some ''failed to parse delay'' else None)\<rparr>))))"

definition extractRegularMetrics :: "string \<Rightarrow> string \<Rightarrow> string \<Rightarrow> Iface list \<Rightarrow> metrics_state \<Rightarrow> regular \<times> metrics_state" where
  "extractRegularMetrics configName processName output ifaces m =
     (case regular_tokens configName output of
        None \<Rightarrow> (zero_regular, m)
      | Some (out, fs) \<Rightarrow>
          if length fs < 7 then (zero_regular, m)
          else
            (let (fs', m') = (if processName = ts2phcProcessName then ts2phc_fields configName ifaces fs m else (fs, m))
             in (regular_fields configName processName out fs' m', m')))"

definition role_of_line :: "string \<Rightarrow> ptpPortRole option" where
  "role_of_line out =
     (if Contains out ''UNCALIBRATED to SLAVE'' then Some SLAVE
      else if Contains out ''UNCALIBRATED to PASSIVE'' \<or> Contains out ''MASTER to PASSIVE'' \<or> Contains out ''SLAVE to PASSIVE''
      then Some PASSIVE
      else if Contains out ''UNCALIBRATED to MASTER'' \<or> Contains out ''LISTENING to MASTER'' then Some MASTER
      else if Contains out ''FAULT_DETECTED'' \<or> Contains out ''SYNCHRONIZATION_FAULT'' then Some FAULTY
      else None)"

definition extractPTP4lEventState :: "string \<Rightarrow> int \<times> ptpPortRole" where
  "extractPTP4lEventState output =
     (let out = Replacer [(''['', '' ''), ('']'', '' ''), ('':'', '' '')] output in
      case index_of out '' port '' of
        None \<Rightarrow> (0, PASSIVE)
      | Some i \<Rightarrow>
          (let rest = drop i out; fs = Fields rest in
           if length fs < 2 then (0, PASSIVE)
           else case Atoi (fs ! 1) of
             (portId, Some _) \<Rightarrow> (0, UNKNOWN)
           | (portId, None) \<Rightarrow> (case role_of_line rest of Some r \<Rightarrow> (portId, r) | None \<Rightarrow> (0, UNKNOWN))))"

section \<open>One line\<close>

definition publish_summary :: "string \<Rightarrow> string \<Rightarrow> string \<Rightarrow> regular \<Rightarrow> metrics_state \<Rightarrow> metrics_state" where
  "publish_summary node configName processName r m =
     (if rm_iface r = '''' then m
      else if rm_iface r = clockRealTime
      then updatePTPMetrics node ''phc'' processName (rm_iface r) (rm_offset r) (rm_max r) (rm_freq r) (rm_delay r) m
      else masterOffsetSource_set configName processName
             (updatePTPMetrics node ''master'' processName (rm_iface r) (rm_offset r) (rm_max r) (rm_freq r) (rm_delay r) m))"

definition offset_source :: "string \<Rightarrow> string" where
  "offset_source output =
     (if Contains output ''sys offset'' then ''sys'' else if Contains output ''phc offset'' then ''phc'' else ''master'')"

definition publish_regular :: "string \<Rightarrow> string \<Rightarrow> string \<Rightarrow> string \<Rightarrow> regular \<Rightarrow> metrics_state \<Rightarrow> metrics_state" where
  "publish_regular node configName processName output r m =
     (if rm_err r \<noteq> None \<or> rm_iface r = '''' then m
      else
        (let src = offset_source output;
             m1 = (if src = ''master'' then masterOffsetSource_set configName processName m else m)
         in updateClockStateMetrics node processName (rm_iface r) (rm_state r)
              (updatePTPMetrics node src processName (rm_iface r) (rm_offset r) (rm_max r) (rm_freq r) (rm_delay r) m1)))"

definition faulty_port :: "string \<Rightarrow> string \<Rightarrow> string \<Rightarrow> string \<Rightarrow> metrics_state \<Rightarrow> metrics_state" where
  "faulty_port node configName processName name m =
     (if isFaulty m configName name \<and> masterOffsetSource_get m configName = ptp4lProcessName then
        (let alias = pi_alias (masterOffsetIface_get m configName); faulty = f64_of_int 999999 in
         slaveIface_set configName '''' (masterOffsetIface_set configName ''''
           (updateClockStateMetrics node processName alias ''FREERUN''
             (updatePTPMetrics node ''phc'' phc2sysProcessName clockRealTime faulty faulty (Fin 0) (Fin 0)
               (updatePTPMetrics node ''master'' processName alias faulty faulty (Fin 0) (Fin 0) m)))))
      else m)"

definition ptp4l_port :: "string \<Rightarrow> string \<Rightarrow> string \<Rightarrow> Iface list \<Rightarrow> string \<Rightarrow> metrics_state \<Rightarrow> metrics_state res" where
  "ptp4l_port node configName processName ifaces output m =
     (case extractPTP4lEventState output of
        (portId, role) \<Rightarrow>
          if 0 < portId \<and> portId - 1 \<le> int (length ifaces) then
            res_bind (index_at ifaces (nat (portId - 1)))
              (\<lambda>i. let m1 = UpdateInterfaceRoleMetrics node processName (if_Name i) role m in
                   Inr (case role of
                     SLAVE \<Rightarrow> slaveIface_set configName (if_Name i) (masterOffsetIface_set configName (if_Name i) m1)
                   | FAULTY \<Rightarrow> faulty_port node configName processName (if_Name i) m1
                   | _ \<Rightarrow> m1))
          else Inr m)"

definition config_of_tag :: "string \<Rightarrow> string" where
  "config_of_tag messageTag =
     (let c = replace_first (replace_first messageTag '']'' '''') ''['' '''' in
      if c \<noteq> '''' then Split c CHR '':'' ! 0 else c)"

record extracted =
  ex_config :: string
  ex_source :: string
  ex_offset :: f64
  ex_state :: string
  ex_iface :: string

definition extractMetrics ::
  "string \<Rightarrow> string \<Rightarrow> string \<Rightarrow> Iface list \<Rightarrow> string \<Rightarrow> metrics_state \<Rightarrow> (extracted \<times> metrics_state) res" where
  "extractMetrics node messageTag processName ifaces rawOutput m =
     (let configName = config_of_tag messageTag;
          output = removeMessageSuffix rawOutput;
          none = \<lparr>ex_config = configName, ex_source = '''', ex_offset = Fin 0, ex_state = '''', ex_iface = ''''\<rparr>
      in res_bind
        (if Contains output '' max '' then
           res_bind (extractSummaryMetrics m configName output)
             (\<lambda>r. Inr (none, publish_summary node configName processName r m))
         else if Contains output '' offset '' then
           (let (r, m1) = extractRegularMetrics configName processName output ifaces m in
            Inr (none\<lparr>ex_source := processName, ex_offset := rm_offset r, ex_state := rm_state r, ex_iface := rm_iface r\<rparr>,
                 publish_regular node configName processName output r m1))
         else Inr (none, m))
        (\<lambda>(x, m2). if processName = ptp4lProcessName
                    then res_bind (ptp4l_port node configName processName ifaces output m2) (\<lambda>m3. Inr (x, m3))
                    else Inr (x, m2)))"

section \<open>From a line to an event\<close>

text \<open>The clock thresholds of a profile, \<open>ptpv1.PtpClockThreshold\<close>.\<close>

record PtpClockThreshold =
  th_HoldOverTimeout :: int
  th_MaxOffsetThreshold :: int
  th_MinOffsetThreshold :: int

definition getPTPThreshold :: "PtpClockThreshold option \<Rightarrow> PtpClockThreshold" where
  "getPTPThreshold profile =
     (case profile of
        Some t \<Rightarrow> \<lparr>th_HoldOverTimeout = th_HoldOverTimeout t, th_MaxOffsetThreshold = th_MaxOffsetThreshold t,
                   th_MinOffsetThreshold = th_MinOffsetThreshold t\<rparr>
      | None \<Rightarrow> \<lparr>th_HoldOverTimeout = 5, th_MaxOffsetThreshold = 100, th_MinOffsetThreshold = -100\<rparr>)"

text \<open>The fields of \<open>ptpProcess\<close> that log lines need.\<close>

record log_process =
  lp_name :: string
  lp_messageTag :: string
  lp_ifaces :: "Iface list"
  lp_clockType :: ClockType
  lp_threshold :: PtpClockThreshold
  lp_configName :: string

definition threshold_state :: "PtpClockThreshold \<Rightarrow> f64 \<Rightarrow> PTPState \<Rightarrow> PTPState" where
  "threshold_state t ptpOffset state =
     (let o64 = f64_to_i64 ptpOffset in
      if state \<noteq> PTP_HOLDOVER \<and> state \<noteq> PTP_FREERUN \<and> o64 \<le> th_MaxOffsetThreshold t \<and> th_MinOffsetThreshold t \<le> o64
      then PTP_LOCKED else state)"

text \<open>
  \<open>ProcessTs2PhcEvents\<close>: the event offered to the handler (only for ts2phc), or the gauge set. \<open>now\<close> is
  \<open>time.Now().UnixMilli()\<close>; \<open>extraValue\<close> overrides the offset when it has one.
\<close>

definition ProcessTs2PhcEvents ::
  "string \<Rightarrow> int \<Rightarrow> f64 \<Rightarrow> string \<Rightarrow> string \<Rightarrow> PTPState \<Rightarrow> (ValueType \<times> goval) list \<Rightarrow> log_process \<Rightarrow> metrics_state
     \<Rightarrow> EventChannel option \<times> metrics_state" where
  "ProcessTs2PhcEvents node now ptpOffset source iface state extraValue p m =
     (let ptpState = threshold_state (lp_threshold p) ptpOffset state in
      if source = ts2phcProcessName then
        (Some \<lparr>ec_ProcessName = TS2PHC, ec_State = ptpState, ec_IFace = iface, ec_CfgName = lp_configName p,
               ec_Values = fold (\<lambda>(k, v). AList.update k v) extraValue [(OFFSET, VInt64 (f64_to_i64 ptpOffset))],
               ec_ClockType = lp_clockType p, ec_Time = now, ec_OutOfSpec = False,
               ec_WriteToLog = (0 < length extraValue), ec_Reset = False, ec_SourceLost = False,
               ec_FrequencyTraceable = False\<rparr>, m)
      else
        (let iface' = (if iface \<noteq> '''' \<and> iface \<noteq> clockRealTime then mask_iface iface else iface) in
         (None,
          case ptpState of
            PTP_LOCKED \<Rightarrow> updateClockStateMetrics node (lp_name p) iface' ''LOCKED'' m
          | PTP_FREERUN \<Rightarrow> updateClockStateMetrics node (lp_name p) iface' ''FREERUN'' m
          | PTP_HOLDOVER \<Rightarrow> updateClockStateMetrics node (lp_name p) iface' ''HOLDOVER'' m
          | _ \<Rightarrow> m)))"

definition state_of_name :: "string \<Rightarrow> PTPState" where
  "state_of_name s = (if s = ''LOCKED'' then PTP_LOCKED else if s = ''HOLDOVER'' then PTP_HOLDOVER else PTP_FREERUN)"

text \<open>\<open>processPTPMetrics\<close> of a process other than synce4l (that one is \<^const>\<open>ProcessSynceEvents\<close> on \<^const>\<open>ParseLog\<close>).\<close>

definition processPTPMetrics :: "string \<Rightarrow> int \<Rightarrow> string \<Rightarrow> log_process \<Rightarrow> metrics_state \<Rightarrow> (EventChannel option \<times> metrics_state) res" where
  "processPTPMetrics node now output p m =
     res_bind (extractMetrics node (lp_messageTag p) (lp_name p) (lp_ifaces p) output m)
       (\<lambda>(x, m1).
          if ex_iface x = '''' then Inr (None, m1)
          else
            (let ifaceName = pi_name (getByAlias m1 (ex_config x) (ex_iface x));
                 vals = (if ex_iface x \<noteq> clockRealTime \<and> lp_name p = ts2phcProcessName
                            \<and> GetEventSource (lp_ifaces p) ifaceName = GNSS
                         then [(NMEA_STATUS, VInt64 1)] else [])
             in Inr (ProcessTs2PhcEvents node now (ex_offset x) (ex_source x) ifaceName (state_of_name (ex_state x)) vals p m1)))"

definition updateGMStatusOnProcessDown :: "string \<Rightarrow> int \<Rightarrow> string \<Rightarrow> log_process \<Rightarrow> metrics_state \<Rightarrow> EventChannel option \<times> metrics_state" where
  "updateGMStatusOnProcessDown node now process p m =
     (if process = ts2phcProcessName
      then ProcessTs2PhcEvents node now (f64_of_int 999999) ts2phcProcessName (if_Name (GetGMInterface (lp_ifaces p)))
             PTP_FREERUN [(PROCESS_STATUS, VInt64 0)] p m
      else (None, m))"

text \<open>\<open>addFlagsForMonitor\<close>: the options after it, and the sections, of which it may set \<open>summary_interval\<close>.\<close>

definition add_summary_interval :: "ptp4lConf \<Rightarrow> ptp4lConf" where
  "add_summary_interval conf =
     conf\<lparr>cf_sections := map (\<lambda>s. if sectionName s = ''[global]'' \<and> map_of (options s) ''summary_interval'' = None
        then s\<lparr>options := AList.update ''summary_interval'' ''1'' (options s)\<rparr> else s) (cf_sections conf)\<rparr>"

definition addFlagsForMonitor :: "string \<Rightarrow> string option \<Rightarrow> ptp4lConf \<Rightarrow> bool \<Rightarrow> string option \<times> ptp4lConf" where
  "addFlagsForMonitor process configOpts conf stdoutToSocket =
     (case configOpts of
        None \<Rightarrow> (None, conf)
      | Some opts \<Rightarrow>
          if process = ''ptp4l'' then
            (let opts1 = (if Contains opts ''-m'' then opts else opts @ '' -m'') in
             (Some opts1, if Contains opts1 ''--summary_interval'' then conf else add_summary_interval conf))
          else if process = ''phc2sys'' \<and> opts \<noteq> '''' then
            (let opts1 = (if Contains opts ''-m'' then opts else opts @ '' -m'') in
             (Some (if \<not> stdoutToSocket \<and> \<not> Contains opts1 ''-u'' then opts1 @ '' -u 1'' else opts1), conf))
          else (Some opts, conf))"

section \<open>Thresholds\<close>

lemma state_of_name_cases: "state_of_name s \<in> {PTP_LOCKED, PTP_HOLDOVER, PTP_FREERUN}"
  by (simp add: state_of_name_def)

lemma threshold_state_id: "s \<in> {PTP_LOCKED, PTP_HOLDOVER, PTP_FREERUN} \<Longrightarrow> threshold_state t f s = s"
  by (auto simp: threshold_state_def Let_def)

text \<open>
  The offset thresholds have no effect: what a log line does, event and gauges, does not depend on the
  clock thresholds of the process. The check in \<open>ProcessTs2PhcEvents\<close> can only raise a state that is
  neither holdover nor free-running, and the only other state a line can have is LOCKED already; a locked
  line whose offset is out of range stays locked.
\<close>

theorem thresholds_have_no_effect:
  "processPTPMetrics node now line (p\<lparr>lp_threshold := t\<rparr>) m = processPTPMetrics node now line p m"
proof -
  have "ProcessTs2PhcEvents node now f src i (state_of_name s) vs (p\<lparr>lp_threshold := t\<rparr>) m'
      = ProcessTs2PhcEvents node now f src i (state_of_name s) vs p m'" for f src i s vs m'
    using state_of_name_cases [of s]
    by (cases "state_of_name s") (simp_all add: ProcessTs2PhcEvents_def threshold_state_def Let_def)
  then show ?thesis by (simp add: processPTPMetrics_def Let_def cong: if_cong)
qed

section \<open>Panics\<close>

definition summary_panics :: "string list \<Rightarrow> bool" where
  "summary_panics fs \<longleftrightarrow> fs ! 1 = ''rms'' \<and> length fs = 10 \<or> fs ! 1 = clockRealTime \<and> length fs = 11"

lemma summary_panic_iff: "(\<exists>e. summary_fields m c fs = Inl e) \<longleftrightarrow> summary_panics fs"
proof -
  have "\<exists>e. res_bind (index_at xs 11) (\<lambda>d. Inr (g d)) = Inl e \<longleftrightarrow> length xs \<le> 11" for xs :: "string list" and g :: "string \<Rightarrow> f64"
    by (auto simp: index_at_def)
  then show ?thesis
    by (auto simp: summary_fields_def summary_panics_def clockRealTime_def Let_def index_at_def)
qed

lemma ptp4l_port_panic_iff:
  "(\<exists>e. ptp4l_port node c pn ifaces out m = Inl e) \<longleftrightarrow> fst (extractPTP4lEventState out) = int (length ifaces) + 1"
  by (auto simp: ptp4l_port_def index_at_def Let_def split: prod.splits)

lemma res_bind_Inl_iff: "(\<exists>e. res_bind r f = Inl e) \<longleftrightarrow> (\<exists>e. r = Inl e) \<or> (\<exists>x e. r = Inr x \<and> f x = Inl e)"
  by (cases r) auto


section \<open>What a line publishes\<close>

definition set_offsets ::
  "string \<Rightarrow> string \<Rightarrow> string \<Rightarrow> string \<Rightarrow> f64 \<Rightarrow> f64 \<Rightarrow> f64 \<Rightarrow> bool \<Rightarrow> (daemon_gauge \<rightharpoonup> f64) \<Rightarrow> (daemon_gauge \<rightharpoonup> f64)" where
  "set_offsets from process node iface off freq delay locked g =
     g(GOffset from process node iface \<mapsto> off, GMaxOffset from process node iface \<mapsto> off,
       GFrequencyAdjustment from process node iface \<mapsto> freq, GDelay from process node iface \<mapsto> delay,
       GSync (ClockState process node iface) \<mapsto> (if locked then Fin 1 else Fin 0))"

lemma set_gauge_sel [simp]:
  "ms_iface (set_gauge g v m) = ms_iface m" "ms_slave (set_gauge g v m) = ms_slave m"
  "ms_source (set_gauge g v m) = ms_source m" "ms_gauges (set_gauge g v m) = (ms_gauges m)(g \<mapsto> v)"
  by (simp_all add: set_gauge_def)

lemma maps_set_sel [simp]:
  "ms_gauges (masterOffsetSource_set c v m) = ms_gauges m" "ms_gauges (slaveIface_set c v m) = ms_gauges m"
  "ms_gauges (masterOffsetIface_set c v m) = ms_gauges m"
  "ms_iface (masterOffsetSource_set c v m) = ms_iface m" "ms_iface (slaveIface_set c v m) = ms_iface m"
  "ms_slave (masterOffsetSource_set c v m) = ms_slave m" "ms_slave (masterOffsetIface_set c v m) = ms_slave m"
  "ms_source (slaveIface_set c v m) = ms_source m" "ms_source (masterOffsetIface_set c v m) = ms_source m"
  by (simp_all add: masterOffsetSource_set_def slaveIface_set_def masterOffsetIface_set_def)

lemma masterOffsetIface_get_set [simp]:
  "masterOffsetIface_get (masterOffsetIface_set c v m) c = \<lparr>pi_name = v, pi_alias = mask_iface v\<rparr>"
  "masterOffsetIface_get (slaveIface_set c' v' m) c = masterOffsetIface_get m c"
  "masterOffsetIface_get (masterOffsetSource_set c' v' m) c = masterOffsetIface_get m c"
  "masterOffsetIface_get (set_gauge g x m) c = masterOffsetIface_get m c"
  by (simp_all add: masterOffsetIface_get_def masterOffsetIface_set_def slaveIface_set_def masterOffsetSource_set_def
      set_gauge_def update_conv')

text \<open>
  A regular line of ptp4l or phc2sys: if its fields are the configuration, \<open>master\<close> or the system clock,
  \<open>offset\<close>, the offset, the servo state, \<open>freq\<close>, the frequency, \<open>delay\<close> and the delay, all three numbers
  well formed, then the gauges of the interface (the masked name of the current master interface, or the
  system clock) get exactly these numbers under the source of the line, the clock state is 1 for the servo
  states s2 and s3 and 0 for all others, no other gauge changes, and the line returns the offset, the state
  and the interface.
\<close>

theorem regular_line_published:
  assumes "regular_tokens c output = Some (out, [c', who, ''offset'', so, st, w1, sf, w2, sd])"
    and "ParseFloat so = (off, None)" and "ParseFloat sf = (freq, None)" and "ParseFloat sd = (delay, None)"
    and "process \<noteq> ts2phcProcessName" and "who = clockRealTime \<and> i = clockRealTime
       \<or> who = ''master'' \<and> i = pi_alias (masterOffsetIface_get m c) \<and> i \<noteq> ''''"
  shows "\<exists>r. extractRegularMetrics c process output ifaces m = (r, m)
     \<and> rm_err r = None \<and> rm_iface r = i \<and> rm_offset r = off
     \<and> rm_state r = (if st = ''s2'' \<or> st = ''s3'' then ''LOCKED'' else ''FREERUN'')
     \<and> ms_gauges (publish_regular node c process output r m) =
         set_offsets (offset_source output) process node i off freq delay (st = ''s2'' \<or> st = ''s3'') (ms_gauges m)
     \<and> map_of (ms_source (publish_regular node c process output r m)) c =
         (if offset_source output = ''master'' then Some process else map_of (ms_source m) c)"
proof -
  let ?r = "\<lparr>rm_err = None, rm_iface = i, rm_state = (if st = ''s2'' \<or> st = ''s3'' then ''LOCKED'' else ''FREERUN''),
      rm_offset = off, rm_max = off, rm_freq = freq, rm_delay = delay\<rparr>"
  have "clockRealTime \<noteq> ''master''" "clockRealTime \<noteq> ''''" by (simp_all add: clockRealTime_def)
  then have i: "i \<noteq> ''''" and who: "who = clockRealTime \<or> who = ''master''"
    "(if who = ''master'' then pi_alias (masterOffsetIface_get m c) else who) = i"
    using assms(6) by auto
  have r: "extractRegularMetrics c process output ifaces m = (?r, m)"
    using assms(1-5) who
    by (auto simp: extractRegularMetrics_def regular_fields_def zero_regular_def clock_state_of_def Let_def)
  have gs: "ms_gauges (publish_regular node c process output ?r m) =
         set_offsets (offset_source output) process node i off freq delay (st = ''s2'' \<or> st = ''s3'') (ms_gauges m)"
    using i by (auto simp: publish_regular_def Let_def updateClockStateMetrics_def updatePTPMetrics_def set_offsets_def)
  have src: "map_of (ms_source (publish_regular node c process output ?r m)) c =
         (if offset_source output = ''master'' then Some process else map_of (ms_source m) c)"
    using i by (simp add: publish_regular_def Let_def updateClockStateMetrics_def updatePTPMetrics_def
        masterOffsetSource_set_def update_conv')
  show ?thesis using r gs src by (intro exI [of _ ?r]) simp
qed

definition demo_metrics :: metrics_state where
  "demo_metrics = \<lparr>ms_iface = [(''ptp4l.0.config'', \<lparr>pi_name = ''ens1f0'', pi_alias = ''ens1fx''\<rparr>)],
     ms_slave = [(''ptp4l.0.config'', ''ens1f0'')], ms_source = [], ms_gauges = Map.empty\<rparr>"

definition demo_line :: string where
  "demo_line = ''ptp4l[7.1]: [ptp4l.0.config] master offset -1 s2 freq -39 path delay  89''"

theorem regular_line_published_witness:
  "\<exists>r. extractRegularMetrics ''ptp4l.0.config'' ''ptp4l'' demo_line [] demo_metrics = (r, demo_metrics)
     \<and> rm_iface r = ''ens1fx'' \<and> rm_offset r = Fin (- 1) \<and> rm_state r = ''LOCKED''"
proof -
  have t: "regular_tokens ''ptp4l.0.config'' demo_line = Some
     (''ptp4l.0.config  master offset -1 s2 freq -39  delay  89'',
      [''ptp4l.0.config'', ''master'', ''offset'', ''-1'', ''s2'', ''freq'', ''-39'', ''delay'', ''89''])"
    by (simp add: regular_tokens_def demo_line_def Contains_def replace_first_def HasPrefix_def Fields_def is_space_def)
  have f: "ParseFloat ''-1'' = (Fin (- 1), None)" "ParseFloat ''-39'' = (Fin (- 39), None)" "ParseFloat ''89'' = (Fin 89, None)"
    by code_simp+
  show ?thesis
    using regular_line_published [OF t f, of "''ptp4l''" "''ens1fx''" demo_metrics "[]"]
    by (simp add: ts2phcProcessName_def masterOffsetIface_get_def demo_metrics_def clockRealTime_def) blast
qed

section \<open>The event of a ts2phc line\<close>

text \<open>
  C30. The event of a ts2phc line of linuxptp 4.2: if the fields are the configuration, a PHC device, \<open>offset\<close>,
  the offset, the servo state, \<open>freq\<close> and the frequency, and the device is that of an interface with a name, then
  the line offers the handler one event for that interface: with the state HOLDOVER if the line says
  holdover, LOCKED for s2 and s3, and FREERUN otherwise, the offset truncated to whole nanoseconds, and the
  NMEA status 1 exactly if the interface is the GNSS source; the interface becomes the master interface.
\<close>

theorem ts2phc_line_event:
  assumes "lp_name p = ts2phcProcessName" and "out = removeMessageSuffix line" and "c = config_of_tag (lp_messageTag p)"
    and "\<not> Contains out '' max ''" and "Contains out '' offset ''"
    and "regular_tokens c out = Some (rest, c' # dev # ''offset'' # so # st # w # sf # tail_fs)"
    and "ParseFloat so = (off, None)" and "ParseFloat sf = (freq, None)"
    and "name = GetPhcID2IFace (lp_ifaces p) dev" and "name \<noteq> ''''" and "mask_iface name \<noteq> clockRealTime"
  shows "\<exists>ev m'. processPTPMetrics node now line p m = Inr (Some ev, m')
     \<and> ec_ProcessName ev = TS2PHC \<and> ec_IFace ev = name
     \<and> ec_State ev = (if Contains rest ''holdover'' then PTP_HOLDOVER
                        else if st = ''s2'' \<or> st = ''s3'' then PTP_LOCKED else PTP_FREERUN)
     \<and> map_of (ec_Values ev) OFFSET = Some (VInt64 (f64_to_i64 off))
     \<and> map_of (ec_Values ev) NMEA_STATUS = (if GetEventSource (lp_ifaces p) name = GNSS then Some (VInt64 1) else None)
     \<and> masterOffsetIface_get m' c = \<lparr>pi_name = name, pi_alias = mask_iface name\<rparr>"
proof -
  define m1 where "m1 = slaveIface_set c name (masterOffsetIface_set c name m)"
  define r where "r = \<lparr>rm_err = None, rm_iface = mask_iface name, rm_state = clock_state_of ts2phcProcessName rest st,
      rm_offset = off, rm_max = off, rm_freq = freq, rm_delay = Fin 0\<rparr>"
  have al: "mask_iface name \<noteq> ''''" using assms(10) by (simp add: mask_iface_def)
  have ex: "extractRegularMetrics c ts2phcProcessName out (lp_ifaces p) m = (r, m1)"
    using assms(6-9)
    by (simp add: extractRegularMetrics_def ts2phc_fields_def regular_fields_def zero_regular_def r_def m1_def
        clockRealTime_def Let_def)
  define m2 where "m2 = publish_regular node c ts2phcProcessName out r m1"
  have get: "masterOffsetIface_get m2 c = \<lparr>pi_name = name, pi_alias = mask_iface name\<rparr>"
    by (auto simp: m2_def m1_def r_def publish_regular_def Let_def updateClockStateMetrics_def updatePTPMetrics_def
        masterOffsetIface_get_def masterOffsetIface_set_def update_conv')
  then have by_alias: "getByAlias m2 c (mask_iface name) = \<lparr>pi_name = name, pi_alias = mask_iface name\<rparr>"
    using assms(10) by (auto simp: masterOffsetIface_get_def getByAlias_def no_iface_def split: option.splits)
  have "ts2phcProcessName \<noteq> ptp4lProcessName" by (simp add: ts2phcProcessName_def ptp4lProcessName_def)
  then have "extractMetrics node (lp_messageTag p) (lp_name p) (lp_ifaces p) line m =
      Inr (\<lparr>ex_config = c, ex_source = ts2phcProcessName, ex_offset = off, ex_state = rm_state r, ex_iface = mask_iface name\<rparr>, m2)"
    using assms(1-5) ex by (simp add: extractMetrics_def Let_def m2_def r_def)
  moreover have "state_of_name (rm_state r) = (if Contains rest ''holdover'' then PTP_HOLDOVER
       else if st = ''s2'' \<or> st = ''s3'' then PTP_LOCKED else PTP_FREERUN)"
    by (simp add: r_def clock_state_of_def state_of_name_def)
  ultimately show ?thesis
    using assms(1,11) al get by_alias
    by (simp add: processPTPMetrics_def ProcessTs2PhcEvents_def threshold_state_id Let_def)
qed

definition demo_ts2phc_proc :: log_process where
  "demo_ts2phc_proc = \<lparr>lp_name = ''ts2phc'', lp_messageTag = ''[ts2phc.0.config]'',
     lp_ifaces = [\<lparr>if_Name = ''ens2f0'', if_IsMaster = False, if_Source = GNSS, if_PhcId = ''/dev/ptp6''\<rparr>],
     lp_clockType = GM, lp_threshold = getPTPThreshold None, lp_configName = ''ts2phc.0.config''\<rparr>"

definition demo_ts2phc_line :: string where
  "demo_ts2phc_line = ''ts2phc[1.3]: [ts2phc.0.config] /dev/ptp6 offset -15 s3 freq -2 holdover''"

theorem ts2phc_line_event_witness:
  "\<exists>ev m'. processPTPMetrics ''node'' 1 demo_ts2phc_line demo_ts2phc_proc demo_metrics = Inr (Some ev, m')
     \<and> ec_IFace ev = ''ens2f0'' \<and> ec_State ev = PTP_HOLDOVER \<and> map_of (ec_Values ev) OFFSET = Some (VInt64 (- 15))
     \<and> map_of (ec_Values ev) NMEA_STATUS = Some (VInt64 1)"
proof -
  have out: "demo_ts2phc_line = removeMessageSuffix demo_ts2phc_line"
    by (simp add: demo_ts2phc_line_def removeMessageSuffix_def HasPrefix_def messageTagSuffixRegEx_def re_plus_def
        re_lit_def is_alnum_def is_wordchar_def tag_suffix_def)
  have c: "''ts2phc.0.config'' = config_of_tag (lp_messageTag demo_ts2phc_proc)"
    by (simp add: demo_ts2phc_proc_def config_of_tag_def replace_first_def HasPrefix_def Split_def)
  have mx: "\<not> Contains demo_ts2phc_line '' max ''" and off: "Contains demo_ts2phc_line '' offset ''"
    by (simp_all add: demo_ts2phc_line_def Contains_def HasPrefix_def)
  have t: "regular_tokens ''ts2phc.0.config'' demo_ts2phc_line = Some
     (''ts2phc.0.config  /dev/ptp6 offset -15 s3 freq -2 holdover'',
      [''ts2phc.0.config'', ''/dev/ptp6'', ''offset'', ''-15'', ''s3'', ''freq'', ''-2'', ''holdover''])"
    by (simp add: regular_tokens_def demo_ts2phc_line_def Contains_def replace_first_def HasPrefix_def Fields_def is_space_def)
  have f: "ParseFloat ''-15'' = (Fin (- 15), None)" "ParseFloat ''-2'' = (Fin (- 2), None)"
    by code_simp+
  have n: "''ens2f0'' = GetPhcID2IFace (lp_ifaces demo_ts2phc_proc) ''/dev/ptp6''"
    by (simp add: demo_ts2phc_proc_def GetPhcID2IFace_def)
  have h: "Contains ''ts2phc.0.config  /dev/ptp6 offset -15 s3 freq -2 holdover'' ''holdover''"
    by (simp add: Contains_def HasPrefix_def)
  show ?thesis
    using ts2phc_line_event [OF _ out c mx off t f n, of "''node''" 1 demo_metrics] h
    by (simp add: demo_ts2phc_proc_def ts2phcProcessName_def mask_iface_def clockRealTime_def GetEventSource_def) blast
qed

section \<open>The fault of the slave port\<close>

text \<open>
  A fault of the slave port is published once: if the port is the slave of the configuration and ptp4l is the
  source of its offsets, a fault sets the offset and the maximal offset of the master interface and of the
  system clock to 999999, their frequency and delay to 0 and the clock state of the master interface to 0, and
  forgets the master and slave interface; the next fault of the port then changes nothing.
\<close>

theorem slave_fault_published_once:
  assumes "isFaulty m c name" and "name \<noteq> ''''" and "masterOffsetSource_get m c = ptp4lProcessName"
    and "a = pi_alias (masterOffsetIface_get m c)" and "a \<noteq> clockRealTime"
  shows "ms_gauges (faulty_port node c ptp4lProcessName name m) =
       (set_offsets ''phc'' phc2sysProcessName node clockRealTime (f64_of_int 999999) (Fin 0) (Fin 0) False
         (set_offsets ''master'' ptp4lProcessName node a (f64_of_int 999999) (Fin 0) (Fin 0) False (ms_gauges m)))
       (GSync (ClockState phc2sysProcessName node clockRealTime) :=
          ms_gauges m (GSync (ClockState phc2sysProcessName node clockRealTime)))
     \<and> masterOffsetIface_get (faulty_port node c ptp4lProcessName name m) c = no_iface
     \<and> \<not> isFaulty (faulty_port node c ptp4lProcessName name m) c name
     \<and> faulty_port node c ptp4lProcessName name (faulty_port node c ptp4lProcessName name m)
         = faulty_port node c ptp4lProcessName name m"
proof -
  let ?m = "faulty_port node c ptp4lProcessName name m"
  have ne: "phc2sysProcessName \<noteq> ptp4lProcessName" by (simp add: phc2sysProcessName_def ptp4lProcessName_def)
  have nf: "\<not> isFaulty ?m c name"
    using assms(1-3) by (simp add: faulty_port_def isFaulty_def slaveIface_set_def update_conv' Let_def)
  then have "faulty_port node c ptp4lProcessName name ?m = ?m" by (subst faulty_port_def) simp
  moreover have "masterOffsetIface_get ?m c = no_iface"
    using assms(1,3) by (simp add: faulty_port_def Let_def no_iface_def mask_iface_def)
  moreover have "ms_gauges ?m =
       (set_offsets ''phc'' phc2sysProcessName node clockRealTime (f64_of_int 999999) (Fin 0) (Fin 0) False
         (set_offsets ''master'' ptp4lProcessName node a (f64_of_int 999999) (Fin 0) (Fin 0) False (ms_gauges m)))
       (GSync (ClockState phc2sysProcessName node clockRealTime) :=
          ms_gauges m (GSync (ClockState phc2sysProcessName node clockRealTime)))"
    using assms ne
    by (auto simp: faulty_port_def Let_def updateClockStateMetrics_def updatePTPMetrics_def set_offsets_def fun_eq_iff)
  ultimately show ?thesis using nf by blast
qed

theorem slave_fault_published_once_witness:
  "\<not> isFaulty (faulty_port ''node'' ''ptp4l.0.config'' ptp4lProcessName ''ens1f0'' demo_metrics) ''ptp4l.0.config'' ''ens1f0''"
proof -
  have "isFaulty demo_metrics ''ptp4l.0.config'' ''ens1f0''" "(''ens1f0'' :: string) \<noteq> ''''"
    "masterOffsetSource_get demo_metrics ''ptp4l.0.config'' = ptp4lProcessName"
    "''ens1fx'' = pi_alias (masterOffsetIface_get demo_metrics ''ptp4l.0.config'')" "''ens1fx'' \<noteq> clockRealTime"
    by (simp_all add: demo_metrics_def isFaulty_def masterOffsetSource_get_def masterOffsetIface_get_def clockRealTime_def)
  from slave_fault_published_once [OF this] show ?thesis by blast
qed

end
