(* ===== verification/Daemon_Process.thy ===== *)
theory Daemon_Process
  imports Metrics Dpll
begin

text \<open>
  The processes of the daemon, \<open>pkg/daemon/daemon.go\<close>: what it keeps of a process, the parts of a profile
  that decide how a process runs (log filter, scheduling, HA profiles, phase offset filters), the status and
  clock-class lines, the fail-over of phc2sys between the HA profiles, and what is done with a line of the output
  of a process.

  The profile is \<open>ptpv1.PtpProfile\<close>; a Go map is an association list whose order is one order of \<open>range\<close>.

  Shown: the fail-over gauges do not depend on the order of the HA profiles, and at most one profile is ever
  active; a clock class read from pmc is reported when it changes.
\<close>

section \<open>Profiles and processes\<close>

record PtpProfile =
  pp_Name :: "string option"
  pp_Interface :: "string option"
  pp_Ptp4lOpts :: "string option"
  pp_Phc2sysOpts :: "string option"
  pp_Ts2PhcOpts :: "string option"
  pp_Synce4lOpts :: "string option"
  pp_Ptp4lConf :: "string option"
  pp_Phc2sysConf :: "string option"
  pp_Ts2PhcConf :: "string option"
  pp_Synce4lConf :: "string option"
  pp_SchedulingPolicy :: "string option"
  pp_SchedulingPriority :: "int option"
  pp_ClockThreshold :: "PtpClockThreshold option"
  pp_PtpSettings :: "(string \<times> string) list"

text \<open>A process that is started and stopped with another: gpsd, gpspipe or a DPLL.\<close>

datatype dep_process =
    GpsdDep string string "string list"
  | GpspipeDep "string list"
  | DpllDep DpllConfig

text \<open>
  \<open>ptpProcess\<close>: the fields that log lines need are those of \<^typ>\<open>log_process\<close>. Of \<open>nodeProfile\<close> the daemon
  reads the name back; \<open>pr_args\<close> are the arguments of \<open>cmd\<close>.
\<close>

record ptpProcess = log_process +
  pr_socketPath :: string
  pr_configPath :: string
  pr_stopped :: bool
  pr_logFilterRegex :: string
  pr_args :: "string list"
  pr_depProcess :: "dep_process list"
  pr_profileName :: "string option"
  pr_parentClockClass :: f64
  pr_pmcCheck :: bool
  pr_haProfile :: "(string \<times> string list) list"
  pr_relations :: "Relations option"

definition getLogFilterRegex :: "PtpProfile \<Rightarrow> string" where
  "getLogFilterRegex nodeProfile =
     (let r = (case map_of (pp_PtpSettings nodeProfile) ''stdoutFilter'' of Some flt \<Rightarrow> flt | None \<Rightarrow> ''^$'') in
      case map_of (pp_PtpSettings nodeProfile) ''logReduce'' of
        Some logReduce \<Rightarrow> if ToLower logReduce = ''true'' then r @ ''|^.*master offset.*$'' else r
      | None \<Rightarrow> r)"

definition addScheduling :: "PtpProfile \<Rightarrow> string \<Rightarrow> string" where
  "addScheduling nodeProfile cmdLine =
     (if pp_SchedulingPolicy nodeProfile = Some ''SCHED_FIFO'' then
        (case pp_SchedulingPriority nodeProfile of
           None \<Rightarrow> cmdLine
         | Some priority \<Rightarrow>
             if priority < 1 \<or> priority > 65 then cmdLine
             else ''/bin/chrt -f '' @ fmt_int priority @ '' '' @ cmdLine)
      else cmdLine)"

definition listHaProfiles :: "PtpProfile \<Rightarrow> string list" where
  "listHaProfiles nodeProfile =
     (case map_of (pp_PtpSettings nodeProfile) ''haProfiles'' of
        Some profiles \<Rightarrow> map TrimSpace (Split profiles CHR '','')
      | None \<Rightarrow> [])"

text \<open>
  \<open>GetPhaseOffsetPinFilter\<close>: for each clock id the properties of its filter. A key without a dot makes the
  second index negative.
\<close>

definition filter_step :: "(string \<times> string) \<Rightarrow> (string \<times> (string \<times> string) list) list
    \<Rightarrow> (string \<times> (string \<times> string) list) list res" where
  "filter_step kv f =
     (if Contains (fst kv) ''phaseOffsetFilter'' then
        (let filterKey = Split (fst kv) CHR ''.''; n = length filterKey in
         if n < 2 then Inl IndexOutOfRange
         else
           (let property = filterKey ! (n - 1); clockIdStr = filterKey ! (n - 2);
                old = (case map_of f clockIdStr of Some m \<Rightarrow> m | None \<Rightarrow> [])
            in Inr (AList.update clockIdStr (AList.update property (snd kv) old) f)))
      else Inr f)"

fun filter_steps :: "(string \<times> string) list \<Rightarrow> (string \<times> (string \<times> string) list) list
    \<Rightarrow> (string \<times> (string \<times> string) list) list res" where
  "filter_steps [] f = Inr f"
| "filter_steps (kv # kvs) f = res_bind (filter_step kv f) (filter_steps kvs)"

definition GetPhaseOffsetPinFilter :: "PtpProfile \<Rightarrow> (string \<times> (string \<times> string) list) list res" where
  "GetPhaseOffsetPinFilter nodeProfile = filter_steps (pp_PtpSettings nodeProfile) []"

definition HandlePmcTicker :: "ptpProcess list \<Rightarrow> ptpProcess list" where
  "HandlePmcTicker ps = map (\<lambda>p. if lp_name p = ptp4lProcessName then p\<lparr>pr_pmcCheck := True\<rparr> else p) ps"

text \<open>\<open>ApplyHaProfiles\<close>: the first process of each listed profile gives its socket and its interfaces.\<close>

definition ha_profile_step :: "ptpProcess list \<Rightarrow> string \<Rightarrow> (string \<times> string list) list \<times> string list
    \<Rightarrow> (string \<times> string list) list \<times> string list" where
  "ha_profile_step ps profileName st =
     (case find (\<lambda>p. pr_profileName p = Some profileName) ps of
        None \<Rightarrow> st
      | Some p \<Rightarrow>
          (AList.update profileName (map if_Name (lp_ifaces p)) (fst st), snd st @ [''-z '' @ pr_socketPath p]))"

definition ApplyHaProfiles :: "ptpProcess list \<Rightarrow> PtpProfile \<Rightarrow> string \<Rightarrow> (string \<times> string list) list \<times> string" where
  "ApplyHaProfiles ps nodeProfile cmdLine =
     (let (haProfiles, paths) = fold (ha_profile_step ps) (listHaProfiles nodeProfile) ([], []) in
      (haProfiles, if 0 < length paths then cmdLine @ Join paths '' '' else cmdLine))"

section \<open>Status and clock class\<close>

text \<open>\<open>processStatus\<close>: the line; without a connection the gauge is set, with one the line is written to it.\<close>

definition status_line :: "int \<Rightarrow> string \<Rightarrow> string \<Rightarrow> int \<Rightarrow> string" where
  "status_line now processName messageTag status =
     processName @ ''['' @ fmt_int now @ '']:['' @ config_of_tag messageTag @ ''] PTP_PROCESS_STATUS:''
     @ fmt_int status @ ''\<newline>''"

definition processStatus :: "string \<Rightarrow> bool \<Rightarrow> int \<Rightarrow> string \<Rightarrow> string \<Rightarrow> int \<Rightarrow> metrics_state \<Rightarrow> string list \<times> metrics_state" where
  "processStatus node conn now processName messageTag status m =
     (if conn then ([status_line now processName messageTag status], m)
      else ([], UpdateProcessStatusMetrics node processName (config_of_tag messageTag) status m))"

text \<open>
  \<open>updateClockClass\<close>. The session with pmc is a parameter: \<open>None\<close> if it failed, else the groups of the
  match. The result: the process, the line printed, whether it was also written, and the metrics.
\<close>

definition clock_class_line :: "int \<Rightarrow> ptpProcess \<Rightarrow> f64 \<Rightarrow> string" where
  "clock_class_line now p clockClass =
     lp_name p @ ''['' @ fmt_int now @ '']:['' @ lp_configName p @ ''] CLOCK_CLASS_CHANGE '' @ fmt_f clockClass @ ''\<newline>''"

fun f64_eq :: "f64 \<Rightarrow> f64 \<Rightarrow> bool" where
  "f64_eq NaN _ = False"
| "f64_eq _ NaN = False"
| "f64_eq x y = (x = y)"

definition updateClockClass :: "string \<Rightarrow> bool \<Rightarrow> int \<Rightarrow> string list option \<Rightarrow> ptpProcess \<Rightarrow> metrics_state
    \<Rightarrow> ptpProcess \<times> string list \<times> string list \<times> metrics_state" where
  "updateClockClass node conn now pmc p m =
     (case pmc of
        None \<Rightarrow> (p, [], [], m)
      | Some matches \<Rightarrow>
          if 1 < length matches then
            (case ParseFloat (matches ! 1) of
               (_, Some _) \<Rightarrow> (p, [], [], m)
             | (clockClass, None) \<Rightarrow>
                 if f64_eq clockClass (pr_parentClockClass p) then (p, [], [], m)
                 else
                   (let line = clock_class_line now p clockClass in
                    (p\<lparr>pr_parentClockClass := clockClass\<rparr>, [line], if conn then [line] else [],
                     if conn then m else UpdateClockClassMetrics node clockClass m)))
          else (p, [], [], m))"

section \<open>HA fail-over\<close>

definition failOverIndicator :: "string \<Rightarrow> nat \<Rightarrow> int \<times> int" where
  "failOverIndicator output n_profiles =
     (if Contains output ''as domain source clock'' then (if n_profiles = 1 then (1, 1) else (1, 0))
      else if Contains output ''as out-of-domain source'' then (0, 1)
      else (0, 0))"

definition is_iface_char :: "char \<Rightarrow> bool" where
  "is_iface_char c = (is_wordchar c \<or> c = CHR ''-'')"

definition selecting :: "string \<Rightarrow> string \<Rightarrow> (string \<times> string) option" where
  "selecting after s =
     Option.bind (re_lit ''selecting '' s) (\<lambda>t. Option.bind (re_plus is_iface_char t) (\<lambda>(w, t).
       map_option (\<lambda>r. (w, r)) (re_lit after t)))"

definition haInDomainRegEx :: "string \<Rightarrow> (string \<times> string) option" where
  "haInDomainRegEx = selecting '' as domain source clock''"

definition haOutDomainRegEx :: "string \<Rightarrow> (string \<times> string) option" where
  "haOutDomainRegEx = selecting '' as out-of-domain source clock''"

text \<open>The interface of a fail-over line, with its domain and active states.\<close>

definition failover_iface :: "string \<Rightarrow> nat \<Rightarrow> (string \<times> int) option" where
  "failover_iface output n_profiles =
     (case failOverIndicator output n_profiles of
        (domainState, activeState) \<Rightarrow>
          (case (if domainState = 1 then FindAll haInDomainRegEx output
                 else if domainState = 0 \<and> activeState = 1 then FindAll haOutDomainRegEx output else []) of
             [] \<Rightarrow> None
           | activeIFace # _ \<Rightarrow> Some (activeIFace, activeState)))"

text \<open>The loop over the map of HA profiles: \<open>currentProfile\<close> and \<open>inActiveProfiles\<close>.\<close>

definition ha_step :: "string \<Rightarrow> int \<Rightarrow> string \<times> string list \<Rightarrow> string \<times> string list \<Rightarrow> string \<times> string list" where
  "ha_step activeIFace activeState pf st =
     (let (profile, ifaces) = pf; (current, inactive) = st;
          current' = (if activeIFace \<in> set ifaces then profile else current)
      in (current', if current' \<noteq> profile \<and> activeState = 1 then inactive @ [profile] else inactive))"

definition ha_line :: "int \<Rightarrow> ptpProcess \<Rightarrow> string \<Rightarrow> int \<Rightarrow> string" where
  "ha_line now p profile state =
     lp_name p @ ''['' @ fmt_int now @ '']:['' @ lp_configName p @ ''] ptp_ha_profile '' @ profile @ '' state ''
     @ fmt_int state @ ''\<newline>''"

definition announceHAFailOver :: "string \<Rightarrow> bool \<Rightarrow> int \<Rightarrow> ptpProcess \<Rightarrow> string \<Rightarrow> metrics_state \<Rightarrow> string list \<times> metrics_state" where
  "announceHAFailOver node conn now p output m =
     (case failover_iface output (length (pr_haProfile p)) of
        None \<Rightarrow> ([], m)
      | Some (activeIFace, activeState) \<Rightarrow>
          (let (current, inactive) = fold (ha_step activeIFace activeState) (pr_haProfile p) ('''', []) in
           (ha_line now p current activeState # map (\<lambda>i. ha_line now p i 0) inactive,
            if conn then m else UpdatePTPHAMetrics node current inactive activeState m)))"

section \<open>A line of output\<close>

text \<open>
  What \<open>cmdRun\<close> does with a line of a process other than synce4l: what it prints and writes to the event
  socket, the event it offers, how many clock-class queries it starts, and its process and metrics afterwards.
  \<open>keep\<close> says that the line does not match the log filter, or that the filter did not compile.
\<close>

record line_result =
  lr_printed :: "string list"
  lr_written :: "string list"
  lr_event :: "EventChannel option"
  lr_queries :: nat
  lr_process :: ptpProcess
  lr_metrics :: metrics_state

definition after_metrics :: "string \<Rightarrow> bool \<Rightarrow> int \<Rightarrow> ptpProcess \<Rightarrow> string \<Rightarrow> metrics_state \<Rightarrow> nat \<times> string list \<times> metrics_state" where
  "after_metrics node conn now p output m =
     (if lp_name p = ptp4lProcessName
      then (if Contains output ''selected best master clock'' then 1 else 0, [], m)
      else if lp_name p = phc2sysProcessName \<and> 0 < length (pr_haProfile p)
      then (0, announceHAFailOver node conn now p output m)
      else (0, [], m))"

definition stdout_line :: "string \<Rightarrow> int \<Rightarrow> bool \<Rightarrow> string \<Rightarrow> ptpProcess \<Rightarrow> metrics_state \<Rightarrow> line_result res" where
  "stdout_line node now keep output p m =
     res_bind (processPTPMetrics node now output (log_process.truncate p) m)
       (\<lambda>(ev, m1).
          let (q, ls, m2) = after_metrics node False now p output m1 in
          Inr \<lparr>lr_printed = (if keep then [output @ ''\<newline>''] else []) @ ls, lr_written = [], lr_event = ev,
               lr_queries = q, lr_process = p, lr_metrics = m2\<rparr>)"

definition socket_line :: "string \<Rightarrow> int \<Rightarrow> bool \<Rightarrow> string \<Rightarrow> ptpProcess \<Rightarrow> metrics_state \<Rightarrow> line_result res" where
  "socket_line node now keep line p m =
     (let q0 = (if pr_pmcCheck p then 1 else 0); p1 = p\<lparr>pr_pmcCheck := False\<rparr>;
          output = replaceClockID (lp_name p) (lp_ifaces p) line @ ''\<newline>''
      in res_bind (processPTPMetrics node now output (log_process.truncate p1) m)
        (\<lambda>(ev, m1).
           let (q, ls, m2) = after_metrics node True now p1 output m1 in
           Inr \<lparr>lr_printed = (if keep then [line @ ''\<newline>''] else []),
                lr_written = ls @ [removeMessageSuffix output], lr_event = ev,
                lr_queries = q0 + q, lr_process = p1, lr_metrics = m2\<rparr>))"

section \<open>The fail-over gauges\<close>

definition ha_gauge :: "string \<Rightarrow> string \<Rightarrow> metrics_state \<Rightarrow> f64 option" where
  "ha_gauge node q m = ms_gauges m (GPTPHA phc2sysProcessName node q)"

definition ha_owner :: "(string \<times> string list) list \<Rightarrow> string \<Rightarrow> string \<Rightarrow> bool" where
  "ha_owner hp i q \<longleftrightarrow> (\<exists>ifs. (q, ifs) \<in> set hp \<and> i \<in> set ifs)"

text \<open>The profiles have different names, none empty, and share no interface.\<close>

definition ha_disjoint :: "(string \<times> string list) list \<Rightarrow> bool" where
  "ha_disjoint hp \<longleftrightarrow> distinct (map fst hp) \<and> '''' \<notin> fst ` set hp
     \<and> (\<forall>i q q'. ha_owner hp i q \<longrightarrow> ha_owner hp i q' \<longrightarrow> q = q')"

lemma ha_fold_none:
  "(\<forall>(q, ifs) \<in> set hp. i \<notin> set ifs \<and> q \<noteq> c) \<Longrightarrow>
     fold (ha_step i a) hp (c, ina) = (c, if a = 1 then ina @ map fst hp else ina)"
  by (induction hp arbitrary: ina) (auto simp: ha_step_def)

lemma ha_fold_owner:
  assumes "ha_disjoint hp" and "ha_owner hp i q"
  obtains ina where "fold (ha_step i a) hp ('''', []) = (q, ina)"
    and "set ina = (if a = 1 then fst ` set hp - {q} else {})"
proof -
  obtain ifs where q: "(q, ifs) \<in> set hp" "i \<in> set ifs" using assms(2) by (auto simp: ha_owner_def)
  then obtain xs ys where hp: "hp = xs @ (q, ifs) # ys" by (meson split_list)
  have dist: "distinct (map fst hp)" "'''' \<notin> fst ` set hp" and uniq: "\<And>r. ha_owner hp i r \<Longrightarrow> r = q"
    using assms by (simp_all add: ha_disjoint_def)
  have other: "i \<notin> set jfs \<and> r \<noteq> q \<and> r \<noteq> ''''" if rj: "(r, jfs) \<in> set xs \<union> set ys" for r jfs
  proof -
    have r: "r \<in> fst ` (set xs \<union> set ys)" using rj by (rule image_eqI [rotated]) simp
    moreover have "q \<notin> fst ` (set xs \<union> set ys)" using dist(1) by (simp add: hp image_Un)
    ultimately have "r \<noteq> q" by metis
    moreover have "r \<noteq> ''''" using r dist(2) by (auto simp: hp image_Un)
    moreover have "i \<in> set jfs \<Longrightarrow> ha_owner hp i r" using rj by (auto simp: ha_owner_def hp)
    ultimately show ?thesis using uniq by blast
  qed
  have "fold (ha_step i a) xs ('''', []) = ('''', if a = 1 then map fst xs else [])"
    using other by (subst ha_fold_none) auto
  moreover have "fold (ha_step i a) ys (q, ina) = (q, if a = 1 then ina @ map fst ys else ina)" for ina
    using other by (subst ha_fold_none) auto
  ultimately have "fold (ha_step i a) hp ('''', []) = (q, if a = 1 then map fst xs @ map fst ys else [])"
    using q by (simp add: hp ha_step_def)
  moreover have "set (map fst xs @ map fst ys) = fst ` set hp - {q}" using dist(1) by (auto simp: hp)
  ultimately show ?thesis by (cases "a = 1") (auto intro: that)
qed

lemma ha_fold_no_owner:
  assumes "ha_disjoint hp" and "\<forall>q. \<not> ha_owner hp i q"
  shows "fold (ha_step i a) hp ('''', []) = ('''', if a = 1 then map fst hp else [])"
proof -
  have "r \<noteq> ''''" if "(r, ifs) \<in> set hp" for r ifs
    using assms(1) that by (metis ha_disjoint_def fst_conv image_eqI)
  with assms(2) show ?thesis by (subst ha_fold_none) (auto simp: ha_owner_def)
qed

lemma ha_gauge_fold:
  "ha_gauge node q (fold (\<lambda>p. set_gauge (GPTPHA phc2sysProcessName node p) (Fin 0)) ps m) =
     (if q \<in> set ps then Some (Fin 0) else ha_gauge node q m)"
  by (induction ps arbitrary: m) (auto simp: ha_gauge_def set_gauge_def)

lemma ha_gauge_update:
  "ha_gauge node q (UpdatePTPHAMetrics node c ina a m) =
     (if q \<in> set ina then Some (Fin 0) else if q = c then Some (f64_of_int a) else ha_gauge node q m)"
  by (simp add: UpdatePTPHAMetrics_def ha_gauge_fold) (simp add: ha_gauge_def set_gauge_def)

lemma f64_of_int_01 [simp]: "f64_of_int 0 = Fin 0" "f64_of_int 1 = Fin 1"
  by code_simp+

definition ha_active :: "string \<Rightarrow> metrics_state \<Rightarrow> string \<Rightarrow> bool" where
  "ha_active node m q \<longleftrightarrow> ha_gauge node q m = Some (Fin 1)"

definition at_most_one_active :: "string \<Rightarrow> (string \<times> string list) list \<Rightarrow> metrics_state \<Rightarrow> bool" where
  "at_most_one_active node hp m \<longleftrightarrow>
     (\<forall>q \<in> fst ` set hp. \<forall>r \<in> fst ` set hp. ha_active node m q \<longrightarrow> ha_active node m r \<longrightarrow> q = r)"

text \<open>
  A line that makes an interface active makes its profile the active one and all others inactive, in whatever
  order the map of profiles is visited: the gauge of the profile that owns the interface is 1, that of
  every other profile 0, and the lines written say the same of the same profiles.
\<close>

theorem ha_failover:
  assumes "ha_disjoint (pr_haProfile p)" and "failover_iface output (length (pr_haProfile p)) = Some (i, 1)"
    and "ha_owner (pr_haProfile p) i q"
  shows "(\<forall>r \<in> fst ` set (pr_haProfile p).
            ha_gauge node r (snd (announceHAFailOver node False now p output m)) = Some (if r = q then Fin 1 else Fin 0))
       \<and> set (fst (announceHAFailOver node conn now p output m)) =
           (\<lambda>r. ha_line now p r (if r = q then 1 else 0)) ` fst ` set (pr_haProfile p)"
proof -
  obtain ina where f: "fold (ha_step i 1) (pr_haProfile p) ('''', []) = (q, ina)"
    and ina: "set ina = fst ` set (pr_haProfile p) - {q}"
    using ha_fold_owner [OF assms(1,3), of 1] by auto
  have q: "q \<in> fst ` set (pr_haProfile p)" using assms(3) by (force simp: ha_owner_def)
  then have "insert q (set ina) = fst ` set (pr_haProfile p)" and "q \<notin> set ina" using ina by auto
  let ?f = "\<lambda>r. ha_line now p r (if r = q then 1 else 0)"
  have "map (\<lambda>r. ha_line now p r 0) ina = map ?f ina" using \<open>q \<notin> set ina\<close> by (intro map_cong) auto
  then have "set (ha_line now p q 1 # map (\<lambda>r. ha_line now p r 0) ina) = ?f ` insert q (set ina)"
    by (simp only: list.set set_map image_insert) simp
  then have "set (ha_line now p q 1 # map (\<lambda>r. ha_line now p r 0) ina) = ?f ` fst ` set (pr_haProfile p)"
    by (simp only: \<open>insert q (set ina) = _\<close>)
  then show ?thesis
    using ina by (auto simp: announceHAFailOver_def assms(2) f ha_gauge_update)
qed

lemma announce_cases:
  assumes "ha_disjoint (pr_haProfile p)"
  obtains "snd (announceHAFailOver node False now p output m) = m"
  | c ina a where "snd (announceHAFailOver node False now p output m) = UpdatePTPHAMetrics node c ina a m"
      and "a = 0 \<or> length (pr_haProfile p) = 1 \<or> fst ` set (pr_haProfile p) - {c} \<subseteq> set ina" and "c \<notin> set ina"
proof (cases "failover_iface output (length (pr_haProfile p))")
  case None
  then show ?thesis by (intro that(1)) (simp add: announceHAFailOver_def)
next
  case (Some ia)
  obtain i a where ia: "ia = (i, a)" by (cases ia)
  have a: "a = 0 \<or> a = 1"
    using Some ia by (auto simp: failover_iface_def failOverIndicator_def split: if_splits list.splits)
  show ?thesis
  proof (cases "\<exists>q. ha_owner (pr_haProfile p) i q")
    case True
    then obtain q where "ha_owner (pr_haProfile p) i q" ..
    from ha_fold_owner [OF assms this, of a] obtain ina where
      f: "fold (ha_step i a) (pr_haProfile p) ('''', []) = (q, ina)"
      and "set ina = (if a = 1 then fst ` set (pr_haProfile p) - {q} else {})" by blast
    with a show ?thesis by (intro that(2) [of q ina a]) (auto simp: announceHAFailOver_def Some ia)
  next
    case False
    with ha_fold_no_owner [OF assms, of i a] a assms show ?thesis
      by (intro that(2) [of "''''" "if a = 1 then map fst (pr_haProfile p) else []" a])
        (auto simp: announceHAFailOver_def Some ia ha_disjoint_def)
  qed
qed

definition ha_run :: "string \<Rightarrow> ptpProcess \<Rightarrow> (int \<times> string) list \<Rightarrow> metrics_state \<Rightarrow> metrics_state" where
  "ha_run node p ls m = fold (\<lambda>(now, output) m. snd (announceHAFailOver node False now p output m)) ls m"

text \<open>
  C29. At most one HA profile is ever reported active: if it is so before, it is so after any sequence of lines
  of phc2sys, whatever they say, provided the profiles share no interface.
\<close>

theorem ha_at_most_one_active:
  assumes "ha_disjoint (pr_haProfile p)" and "at_most_one_active node (pr_haProfile p) m"
  shows "at_most_one_active node (pr_haProfile p) (ha_run node p ls m)"
  using assms(2)
proof (induction ls arbitrary: m)
  case Nil
  then show ?case by (simp add: ha_run_def)
next
  case (Cons l ls)
  obtain now out where l: "l = (now, out)" by (cases l)
  have "at_most_one_active node (pr_haProfile p) (snd (announceHAFailOver node False now p out m))"
  proof (rule announce_cases [OF assms(1), of node now out m])
    fix c ina a
    assume u: "snd (announceHAFailOver node False now p out m) = UpdatePTPHAMetrics node c ina a m"
      and a: "a = 0 \<or> length (pr_haProfile p) = 1 \<or> fst ` set (pr_haProfile p) - {c} \<subseteq> set ina"
    show ?thesis
    proof (cases "length (pr_haProfile p) = 1")
      case True
      then obtain x where "pr_haProfile p = [x]" by (auto simp: length_Suc_conv)
      then show ?thesis by (simp add: at_most_one_active_def)
    next
      case False
      with a Cons.prems u show ?thesis
        by (fastforce simp: at_most_one_active_def ha_active_def ha_gauge_update split: if_splits)
    qed
  qed (use Cons.prems in simp)
  from Cons.IH [OF this] show ?case by (simp add: ha_run_def l)
qed

definition demo_ha :: ptpProcess where
  "demo_ha = \<lparr>lp_name = ''phc2sys'', lp_messageTag = ''[phc2sys.2.config:{level}]'', lp_ifaces = [], lp_clockType = GM,
     lp_threshold = getPTPThreshold None, lp_configName = ''phc2sys.2.config'', pr_socketPath = '''', pr_configPath = '''',
     pr_stopped = False, pr_logFilterRegex = ''^$'', pr_args = [], pr_depProcess = [], pr_profileName = Some ''ha'',
     pr_parentClockClass = Fin 0, pr_pmcCheck = False,
     pr_haProfile = [(''bc1'', [''ens1f0'', ''ens1f1'']), (''bc2'', [''ens2f0''])], pr_relations = None\<rparr>"

lemma demo_ha_disjoint: "ha_disjoint (pr_haProfile demo_ha)"
  by (auto simp: demo_ha_def ha_disjoint_def ha_owner_def)

definition demo_failover :: string where
  "demo_failover = ''phc2sys[7.1]: [phc2sys.2.config] selecting ens2f0 as out-of-domain source clock''"

theorem ha_failover_witness:
  "ha_gauge ''node'' ''bc1'' (snd (announceHAFailOver ''node'' False 7 demo_ha demo_failover demo_metrics)) = Some (Fin 0)
   \<and> ha_gauge ''node'' ''bc2'' (snd (announceHAFailOver ''node'' False 7 demo_ha demo_failover demo_metrics)) = Some (Fin 1)"
proof -
  have "failover_iface demo_failover (length (pr_haProfile demo_ha)) = Some (''ens2f0'', 1)"
    by (simp add: demo_failover_def demo_ha_def failover_iface_def failOverIndicator_def Contains_def HasPrefix_def
        haOutDomainRegEx_def haInDomainRegEx_def selecting_def re_lit_def re_plus_def is_iface_char_def is_wordchar_def)
  moreover have "ha_owner (pr_haProfile demo_ha) ''ens2f0'' ''bc2''" by (simp add: ha_owner_def demo_ha_def)
  ultimately show ?thesis
    using ha_failover [OF demo_ha_disjoint, of demo_failover "''ens2f0''" "''bc2''" "''node''" 7 demo_metrics]
    by (simp add: demo_ha_def)
qed

theorem ha_at_most_one_active_witness:
  "at_most_one_active ''node'' (pr_haProfile demo_ha) (ha_run ''node'' demo_ha [(7, demo_failover), (8, demo_line)] demo_metrics)"
  by (rule ha_at_most_one_active [OF demo_ha_disjoint])
    (simp add: at_most_one_active_def ha_active_def ha_gauge_def demo_metrics_def)

section \<open>The clock class read from pmc\<close>

text \<open>
  A clock class is reported when it changes: an answer that parses to another number than the one kept gives
  one line, the gauge (or the line on the socket) and is kept; the same answer again gives nothing.
\<close>

theorem pmc_class_reported_on_change:
  assumes "matches = [g, s]" and "ParseFloat s = (Fin x, None)" and "pr_parentClockClass p \<noteq> Fin x"
  shows "updateClockClass node conn now (Some matches) p m =
      (p\<lparr>pr_parentClockClass := Fin x\<rparr>, [clock_class_line now p (Fin x)],
       if conn then [clock_class_line now p (Fin x)] else [], if conn then m else UpdateClockClassMetrics node (Fin x) m)
    \<and> updateClockClass node conn' now' (Some matches) (fst (updateClockClass node conn now (Some matches) p m)) m'
      = (p\<lparr>pr_parentClockClass := Fin x\<rparr>, [], [], m')"
proof -
  have "\<not> f64_eq (Fin x) (pr_parentClockClass p)" using assms(3) by (cases "pr_parentClockClass p") auto
  then show ?thesis using assms(1,2) by (simp add: updateClockClass_def Let_def)
qed

theorem pmc_class_reported_on_change_witness:
  "fst (snd (updateClockClass ''node'' False 7 (Some [''gm.ClockClass 248'', ''248'']) demo_ha demo_metrics)) \<noteq> []"
proof -
  have "ParseFloat ''248'' = (Fin 248, None)" by code_simp
  then show ?thesis
    using pmc_class_reported_on_change [of _ "''gm.ClockClass 248''" "''248''" 248 demo_ha "''node''" False 7 demo_metrics]
    by (simp add: demo_ha_def)
qed

end
