(* ===== verification/Leap.thy ===== *)
theory Leap
  imports Ublox Go_Float Protocol
begin

unbundle bit_operations_syntax

text \<open>
  \<open>pkg/leap/leap-file.go\<close>: the leap-seconds file (its parser and its printer), the UTC offset in force, the
  update of the file from the receiver's leap-second message, and the announcement of a leap second to
  \<open>ptp4l\<close> in the hours before it.

  A time is the number of nanoseconds since 1900-01-01 00:00 UTC. The Kubernetes client is a parameter
  (whether a config map is found, what it holds, whether an update succeeds), so is the \<open>pmc\<close> tool.

  Results: the printed file parses to the file; the offset in force changes at the last leap second;
  the receiver's message updates the file once; the announcement is made once per window, with the
  right leap flag; an empty list of leap seconds panics.
\<close>

section \<open>Data\<close>

record LeapEvent =
  le_LeapTime :: string
  le_LeapSec :: int
  le_Comment :: string

record LeapFile =
  lf_ExpirationTime :: string
  lf_UpdateTime :: string
  lf_LeapEvents :: "LeapEvent list"
  lf_Hash :: string

record LeapManager =
  lm_leapFile :: LeapFile
  lm_retryUpdate :: bool
  lm_utcOffset :: int
  lm_utcOffsetTime :: int
  lm_ptp4lConfigPath :: string
  lm_pmcLeapSent :: bool

definition zero_leapfile :: LeapFile where
  "zero_leapfile = \<lparr>lf_ExpirationTime = '''', lf_UpdateTime = '''', lf_LeapEvents = [], lf_Hash = ''''\<rparr>"

section \<open>Times and dates\<close>

definition NanoSec :: int where "NanoSec = 1000000000"

text \<open>\<open>startTime.Add(time.Second * time.Duration(sec))\<close>: the product wraps at 64 bits.\<close>

definition time_of_sec :: "int \<Rightarrow> int" where
  "time_of_sec sec = to_i64 (NanoSec * sec)"

text \<open>\<open>int(t.Sub(startTime).Seconds())\<close>: saturation, then floating-point seconds, truncated.\<close>

definition sec_of_time :: "int \<Rightarrow> int" where
  "sec_of_time t =
     (let d = max (- (2 ^ 63)) (min MaxInt64 t) in
      f64_to_i64 (f64_add (f64_of_int (go_div d NanoSec)) (f64_div (f64_of_int (go_mod d NanoSec)) (Fin 1000000000))))"

definition is_leap_year :: "nat \<Rightarrow> bool" where
  "is_leap_year y \<longleftrightarrow> y mod 4 = 0 \<and> (y mod 100 \<noteq> 0 \<or> y mod 400 = 0)"

definition month_lengths :: "nat \<Rightarrow> nat list" where
  "month_lengths y = [31, if is_leap_year y then 29 else 28, 31, 30, 31, 30, 31, 31, 30, 31, 30, 31]"

function find_year :: "nat \<Rightarrow> nat \<Rightarrow> nat \<times> nat" where
  "find_year y d =
     (let n = if is_leap_year y then 366 else 365 in if d < n then (y, d) else find_year (Suc y) (d - n))"
  by pat_completeness auto
termination
  by (relation "measure snd") (auto simp: Let_def)

declare find_year.simps [simp del]

fun find_month :: "nat list \<Rightarrow> nat \<Rightarrow> nat \<Rightarrow> nat \<times> nat" where
  "find_month [] m d = (m, d)"
| "find_month (n # ns) m d = (if d < n then (m, d) else find_month ns (Suc m) (d - n))"

definition month_names :: "string list" where
  "month_names = [''Jan'', ''Feb'', ''Mar'', ''Apr'', ''May'', ''Jun'', ''Jul'', ''Aug'', ''Sep'', ''Oct'', ''Nov'', ''Dec'']"

text \<open>The comment of an event, for a time after 1900.\<close>

definition date_comment :: "int \<Rightarrow> string" where
  "date_comment t =
     (let (y, doy) = find_year 1900 (nat (t div (86400 * NanoSec)));
          (m, dom) = find_month (month_lengths y) 0 doy
      in ''# '' @ fmt_base 10 (Suc dom) @ '' '' @ month_names ! m @ '' '' @ fmt_base 10 y)"

section \<open>The checksum\<close>

text \<open>SHA-1 of the bytes of a string.\<close>

fun be_bytes :: "nat \<Rightarrow> nat \<Rightarrow> u8 list" where
  "be_bytes 0 v = []"
| "be_bytes (Suc n) v = be_bytes n (v div 256) @ [of_nat (v mod 256)]"

definition sha1_pad :: "u8 list \<Rightarrow> u8 list" where
  "sha1_pad m = m @ [0x80] @ replicate ((119 - length m mod 64) mod 64) 0 @ be_bytes 8 (8 * length m)"

definition be_word :: "u8 list \<Rightarrow> u32" where
  "be_word bs = foldl (\<lambda>acc b. push_bit 8 acc OR ucast b) 0 bs"

function chunks :: "nat \<Rightarrow> 'a list \<Rightarrow> 'a list list" where
  "chunks n xs = (if n = 0 \<or> xs = [] then [] else take n xs # chunks n (drop n xs))"
  by pat_completeness auto
termination
  by (relation "measure (\<lambda>(n, xs). length xs)") auto

declare chunks.simps [simp del]

definition rotl :: "nat \<Rightarrow> u32 \<Rightarrow> u32" where
  "rotl n w = push_bit n w OR drop_bit (32 - n) w"

fun sha1_schedule :: "nat \<Rightarrow> u32 list \<Rightarrow> u32 list" where
  "sha1_schedule 0 ws = ws"
| "sha1_schedule (Suc k) ws =
     (let t = length ws
      in sha1_schedule k (ws @ [rotl 1 (ws ! (t - 3) XOR ws ! (t - 8) XOR ws ! (t - 14) XOR ws ! (t - 16))]))"

definition sha1_f :: "nat \<Rightarrow> u32 \<Rightarrow> u32 \<Rightarrow> u32 \<Rightarrow> u32 \<times> u32" where
  "sha1_f t b c d =
     (if t < 20 then ((b AND c) OR (NOT b AND d), 0x5A827999)
      else if t < 40 then (b XOR c XOR d, 0x6ED9EBA1)
      else if t < 60 then ((b AND c) OR (b AND d) OR (c AND d), 0x8F1BBCDC)
      else (b XOR c XOR d, 0xCA62C1D6))"

definition sha1_round :: "u32 \<times> u32 \<times> u32 \<times> u32 \<times> u32 \<Rightarrow> nat \<times> u32 \<Rightarrow> u32 \<times> u32 \<times> u32 \<times> u32 \<times> u32" where
  "sha1_round h tw =
     (let (a, b, c, d, e) = h; (t, w) = tw; (f, k) = sha1_f t b c d
      in (rotl 5 a + f + e + k + w, a, rotl 30 b, c, d))"

definition sha1_block :: "u32 \<times> u32 \<times> u32 \<times> u32 \<times> u32 \<Rightarrow> u8 list \<Rightarrow> u32 \<times> u32 \<times> u32 \<times> u32 \<times> u32" where
  "sha1_block h block =
     (let ws = sha1_schedule 64 (map be_word (chunks 4 block));
          (a, b, c, d, e) = foldl sha1_round h (zip [0..<80] ws);
          (h0, h1, h2, h3, h4) = h
      in (h0 + a, h1 + b, h2 + c, h3 + d, h4 + e))"

definition sha1 :: "string \<Rightarrow> u32 list" where
  "sha1 s =
     (let (a, b, c, d, e) =
            foldl sha1_block (0x67452301, 0xEFCDAB89, 0x98BADCFE, 0x10325476, 0xC3D2E1F0)
              (chunks 64 (sha1_pad (map (\<lambda>c. of_nat (of_char c)) s)))
      in [a, b, c, d, e])"

definition hex8 :: "u32 \<Rightarrow> string" where
  "hex8 w = pad_left 8 (fmt_base 16 (unat w))"

text \<open>The digest in hexadecimal, cut into groups of eight characters.\<close>

definition leap_hash :: "string \<Rightarrow> string" where
  "leap_hash data =
     (let hash = concat (map hex8 (sha1 data))
      in Join (map (\<lambda>i. take 8 (drop (i * 8) hash)) [0..<5]) '' '')"

definition rehashLeapData :: "LeapFile \<Rightarrow> LeapFile" where
  "rehashLeapData l =
     l\<lparr>lf_Hash := leap_hash (lf_UpdateTime l @ lf_ExpirationTime l
        @ concat (map (\<lambda>ev. le_LeapTime ev @ fmt_int (le_LeapSec ev)) (lf_LeapEvents l)))\<rparr>"

section \<open>Parser and printer\<close>

definition parse_leap_line :: "string \<Rightarrow> LeapFile \<Rightarrow> LeapFile res" where
  "parse_leap_line line l =
     (let fields = Fields line in
      if HasPrefix line ''#$'' then res_bind (index_at fields 1) (\<lambda>f. Inr (l\<lparr>lf_UpdateTime := f\<rparr>))
      else if HasPrefix line ''#@'' then res_bind (index_at fields 1) (\<lambda>f. Inr (l\<lparr>lf_ExpirationTime := f\<rparr>))
      else if HasPrefix line ''#h'' then Inr (l\<lparr>lf_Hash := Join (drop 1 fields) '' ''\<rparr>)
      else if \<not> HasPrefix line ''#'' then
        (if length fields < 2 then Inr l
         else case ParseInt (fields ! 1) 10 8 of
           (_, Some err) \<Rightarrow> Inl (GoErr ''failed to parse Leap seconds'')
         | (sec, None) \<Rightarrow>
             (case ParseInt (fields ! 0) 10 64 of
                (_, Some err) \<Rightarrow> Inl (GoErr ''failed to parse Leap event time'')
              | (_, None) \<Rightarrow>
                  Inr (l\<lparr>lf_LeapEvents := lf_LeapEvents l
                      @ [\<lparr>le_LeapTime = fields ! 0, le_LeapSec = sec, le_Comment = Join (drop 2 fields) '' ''\<rparr>]\<rparr>)))
      else Inr l)"

fun parse_leap_lines :: "string list \<Rightarrow> LeapFile \<Rightarrow> LeapFile res" where
  "parse_leap_lines [] l = Inr l"
| "parse_leap_lines (x # xs) l = res_bind (parse_leap_line x l) (parse_leap_lines xs)"

definition parseLeapFile :: "string \<Rightarrow> LeapFile res" where
  "parseLeapFile b = parse_leap_lines (Split b CHR 0x0A) zero_leapfile"

text \<open>
  The file is printed by Go's \<open>html/template\<close>, which escapes the characters that are special in HTML text.
\<close>

definition html_escape :: "string \<Rightarrow> string" where
  "html_escape s =
     concat (map (\<lambda>c. if c = CHR 0x22 then ''&#34;'' else if c = CHR ''&'' then ''&amp;''
                     else if c = CHR 0x27 then ''&#39;'' else if c = CHR ''+'' then ''&#43;''
                     else if c = CHR ''<'' then ''&lt;'' else if c = CHR ''>'' then ''&gt;''
                     else [c]) s)"

definition leap_event_line :: "LeapEvent \<Rightarrow> string" where
  "leap_event_line ev =
     html_escape (le_LeapTime ev) @ ''     '' @ fmt_int (le_LeapSec ev) @ ''    '' @ html_escape (le_Comment ev)"

definition renderLeapData :: "LeapFile \<Rightarrow> string" where
  "renderLeapData l =
     ''# Do not edit'' @ [CHR 0x0A]
     @ ''# This file is generated automatically by linuxptp-daemon'' @ [CHR 0x0A]
     @ ''#$'' @ [CHR 0x09] @ html_escape (lf_UpdateTime l) @ [CHR 0x0A]
     @ ''#@'' @ [CHR 0x09] @ html_escape (lf_ExpirationTime l) @ [CHR 0x0A]
     @ concat (map (\<lambda>ev. leap_event_line ev @ [CHR 0x0A]) (lf_LeapEvents l)) @ [CHR 0x0A]
     @ ''#h'' @ [CHR 0x09] @ html_escape (lf_Hash l)"

section \<open>The UTC offset\<close>

definition last_event :: "LeapFile \<Rightarrow> LeapEvent res" where
  "last_event l = (if lf_LeapEvents l = [] then Inl IndexOutOfRange else Inr (last (lf_LeapEvents l)))"

text \<open>\<open>setUtcOffset\<close>: a panic or an error leaves the manager as it is.\<close>

definition setUtcOffset :: "LeapManager \<Rightarrow> LeapManager res" where
  "setUtcOffset l =
     res_bind (last_event (lm_leapFile l)) (\<lambda>lastLeap.
       case Atoi (le_LeapTime lastLeap) of
         (_, Some err) \<Rightarrow> Inl (GoErr ''Atoi'')
       | (sec, None) \<Rightarrow> Inr (l\<lparr>lm_utcOffsetTime := time_of_sec sec, lm_utcOffset := le_LeapSec lastLeap\<rparr>))"

text \<open>The callers drop the returned error, not the panic.\<close>

definition set_offset_ignoring :: "LeapManager \<Rightarrow> LeapManager res" where
  "set_offset_ignoring l = (case setUtcOffset l of Inl (GoErr _) \<Rightarrow> Inr l | r \<Rightarrow> r)"

text \<open>\<open>glog.Fatal\<close> ends the process.\<close>

definition GetUtcOffset :: "int \<Rightarrow> LeapManager option \<Rightarrow> int res" where
  "GetUtcOffset now mgr =
     (case mgr of
        None \<Rightarrow> Inl (GoErr ''failed to get UTC offset'')
      | Some l \<Rightarrow>
          if lm_utcOffsetTime l < now then Inr (lm_utcOffset l)
          else if 1 < length (lf_LeapEvents (lm_leapFile l))
          then Inr (le_LeapSec (lf_LeapEvents (lm_leapFile l) ! (length (lf_LeapEvents (lm_leapFile l)) - 2)))
          else Inl (GoErr ''failed to get UTC offset''))"

definition updateLeapFile :: "int \<Rightarrow> int \<Rightarrow> int \<Rightarrow> LeapManager \<Rightarrow> LeapManager res" where
  "updateLeapFile leapTime leapSec currentTime l =
     (let f0 = lm_leapFile l;
          f1 = (if leapSec \<noteq> 0 then
                  f0\<lparr>lf_LeapEvents := lf_LeapEvents f0
                      @ [\<lparr>le_LeapTime = fmt_int (sec_of_time leapTime), le_LeapSec = leapSec, le_Comment = date_comment leapTime\<rparr>]\<rparr>
                else f0);
          f2 = rehashLeapData (f1\<lparr>lf_UpdateTime := fmt_int (sec_of_time currentTime)\<rparr>)
      in set_offset_ignoring (l\<lparr>lm_leapFile := f2\<rparr>))"

section \<open>The config map\<close>

text \<open>\<open>get\<close> and \<open>put\<close> tell whether the API calls succeed; the second component is the data written.\<close>

definition updateLeapConfigmap :: "bool \<Rightarrow> bool \<Rightarrow> LeapManager \<Rightarrow> LeapManager \<times> string option" where
  "updateLeapConfigmap get put l =
     (if \<not> get then (l\<lparr>lm_retryUpdate := True\<rparr>, None)
      else if \<not> put then (l\<lparr>lm_retryUpdate := True\<rparr>, None)
      else (l\<lparr>lm_retryUpdate := False\<rparr>, Some (renderLeapData (lm_leapFile l))))"

text \<open>
  \<open>populateLeapData\<close>: \<open>cm\<close> is the node's entry of the config map (\<open>None\<close> if it has none), \<open>file\<close> the content of
  the system's file. The expiration written is that of 2036.
\<close>

definition populateLeapData :: "string option \<Rightarrow> string option \<Rightarrow> bool \<Rightarrow> LeapManager \<Rightarrow> LeapManager res" where
  "populateLeapData cm file put l =
     (case cm of
        None \<Rightarrow>
          (case file of
             None \<Rightarrow> Inl (GoErr ''read'')
           | Some b \<Rightarrow>
               res_bind (parseLeapFile b) (\<lambda>leapData.
                 if \<not> put then Inl (GoErr ''update'')
                 else set_offset_ignoring
                   (l\<lparr>lm_leapFile := rehashLeapData (leapData\<lparr>lf_ExpirationTime := fmt_int 4291747200\<rparr>)\<rparr>)))
      | Some lf \<Rightarrow> res_bind (parseLeapFile lf) (\<lambda>leapData. set_offset_ignoring (l\<lparr>lm_leapFile := leapData\<rparr>)))"

section \<open>Leap indications\<close>

definition gpsStartTime :: int where
  "gpsStartTime = 29224 * 86400 * NanoSec"

text \<open>
  \<open>processLeapIndication\<close> at time \<open>now\<close>: the leap time, the new offset and the update time, if an update is
  needed. The hours are computed in unsigned 64-bit arithmetic; \<open>time.ParseDuration\<close> refuses a duration
  beyond 64 bits.
\<close>

definition processLeapIndication :: "int \<Rightarrow> TimeLs \<Rightarrow> LeapManager \<Rightarrow> (int \<times> int \<times> int) option res" where
  "processLeapIndication now data l =
     (if ls_SrcOfCurrLs data \<noteq> 2 then Inr None
      else
        res_bind (last_event (lm_leapFile l)) (\<lambda>lastLeap.
          case Atoi (le_LeapTime lastLeap) of
            (_, Some err) \<Rightarrow> Inl (GoErr ''failed to convert Leap time to seconds'')
          | (sec, None) \<Rightarrow>
              let leapSecOnFile = le_LeapSec lastLeap;
                  fileLsPassed = (time_of_sec sec < now);
                  validCurrLs = (ls_Valid data AND 0x1 \<noteq> 0);
                  validTimeToLsEvent = (ls_Valid data AND 0x2 \<noteq> 0);
                  leapSec = ls_CurrLs data + 19 + ls_LsChange data
              in
              if validTimeToLsEvent \<and> validCurrLs \<and> leapSec \<noteq> leapSecOnFile \<and> fileLsPassed then
                let hours = unat ((of_nat (ls_DateOfLsGpsWn data) * 168 + ucast (ls_DateOfLsGpsDn data) * 24) :: u64) in
                if MaxInt64 < int hours * 3600 * NanoSec then Inl (GoErr ''failed to parse time duration'')
                else if ls_LsChange data = 0 \<and> 0 \<le> ls_TimeToLsEvent data
                then Inr (Some (now - 60 * NanoSec, leapSec, now))
                else Inr (Some (gpsStartTime + int hours * 3600 * NanoSec, leapSec, now))
              else Inr None))"

text \<open>An error is logged and the indication dropped.\<close>

definition handleLeapIndication :: "int \<Rightarrow> bool \<Rightarrow> bool \<Rightarrow> TimeLs \<Rightarrow> LeapManager \<Rightarrow> (LeapManager \<times> string option) res" where
  "handleLeapIndication now get put data l =
     (case processLeapIndication now data l of
        Inl (GoErr _) \<Rightarrow> Inr (l, None)
      | Inl p \<Rightarrow> Inl p
      | Inr None \<Rightarrow> Inr (l, None)
      | Inr (Some (leapTime, leapSec, updateTime)) \<Rightarrow>
          res_bind (updateLeapFile leapTime leapSec updateTime l) (\<lambda>l'. Inr (updateLeapConfigmap get put l')))"

section \<open>The announcement\<close>

definition IsLeapInWindow :: "int \<Rightarrow> int \<Rightarrow> int \<Rightarrow> LeapManager \<Rightarrow> bool res" where
  "IsLeapInWindow now startOffset endOffset l =
     res_bind (last_event (lm_leapFile l)) (\<lambda>lastLeap.
       case Atoi (le_LeapTime lastLeap) of
         (_, Some err) \<Rightarrow> Inr False
       | (sec, None) \<Rightarrow>
           Inr (time_of_sec sec + startOffset < now \<and> now < time_of_sec sec + endOffset))"

definition pmcWindowStart :: int where "pmcWindowStart = - 12 * 3600 * NanoSec"

definition pmcWindowEnd :: int where "pmcWindowEnd = - 60 * NanoSec"

text \<open>
  The minute tick of \<open>Run\<close> after the config-map retry: \<open>getter\<close> is what the \<open>pmc\<close> tool reports, \<open>setter\<close>
  whether it accepts settings. The second component are the settings sent.
\<close>

definition leap_tick :: "int \<Rightarrow> GrandmasterSettings res \<Rightarrow> (GrandmasterSettings \<Rightarrow> bool) \<Rightarrow> LeapManager
    \<Rightarrow> (LeapManager \<times> GrandmasterSettings option) res" where
  "leap_tick now getter setter l =
     res_bind (IsLeapInWindow now pmcWindowStart pmcWindowEnd l) (\<lambda>inWindow.
       if \<not> inWindow then Inr (l\<lparr>lm_pmcLeapSent := False\<rparr>, None)
       else if lm_pmcLeapSent l then Inr (l, None)
       else
         case getter of
           Inl err \<Rightarrow> Inr (l, None)
         | Inr g \<Rightarrow>
             res_bind (last_event (lm_leapFile l)) (\<lambda>lastLeap.
               let leapDiff = le_LeapSec lastLeap - sint (tp_CurrentUtcOffset (gs_TimePropertiesDS g));
                   flags = (\<lambda>l59 l61. g\<lparr>gs_TimePropertiesDS := (gs_TimePropertiesDS g)\<lparr>tp_Leap59 := l59, tp_Leap61 := l61\<rparr>\<rparr>);
                   send = (\<lambda>g'. Inr (if setter g' then l\<lparr>lm_pmcLeapSent := True\<rparr> else l, Some g'))
               in if 0 < leapDiff then send (flags False True)
                  else if leapDiff < 0 then send (flags True False)
                  else Inr (l\<lparr>lm_pmcLeapSent := True\<rparr>, None)))"

section \<open>Lemmas on parser and printer\<close>

definition html_safe :: "string \<Rightarrow> bool" where
  "html_safe s \<longleftrightarrow> set s \<inter> {CHR 0x22, CHR ''&'', CHR 0x27, CHR ''+'', CHR ''<'', CHR ''>''} = {}"

lemma html_escape_safe: "html_safe s \<Longrightarrow> html_escape s = s"
  by (induction s) (auto simp: html_safe_def html_escape_def)

lemma Split_line: "CHR 0x0A \<notin> set a \<Longrightarrow> Split (a @ CHR 0x0A # b) CHR 0x0A = a # Split b CHR 0x0A"
proof -
  assume "CHR 0x0A \<notin> set a"
  then have "split_pred (\<lambda>c. c = CHR 0x0A) a = [a]" by (intro split_pred_no_sep) auto
  then show ?thesis by (simp add: Split_def split_pred_append_sep)
qed

lemma Split_single: "CHR 0x0A \<notin> set a \<Longrightarrow> Split a CHR 0x0A = [a]"
  unfolding Split_def by (rule split_pred_no_sep) auto

lemma Split_lines:
  "\<forall>x \<in> set xs. CHR 0x0A \<notin> set (f x) \<Longrightarrow>
     Split (concat (map (\<lambda>x. f x @ [CHR 0x0A]) xs) @ rest) CHR 0x0A = map f xs @ Split rest CHR 0x0A"
  by (induction xs) (simp_all add: Split_line)

lemma parse_leap_lines_append:
  "parse_leap_lines (xs @ ys) l = res_bind (parse_leap_lines xs l) (parse_leap_lines ys)"
proof (induction xs arbitrary: l)
  case (Cons x xs)
  then show ?case by (cases "parse_leap_line x l") simp_all
qed simp

lemma is_word_no_newline: "is_word w \<Longrightarrow> CHR 0x0A \<notin> set w"
  by (auto simp: is_word_def is_space_def)

lemma set_Join: "set (Join ws sep) \<subseteq> \<Union> (set ` set ws) \<union> set sep"
  by (induction ws sep rule: Join.induct) auto

text \<open>A text in single-spaced words, as the parser stores comments and the hash.\<close>

definition spaced :: "string \<Rightarrow> bool" where
  "spaced s \<longleftrightarrow> Join (Fields s) '' '' = s"

lemma spaced_no_newline:
  assumes "spaced s"
  shows "CHR 0x0A \<notin> set s"
proof
  assume "CHR 0x0A \<in> set s"
  then have "CHR 0x0A \<in> set (Join (Fields s) '' '')" using assms by (simp add: spaced_def)
  then obtain w where "w \<in> set (Fields s)" "CHR 0x0A \<in> set w"
    using set_Join [of "Fields s" "'' ''"] by auto
  then show False using Fields_words is_word_no_newline by blast
qed

text \<open>Leap-second files whose fields are as \<open>parseLeapFile\<close> and \<open>updateLeapFile\<close> produce them.\<close>

definition event_wf :: "LeapEvent \<Rightarrow> bool" where
  "event_wf ev \<longleftrightarrow>
     is_word (le_LeapTime ev) \<and> html_safe (le_LeapTime ev) \<and> hd (le_LeapTime ev) \<noteq> CHR ''#''
     \<and> snd (ParseInt (le_LeapTime ev) 10 64) = None
     \<and> - 128 \<le> le_LeapSec ev \<and> le_LeapSec ev < 128 \<and> html_safe (le_Comment ev) \<and> spaced (le_Comment ev)"

definition leapfile_wf :: "LeapFile \<Rightarrow> bool" where
  "leapfile_wf l \<longleftrightarrow>
     is_word (lf_UpdateTime l) \<and> html_safe (lf_UpdateTime l) \<and> is_word (lf_ExpirationTime l) \<and> html_safe (lf_ExpirationTime l)
     \<and> html_safe (lf_Hash l) \<and> spaced (lf_Hash l) \<and> (\<forall>ev \<in> set (lf_LeapEvents l). event_wf ev)"

lemma space_facts: "is_space CHR '' ''" "is_space CHR 0x09"
  by (simp_all add: is_space_def)

lemma leap_event_line_fields:
  assumes "event_wf ev"
  shows "Fields (leap_event_line ev) = le_LeapTime ev # fmt_int (le_LeapSec ev) # Fields (le_Comment ev)"
    and "CHR 0x0A \<notin> set (leap_event_line ev)"
    and "\<not> HasPrefix (leap_event_line ev) ''#''"
proof -
  have e: "html_escape (le_LeapTime ev) = le_LeapTime ev" "html_escape (le_Comment ev) = le_Comment ev"
    and w: "is_word (le_LeapTime ev)" "is_word (fmt_int (le_LeapSec ev))"
    using assms by (simp_all add: event_wf_def html_escape_safe)
  show "Fields (leap_event_line ev) = le_LeapTime ev # fmt_int (le_LeapSec ev) # Fields (le_Comment ev)"
    unfolding leap_event_line_def e by (simp add: Fields_word_space Fields_space_Cons w space_facts)
  show "CHR 0x0A \<notin> set (leap_event_line ev)"
    unfolding leap_event_line_def e using is_word_no_newline [OF w(1)] is_word_no_newline [OF w(2)] assms spaced_no_newline
    by (auto simp: event_wf_def)
  show "\<not> HasPrefix (leap_event_line ev) ''#''"
    using assms unfolding leap_event_line_def e by (cases "le_LeapTime ev") (auto simp: event_wf_def HasPrefix_def is_word_def)
qed

lemma HasPrefix_hash: "HasPrefix s (CHR ''#'' # t) \<Longrightarrow> HasPrefix s ''#''"
  by (cases s) (auto simp: HasPrefix_def)

lemma parse_event_line:
  assumes "event_wf ev"
  shows "parse_leap_line (leap_event_line ev) l = Inr (l\<lparr>lf_LeapEvents := lf_LeapEvents l @ [ev]\<rparr>)"
proof -
  note f = leap_event_line_fields [OF assms]
  have np: "\<not> HasPrefix (leap_event_line ev) (CHR ''#'' # t)" for t using f(3) HasPrefix_hash by blast
  have sec: "ParseInt (fmt_int (le_LeapSec ev)) 10 8 = (le_LeapSec ev, None)"
    using assms by (intro ParseInt_fmt_int) (simp_all add: event_wf_def)
  obtain v where tm: "ParseInt (le_LeapTime ev) 10 64 = (v, None)"
    using assms by (cases "ParseInt (le_LeapTime ev) 10 64") (simp add: event_wf_def)
  have c: "Join (Fields (le_Comment ev)) '' '' = le_Comment ev" using assms by (simp add: event_wf_def spaced_def)
  show ?thesis by (simp add: parse_leap_line_def Let_def np f sec tm c)
qed

lemma parse_event_lines:
  "\<forall>ev \<in> set evs. event_wf ev \<Longrightarrow>
     parse_leap_lines (map leap_event_line evs) l = Inr (l\<lparr>lf_LeapEvents := lf_LeapEvents l @ evs\<rparr>)"
  by (induction evs arbitrary: l) (simp_all add: parse_event_line)

section \<open>Properties\<close>

text \<open>
  C35. The leap-seconds file survives printing and parsing: for every file whose fields are in the form
  the daemon produces (words for the times, offsets within a signed byte, single-spaced comments and
  hash, no characters special in HTML), \<open>parseLeapFile\<close> applied to \<open>renderLeapData\<close> returns the file.
\<close>

theorem leap_file_roundtrip:
  assumes "leapfile_wf l"
  shows "parseLeapFile (renderLeapData l) = Inr l"
proof -
  have e: "html_escape (lf_UpdateTime l) = lf_UpdateTime l" "html_escape (lf_ExpirationTime l) = lf_ExpirationTime l"
    "html_escape (lf_Hash l) = lf_Hash l"
    and w: "is_word (lf_UpdateTime l)" "is_word (lf_ExpirationTime l)"
    and evs: "\<forall>ev \<in> set (lf_LeapEvents l). event_wf ev" and h: "spaced (lf_Hash l)"
    using assms by (simp_all add: leapfile_wf_def html_escape_safe)
  let ?u = "''#$'' @ [CHR 0x09] @ lf_UpdateTime l" and ?x = "''#@'' @ [CHR 0x09] @ lf_ExpirationTime l"
    and ?h = "''#h'' @ [CHR 0x09] @ lf_Hash l"
  have nl: "CHR 0x0A \<notin> set ?u" "CHR 0x0A \<notin> set ?x" "CHR 0x0A \<notin> set ?h"
    "\<forall>ev \<in> set (lf_LeapEvents l). CHR 0x0A \<notin> set (leap_event_line ev)"
    using w is_word_no_newline spaced_no_newline [OF h] evs leap_event_line_fields(2) by auto
  have "Split (renderLeapData l) CHR 0x0A =
      [''# Do not edit'', ''# This file is generated automatically by linuxptp-daemon'', ?u, ?x]
      @ map leap_event_line (lf_LeapEvents l) @ ['''', ?h]"
    using Split_line [of "''# Do not edit''"] Split_line [of "''# This file is generated automatically by linuxptp-daemon''"]
      Split_line [OF nl(1)] Split_line [OF nl(2)] Split_lines [OF nl(4)] Split_line [of "''''"] Split_single [OF nl(3)]
    by (simp add: renderLeapData_def e)
  moreover have "parse_leap_line ?u x = Inr (x\<lparr>lf_UpdateTime := lf_UpdateTime l\<rparr>)" for x
    using Fields_word_space [of "''#$''" "CHR 0x09" "lf_UpdateTime l"] Fields_word [OF w(1)] space_facts(2)
    by (simp add: parse_leap_line_def Let_def HasPrefix_def index_at_def is_word_def is_space_def)
  moreover have "parse_leap_line ?x x = Inr (x\<lparr>lf_ExpirationTime := lf_ExpirationTime l\<rparr>)" for x
    using Fields_word_space [of "''#@''" "CHR 0x09" "lf_ExpirationTime l"] Fields_word [OF w(2)] space_facts(2)
    by (simp add: parse_leap_line_def Let_def HasPrefix_def index_at_def is_word_def is_space_def)
  moreover have "parse_leap_line ?h x = Inr (x\<lparr>lf_Hash := lf_Hash l\<rparr>)" for x
    using Fields_word_space [of "''#h''" "CHR 0x09" "lf_Hash l"] h space_facts(2)
    by (simp add: parse_leap_line_def Let_def HasPrefix_def is_word_def is_space_def spaced_def)
  moreover have "parse_leap_line ''# Do not edit'' x = Inr x" "parse_leap_line '''' x = Inr x"
    "parse_leap_line ''# This file is generated automatically by linuxptp-daemon'' x = Inr x" for x
    by (simp_all add: parse_leap_line_def Let_def HasPrefix_def)
  ultimately show ?thesis
    unfolding parseLeapFile_def by (simp add: parse_leap_lines_append parse_event_lines [OF evs] zero_leapfile_def)
qed

definition demo_leapfile :: LeapFile where
  "demo_leapfile =
     \<lparr>lf_ExpirationTime = ''4291747200'', lf_UpdateTime = ''3927775672'',
      lf_LeapEvents = [\<lparr>le_LeapTime = ''3644697600'', le_LeapSec = 36, le_Comment = ''# 1 Jul 2015''\<rparr>,
                       \<lparr>le_LeapTime = ''3692217600'', le_LeapSec = 37, le_Comment = ''# 1 Jan 2017''\<rparr>],
      lf_Hash = ''''\<rparr>"

lemma demo_leapfile_wf: "leapfile_wf demo_leapfile"
proof -
  have "snd (ParseInt ''3644697600'' 10 64) = None" "snd (ParseInt ''3692217600'' 10 64) = None" by (simp_all add: ParseInt_def ParseUint_def digit_val_def)
  moreover have "spaced ''# 1 Jul 2015''" "spaced ''# 1 Jan 2017''" "spaced ''''" by code_simp+
  ultimately show ?thesis
    by (simp add: leapfile_wf_def event_wf_def demo_leapfile_def html_safe_def is_word_def is_space_def)
qed

theorem leap_file_roundtrip_witness: "parseLeapFile (renderLeapData demo_leapfile) = Inr demo_leapfile"
  by (rule leap_file_roundtrip) (rule demo_leapfile_wf)

text \<open>
  The UTC offset in force: once \<open>setUtcOffset\<close> has run, \<open>GetUtcOffset\<close> is the offset of the file's last
  leap second after that leap second, and the offset of the one before it until then.
\<close>

theorem utc_offset_in_force:
  assumes "lf_LeapEvents (lm_leapFile l) = evs @ [prev, lst]" and "ParseInt (le_LeapTime lst) 10 64 = (sec, None)"
    and "setUtcOffset l = Inr l'"
  shows "GetUtcOffset now (Some l') = Inr (if time_of_sec sec < now then le_LeapSec lst else le_LeapSec prev)"
proof -
  have l': "l' = l\<lparr>lm_utcOffsetTime := time_of_sec sec, lm_utcOffset := le_LeapSec lst\<rparr>"
    using assms by (simp add: setUtcOffset_def last_event_def Atoi_def)
  have "(evs @ [prev, lst]) ! (length (evs @ [prev, lst]) - 2) = prev" by (simp add: nth_append)
  with assms(1) show ?thesis by (simp add: GetUtcOffset_def l')
qed

definition demo_manager :: LeapManager where
  "demo_manager = \<lparr>lm_leapFile = demo_leapfile, lm_retryUpdate = False, lm_utcOffset = 0, lm_utcOffsetTime = 0,
                   lm_ptp4lConfigPath = '''', lm_pmcLeapSent = False\<rparr>"

lemma demo_manager_parse: "ParseInt ''3692217600'' 10 64 = (3692217600, None)"
  by (simp add: ParseInt_def ParseUint_def digit_val_def)

lemma demo_time: "time_of_sec 3692217600 = 3692217600000000000"
  by (simp add: time_of_sec_def NanoSec_def to_i64_id)

theorem utc_offset_in_force_witness:
  "\<exists>l'. setUtcOffset demo_manager = Inr l' \<and> GetUtcOffset 0 (Some l') = Inr 36
     \<and> GetUtcOffset (4 * 10 ^ 18) (Some l') = Inr 37"
proof -
  let ?a = "\<lparr>le_LeapTime = ''3644697600'', le_LeapSec = 36, le_Comment = ''# 1 Jul 2015''\<rparr>"
  let ?b = "\<lparr>le_LeapTime = ''3692217600'', le_LeapSec = 37, le_Comment = ''# 1 Jan 2017''\<rparr>"
  have evs: "lf_LeapEvents (lm_leapFile demo_manager) = [] @ [?a, ?b]" by (simp add: demo_manager_def demo_leapfile_def)
  then obtain l' where l': "setUtcOffset demo_manager = Inr l'"
    by (simp add: setUtcOffset_def last_event_def Atoi_def demo_manager_parse)
  from utc_offset_in_force [OF evs _ l', of 3692217600] demo_manager_parse demo_time l' show ?thesis by simp
qed

text \<open>
  An empty list of leap seconds panics: \<open>setUtcOffset\<close>, \<open>IsLeapInWindow\<close> and (for a GPS indication)
  \<open>processLeapIndication\<close> index the last element without a check; populating the manager from a config-map
  entry that holds no leap second therefore panics instead of returning an error.
\<close>

theorem empty_leap_file_panics:
  assumes "lf_LeapEvents (lm_leapFile l) = []" and "ls_SrcOfCurrLs data = 2" and "parseLeapFile lf = Inr f" and "lf_LeapEvents f = []"
  shows "setUtcOffset l = Inl IndexOutOfRange \<and> IsLeapInWindow now a b l = Inl IndexOutOfRange
    \<and> processLeapIndication now data l = Inl IndexOutOfRange
    \<and> populateLeapData (Some lf) file put l = Inl IndexOutOfRange"
  using assms
  by (simp add: setUtcOffset_def IsLeapInWindow_def processLeapIndication_def last_event_def populateLeapData_def
      set_offset_ignoring_def)

theorem empty_leap_file_panics_witness:
  "setUtcOffset (demo_manager\<lparr>lm_leapFile := zero_leapfile\<rparr>) = Inl IndexOutOfRange
   \<and> populateLeapData (Some '''') None True (demo_manager\<lparr>lm_leapFile := zero_leapfile\<rparr>) = Inl IndexOutOfRange"
  using empty_leap_file_panics [of "demo_manager\<lparr>lm_leapFile := zero_leapfile\<rparr>" "zero_timels\<lparr>ls_SrcOfCurrLs := 2\<rparr>" "''''" zero_leapfile]
  by (simp add: zero_leapfile_def zero_timels_def parseLeapFile_def parse_leap_line_def Split_def HasPrefix_def)

lemma set_offset_ignoring_ok:
  assumes "lf_LeapEvents (lm_leapFile l) \<noteq> []"
  shows "\<exists>l'. set_offset_ignoring l = Inr l'"
proof (cases "Atoi (le_LeapTime (last (lf_LeapEvents (lm_leapFile l))))")
  case (Pair v err)
  with assms show ?thesis by (cases err) (simp_all add: set_offset_ignoring_def setUtcOffset_def last_event_def)
qed

lemma updateLeapFile_total: "leapSec \<noteq> 0 \<Longrightarrow> \<exists>l'. updateLeapFile leapTime leapSec t l = Inr l'"
  unfolding updateLeapFile_def Let_def by (rule set_offset_ignoring_ok) (simp add: rehashLeapData_def)

text \<open>
  A leap indication updates the file once: if an indication asks for an update, the new offset differs
  from the one on file; after the update the file's last offset is the indicated one, the earlier
  events are kept, and the same indication, at any later time, asks for no further update.
\<close>

theorem leap_indication_once:
  assumes "processLeapIndication now data l = Inr (Some (leapTime, leapSec, updateTime))"
    and "updateLeapFile leapTime leapSec updateTime l = Inr l'" and "leapSec \<noteq> 0"
  shows "(\<forall>ev. last_event (lm_leapFile l) = Inr ev \<longrightarrow> le_LeapSec ev \<noteq> leapSec)
    \<and> (\<exists>ev. lf_LeapEvents (lm_leapFile l') = lf_LeapEvents (lm_leapFile l) @ [ev] \<and> le_LeapSec ev = leapSec)
    \<and> (\<forall>now'. processLeapIndication now' data l' \<in> {Inr None, Inl (GoErr ''failed to convert Leap time to seconds'')})"
proof -
  from assms(1) obtain lst where lst: "last_event (lm_leapFile l) = Inr lst"
    by (cases "last_event (lm_leapFile l)") (auto simp: processLeapIndication_def split: if_splits)
  obtain sec err where at: "Atoi (le_LeapTime lst) = (sec, err)" by fastforce
  from assms(1) lst at have ne: "le_LeapSec lst \<noteq> leapSec" and ls: "leapSec = ls_CurrLs data + 19 + ls_LsChange data"
    by (auto simp: processLeapIndication_def Let_def split: if_splits option.splits)
  let ?ev = "\<lparr>le_LeapTime = fmt_int (sec_of_time leapTime), le_LeapSec = leapSec, le_Comment = date_comment leapTime\<rparr>"
  have evs: "lf_LeapEvents (lm_leapFile l') = lf_LeapEvents (lm_leapFile l) @ [?ev]"
    using assms(2,3)
    by (auto simp: updateLeapFile_def Let_def set_offset_ignoring_def setUtcOffset_def last_event_def rehashLeapData_def
        split: prod.splits option.splits)
  then have "last_event (lm_leapFile l') = Inr ?ev" by (simp add: last_event_def)
  then have "processLeapIndication now' data l' \<in> {Inr None, Inl (GoErr ''failed to convert Leap time to seconds'')}" for now'
    using ls by (auto simp: processLeapIndication_def Let_def split: prod.splits option.splits)
  with lst ne evs show ?thesis by auto
qed

theorem leap_indication_once_witness:
  "\<exists>l'. updateLeapFile (gpsStartTime + 410256 * 3600 * NanoSec) 38 (4 * 10 ^ 18) demo_manager = Inr l'
     \<and> (\<exists>ev. lf_LeapEvents (lm_leapFile l') = lf_LeapEvents demo_leapfile @ [ev] \<and> le_LeapSec ev = 38)"
proof -
  let ?d = "zero_timels\<lparr>ls_SrcOfCurrLs := 2, ls_CurrLs := 18, ls_LsChange := 1, ls_DateOfLsGpsWn := 2441, ls_DateOfLsGpsDn := 7, ls_Valid := 3\<rparr>"
  have ev: "last_event (lm_leapFile demo_manager) = Inr \<lparr>le_LeapTime = ''3692217600'', le_LeapSec = 37, le_Comment = ''# 1 Jan 2017''\<rparr>"
    by (simp add: last_event_def demo_manager_def demo_leapfile_def)
  have p: "processLeapIndication (4 * 10 ^ 18) ?d demo_manager = Inr (Some (gpsStartTime + 410256 * 3600 * NanoSec, 38, 4 * 10 ^ 18))"
    by (simp add: processLeapIndication_def ev Atoi_def demo_manager_parse demo_time Let_def NanoSec_def MaxInt64_def zero_timels_def)
  obtain l' where u: "updateLeapFile (gpsStartTime + 410256 * 3600 * NanoSec) 38 (4 * 10 ^ 18) demo_manager = Inr l'"
    using updateLeapFile_total by force
  from leap_indication_once [OF p u] u show ?thesis by (simp add: demo_manager_def)
qed

text \<open>
  The leap announcement: inside the window before the leap second (12 hours to one minute before),
  with the announcement not yet made and \<open>pmc\<close> answering and accepting, the tick sends the tool's settings
  with exactly one leap flag set, the one of the direction of the change, or nothing if the offset
  already agrees; either way the next tick in the window sends nothing.
\<close>

theorem leap_announced_once:
  assumes "IsLeapInWindow now pmcWindowStart pmcWindowEnd l = Inr True" and "\<not> lm_pmcLeapSent l"
    and "last_event (lm_leapFile l) = Inr ev" and "\<forall>g. setter g"
    and "leap_tick now (Inr g) setter l = Inr (l', sent)"
  shows "(case sent of
            None \<Rightarrow> le_LeapSec ev = sint (tp_CurrentUtcOffset (gs_TimePropertiesDS g))
          | Some g' \<Rightarrow>
              gs_ClockQuality g' = gs_ClockQuality g
              \<and> (tp_Leap61 (gs_TimePropertiesDS g') \<longleftrightarrow> sint (tp_CurrentUtcOffset (gs_TimePropertiesDS g)) < le_LeapSec ev)
              \<and> (tp_Leap59 (gs_TimePropertiesDS g') \<longleftrightarrow> le_LeapSec ev < sint (tp_CurrentUtcOffset (gs_TimePropertiesDS g)))
              \<and> tp_Leap59 (gs_TimePropertiesDS g') \<noteq> tp_Leap61 (gs_TimePropertiesDS g'))
    \<and> leap_tick now any setter l' = Inr (l', None)"
proof -
  have l': "l' = l\<lparr>lm_pmcLeapSent := True\<rparr>"
    using assms by (auto simp: leap_tick_def Let_def split: if_splits)
  have "IsLeapInWindow now a b (l\<lparr>lm_pmcLeapSent := True\<rparr>) = IsLeapInWindow now a b l" for a b
    by (simp add: IsLeapInWindow_def)
  then have "leap_tick now any setter l' = Inr (l', None)" by (simp add: l' leap_tick_def assms(1))
  with assms show ?thesis by (auto simp: leap_tick_def Let_def split: if_splits)
qed

theorem leap_announced_once_witness:
  "\<exists>g'. leap_tick (3692217600000000000 - 3600000000000) (Inr zero_settings) (\<lambda>_. True) demo_manager
          = Inr (demo_manager\<lparr>lm_pmcLeapSent := True\<rparr>, Some g')
     \<and> tp_Leap61 (gs_TimePropertiesDS g') \<and> \<not> tp_Leap59 (gs_TimePropertiesDS g')"
proof -
  let ?now = "3692217600000000000 - 3600000000000 :: int"
  have ev: "last_event (lm_leapFile demo_manager) = Inr \<lparr>le_LeapTime = ''3692217600'', le_LeapSec = 37, le_Comment = ''# 1 Jan 2017''\<rparr>"
    by (simp add: last_event_def demo_manager_def demo_leapfile_def)
  have win: "IsLeapInWindow ?now pmcWindowStart pmcWindowEnd demo_manager = Inr True"
    by (simp add: IsLeapInWindow_def ev Atoi_def demo_manager_parse demo_time pmcWindowStart_def pmcWindowEnd_def NanoSec_def)
  obtain l' sent where t: "leap_tick ?now (Inr zero_settings) (\<lambda>_. True) demo_manager = Inr (l', sent)"
    and l': "l' = demo_manager\<lparr>lm_pmcLeapSent := True\<rparr>" and s: "sent \<noteq> None"
    using win ev by (simp add: leap_tick_def Let_def zero_settings_def demo_manager_def)
  from leap_announced_once [OF win _ ev _ t] s t l' show ?thesis
    by (auto simp: demo_manager_def zero_settings_def)
qed

end
