(* ===== verification/Daemon_Apply.thy ===== *)
theory Daemon_Apply
  imports Daemon_Process Leap
begin

text \<open>
  Applying profiles, \<open>pkg/daemon/daemon.go\<close>: building the processes of one profile (\<open>applyNodePtpProfile\<close>) with
  their options, configuration files, HA sockets and dependent processes, and doing so for all profiles in order.

  Shown: which processes a profile gets; their configurations are distinct; what ts2phc options and the
  \<open>[global]\<close> sections say; the sockets of an HA profile, and that SyncE spoils them; a DPLL without a clock id
  gets its neighbour's.
\<close>

section \<open>What a profile needs of its surroundings\<close>

text \<open>
  Code and state outside the daemon's own: the plugins' \<open>OnPTPConfigChange\<close>, the PHC of an interface
  (\<open>ptpnetwork.GetPhcId\<close>, which runs ethtool), the environment variable \<open>NODE_NAME\<close>, whether a configuration
  file can be written, and whether the DPLL has files under \<open>/sys\<close> and netlink.
\<close>

record apply_env =
  ae_plugins :: "PtpProfile \<Rightarrow> PtpProfile"
  ae_phcId :: "string \<Rightarrow> string"
  ae_nodeName :: string
  ae_writable :: "string \<Rightarrow> bool"
  ae_sysfs :: bool
  ae_netlink :: bool
  ae_stdoutToSocket :: bool

text \<open>
  The state that applying a profile changes: \<open>configPrefix\<close>, the processes of the manager, the configuration
  files and the leap manager's ptp4l configuration.
\<close>

record daemon_state =
  dn_prefix :: string
  dn_process :: "ptpProcess list"
  dn_files :: "string \<rightharpoonup> string"
  dn_ptp4lConfigPath :: string

definition ptpProcesses :: "string list" where
  "ptpProcesses = [ts2phcProcessName, syncEProcessName, ptp4lProcessName, phc2sysProcessName]"

definition GPSPIPE_SERIALPORT :: string where "GPSPIPE_SERIALPORT = ''/gpsd/data''"

text \<open>The variables that the switch sets; \<open>su_socketPath\<close> keeps its value where the code leaves it.\<close>

record proc_setup =
  pu_configInput :: "string option"
  pu_configOpts :: "string option"
  pu_socketPath :: string
  pu_configFile :: string
  pu_configPath :: string
  pu_messageTag :: string

definition add_flag :: "string \<Rightarrow> string \<Rightarrow> string \<Rightarrow> string" where
  "add_flag opts flag v = (if Contains opts flag then opts else opts @ '' '' @ flag @ '' '' @ v)"

definition ts2phc_opts :: "(string \<times> string) list \<Rightarrow> string \<Rightarrow> string" where
  "ts2phc_opts settings opts =
     (if opts = '''' then opts
      else
        (let (maxInSpecOffset, maxHoldoverOffSet, maxHoldoverTimeout, inSpecTimer, frequencyTraceable) = CalculateTimer settings;
             o1 = add_flag opts ''--ts2phc.holdover''
                    (fmt_int (if frequencyTraceable then maxHoldoverTimeout else min inSpecTimer maxHoldoverTimeout));
             o2 = add_flag o1 ''--servo_offset_threshold''
                    (fmt_int (if frequencyTraceable then maxHoldoverOffSet else min maxInSpecOffset maxHoldoverOffSet))
         in add_flag o2 ''--servo_num_offset_values'' ''10''))"

definition process_setup :: "string \<Rightarrow> nat \<Rightarrow> bool \<Rightarrow> PtpProfile \<Rightarrow> string \<Rightarrow> string \<Rightarrow> proc_setup" where
  "process_setup configPrefix runID ptpHAEnabled prof socketPath p =
     (let n = fmt_base 10 runID;
          file = p @ ''.'' @ n @ ''.config''; path = configPrefix @ ''/'' @ file;
          socket = configPrefix @ ''/ptp4l.'' @ n @ ''.socket'';
          tag = (\<lambda>name. ''['' @ name @ ''.'' @ n @ ''.config:{level}]'')
      in
        if p = ptp4lProcessName then
          \<lparr>pu_configInput = pp_Ptp4lConf prof,
           pu_configOpts = Some (case pp_Ptp4lOpts prof of None \<Rightarrow> '' '' | Some opts \<Rightarrow> opts),
           pu_socketPath = socket, pu_configFile = file, pu_configPath = path, pu_messageTag = tag p\<rparr>
        else if p = phc2sysProcessName then
          \<lparr>pu_configInput = pp_Phc2sysConf prof, pu_configOpts = pp_Phc2sysOpts prof,
           pu_socketPath = (if ptpHAEnabled then socketPath else socket), pu_configFile = file, pu_configPath = path,
           pu_messageTag = (if ptpHAEnabled then tag phc2sysProcessName else tag ptp4lProcessName)\<rparr>
        else if p = ts2phcProcessName then
          \<lparr>pu_configInput = pp_Ts2PhcConf prof, pu_configOpts = map_option (ts2phc_opts (pp_PtpSettings prof)) (pp_Ts2PhcOpts prof),
           pu_socketPath = socket, pu_configFile = file, pu_configPath = path, pu_messageTag = tag p\<rparr>
        else
          \<lparr>pu_configInput = pp_Synce4lConf prof, pu_configOpts = pp_Synce4lOpts prof,
           pu_socketPath = '''', pu_configFile = file, pu_configPath = path, pu_messageTag = ''['' @ file @ '']''\<rparr>)"

section \<open>The configuration of a process\<close>

definition with_interface :: "PtpProfile \<Rightarrow> ptp4lConf \<Rightarrow> ptp4lConf" where
  "with_interface prof conf =
     (case pp_Interface prof of
        Some i \<Rightarrow> if i \<noteq> '''' then conf\<lparr>cf_sections := new_section (''['' @ i @ '']'') # cf_sections conf\<rparr> else conf
      | None \<Rightarrow> conf)"

text \<open>The loop over the sections: what it writes into each \<open>[global]\<close> section.\<close>

definition global_options :: "string \<Rightarrow> string \<Rightarrow> string \<Rightarrow> string \<Rightarrow> (string \<times> string) list \<Rightarrow> (string \<times> string) list" where
  "global_options nodeName p messageTag socketPath opts =
     (let o1 = AList.update ''message_tag'' messageTag opts;
          o2 = (if socketPath \<noteq> '''' then AList.update ''uds_address'' socketPath o1 else o1);
          o3 = (if map_of o2 ''ts2phc.nmea_serialport'' \<noteq> None
                then AList.update ''ts2phc.nmea_serialport'' GPSPIPE_SERIALPORT o2 else o2)
      in if map_of o3 ''leapfile'' \<noteq> None \<or> p = ts2phcProcessName
         then AList.update ''leapfile'' (''/etc/leap/'' @ nodeName) o3 else o3)"

definition global_step :: "string \<Rightarrow> string \<Rightarrow> string \<Rightarrow> string \<Rightarrow> ptp4lConfSection \<Rightarrow> ptp4lConf \<Rightarrow> ptp4lConf" where
  "global_step nodeName p messageTag socketPath s conf =
     (if sectionName s = ''[global]'' then
        conf\<lparr>cf_sections := cf_sections conf @ [s\<lparr>options := global_options nodeName p messageTag socketPath (options s)\<rparr>],
             cf_gnss_serial_port := (case map_of (options s) ''ts2phc.nmea_serialport'' of
                                       Some port \<Rightarrow> TrimSpace port | None \<Rightarrow> cf_gnss_serial_port conf)\<rparr>
      else conf\<lparr>cf_sections := cf_sections conf @ [s]\<rparr>)"

definition set_globals :: "string \<Rightarrow> string \<Rightarrow> string \<Rightarrow> string \<Rightarrow> ptp4lConf \<Rightarrow> ptp4lConf" where
  "set_globals nodeName p messageTag socketPath conf =
     fold (global_step nodeName p messageTag socketPath) (cf_sections conf) (conf\<lparr>cf_sections := []\<rparr>)"

section \<open>The processes ts2phc depends on\<close>

record dpll_params =
  dq_maxHoldoverOffSet :: u64
  dq_holdoverTimeout :: u64
  dq_maxInSpecOffset :: u64
  dq_clockId :: u64

definition dpll_setting :: "string \<Rightarrow> string \<times> string \<Rightarrow> dpll_params \<Rightarrow> dpll_params" where
  "dpll_setting ifname kv q =
     (if Contains (fst kv) (ifname @ ''.phaseOffset'') then q
      else case ParseUint (snd kv) 10 64 of
        (_, Some _) \<Rightarrow> q
      | (i, None) \<Rightarrow>
          q\<lparr>dq_maxHoldoverOffSet := (if fst kv = ''LocalMaxHoldoverOffSet'' then of_nat i else dq_maxHoldoverOffSet q),
            dq_holdoverTimeout := (if fst kv = ''LocalHoldoverTimeout'' then of_nat i else dq_holdoverTimeout q),
            dq_maxInSpecOffset := (if fst kv = ''MaxInSpecOffset'' then of_nat i else dq_maxInSpecOffset q),
            dq_clockId := (if fst kv = ''clockId['' @ ifname @ '']'' then of_nat i else dq_clockId q)\<rparr>)"

text \<open>The loop over the interfaces; the parameters are variables outside it.\<close>

fun dpll_deps :: "apply_env \<Rightarrow> PtpProfile \<Rightarrow> Iface list \<Rightarrow> dpll_params \<Rightarrow> dep_process list res" where
  "dpll_deps env prof [] q = Inr []"
| "dpll_deps env prof (i # is) q =
     (if if_Source i = GNSS \<or> if_Source i = PPS then
        (let q' = fold (dpll_setting (if_Name i)) (pp_PtpSettings prof) q in
         res_bind (GetPhaseOffsetPinFilter prof) (\<lambda>pinFilter.
           let d = CmdInit (ae_sysfs env) (ae_netlink env)
                     (NewDpll (dq_clockId q') (dq_maxHoldoverOffSet q') (dq_holdoverTimeout q') (dq_maxInSpecOffset q')
                        (if_Name i) [if if_Source i = PPS then PPS else GNSS] NONE pinFilter)
           in res_bind (dpll_deps env prof is q') (\<lambda>ds. Inr (DpllDep d # ds))))
      else dpll_deps env prof is q)"

definition dpll_init :: dpll_params where
  "dpll_init = \<lparr>dq_maxHoldoverOffSet = LocalMaxHoldoverOffSet, dq_holdoverTimeout = LocalHoldoverTimeout,
     dq_maxInSpecOffset = MaxInSpecOffset, dq_clockId = 0\<rparr>"

definition gpsd_cmdLine :: "string \<Rightarrow> string" where
  "gpsd_cmdLine serialPort = ''/usr/local/sbin/gpsd -p -n -S 2947 -G -N '' @ serialPort"

definition gpspipe_cmdLine :: "string \<Rightarrow> string" where
  "gpspipe_cmdLine serialPort = ''/usr/local/bin/gpspipe -v -R -l -o '' @ serialPort"

definition ts2phc_deps :: "apply_env \<Rightarrow> PtpProfile \<Rightarrow> string \<Rightarrow> Iface list \<Rightarrow> dep_process list res" where
  "ts2phc_deps env prof gnssSerialPort ifaces =
     (let port = (if gnssSerialPort = '''' then GPSPIPE_SERIALPORT else gnssSerialPort);
          gmInterface = if_Name (GetGMInterface ifaces)
      in res_bind (dpll_deps env prof ifaces dpll_init)
           (\<lambda>ds. Inr (GpsdDep port gmInterface (Split (addScheduling prof (gpsd_cmdLine port)) CHR '' '')
                      # GpspipeDep (Split (addScheduling prof (gpspipe_cmdLine GPSPIPE_SERIALPORT)) CHR '' '') # ds)))"

section \<open>One profile\<close>

definition rendered :: "apply_env \<Rightarrow> PtpProfile \<Rightarrow> string \<Rightarrow> ptp4lConf \<Rightarrow> (string \<times> Iface list \<times> Relations option) res" where
  "rendered env prof p conf =
     (if p = syncEProcessName then
        res_bind (renderSyncE4lConf (pp_PtpSettings prof) conf) (\<lambda>(_, out, relations). Inr (out, [], Some relations))
      else
        (let (_, out, ifaces) = renderPtp4lConf conf in
         Inr (out, map (\<lambda>i. i\<lparr>if_PhcId := ae_phcId env (if_Name i)\<rparr>) ifaces, None)))"

definition new_process ::
  "PtpProfile \<Rightarrow> string \<Rightarrow> proc_setup \<Rightarrow> ClockType \<Rightarrow> Iface list \<Rightarrow> Relations option \<Rightarrow> string
     \<Rightarrow> (string \<times> string list) list \<Rightarrow> dep_process list \<Rightarrow> ptpProcess" where
  "new_process prof p u clockType ifaces relations cmdLine haProfile deps =
     \<lparr>lp_name = p, lp_messageTag = pu_messageTag u, lp_ifaces = ifaces, lp_clockType = clockType,
      lp_threshold = getPTPThreshold (pp_ClockThreshold prof), lp_configName = pu_configFile u,
      pr_socketPath = pu_socketPath u, pr_configPath = pu_configPath u, pr_stopped = False,
      pr_logFilterRegex = getLogFilterRegex prof, pr_args = Split cmdLine CHR '' '', pr_depProcess = deps,
      pr_profileName = pp_Name prof, pr_parentClockClass = Fin 0, pr_pmcCheck = False,
      pr_haProfile = haProfile, pr_relations = relations\<rparr>"

text \<open>
  The body of the loop after the switch. A panic is \<open>Inl\<close>; an error is returned with the state so far. The
  code also writes the final options and configuration back through the profile's pointers; nothing reads
  them again.
\<close>

definition start_process ::
  "apply_env \<Rightarrow> PtpProfile \<Rightarrow> string \<Rightarrow> proc_setup \<Rightarrow> daemon_state \<Rightarrow> (daemon_state \<times> go_error option) res" where
  "start_process env prof p u st =
     (case pu_configOpts u of
        None \<Rightarrow> Inr (st, None)
      | Some opts \<Rightarrow>
          if opts = '''' then Inr (st, None)
          else (case populatePtp4lConf (pu_configInput u) zero_conf of
            Inl e \<Rightarrow> Inr (st, Some e)
          | Inr output \<Rightarrow>
              (case pp_Name prof of
                 None \<Rightarrow> Inl NilDereference
               | Some name \<Rightarrow>
                   (let conf = set_globals (ae_nodeName env) p (pu_messageTag u) (pu_socketPath u)
                                 (with_interface prof (output\<lparr>cf_profile_name := name\<rparr>));
                        (opts', conf') = addFlagsForMonitor p (Some opts) conf (ae_stdoutToSocket env)
                    in res_bind (rendered env prof p conf') (\<lambda>(out, ifaces, relations).
                      let cmdLine = addScheduling prof
                            (''/usr/sbin/'' @ p @ '' -f '' @ pu_configPath u @ ''  '' @ the opts' @ '' '');
                          ha = (if p = phc2sysProcessName
                             then ApplyHaProfiles (dn_process st) prof cmdLine else ([], cmdLine))
                      in res_bind (if p = ts2phcProcessName
                                   then ts2phc_deps env prof (cf_gnss_serial_port conf') ifaces else Inr [])
                        (\<lambda>deps.
                          if ae_writable env (pu_configPath u)
                          then Inr (st\<lparr>dn_files := (dn_files st)(pu_configPath u \<mapsto> out),
                                       dn_process := dn_process st @
                                         [new_process prof p u (cf_clock_type output) ifaces relations (snd ha) (fst ha) deps]\<rparr>, None)
                          else Inr (st, Some (GoErr ''failed to write the configuration file''))))))))"

fun start_processes ::
  "apply_env \<Rightarrow> nat \<Rightarrow> PtpProfile \<Rightarrow> string \<Rightarrow> string list \<Rightarrow> daemon_state \<Rightarrow> (daemon_state \<times> go_error option) res" where
  "start_processes env runID prof socketPath [] st = Inr (st, None)"
| "start_processes env runID prof socketPath (p # ps) st =
     (let u = process_setup (dn_prefix st) runID (0 < length (listHaProfiles prof)) prof socketPath p;
          st1 = (if p = ts2phcProcessName then st\<lparr>dn_ptp4lConfigPath := ''ptp4l.'' @ fmt_base 10 runID @ ''.config''\<rparr> else st)
      in res_bind (start_process env prof p u st1)
           (\<lambda>(st2, e). if e \<noteq> None then Inr (st2, e) else start_processes env runID prof (pu_socketPath u) ps st2))"

definition applyNodePtpProfile :: "apply_env \<Rightarrow> nat \<Rightarrow> PtpProfile \<Rightarrow> daemon_state \<Rightarrow> (daemon_state \<times> go_error option) res" where
  "applyNodePtpProfile env runID nodeProfile st =
     (let st1 = (case map_of (pp_PtpSettings nodeProfile) ''unitTest'' of
                   Some testDir \<Rightarrow> st\<lparr>dn_prefix := testDir\<rparr> | None \<Rightarrow> st)
      in start_processes env runID (ae_plugins env nodeProfile) '''' ptpProcesses st1)"

section \<open>All profiles\<close>

text \<open>
  The order of the profiles: those without phc2sys options first, each part by name. Go's sort is not stable,
  but names are unique; comparing two profiles dereferences both names, where the options do not decide.
\<close>

definition has_phc2sys :: "PtpProfile \<Rightarrow> bool" where
  "has_phc2sys a \<longleftrightarrow> (case pp_Phc2sysOpts a of Some opts \<Rightarrow> opts \<noteq> '''' | None \<Rightarrow> False)"

definition profile_le :: "PtpProfile \<Rightarrow> PtpProfile \<Rightarrow> bool" where
  "profile_le a b \<longleftrightarrow>
     (if \<not> has_phc2sys a \<and> has_phc2sys b then True else if has_phc2sys a \<and> \<not> has_phc2sys b then False
      else the (pp_Name a) \<le> the (pp_Name b))"

fun insert_profile :: "PtpProfile \<Rightarrow> PtpProfile list \<Rightarrow> PtpProfile list" where
  "insert_profile a [] = [a]"
| "insert_profile a (b # bs) = (if profile_le a b then a # b # bs else b # insert_profile a bs)"

definition sort_profiles :: "PtpProfile list \<Rightarrow> PtpProfile list" where
  "sort_profiles ps = foldr insert_profile ps []"

fun apply_each :: "apply_env \<Rightarrow> nat \<Rightarrow> PtpProfile list \<Rightarrow> daemon_state \<Rightarrow> (daemon_state \<times> go_error option) res" where
  "apply_each env runID [] st = Inr (st, None)"
| "apply_each env runID (prof # ps) st =
     res_bind (applyNodePtpProfile env runID prof st)
       (\<lambda>(st', e). if e \<noteq> None then Inr (st', e) else apply_each env (Suc runID) ps st')"

section \<open>Which processes a profile gets\<close>

definition enabled :: "PtpProfile \<Rightarrow> string \<Rightarrow> bool" where
  "enabled prof p \<longleftrightarrow>
     (if p = ptp4lProcessName then pp_Ptp4lOpts prof \<noteq> Some ''''
      else (case (if p = phc2sysProcessName then pp_Phc2sysOpts prof
                  else if p = ts2phcProcessName then pp_Ts2PhcOpts prof else pp_Synce4lOpts prof) of
              None \<Rightarrow> False | Some opts \<Rightarrow> opts \<noteq> ''''))"

definition config_name :: "nat \<Rightarrow> string \<Rightarrow> string" where
  "config_name runID p = p @ ''.'' @ fmt_base 10 runID @ ''.config''"

text \<open>What is known of a process made for a profile.\<close>

definition made_for :: "nat \<Rightarrow> PtpProfile \<Rightarrow> ptpProcess \<Rightarrow> bool" where
  "made_for runID prof q \<longleftrightarrow>
     lp_configName q = config_name runID (lp_name q) \<and> pr_profileName q = pp_Name prof
     \<and> (lp_name q = syncEProcessName \<longrightarrow> pr_socketPath q = '''' \<and> lp_ifaces q = [])
     \<and> \<not> pr_stopped q"

lemma process_names [simp]:
  "ptp4lProcessName \<noteq> phc2sysProcessName" "ptp4lProcessName \<noteq> ts2phcProcessName" "phc2sysProcessName \<noteq> ts2phcProcessName"
  "syncEProcessName \<noteq> phc2sysProcessName" "syncEProcessName \<noteq> ts2phcProcessName" "syncEProcessName \<noteq> ptp4lProcessName"
  "phc2sysProcessName \<noteq> ptp4lProcessName" "ts2phcProcessName \<noteq> ptp4lProcessName" "ts2phcProcessName \<noteq> phc2sysProcessName"
  "phc2sysProcessName \<noteq> syncEProcessName" "ts2phcProcessName \<noteq> syncEProcessName" "ptp4lProcessName \<noteq> syncEProcessName"
  by (simp_all add: ptp4lProcessName_def phc2sysProcessName_def ts2phcProcessName_def syncEProcessName_def)

lemma ts2phc_opts_empty [simp]: "ts2phc_opts s o' = '''' \<longleftrightarrow> o' = ''''"
  by (auto simp: ts2phc_opts_def add_flag_def Let_def split: prod.splits if_splits)

lemma enabled_setup:
  "p \<in> set ptpProcesses \<Longrightarrow>
     (case pu_configOpts (process_setup pre runID ha prof sock p) of None \<Rightarrow> False | Some opts \<Rightarrow> opts \<noteq> '''') = enabled prof p"
  by (auto simp: process_setup_def enabled_def ptpProcesses_def Let_def split: option.splits)

lemma setup_file: "p \<in> set ptpProcesses \<Longrightarrow> pu_configFile (process_setup pre runID ha prof sock p) = config_name runID p"
  by (simp add: process_setup_def config_name_def Let_def)

lemma setup_path: "pu_configPath (process_setup pre runID ha prof sock p) = pre @ ''/'' @ config_name runID p"
  by (simp add: process_setup_def config_name_def Let_def)

lemma setup_synce_socket: "pu_socketPath (process_setup pre runID ha prof sock syncEProcessName) = ''''"
  by (simp add: process_setup_def Let_def)

lemma rendered_ifaces: "rendered env prof p conf = Inr (out, ifaces, relations) \<Longrightarrow> p = syncEProcessName \<Longrightarrow> ifaces = []"
  by (auto simp: rendered_def res_bind_Inr_iff split: prod.splits)

lemma start_process_cases:
  assumes "start_process env prof p u st = Inr (st', e)"
  obtains "st' = st" "e = None" "pu_configOpts u = None \<or> pu_configOpts u = Some ''''"
  | e' where "st' = st" "e = Some e'" "pu_configOpts u \<noteq> None" "pu_configOpts u \<noteq> Some ''''"
  | out q where "e = None" "pu_configOpts u \<noteq> None" "pu_configOpts u \<noteq> Some ''''"
      "st' = st\<lparr>dn_files := (dn_files st)(pu_configPath u \<mapsto> out), dn_process := dn_process st @ [q]\<rparr>"
      "lp_name q = p" "lp_configName q = pu_configFile u" "pr_profileName q = pp_Name prof"
      "pr_socketPath q = pu_socketPath u" "pr_configPath q = pu_configPath u" "\<not> pr_stopped q"
      "p = syncEProcessName \<longrightarrow> lp_ifaces q = []"
proof -
  consider "pu_configOpts u = None \<or> pu_configOpts u = Some ''''" | opts where "pu_configOpts u = Some opts" "opts \<noteq> ''''"
    by (cases "pu_configOpts u") auto
  then show ?thesis
  proof cases
    case 1
    with assms show ?thesis by (intro that(1)) (auto simp: start_process_def)
  next
    case 2
    show ?thesis
    proof (cases "e = None")
      case False
      with assms 2 show ?thesis
        by (intro that(2) [of "the e"])
          (auto simp: start_process_def Let_def res_bind_Inr_iff split: sum.splits option.splits prod.splits if_splits)
    next
      case True
      with assms 2 show ?thesis
        by (auto simp: start_process_def Let_def res_bind_Inr_iff new_process_def
            split: sum.splits option.splits prod.splits if_splits intro!: that(3) dest: rendered_ifaces)
    qed
  qed
qed

lemma start_processes_result:
  assumes "start_processes env n prof sock ps st = Inr (st', e)" and "set ps \<subseteq> set ptpProcesses"
  shows "\<exists>new. dn_process st' = dn_process st @ new \<and> (\<forall>q \<in> set new. made_for n prof q)
     \<and> prefix (map lp_name new) (filter (enabled prof) ps)
     \<and> (e = None \<longrightarrow> map lp_name new = filter (enabled prof) ps)
     \<and> (\<forall>q \<in> set new. dn_files st' (pr_configPath q) \<noteq> None)
     \<and> (\<forall>path. dn_files st path \<noteq> None \<longrightarrow> dn_files st' path \<noteq> None)"
  using assms
proof (induction ps arbitrary: st sock)
  case Nil
  then show ?case by auto
next
  case (Cons p ps)
  let ?u = "process_setup (dn_prefix st) n (listHaProfiles prof \<noteq> []) prof sock p"
  define st1 where "st1 = (if p = ts2phcProcessName then st\<lparr>dn_ptp4lConfigPath := ''ptp4l.'' @ fmt_base 10 n @ ''.config''\<rparr> else st)"
  have st1: "dn_process st1 = dn_process st" "dn_files st1 = dn_files st" by (simp_all add: st1_def)
  from Cons.prems(1) obtain st2 e2 where s: "start_process env prof p ?u st1 = Inr (st2, e2)"
    and r: "(if e2 \<noteq> None then Inr (st2, e2) else start_processes env n prof (pu_socketPath ?u) ps st2) = Inr (st', e)"
    by (auto simp: st1_def [symmetric] Let_def res_bind_Inr_iff)
  have p: "p \<in> set ptpProcesses" "set ps \<subseteq> set ptpProcesses" using Cons.prems(2) by auto
  note en = enabled_setup [OF p(1), of "dn_prefix st" n "listHaProfiles prof \<noteq> []" prof sock]
  from s show ?case
  proof (cases rule: start_process_cases)
    case 1
    with r have "start_processes env n prof (pu_socketPath ?u) ps st1 = Inr (st', e)" by simp
    from Cons.IH [OF this p(2)] show ?thesis using 1 en by (auto simp: st1)
  next
    case (2 e')
    with r st1 have "dn_process st' = dn_process st" "dn_files st' = dn_files st" "e \<noteq> None" by auto
    then show ?thesis by (intro exI [of _ "[]"]) auto
  next
    case (3 out q)
    with r have "start_processes env n prof (pu_socketPath ?u) ps st2 = Inr (st', e)" by simp
    from Cons.IH [OF this p(2)] obtain new where new: "dn_process st' = dn_process st2 @ new" "\<forall>q \<in> set new. made_for n prof q"
      "prefix (map lp_name new) (filter (enabled prof) ps)" "e = None \<longrightarrow> map lp_name new = filter (enabled prof) ps"
      "\<forall>q \<in> set new. dn_files st' (pr_configPath q) \<noteq> None"
      "\<forall>path. dn_files st2 path \<noteq> None \<longrightarrow> dn_files st' path \<noteq> None" by blast
    have "enabled prof p" using en 3 by auto
    moreover have "made_for n prof q"
      using 3 p(1) by (auto simp: made_for_def setup_file setup_synce_socket)
    ultimately show ?thesis
      using new 3 by (intro exI [of _ "q # new"]) (auto simp: st1)
  qed
qed

lemma profile_processes_of:
  assumes "applyNodePtpProfile env n nodeProfile st = Inr (st', e)" and "prof = ae_plugins env nodeProfile"
  shows "\<exists>new. dn_process st' = dn_process st @ new \<and> (\<forall>q \<in> set new. made_for n prof q)
     \<and> prefix (map lp_name new) (filter (enabled prof) ptpProcesses)
     \<and> (e = None \<longrightarrow> map lp_name new = filter (enabled prof) ptpProcesses)
     \<and> (\<forall>q \<in> set new. dn_files st' (pr_configPath q) \<noteq> None)"
proof -
  let ?st1 = "case map_of (pp_PtpSettings nodeProfile) ''unitTest'' of
      Some testDir \<Rightarrow> st\<lparr>dn_prefix := testDir\<rparr> | None \<Rightarrow> st"
  have "dn_process ?st1 = dn_process st" by (simp split: option.splits)
  with start_processes_result [of env n prof "''''" ptpProcesses ?st1 st' e] assms show ?thesis
    by (auto simp: applyNodePtpProfile_def Let_def)
qed

text \<open>
  C22. A profile gets exactly the processes it has options for, in the order ts2phc, synce4l, ptp4l, phc2sys
  (ptp4l also without options): they are appended to the manager's processes, each with its own configuration
  file, which has been written. If an error stops the profile half way, those made so far stay in the manager.
\<close>

theorem profile_processes:
  assumes "applyNodePtpProfile env n nodeProfile st = Inr (st', e)" and "prof = ae_plugins env nodeProfile"
  shows "\<exists>new. dn_process st' = dn_process st @ new \<and> (\<forall>q \<in> set new. made_for n prof q)
     \<and> prefix (map lp_name new) (filter (enabled prof) ptpProcesses)
     \<and> (e = None \<longrightarrow> map lp_name new = filter (enabled prof) ptpProcesses)
     \<and> (\<forall>q \<in> set new. dn_files st' (pr_configPath q) \<noteq> None)"
  using assms by (rule profile_processes_of)

definition demo_env :: apply_env where
  "demo_env = \<lparr>ae_plugins = id, ae_phcId = (\<lambda>i. if i = ''ens1f0'' then ''/dev/ptp4'' else ''''), ae_nodeName = ''node1'',
     ae_writable = (\<lambda>_. True), ae_sysfs = False, ae_netlink = True, ae_stdoutToSocket = True\<rparr>"

definition demo_state :: daemon_state where
  "demo_state = \<lparr>dn_prefix = ''/var/run'', dn_process = [], dn_files = Map.empty, dn_ptp4lConfigPath = ''''\<rparr>"

definition demo_profile :: PtpProfile where
  "demo_profile = \<lparr>pp_Name = Some ''gm'', pp_Interface = None, pp_Ptp4lOpts = Some ''-2'', pp_Phc2sysOpts = None,
     pp_Ts2PhcOpts = Some ''-m'', pp_Synce4lOpts = None, pp_Ptp4lConf = Some ''[global]'', pp_Phc2sysConf = None,
     pp_Ts2PhcConf = Some (''[nmea]'' @ ''\<newline>'' @ ''ts2phc.master 1'' @ ''\<newline>'' @ ''[ens1f0]''), pp_Synce4lConf = None,
     pp_SchedulingPolicy = Some ''SCHED_FIFO'', pp_SchedulingPriority = Some 65, pp_ClockThreshold = None,
     pp_PtpSettings = [(''clockId[ens1f0]'', ''5799633565432596414'')]\<rparr>"

definition demo_bc :: PtpProfile where
  "demo_bc = \<lparr>pp_Name = Some ''bc1'', pp_Interface = Some ''ens1f0'', pp_Ptp4lOpts = Some ''-2'', pp_Phc2sysOpts = None,
     pp_Ts2PhcOpts = None, pp_Synce4lOpts = Some ''-m'', pp_Ptp4lConf = None, pp_Phc2sysConf = None,
     pp_Ts2PhcConf = None, pp_Synce4lConf = None, pp_SchedulingPolicy = None, pp_SchedulingPriority = None,
     pp_ClockThreshold = None, pp_PtpSettings = []\<rparr>"

definition apply_ok :: "(daemon_state \<times> go_error option) res \<Rightarrow> bool" where
  "apply_ok r = (case r of Inr (st, e) \<Rightarrow> e = None | Inl _ \<Rightarrow> False)"

lemma demo_bc_ok: "apply_ok (applyNodePtpProfile demo_env 0 demo_bc demo_state)"
  by code_simp

theorem profile_processes_witness:
  "\<exists>st'. applyNodePtpProfile demo_env 0 demo_bc demo_state = Inr (st', None)
     \<and> map lp_name (dn_process st') = [syncEProcessName, ptp4lProcessName]"
proof -
  obtain st' where st': "applyNodePtpProfile demo_env 0 demo_bc demo_state = Inr (st', None)"
    using demo_bc_ok by (auto simp: apply_ok_def split: sum.splits)
  have "filter (enabled (ae_plugins demo_env demo_bc)) ptpProcesses = [syncEProcessName, ptp4lProcessName]" by code_simp
  with profile_processes [OF st' HOL.refl] st' show ?thesis by (auto simp: demo_state_def)
qed

section \<open>The options of ts2phc\<close>

lemma Contains_sublist: "Contains s p \<longleftrightarrow> sublist p s"
proof -
  have "index_of s p = None \<longleftrightarrow> \<not> sublist p s"
    by (induction s p rule: index_of.induct) (auto simp: HasPrefix_iff sublist_Cons_right)
  then show ?thesis by (simp add: Contains_def)
qed

lemma add_flag_Contains: "Contains (add_flag opts flag v) flag"
  using sublist_appendI [of flag "opts @ '' ''" "'' '' @ v"] by (simp add: add_flag_def Contains_sublist)

lemma add_flag_keeps: "Contains opts g \<Longrightarrow> Contains (add_flag opts flag v) g"
  by (auto simp: add_flag_def Contains_sublist sublist_def) (metis append.assoc append_Cons)

lemma add_flag_prefix: "prefix opts (add_flag opts flag v)"
  by (simp add: add_flag_def)

text \<open>
  The options with which ts2phc runs keep the profile's options as they are, in front, and always
  set the holdover time, the offset threshold and the number of offsets, exactly once over: doing it again
  changes nothing, whatever the settings are then.
\<close>

theorem ts2phc_options:
  assumes "opts \<noteq> ''''" and "opts' = ts2phc_opts settings opts"
  shows "prefix opts opts' \<and> Contains opts' ''--ts2phc.holdover'' \<and> Contains opts' ''--servo_offset_threshold''
       \<and> Contains opts' ''--servo_num_offset_values'' \<and> ts2phc_opts settings' opts' = opts'"
proof -
  obtain v1 v2 where o: "opts' = add_flag (add_flag (add_flag opts ''--ts2phc.holdover'' v1) ''--servo_offset_threshold'' v2)
      ''--servo_num_offset_values'' ''10''"
    using assms by (auto simp: ts2phc_opts_def Let_def split: prod.splits)
  have p: "prefix opts opts'" unfolding o by (meson add_flag_prefix prefix_order.trans)
  have c: "Contains opts' ''--ts2phc.holdover''" "Contains opts' ''--servo_offset_threshold''" "Contains opts' ''--servo_num_offset_values''"
    unfolding o by (intro add_flag_keeps add_flag_Contains)+
  have "ts2phc_opts settings' opts' = opts'"
    using c by (simp add: ts2phc_opts_def add_flag_def Let_def split: prod.splits)
  with p c show ?thesis by blast
qed

theorem ts2phc_options_witness:
  "Contains (ts2phc_opts [(''LocalHoldoverTimeout'', ''3600'')] ''-m --ts2phc.holdover 30'') ''--servo_offset_threshold''"
  using ts2phc_options [of "''-m --ts2phc.holdover 30''"] by simp

section \<open>The options of the global sections\<close>

text \<open>
  What a rendered \<open>[global]\<close> section says, whatever the profile wrote there: the message tag and the socket
  of the process, the leap file of the node for ts2phc or where the profile asks for one, the pipe of gpspipe
  in place of the serial port, and every other option as in the profile.
\<close>

theorem global_section_options:
  "map_of (global_options nodeName p messageTag socketPath opts) k =
     (if k = ''leapfile'' \<and> (p = ts2phcProcessName \<or> map_of opts ''leapfile'' \<noteq> None) then Some (''/etc/leap/'' @ nodeName)
      else if k = ''ts2phc.nmea_serialport'' \<and> map_of opts k \<noteq> None then Some GPSPIPE_SERIALPORT
      else if k = ''uds_address'' \<and> socketPath \<noteq> '''' then Some socketPath
      else if k = ''message_tag'' then Some messageTag
      else map_of opts k)"
proof -
  have if_map: "map_of (if c then AList.update k' v xs else xs) k = (if c \<and> k = k' then Some v else map_of xs k)"
    for c k k' and v :: string and xs by (simp add: update_conv')
  have "map_of (AList.update ''message_tag'' messageTag opts) k = (if k = ''message_tag'' then Some messageTag else map_of opts k)" for k
    by (simp add: update_conv')
  note maps = if_map this
  show ?thesis
    unfolding global_options_def Let_def maps by (cases "k = ''leapfile''"; cases "k = ''ts2phc.nmea_serialport''") simp_all
qed

section \<open>HA sockets\<close>

definition ha_process :: "ptpProcess list \<Rightarrow> string \<Rightarrow> ptpProcess option" where
  "ha_process ps n = find (\<lambda>p. pr_profileName p = Some n) ps"

lemma ha_profile_steps:
  "snd (fold (ha_profile_step ps) ns st) =
     snd st @ map (\<lambda>n. ''-z '' @ pr_socketPath (the (ha_process ps n))) (filter (\<lambda>n. ha_process ps n \<noteq> None) ns)"
  "map_of (fst (fold (ha_profile_step ps) ns st)) n =
     (if n \<in> set ns \<and> ha_process ps n \<noteq> None then map_option (map if_Name \<circ> lp_ifaces) (ha_process ps n)
      else map_of (fst st) n)"
  by (induction ns arbitrary: st) (auto simp: ha_profile_step_def ha_process_def update_conv' split: option.splits)

lemma apply_ha_profiles:
  "map_of (fst (ApplyHaProfiles ps prof cmdLine)) n =
       (if n \<in> set (listHaProfiles prof) then map_option (map if_Name \<circ> lp_ifaces) (ha_process ps n) else None)
   \<and> snd (ApplyHaProfiles ps prof cmdLine) =
       cmdLine @ Join (map (\<lambda>n. ''-z '' @ pr_socketPath (the (ha_process ps n)))
                         (filter (\<lambda>n. ha_process ps n \<noteq> None) (listHaProfiles prof))) '' ''"
proof -
  obtain ha paths where f: "fold (ha_profile_step ps) (listHaProfiles prof) ([], []) = (ha, paths)" by fastforce
  have paths: "paths = map (\<lambda>n. ''-z '' @ pr_socketPath (the (ha_process ps n)))
      (filter (\<lambda>n. ha_process ps n \<noteq> None) (listHaProfiles prof))"
    using ha_profile_steps(1) [of ps "listHaProfiles prof" "([], [])"] f by simp
  have ha: "map_of ha n = (if n \<in> set (listHaProfiles prof) then map_option (map if_Name \<circ> lp_ifaces) (ha_process ps n) else None)"
    using ha_profile_steps(2) [of ps "listHaProfiles prof" "([], [])" n] f by auto
  have "snd (ApplyHaProfiles ps prof cmdLine) = cmdLine @ Join paths '' ''"
    by (cases paths) (simp_all add: ApplyHaProfiles_def f)
  then show ?thesis using ha paths by (simp add: ApplyHaProfiles_def f)
qed

text \<open>
  The phc2sys command of an HA profile: it gets one \<open>-z\<close> option for each listed profile that has a process, in
  the order of the list, with the socket of the first process of that profile, and the interfaces of that
  process are those the fail-over lines are compared with.
\<close>

theorem ha_sockets:
  "map_of (fst (ApplyHaProfiles ps prof cmdLine)) n =
       (if n \<in> set (listHaProfiles prof) then map_option (map if_Name \<circ> lp_ifaces) (ha_process ps n) else None)
   \<and> snd (ApplyHaProfiles ps prof cmdLine) =
       cmdLine @ Join (map (\<lambda>n. ''-z '' @ pr_socketPath (the (ha_process ps n)))
                         (filter (\<lambda>n. ha_process ps n \<noteq> None) (listHaProfiles prof))) '' ''"
  by (rule apply_ha_profiles)

theorem ha_sockets_witness:
  "snd (ApplyHaProfiles [demo_ha\<lparr>pr_profileName := Some ''bc1'', pr_socketPath := ''/var/run/ptp4l.0.socket''\<rparr>]
          (demo_bc\<lparr>pp_PtpSettings := [(''haProfiles'', ''bc1, bc2'')]\<rparr>) ''phc2sys '') = ''phc2sys -z /var/run/ptp4l.0.socket''"
  by (simp add: ha_sockets listHaProfiles_def Split_def TrimSpace_def is_space_def ha_process_def demo_bc_def)

text \<open>
  A profile with SyncE but without ts2phc breaks HA: its first process is synce4l, which has no socket and
  no interfaces, so the phc2sys command gets a \<open>-z\<close> without a path and no fail-over line is ever
  matched with the profile.
\<close>

theorem ha_socket_missing_with_synce:
  assumes "applyNodePtpProfile env n nodeProfile st = Inr (st', None)" and "prof = ae_plugins env nodeProfile"
    and "pp_Name prof = Some name" and "ha_process (dn_process st) name = None"
    and "enabled prof syncEProcessName" and "\<not> enabled prof ts2phcProcessName" and "listHaProfiles haProf = [name]"
  shows "snd (ApplyHaProfiles (dn_process st') haProf cmdLine) = cmdLine @ ''-z ''
       \<and> map_of (fst (ApplyHaProfiles (dn_process st') haProf cmdLine)) name = Some []"
proof -
  from profile_processes_of [OF assms(1,2)] obtain new where
    new: "dn_process st' = dn_process st @ new" "\<forall>q \<in> set new. made_for n prof q"
      "map lp_name new = filter (enabled prof) ptpProcesses" by blast
  have "filter (enabled prof) ptpProcesses = syncEProcessName # filter (enabled prof) [ptp4lProcessName, phc2sysProcessName]"
    using assms(5,6) by (simp add: ptpProcesses_def)
  with new(3) obtain q qs where q: "new = q # qs" "lp_name q = syncEProcessName" by (auto simp: map_eq_Cons_conv)
  then have m: "pr_profileName q = Some name" "pr_socketPath q = ''''" "lp_ifaces q = []"
    using new(2) assms(3) by (auto simp: made_for_def)
  have "find P (xs @ ys) = (case find P xs of None \<Rightarrow> find P ys | Some y \<Rightarrow> Some y)" for P and xs ys :: "ptpProcess list"
    by (induction xs) auto
  then have "ha_process (dn_process st') name = Some q" using assms(4) by (simp add: new(1) q(1) m(1) ha_process_def)
  then show ?thesis using assms(7) m by (simp add: apply_ha_profiles)
qed

section \<open>Configuration names\<close>

lemma fmt_base_inj:
  assumes "fmt_base 10 m = fmt_base 10 n"
  shows "m = n"
proof -
  have "parse_loop 10 (max m n) 0 (fmt_base 10 m) = (m, None)" by (rule parse_loop_fmt_base) simp_all
  moreover have "parse_loop 10 (max m n) 0 (fmt_base 10 n) = (n, None)" by (rule parse_loop_fmt_base) simp_all
  ultimately show ?thesis using assms by (metis prod.inject)
qed

lemma config_name_inj:
  assumes "config_name m p = config_name n q" and "p \<in> set ptpProcesses" and "q \<in> set ptpProcesses"
  shows "m = n \<and> p = q"
proof -
  have "p @ CHR ''.'' # fmt_base 10 m = q @ CHR ''.'' # fmt_base 10 n" using assms(1) by (simp add: config_name_def)
  moreover have "CHR ''.'' \<notin> set p" "CHR ''.'' \<notin> set q"
    using assms(2,3) by (auto simp: ptpProcesses_def ts2phcProcessName_def syncEProcessName_def ptp4lProcessName_def phc2sysProcessName_def)
  moreover have "takeWhile (\<lambda>c. c \<noteq> CHR ''.'') (w @ CHR ''.'' # v) = w" if "CHR ''.'' \<notin> set w" for w v
    using that by (induction w) auto
  ultimately have "p = q" by metis
  then have "fmt_base 10 m = fmt_base 10 n" using assms(1) by (simp add: config_name_def)
  with \<open>p = q\<close> show ?thesis using fmt_base_inj by blast
qed

lemma made_for_distinct:
  assumes "\<forall>q \<in> set new. made_for n prof q" and "prefix (map lp_name new) (filter P ptpProcesses)"
  shows "distinct (map lp_configName new)" and "\<forall>q \<in> set new. lp_name q \<in> set ptpProcesses"
proof -
  have "distinct ptpProcesses" by (simp add: ptpProcesses_def)
  then have "distinct (filter P ptpProcesses)" by simp
  then have d: "distinct (map lp_name new)" using assms(2) by (metis distinct_append prefix_def)
  have sub: "set (map lp_name new) \<subseteq> set ptpProcesses" using set_mono_prefix [OF assms(2)] by auto
  then show "\<forall>q \<in> set new. lp_name q \<in> set ptpProcesses" by auto
  have "map lp_configName new = map (config_name n) (map lp_name new)"
    using assms(1) by (simp add: made_for_def)
  moreover have "inj_on (config_name n) (set (map lp_name new))"
    using sub config_name_inj by (meson inj_onI subsetD)
  ultimately show "distinct (map lp_configName new)" using d by (simp only: distinct_map)
qed

definition config_from :: "nat \<Rightarrow> ptpProcess \<Rightarrow> bool" where
  "config_from n q \<longleftrightarrow> lp_name q \<in> set ptpProcesses \<and> (\<exists>k \<ge> n. lp_configName q = config_name k (lp_name q))"

lemma apply_each_configs:
  "apply_each env n ps st = Inr (st', e) \<Longrightarrow>
     \<exists>new. dn_process st' = dn_process st @ new \<and> distinct (map lp_configName new) \<and> (\<forall>q \<in> set new. config_from n q)"
proof (induction env n ps st rule: apply_each.induct)
  case (1 env n st)
  then show ?case by auto
next
  case (2 env n prof ps st)
  from 2(2) obtain st1 e1 where s: "applyNodePtpProfile env n prof st = Inr (st1, e1)"
    and r: "(if e1 \<noteq> None then Inr (st1, e1) else apply_each env (Suc n) ps st1) = Inr (st', e)"
    by (auto simp: res_bind_Inr_iff)
  from profile_processes_of [OF s HOL.refl] obtain new where
    new: "dn_process st1 = dn_process st @ new" "\<forall>q \<in> set new. made_for n (ae_plugins env prof) q"
      "prefix (map lp_name new) (filter (enabled (ae_plugins env prof)) ptpProcesses)" by blast
  note d = made_for_distinct [OF new(2,3)]
  then have c: "\<forall>q \<in> set new. config_from n q \<and> lp_configName q = config_name n (lp_name q)"
    using new(2) by (auto simp: config_from_def made_for_def)
  show ?case
  proof (cases "e1 = None")
    case False
    with r new(1) d c show ?thesis by auto
  next
    case True
    with r have "apply_each env (Suc n) ps st1 = Inr (st', e)" by simp
    from 2(1) [OF _ this, of e1] True obtain new' where
      new': "dn_process st' = dn_process st1 @ new'" "distinct (map lp_configName new')" "\<forall>q \<in> set new'. config_from (Suc n) q"
      by auto
    have "lp_configName a \<noteq> lp_configName b" if ab: "a \<in> set new" "b \<in> set new'" for a b
    proof
      assume "lp_configName a = lp_configName b"
      moreover obtain k where "Suc n \<le> k" "lp_configName b = config_name k (lp_name b)" "lp_name b \<in> set ptpProcesses"
        using new'(3) ab(2) by (auto simp: config_from_def)
      ultimately show False
        using c ab(1) config_name_inj [of n "lp_name a" k "lp_name b"] d(2) by auto
    qed
    moreover have "\<forall>q \<in> set new'. config_from n q" using new'(3) by (auto simp: config_from_def intro: Suc_leD)
    ultimately show ?thesis using new new' d c by (intro exI [of _ "new @ new'"]) (auto simp: disjoint_iff)
  qed
qed

text \<open>
  C23. No two processes share a configuration: whatever profiles are applied, and also if an error stops them,
  the configuration names of the processes are distinct.
\<close>

theorem config_names_distinct:
  assumes "apply_each env 0 ps st = Inr (st', e)" and "dn_process st = []"
  shows "distinct (map lp_configName (dn_process st'))"
  using apply_each_configs [OF assms(1)] assms(2) by auto

theorem config_names_distinct_witness:
  "\<exists>st'. apply_each demo_env 0 [demo_bc, demo_bc\<lparr>pp_Name := Some ''bc2''\<rparr>] demo_state = Inr (st', None)
     \<and> distinct (map lp_configName (dn_process st')) \<and> length (dn_process st') = 4"
proof -
  have "case apply_each demo_env 0 [demo_bc, demo_bc\<lparr>pp_Name := Some ''bc2''\<rparr>] demo_state of
      Inr (st, e) \<Rightarrow> e = None \<and> length (dn_process st) = 4 | Inl _ \<Rightarrow> False"
    by code_simp
  then obtain st' where st': "apply_each demo_env 0 [demo_bc, demo_bc\<lparr>pp_Name := Some ''bc2''\<rparr>] demo_state = Inr (st', None)"
    "length (dn_process st') = 4" by (auto split: sum.splits)
  with config_names_distinct [OF st'(1)] show ?thesis by (simp add: demo_state_def)
qed

text \<open>The two profiles of the SyncE case: a boundary clock with SyncE, and the HA profile.\<close>

theorem ha_socket_missing_with_synce_witness:
  "\<exists>st'. applyNodePtpProfile demo_env 0 demo_bc demo_state = Inr (st', None)
     \<and> snd (ApplyHaProfiles (dn_process st') (demo_bc\<lparr>pp_PtpSettings := [(''haProfiles'', ''bc1'')]\<rparr>) ''phc2sys '') = ''phc2sys -z ''"
proof -
  obtain st' where st': "applyNodePtpProfile demo_env 0 demo_bc demo_state = Inr (st', None)"
    using demo_bc_ok by (auto simp: apply_ok_def split: sum.splits)
  have "enabled (ae_plugins demo_env demo_bc) syncEProcessName" "\<not> enabled (ae_plugins demo_env demo_bc) ts2phcProcessName"
    "pp_Name (ae_plugins demo_env demo_bc) = Some ''bc1''"
    "listHaProfiles (demo_bc\<lparr>pp_PtpSettings := [(''haProfiles'', ''bc1'')]\<rparr>) = [''bc1'']"
    "ha_process (dn_process demo_state) ''bc1'' = None"
    by code_simp+
  with ha_socket_missing_with_synce [OF st' HOL.refl, of "''bc1''"] st' show ?thesis by simp
qed

section \<open>The clock id of a DPLL\<close>

lemma dpll_setting_clockId:
  "\<forall>kv \<in> set kvs. fst kv \<noteq> ''clockId['' @ i @ '']'' \<Longrightarrow> dq_clockId (fold (dpll_setting i) kvs q) = dq_clockId q"
  by (induction kvs arbitrary: q) (auto simp: dpll_setting_def split: prod.splits option.splits)

text \<open>
  The clock id is a variable outside the loop over the interfaces: an interface without a clock id in the
  settings gets a DPLL with the clock id of the interface before it, not the zero clock id, and so answers to
  the events of another card.
\<close>

theorem clock_id_inherited:
  assumes "dpll_deps env prof (is @ [i, j]) q = Inr ds" and "if_Source i = GNSS \<or> if_Source i = PPS"
    and "if_Source j = GNSS \<or> if_Source j = PPS"
    and "\<forall>kv \<in> set (pp_PtpSettings prof). fst kv \<noteq> ''clockId['' @ if_Name j @ '']''"
  shows "\<exists>ds' d d'. ds = ds' @ [DpllDep d, DpllDep d'] \<and> dp_iface d = if_Name i \<and> dp_iface d' = if_Name j
       \<and> dp_clockId d' = dp_clockId d"
  using assms(1)
proof (induction "is" arbitrary: q ds)
  case Nil
  then show ?case
    using assms(2-4) by (auto simp: Let_def res_bind_Inr_iff CmdInit_def setAPIType_def NewDpll_def dpll_setting_clockId)
next
  case (Cons k ks)
  show ?case
  proof (cases "if_Source k = GNSS \<or> if_Source k = PPS")
    case True
    with Cons.prems obtain d q' ds' where "ds = DpllDep d # ds'" "dpll_deps env prof (ks @ [i, j]) q' = Inr ds'"
      by (auto simp: Let_def res_bind_Inr_iff)
    with Cons.IH [of q' ds'] show ?thesis by (metis append_Cons)
  next
    case False
    with Cons.prems have "dpll_deps env prof (ks @ [i, j]) q = Inr ds" by simp
    then show ?thesis by (rule Cons.IH)
  qed
qed

definition demo_cards :: "Iface list" where
  "demo_cards = [zero_iface\<lparr>if_Name := ''ens1f0'', if_Source := GNSS\<rparr>, zero_iface\<lparr>if_Name := ''ens2f0'', if_Source := PPS\<rparr>]"

theorem clock_id_inherited_witness:
  "\<exists>ds' d d'. dpll_deps demo_env demo_profile demo_cards dpll_init = Inr (ds' @ [DpllDep d, DpllDep d'])
     \<and> dp_iface d' = ''ens2f0'' \<and> dp_clockId d' = dp_clockId d"
proof -
  have "GetPhaseOffsetPinFilter demo_profile = Inr []"
    by (simp add: GetPhaseOffsetPinFilter_def demo_profile_def filter_step_def Contains_def HasPrefix_def)
  then obtain ds where "dpll_deps demo_env demo_profile ([] @ demo_cards) dpll_init = Inr ds"
    by (simp add: demo_cards_def zero_iface_def Let_def)
  then show ?thesis
    using clock_id_inherited [of demo_env demo_profile "[]" "demo_cards ! 0" "demo_cards ! 1" dpll_init ds]
    by (auto simp: demo_cards_def zero_iface_def demo_profile_def)
qed

end
