(* ===== verification/Executions.thy ===== *)
theory Executions
  imports Main
begin

text \<open>
  Executions of the step relations that model goroutines and the calls that wait for them: what every execution
  reaches, invariants of the reachable states, and the contract of an operation that ends on every execution.
\<close>

section \<open>Reachable states\<close>

text \<open>The states reachable from \<open>s\<close> are those in \<open>step\<^sup>*\<^sup>* s\<close>.\<close>

lemmas no_step = rtranclp.rtrancl_refl
lemmas first_step = converse_rtranclp_into_rtranclp
lemmas last_step = rtranclp.rtrancl_into_rtrancl
lemmas more_steps = rtranclp_trans

lemma steps_inv:
  assumes "step\<^sup>*\<^sup>* s s'" and "I s" and "\<And>s s'. step s s' \<Longrightarrow> I s \<Longrightarrow> I s'"
  shows "I s'"
  using assms by (induction rule: rtranclp_induct) blast+

section \<open>What every execution reaches\<close>

inductive always_reaches :: "('s \<Rightarrow> 's \<Rightarrow> bool) \<Rightarrow> ('s \<Rightarrow> bool) \<Rightarrow> 's \<Rightarrow> bool" for step :: "'s \<Rightarrow> 's \<Rightarrow> bool" and goal :: "'s \<Rightarrow> bool" where
  reached: "goal s \<Longrightarrow> always_reaches step goal s"
| all_steps: "(\<exists>s'. step s s') \<Longrightarrow> (\<forall>s'. step s s' \<longrightarrow> always_reaches step goal s') \<Longrightarrow> always_reaches step goal s"

text \<open>
  The contract of an operation that is about to end: from its \<open>ending\<close> states a step is always possible, and each brings it
  nearer to its end.
\<close>

locale ending_operation =
  fixes step :: "'s \<Rightarrow> 's \<Rightarrow> bool" and ended :: "'s \<Rightarrow> bool" and ending :: "'s \<Rightarrow> bool" and left :: "'s \<Rightarrow> nat"
  assumes ending_step: "step s s' \<Longrightarrow> ending s \<Longrightarrow> \<not> ended s \<Longrightarrow> ending s' \<and> left s' < left s"
    and ending_progress: "ending s \<Longrightarrow> \<not> ended s \<Longrightarrow> \<exists>s'. step s s'"
begin

lemma ends: "ending s \<Longrightarrow> always_reaches step ended s"
proof (induction "left s" arbitrary: s rule: less_induct)
  case less
  show ?case
  proof (cases "ended s")
    case False
    with less ending_step ending_progress show ?thesis by (blast intro: all_steps)
  qed (rule reached)
qed

lemma ended_reachable: "ending s \<Longrightarrow> \<exists>s'. step\<^sup>*\<^sup>* s s' \<and> ended s'"
proof (induction "left s" arbitrary: s rule: less_induct)
  case less
  show ?case
  proof (cases "ended s")
    case False
    then obtain s' where "step s s'" "ending s'" "left s' < left s" using less.prems ending_step ending_progress by blast
    then show ?thesis using less.hyps by (blast intro: first_step)
  qed (blast intro: no_step)
qed

end

end
