(* ===== verification/Process_Control.thy ===== *)
theory Process_Control
  imports Daemon_Apply Executions
begin

text \<open>
  Starting and stopping processes, \<open>pkg/daemon/daemon.go\<close>: the goroutine \<open>cmdRun\<close> of a process and the call
  \<open>cmdStop\<close> as a step relation over their shared state, and \<open>applyNodePTPProfiles\<close>, which stops the old
  processes, removes their gauges and files, and builds and starts the new ones.

  Shown: a stop of a process whose command runs returns on every execution; a stop never panics if the command
  can always be started, and may if it cannot; there is an interleaving in which the stop and the run wait for
  each other for ever; stopping a process that was never started waits for ever, so that after a profile
  that failed half way the next configuration is never applied; which gauges the stop loop removes.
\<close>

section \<open>cmdRun and cmdStop\<close>

text \<open>
  Where \<open>cmdRun\<close> is: not launched; at the head of its loop; before the test of \<open>Stopped\<close>; before \<open>cmd.Start\<close>;
  waiting for the end of the output of a command that was not started (the pipe has no end); reading the output
  and waiting for the command; in the delay before a restart; sending on \<open>exitCh\<close>; finished. That the goroutine which
  reads the output ends with the command is the step \<open>run_exit\<close>; \<open>Log_Forward\<close> opens it up for the event socket.
\<close>

datatype run_pc = RNone | RTop | RTest | RStart | RNoEof | RRead | RSleep | RSend | RDone

text \<open>
  Where \<open>cmdStop\<close> is: not called; before it looks at \<open>cmd.Process\<close>; receiving from \<open>exitCh\<close>; before it logs the
  process id; returned; panicked.
\<close>

datatype stop_pc = SNone | SSignal | SWait | SPid | SReturned | SPanicked

text \<open>\<open>cmd.Process\<close> of the current command: nil, running, or waited for.\<close>

datatype child = NoChild | Running | Exited

record proc_sys =
  ps_run :: run_pc
  ps_stop :: stop_pc
  ps_stopped :: bool
  ps_child :: child

text \<open>\<open>fails\<close> says whether \<open>cmd.Start\<close> may fail.\<close>

inductive proc_step :: "bool \<Rightarrow> proc_sys \<Rightarrow> proc_sys \<Rightarrow> bool" for fails :: bool where
  run_pipe: "ps_run s = RTop \<Longrightarrow> proc_step fails s (s\<lparr>ps_run := RTest\<rparr>)"
| run_test: "ps_run s = RTest \<Longrightarrow>
     proc_step fails s (s\<lparr>ps_run := (if ps_stopped s then RNoEof else RStart)\<rparr>)"
| run_start: "ps_run s = RStart \<Longrightarrow> proc_step fails s (s\<lparr>ps_run := RRead, ps_child := Running\<rparr>)"
| run_start_fails: "ps_run s = RStart \<Longrightarrow> fails \<Longrightarrow> proc_step fails s (s\<lparr>ps_run := RSleep\<rparr>)"
| run_exit: "ps_run s = RRead \<Longrightarrow> proc_step fails s (s\<lparr>ps_run := RSleep, ps_child := Exited\<rparr>)"
| run_again: "ps_run s = RSleep \<Longrightarrow>
     proc_step fails s (if ps_stopped s then s\<lparr>ps_run := RSend\<rparr> else s\<lparr>ps_run := RTop, ps_child := NoChild\<rparr>)"
| stop_call: "ps_stop s = SNone \<Longrightarrow> proc_step fails s (s\<lparr>ps_stop := SSignal, ps_stopped := True\<rparr>)"
| stop_signal: "ps_stop s = SSignal \<Longrightarrow>
     proc_step fails s (s\<lparr>ps_stop := (if ps_child s = Exited then SReturned else SWait)\<rparr>)"
| exit_received: "ps_run s = RSend \<Longrightarrow> ps_stop s = SWait \<Longrightarrow>
     proc_step fails s (s\<lparr>ps_run := RDone, ps_stop := SPid\<rparr>)"
| stop_pid: "ps_stop s = SPid \<Longrightarrow>
     proc_step fails s (s\<lparr>ps_stop := (if ps_child s = NoChild then SPanicked else SReturned)\<rparr>)"

inductive_cases proc_stepE: "proc_step fails s s'"
inductive_simps proc_step_iff: "proc_step fails s s'"

definition launched :: proc_sys where
  "launched = \<lparr>ps_run = RTop, ps_stop = SNone, ps_stopped = False, ps_child = NoChild\<rparr>"

definition not_launched :: proc_sys where
  "not_launched = \<lparr>ps_run = RNone, ps_stop = SNone, ps_stopped = False, ps_child = NoChild\<rparr>"

text \<open>A stop of a process whose goroutine was never launched waits for ever on \<open>exitCh\<close>.\<close>

definition stop_hangs :: "proc_sys \<Rightarrow> bool" where
  "stop_hangs s \<longleftrightarrow> (\<forall>fails s'. (proc_step fails)\<^sup>*\<^sup>* s s' \<longrightarrow> ps_stop s' \<noteq> SReturned \<and> ps_stop s' \<noteq> SPanicked)"

lemma unlaunched_stop_hangs: "stop_hangs not_launched"
proof -
  let ?I = "\<lambda>s. ps_run s = RNone \<and> ps_child s = NoChild \<and> ps_stop s \<in> {SNone, SSignal, SWait}"
  have "?I s'" if "(proc_step fails)\<^sup>*\<^sup>* not_launched s'" for fails s'
    using that by (rule steps_inv [where I = ?I]) (auto simp: not_launched_def elim!: proc_stepE)
  then show ?thesis by (fastforce simp: stop_hangs_def)
qed

section \<open>Stopping a running command\<close>

text \<open>On every execution from the state, \<open>cmdStop\<close> returns.\<close>

definition stop_returns :: "bool \<Rightarrow> proc_sys \<Rightarrow> bool" where
  "stop_returns fails s = always_reaches (proc_step fails) (\<lambda>s. ps_stop s = SReturned) s"

definition stop_inv :: "proc_sys \<Rightarrow> bool" where
  "stop_inv s \<longleftrightarrow> ps_stopped s \<and>
     (ps_stop s = SReturned
      \<or> ps_run s = RRead \<and> ps_child s = Running \<and> ps_stop s \<in> {SSignal, SWait}
      \<or> ps_run s \<in> {RSleep, RSend} \<and> ps_child s = Exited \<and> ps_stop s \<in> {SSignal, SWait}
      \<or> ps_run s = RDone \<and> ps_child s = Exited \<and> ps_stop s = SPid)"

fun run_left :: "run_pc \<Rightarrow> nat" where
  "run_left RRead = 3" | "run_left RSleep = 2" | "run_left RSend = 1" | "run_left _ = 0"

fun stop_left :: "stop_pc \<Rightarrow> nat" where
  "stop_left SNone = 4" | "stop_left SSignal = 3" | "stop_left SWait = 2" | "stop_left SPid = 1" | "stop_left _ = 0"

definition left :: "proc_sys \<Rightarrow> nat" where
  "left s = run_left (ps_run s) + stop_left (ps_stop s)"

lemma stop_inv_step:
  assumes "proc_step fails s s'" and "stop_inv s" and "ps_stop s \<noteq> SReturned"
  shows "stop_inv s' \<and> left s' < left s"
proof -
  have st: "ps_stopped s" using assms(2) by (simp add: stop_inv_def)
  consider "ps_run s = RRead" "ps_child s = Running" "ps_stop s = SSignal"
    | "ps_run s = RRead" "ps_child s = Running" "ps_stop s = SWait"
    | "ps_run s = RSleep" "ps_child s = Exited" "ps_stop s = SSignal"
    | "ps_run s = RSleep" "ps_child s = Exited" "ps_stop s = SWait"
    | "ps_run s = RSend" "ps_child s = Exited" "ps_stop s = SSignal"
    | "ps_run s = RSend" "ps_child s = Exited" "ps_stop s = SWait"
    | "ps_run s = RDone" "ps_child s = Exited" "ps_stop s = SPid"
    using assms(2,3) by (auto simp: stop_inv_def)
  then show ?thesis
    by cases (use assms(1) st in \<open>auto simp: proc_step_iff stop_inv_def left_def\<close>)
qed

lemma stop_inv_progress:
  assumes "stop_inv s" and "ps_stop s \<noteq> SReturned"
  shows "\<exists>s'. proc_step fails s s'"
proof -
  consider "ps_stop s = SSignal" | "ps_stop s = SPid" | "ps_run s = RRead" | "ps_run s = RSleep"
    | "ps_run s = RSend" "ps_stop s = SWait"
    using assms by (auto simp: stop_inv_def)
  then show ?thesis
    by cases (rule exI, erule (1) stop_signal stop_pid run_exit run_again exit_received
      | rule exI, erule stop_signal stop_pid run_exit run_again)+
qed

interpretation stop: ending_operation "proc_step fails" "\<lambda>s. ps_stop s = SReturned" stop_inv left for fails
  by unfold_locales (use stop_inv_step stop_inv_progress in blast)+



section \<open>Panics and deadlocks\<close>

definition can_reach :: "bool \<Rightarrow> proc_sys \<Rightarrow> (proc_sys \<Rightarrow> bool) \<Rightarrow> bool" where
  "can_reach fails s P \<longleftrightarrow> (\<exists>s'. (proc_step fails)\<^sup>*\<^sup>* s s' \<and> P s')"

text \<open>
  \<open>cmdStop\<close> logs the process id of the command after the goroutine has ended. If the command can always be
  started the id is there: a stop called at any time never panics. If starting it can fail, a stop during the
  delay before the next attempt panics.
\<close>

theorem stop_panics_iff_start_fails:
  "can_reach fails launched (\<lambda>s. ps_stop s = SPanicked) \<longleftrightarrow> fails"
proof
  let ?I = "\<lambda>s. (ps_run s \<in> {RSleep, RSend, RDone} \<longrightarrow> ps_child s = Exited) \<and> (ps_stop s = SPid \<longrightarrow> ps_run s = RDone)
      \<and> ps_stop s \<noteq> SPanicked"
  assume "can_reach fails launched (\<lambda>s. ps_stop s = SPanicked)"
  then obtain s' where s': "(proc_step fails)\<^sup>*\<^sup>* launched s'" "ps_stop s' = SPanicked" by (auto simp: can_reach_def)
  show fails
  proof (rule ccontr)
    assume nf: "\<not> fails"
    from s'(1) have "?I s'"
      by (rule steps_inv [where I = ?I]) (use nf in \<open>auto simp: launched_def elim!: proc_stepE split: if_splits\<close>)
    with s'(2) show False by simp
  qed
next
  assume fails
  let ?s = "\<lambda>r t b. \<lparr>ps_run = r, ps_stop = t, ps_stopped = b, ps_child = NoChild\<rparr>"
  have step: "proc_step fails (?s RTop SNone False) (?s RTest SNone False)"
    "proc_step fails (?s RTest SNone False) (?s RStart SNone False)"
    "proc_step fails (?s RStart SNone False) (?s RSleep SNone False)"
    "proc_step fails (?s RSleep SNone False) (?s RSleep SSignal True)"
    "proc_step fails (?s RSleep SSignal True) (?s RSleep SWait True)"
    "proc_step fails (?s RSleep SWait True) (?s RSend SWait True)"
    "proc_step fails (?s RSend SWait True) (?s RDone SPid True)"
    "proc_step fails (?s RDone SPid True) (?s RDone SPanicked True)"
    using \<open>fails\<close> by (simp_all add: proc_step_iff)
  then have "(proc_step fails)\<^sup>*\<^sup>* launched (?s RDone SPanicked True)"
    unfolding launched_def by (meson no_step first_step)
  then show "can_reach fails launched (\<lambda>s. ps_stop s = SPanicked)" by (force simp: can_reach_def)
qed

text \<open>
  C16. There is a deadlock although every start succeeds: if the stop is called between the last test of \<open>Stopped\<close>
  of one round and the first of the next, the goroutine does not start the new command but waits for the end of
  its output, which never comes, and the stop waits for the goroutine. From there no step is possible.
\<close>

theorem stop_deadlock:
  "can_reach fails launched (\<lambda>s. ps_stop s = SWait \<and> (\<nexists>s'. proc_step fails s s'))"
proof -
  let ?s = "\<lambda>r t b. \<lparr>ps_run = r, ps_stop = t, ps_stopped = b, ps_child = NoChild\<rparr>"
  have step: "proc_step fails (?s RTop SNone False) (?s RTop SSignal True)"
    "proc_step fails (?s RTop SSignal True) (?s RTop SWait True)"
    "proc_step fails (?s RTop SWait True) (?s RTest SWait True)"
    "proc_step fails (?s RTest SWait True) (?s RNoEof SWait True)"
    by (simp_all add: proc_step_iff)
  then have "(proc_step fails)\<^sup>*\<^sup>* launched (?s RNoEof SWait True)"
    unfolding launched_def by (meson no_step first_step)
  moreover have "\<nexists>s'. proc_step fails (?s RNoEof SWait True) s'" by (simp add: proc_step_iff)
  ultimately show ?thesis by (auto simp: can_reach_def)
qed

section \<open>Applying a new set of profiles\<close>

text \<open>
  \<open>applyNodePTPProfiles\<close>. The processes of the manager are launched together, or, when building them failed, not
  at all. \<open>ends\<close> tells where the stop of a launched process and of those that depend on it ends: a place of
  \<^typ>\<open>stop_pc\<close>, \<^const>\<open>SWait\<close> if it never returns.
\<close>

datatype apply_result = Applied | ApplyError go_error | Hangs | Panics

record manager =
  mn_daemon :: daemon_state
  mn_launched :: bool
  mn_metrics :: metrics_state
  mn_refreshDevices :: bool

definition delete_synce_gauges :: "string \<Rightarrow> string \<Rightarrow> Relations \<Rightarrow> metrics_state \<Rightarrow> metrics_state" where
  "delete_synce_gauges node configName relations m =
     m\<lparr>ms_gauges := (\<lambda>g. case g of
        GSync k \<Rightarrow> if deleteSyncEMetrics node syncEProcessName configName relations (\<lambda>_. Some 0) k = None
                    then None else ms_gauges m g
      | _ \<Rightarrow> ms_gauges m g)\<rparr>"

definition clean_gauges :: "string \<Rightarrow> ptpProcess \<Rightarrow> metrics_state \<Rightarrow> metrics_state" where
  "clean_gauges node p m =
     (let m1 = deleteMetrics node (lp_ifaces p) (pr_haProfile p) (lp_name p) (lp_configName p) m in
      case pr_relations p of
        Some relations \<Rightarrow> if lp_name p = syncEProcessName then delete_synce_gauges node (lp_configName p) relations m1 else m1
      | None \<Rightarrow> m1)"

fun stop_all :: "(ptpProcess \<Rightarrow> stop_pc) \<Rightarrow> string \<Rightarrow> bool \<Rightarrow> ptpProcess list \<Rightarrow> metrics_state \<Rightarrow> stop_pc \<times> metrics_state" where
  "stop_all ends node is_launched [] m = (SReturned, m)"
| "stop_all ends node is_launched (p # ps) m =
     (let r = (if is_launched then ends p else SWait) in
      if r = SReturned then stop_all ends node is_launched ps (clean_gauges node p m) else (r, m))"

definition ptpTmpFiles :: "string list" where
  "ptpTmpFiles = [ts2phcProcessName, syncEProcessName, ptp4lProcessName, phc2sysProcessName, ''pmc'']"

text \<open>\<open>filepath.Glob\<close> with a trailing star, which does not match a slash.\<close>

definition is_temp_file :: "string \<Rightarrow> string \<Rightarrow> bool" where
  "is_temp_file configPrefix path \<longleftrightarrow>
     (\<exists>p \<in> set ptpTmpFiles. HasPrefix path (configPrefix @ ''/'' @ p)
        \<and> CHR ''/'' \<notin> set (drop (length (configPrefix @ ''/'' @ p)) path))"

definition cleanupTempFiles :: "daemon_state \<Rightarrow> daemon_state" where
  "cleanupTempFiles st =
     st\<lparr>dn_files := (\<lambda>path. if is_temp_file (dn_prefix st) path then None else dn_files st path)\<rparr>"

text \<open>The configuration with which the daemon starts the monitoring of a dependent process.\<close>

definition dep_config :: "ptpProcess \<Rightarrow> ProcessConfig" where
  "dep_config p = \<lparr>pc_ClockType = lp_clockType p, pc_ConfigName = lp_configName p, pc_hasChannel = True,
     pc_GMThreshold_Max = th_MaxOffsetThreshold (lp_threshold p), pc_GMThreshold_Min = th_MinOffsetThreshold (lp_threshold p)\<rparr>"

definition applyNodePTPProfiles ::
  "apply_env \<Rightarrow> (ptpProcess \<Rightarrow> stop_pc) \<Rightarrow> string \<Rightarrow> PtpProfile list \<Rightarrow> manager \<Rightarrow> apply_result \<times> manager" where
  "applyNodePTPProfiles env ends node profiles mn =
     (case stop_all ends node (mn_launched mn) (dn_process (mn_daemon mn)) (mn_metrics mn) of
        (r, m) \<Rightarrow>
          if r = SPanicked then (Panics, mn\<lparr>mn_metrics := m\<rparr>)
          else if r \<noteq> SReturned then (Hangs, mn\<lparr>mn_metrics := m\<rparr>)
          else
            (let d = cleanupTempFiles ((mn_daemon mn)\<lparr>dn_process := []\<rparr>) in
             case apply_each env 0 (sort_profiles profiles) d of
               Inl _ \<Rightarrow> (Panics, mn\<lparr>mn_metrics := m\<rparr>)
             | Inr (d', Some e) \<Rightarrow> (ApplyError e, mn\<lparr>mn_daemon := d', mn_launched := False, mn_metrics := m\<rparr>)
             | Inr (d', None) \<Rightarrow>
                 (Applied, mn\<lparr>mn_daemon := d', mn_launched := True, mn_metrics := m, mn_refreshDevices := True\<rparr>)))"

section \<open>A profile that fails\<close>

lemma apply_error_unlaunched:
  "applyNodePTPProfiles env ends node profiles mn = (ApplyError e, mn') \<Longrightarrow> \<not> mn_launched mn'"
  by (auto simp: applyNodePTPProfiles_def Let_def split: prod.splits sum.splits option.splits if_splits)

lemma unlaunched_apply_hangs:
  assumes "\<not> mn_launched mn" and "dn_process (mn_daemon mn) \<noteq> []"
  shows "applyNodePTPProfiles env ends node profiles mn = (Hangs, mn)"
proof -
  have "stop_all ends node (mn_launched mn) (dn_process (mn_daemon mn)) (mn_metrics mn) = (SWait, mn_metrics mn)"
    using assms by (cases "dn_process (mn_daemon mn)") simp_all
  then show ?thesis by (simp add: applyNodePTPProfiles_def)
qed

text \<open>
  After a set of profiles that failed once some process had been built, no configuration is applied any
  more: the processes built so far were never launched, and the next call waits for ever for the first of them
  to stop.
\<close>

theorem failed_apply_hangs_next:
  assumes "applyNodePTPProfiles env ends node profiles mn = (ApplyError e, mn')" and "dn_process (mn_daemon mn') \<noteq> []"
  shows "fst (applyNodePTPProfiles env' ends' node profiles' mn') = Hangs \<and> stop_hangs not_launched"
  using unlaunched_apply_hangs [OF apply_error_unlaunched [OF assms(1)] assms(2)] unlaunched_stop_hangs by simp

definition demo_manager :: manager where
  "demo_manager = \<lparr>mn_daemon = demo_state, mn_launched = True, mn_metrics = demo_metrics, mn_refreshDevices = False\<rparr>"

definition demo_bad :: PtpProfile where
  "demo_bad = demo_bc\<lparr>pp_Name := Some ''bc2'', pp_Ptp4lConf := Some ''[global''\<rparr>"

theorem failed_apply_hangs_next_witness:
  "\<exists>e mn'. applyNodePTPProfiles demo_env (\<lambda>_. SReturned) ''node'' [demo_bad, demo_bc] demo_manager = (ApplyError e, mn')
     \<and> fst (applyNodePTPProfiles demo_env (\<lambda>_. SReturned) ''node'' [demo_bc] mn') = Hangs"
proof -
  have "case applyNodePTPProfiles demo_env (\<lambda>_. SReturned) ''node'' [demo_bad, demo_bc] demo_manager of
      (ApplyError e, mn') \<Rightarrow> dn_process (mn_daemon mn') \<noteq> [] | _ \<Rightarrow> False"
    by code_simp
  then obtain e mn' where a: "applyNodePTPProfiles demo_env (\<lambda>_. SReturned) ''node'' [demo_bad, demo_bc] demo_manager = (ApplyError e, mn')"
    "dn_process (mn_daemon mn') \<noteq> []" by (auto split: prod.splits apply_result.splits)
  from failed_apply_hangs_next [OF this] a(1) show ?thesis by blast
qed

section \<open>The order of the profiles\<close>

lemma profile_le_linear: "profile_le a b \<or> profile_le b a"
  by (auto simp: profile_le_def)

lemma profile_le_trans: "profile_le a b \<Longrightarrow> profile_le b c \<Longrightarrow> profile_le a c"
  by (auto simp: profile_le_def split: if_splits)

lemma profile_le_phc2sys: "profile_le a b \<Longrightarrow> has_phc2sys a \<Longrightarrow> has_phc2sys b"
  by (auto simp: profile_le_def split: if_splits)

lemma insert_profile_set: "set (insert_profile a ps) = insert a (set ps)"
  by (induction ps) auto

lemma insert_profile_mset: "mset (insert_profile a ps) = add_mset a (mset ps)"
  by (induction ps) auto

lemma insert_profile_sorted: "sorted_wrt profile_le ps \<Longrightarrow> sorted_wrt profile_le (insert_profile a ps)"
proof (induction ps)
  case (Cons b bs)
  then show ?case
    using profile_le_linear [of a b] profile_le_trans by (auto simp: insert_profile_set)
qed simp

lemma sorted_phc2sys_last:
  "sorted_wrt profile_le qs \<Longrightarrow> \<forall>y \<in> set (dropWhile (\<lambda>x. \<not> has_phc2sys x) qs). has_phc2sys y"
proof (induction qs)
  case (Cons q qs)
  show ?case
  proof (cases "has_phc2sys q")
    case True
    then show ?thesis using Cons.prems profile_le_phc2sys [OF _ True] by simp
  next
    case False
    then have "dropWhile (\<lambda>x. \<not> has_phc2sys x) (q # qs) = dropWhile (\<lambda>x. \<not> has_phc2sys x) qs" by simp
    moreover have "sorted_wrt profile_le qs" using Cons.prems by simp
    note Cons.IH [OF this]
    ultimately show ?thesis by (simp only:)
  qed
qed simp

text \<open>
  The profiles are applied in an order in which every profile with phc2sys options comes after all profiles
  without, so that an HA profile finds the processes of the profiles it lists; none is lost.
\<close>

theorem profiles_in_order:
  "mset (sort_profiles ps) = mset ps \<and> sorted_wrt profile_le (sort_profiles ps)
   \<and> (\<exists>xs ys. sort_profiles ps = xs @ ys \<and> (\<forall>x \<in> set xs. \<not> has_phc2sys x) \<and> (\<forall>y \<in> set ys. has_phc2sys y))"
proof -
  have m: "mset (sort_profiles ps) = mset ps" unfolding sort_profiles_def by (induction ps) (simp_all add: insert_profile_mset)
  have s: "sorted_wrt profile_le (sort_profiles ps)"
    unfolding sort_profiles_def by (induction ps) (simp_all add: insert_profile_sorted)
  have "\<forall>y \<in> set (dropWhile (\<lambda>x. \<not> has_phc2sys x) (sort_profiles ps)). has_phc2sys y"
    using s by (rule sorted_phc2sys_last)
  moreover have "\<forall>x \<in> set (takeWhile (\<lambda>x. \<not> has_phc2sys x) (sort_profiles ps)). \<not> has_phc2sys x"
    by (auto dest: set_takeWhileD)
  ultimately have "\<exists>xs ys. sort_profiles ps = xs @ ys \<and> (\<forall>x \<in> set xs. \<not> has_phc2sys x) \<and> (\<forall>y \<in> set ys. has_phc2sys y)"
    using takeWhile_dropWhile_id [of "\<lambda>x. \<not> has_phc2sys x" "sort_profiles ps"] by (intro exI conjI) (rule sym)
  with m s show ?thesis by blast
qed

section \<open>The gauges of stopped processes\<close>

lemma ms_gauges_del: "ms_gauges (del_gauges gs m) g = (if g \<in> set gs then None else ms_gauges m g)"
  by (simp add: del_gauges_def)

lemma clean_gauges_status:
  "ms_gauges (clean_gauges node p m) (GProcessStatus process node cfg) =
     (if process = lp_name p \<and> cfg = lp_configName p \<and> process \<noteq> phc2sysProcessName then None
      else ms_gauges m (GProcessStatus process node cfg))"
proof -
  have "ms_gauges (deleteMetrics node (lp_ifaces p) (pr_haProfile p) (lp_name p) (lp_configName p) m) (GProcessStatus process node cfg) =
     (if process = lp_name p \<and> cfg = lp_configName p \<and> process \<noteq> phc2sysProcessName then None
      else ms_gauges m (GProcessStatus process node cfg))"
    by (auto simp: deleteMetrics_def deleteOsClockStateMetrics_def deleteProcessStatusMetrics_def ms_gauges_del)
  moreover have "ms_gauges (clean_gauges node p m) (GProcessStatus process node cfg) =
      ms_gauges (deleteMetrics node (lp_ifaces p) (pr_haProfile p) (lp_name p) (lp_configName p) m) (GProcessStatus process node cfg)"
    by (cases "pr_relations p") (simp_all add: clean_gauges_def delete_synce_gauges_def Let_def)
  ultimately show ?thesis by (rule trans [rotated])
qed

text \<open>
  Stopping the old processes removes the status gauge of each of them except phc2sys: the gauges of
  ts2phc, synce4l and ptp4l go with their configurations, that of phc2sys is never removed and keeps the last
  status of a process that is gone. No other status gauge changes.
\<close>

theorem stopped_status_gauges:
  assumes "stop_all ends node b ps m = (SReturned, m')"
  shows "ms_gauges m' (GProcessStatus process node cfg) =
     (if process \<noteq> phc2sysProcessName \<and> (\<exists>p \<in> set ps. lp_name p = process \<and> lp_configName p = cfg) then None
      else ms_gauges m (GProcessStatus process node cfg))"
  using assms
proof (induction ps arbitrary: m)
  case (Cons p ps)
  then have "stop_all ends node b ps (clean_gauges node p m) = (SReturned, m')"
    by (auto simp: Let_def split: if_splits)
  from Cons.IH [OF this] show ?case by (auto simp: clean_gauges_status)
qed simp

theorem stopped_status_gauges_witness:
  "ms_gauges (snd (stop_all (\<lambda>_. SReturned) ''node'' True [demo_ha]
      (UpdateProcessStatusMetrics ''node'' ''phc2sys'' ''phc2sys.2.config'' 0 demo_metrics)))
     (GProcessStatus ''phc2sys'' ''node'' ''phc2sys.2.config'') = Some (Fin 0)"
proof -
  obtain m' where s: "stop_all (\<lambda>_. SReturned) ''node'' True [demo_ha]
      (UpdateProcessStatusMetrics ''node'' ''phc2sys'' ''phc2sys.2.config'' 0 demo_metrics) = (SReturned, m')"
    by simp
  from stopped_status_gauges [OF s, of "''phc2sys''" "''phc2sys.2.config''"] show ?thesis
    unfolding s by (simp add: phc2sysProcessName_def UpdateProcessStatusMetrics_def set_gauge_def Let_def)
qed

end
