(* ===== verification/Gnss_Control.thy ===== *)
theory Gnss_Control
  imports Process_Control
begin

text \<open>
  Running and stopping gpsd (\<open>CmdRun\<close>, \<open>CmdStop\<close> of \<open>pkg/daemon/gpsd.go\<close>) and gpspipe
  (\<open>pkg/daemon/gpspipe.go\<close>), as step relations over the state that the goroutine and the stop share.

  Shown: a stop of gpsd returns on every execution unless it begins in the second before the command is started, when the
  command is started unsignalled and the stop waits until it ends by itself; a stop of gpspipe always returns, but may
  leave the command running, and the goroutine of gpspipe never ends.
\<close>

section \<open>gpsd\<close>

text \<open>
  Where \<open>CmdRun\<close> is: at the test of \<open>Stopped\<close>; in the second before \<open>cmd.Start\<close>; waiting for the command; in the
  delay before a restart; sending on \<open>exitCh\<close>; finished. Where \<open>CmdStop\<close> is: not called; before it looks at
  \<open>cmd.Process\<close>; receiving from \<open>exitCh\<close>; returned. \<open>gs_termed\<close>: the running command was sent TERM.
\<close>

datatype gpsd_pc = GTest | GStart | GWait | GSleep | GSend | GDone

datatype gpsd_stop_pc = GNone | GSignal | GRecv | GReturned

record gpsd_sys =
  gs_run :: gpsd_pc
  gs_stop :: gpsd_stop_pc
  gs_stopped :: bool
  gs_child :: child
  gs_termed :: bool

inductive gpsd_step :: "bool \<Rightarrow> gpsd_sys \<Rightarrow> gpsd_sys \<Rightarrow> bool" for fails :: bool where
  gpsd_test: "gs_run s = GTest \<Longrightarrow> gpsd_step fails s (s\<lparr>gs_run := (if gs_stopped s then GSleep else GStart)\<rparr>)"
| gpsd_start: "gs_run s = GStart \<Longrightarrow> gpsd_step fails s (s\<lparr>gs_run := GWait, gs_child := Running, gs_termed := False\<rparr>)"
| gpsd_start_fails: "gs_run s = GStart \<Longrightarrow> fails \<Longrightarrow> gpsd_step fails s (s\<lparr>gs_run := GSleep\<rparr>)"
| gpsd_exit: "gs_run s = GWait \<Longrightarrow> gpsd_step fails s (s\<lparr>gs_run := GSleep, gs_child := Exited\<rparr>)"
| gpsd_again: "gs_run s = GSleep \<Longrightarrow>
     gpsd_step fails s (if gs_stopped s then s\<lparr>gs_run := GSend\<rparr> else s\<lparr>gs_run := GTest, gs_child := NoChild\<rparr>)"
| gpsd_stop: "gs_stop s = GNone \<Longrightarrow> gpsd_step fails s (s\<lparr>gs_stop := GSignal, gs_stopped := True\<rparr>)"
| gpsd_signal: "gs_stop s = GSignal \<Longrightarrow> gpsd_step fails s (s\<lparr>gs_stop := GRecv, gs_termed := (gs_child s = Running)\<rparr>)"
| gpsd_stopped: "gs_run s = GSend \<Longrightarrow> gs_stop s = GRecv \<Longrightarrow> gpsd_step fails s (s\<lparr>gs_run := GDone, gs_stop := GReturned\<rparr>)"

inductive_simps gpsd_step_iff: "gpsd_step fails s s'"

definition gpsd_launched :: gpsd_sys where
  "gpsd_launched = \<lparr>gs_run = GTest, gs_stop = GNone, gs_stopped = False, gs_child = NoChild, gs_termed = False\<rparr>"

text \<open>Every execution from the state reaches the return of \<open>CmdStop\<close>; a command that was sent TERM exits.\<close>

definition gpsd_returns :: "bool \<Rightarrow> gpsd_sys \<Rightarrow> bool" where
  "gpsd_returns fails s = always_reaches (gpsd_step fails) (\<lambda>s. gs_stop s = GReturned) s"

text \<open>A stop under way that nothing but TERM to a running command separates from its end.\<close>

definition gpsd_ending :: "gpsd_sys \<Rightarrow> bool" where
  "gpsd_ending s \<longleftrightarrow> gs_stopped s \<and>
     (gs_stop s = GReturned \<or> gs_stop s = GSignal \<and> gs_run s \<notin> {GStart, GDone}
      \<or> gs_stop s = GRecv \<and> gs_run s \<notin> {GStart, GDone} \<and> (gs_run s = GWait \<longrightarrow> gs_termed s))
     \<and> (gs_run s = GWait \<longrightarrow> gs_child s = Running)"

fun gpsd_run_left :: "gpsd_pc \<Rightarrow> nat" where
  "gpsd_run_left GTest = 3" | "gpsd_run_left GWait = 3" | "gpsd_run_left GSleep = 2" | "gpsd_run_left GSend = 1"
| "gpsd_run_left _ = 0"

definition gpsd_left :: "gpsd_sys \<Rightarrow> nat" where
  "gpsd_left s = gpsd_run_left (gs_run s) + (case gs_stop s of GSignal \<Rightarrow> 2 | GRecv \<Rightarrow> 1 | _ \<Rightarrow> 0)"

lemma gpsd_ending_step:
  assumes "gpsd_step fails s s'" and "gpsd_ending s" and "gs_stop s \<noteq> GReturned"
  shows "gpsd_ending s' \<and> gpsd_left s' < gpsd_left s"
  using assms by cases (auto simp: gpsd_ending_def gpsd_left_def)

lemma gpsd_ending_progress:
  assumes "gpsd_ending s" and "gs_stop s \<noteq> GReturned"
  shows "\<exists>s'. gpsd_step fails s s'"
proof -
  consider "gs_stop s = GSignal" | "gs_stop s = GRecv" "gs_run s \<in> {GTest, GWait, GSleep, GSend}"
    using assms by (cases "gs_run s") (auto simp: gpsd_ending_def)
  then show ?thesis
    by cases (auto intro: gpsd_signal gpsd_test gpsd_exit gpsd_again gpsd_stopped)
qed

interpretation gpsd: ending_operation "gpsd_step fails" "\<lambda>s. gs_stop s = GReturned" gpsd_ending gpsd_left for fails
  by unfold_locales (use gpsd_ending_step gpsd_ending_progress in blast)+

lemma gpsd_reach_inv:
  assumes "(gpsd_step fails)\<^sup>*\<^sup>* gpsd_launched s"
  shows "(gs_run s = GWait \<longrightarrow> gs_child s = Running) \<and> (gs_run s = GDone \<longleftrightarrow> gs_stop s = GReturned)
     \<and> (gs_run s = GSend \<longrightarrow> gs_stopped s) \<and> (gs_stop s = GNone \<longleftrightarrow> \<not> gs_stopped s)"
  using assms
  by (rule steps_inv [where I = "\<lambda>s. (gs_run s = GWait \<longrightarrow> gs_child s = Running) \<and> (gs_run s = GDone \<longleftrightarrow> gs_stop s = GReturned)
     \<and> (gs_run s = GSend \<longrightarrow> gs_stopped s) \<and> (gs_stop s = GNone \<longleftrightarrow> \<not> gs_stopped s)"])
    (auto simp: gpsd_launched_def elim!: gpsd_step.cases)

text \<open>
  C21. A stop of gpsd that is called at any time but in the second before the command is started returns, on every
  execution.
\<close>

theorem gpsd_stop_returns:
  assumes "(gpsd_step fails)\<^sup>*\<^sup>* gpsd_launched s" and "gs_stop s = GNone" and "gs_run s \<noteq> GStart"
  shows "gpsd_returns fails (s\<lparr>gs_stop := GSignal, gs_stopped := True\<rparr>)"
  unfolding gpsd_returns_def
  by (rule gpsd.ends) (use gpsd_reach_inv [OF assms(1)] assms(2,3) in \<open>auto simp: gpsd_ending_def\<close>)

theorem gpsd_stop_returns_witness: "gpsd_returns True (gpsd_launched\<lparr>gs_stop := GSignal, gs_stopped := True\<rparr>)"
  by (rule gpsd_stop_returns [OF no_step]) (simp_all add: gpsd_launched_def)

text \<open>
  Called in that second, the stop finds no process to signal; the command is then started all the same, and from there
  the only step is that it ends by itself.
\<close>

theorem gpsd_stop_missed:
  "\<exists>s. (gpsd_step fails)\<^sup>*\<^sup>* gpsd_launched s \<and> gs_stop s = GRecv \<and> gs_child s = Running \<and> \<not> gs_termed s \<and>
     (\<forall>s'. gpsd_step fails s s' \<longleftrightarrow> s' = s\<lparr>gs_run := GSleep, gs_child := Exited\<rparr>)"
proof -
  let ?s = "\<lambda>r t b c. \<lparr>gs_run = r, gs_stop = t, gs_stopped = b, gs_child = c, gs_termed = False\<rparr>"
  have "(gpsd_step fails)\<^sup>*\<^sup>* gpsd_launched (?s GTest GNone False NoChild)" by (simp add: gpsd_launched_def)
  then have "(gpsd_step fails)\<^sup>*\<^sup>* gpsd_launched (?s GStart GNone False NoChild)" by (rule last_step) (simp add: gpsd_step_iff)
  then have "(gpsd_step fails)\<^sup>*\<^sup>* gpsd_launched (?s GStart GSignal True NoChild)" by (rule last_step) (simp add: gpsd_step_iff)
  then have "(gpsd_step fails)\<^sup>*\<^sup>* gpsd_launched (?s GStart GRecv True NoChild)" by (rule last_step) (simp add: gpsd_step_iff)
  then have "(gpsd_step fails)\<^sup>*\<^sup>* gpsd_launched (?s GWait GRecv True Running)" by (rule last_step) (simp add: gpsd_step_iff)
  moreover have "gpsd_step fails (?s GWait GRecv True Running) s' \<longleftrightarrow> s' = ?s GSleep GRecv True Exited" for s'
    by (auto simp: gpsd_step_iff)
  ultimately show ?thesis by force
qed

section \<open>gpspipe\<close>

text \<open>
  Where \<open>CmdRun\<close> is: at the test of \<open>Stopped\<close>; in the second before \<open>cmd.Start\<close>; waiting for the command; before it
  replaces the command that has ended; at the send on \<open>exitCh\<close> in its loop; at the send of its deferred function;
  finished. No part of the daemon receives from this channel. \<open>CmdStop\<close> returns early when the command has been
  waited for, and so leaves the named pipe in place.
\<close>

datatype pipe_pc = PTest | PStart | PWait | PNew | PSend | PDeferredSend | PDone

datatype pipe_stop_pc = PNotCalled | PSignal | PRemove | PReturned

record pipe_sys =
  pi_run :: pipe_pc
  pi_stop :: pipe_stop_pc
  pi_stopped :: bool
  pi_child :: child
  pi_fifo :: bool

text \<open>\<open>receives\<close> is whether some goroutine receives from \<open>exitCh\<close>; in the daemon there is none.\<close>

inductive pipe_step :: "bool \<Rightarrow> pipe_sys \<Rightarrow> pipe_sys \<Rightarrow> bool" for receives :: bool where
  pipe_test: "pi_run s = PTest \<Longrightarrow> pipe_step receives s (s\<lparr>pi_run := (if pi_stopped s then PSend else PStart)\<rparr>)"
| pipe_start: "pi_run s = PStart \<Longrightarrow> pipe_step receives s (s\<lparr>pi_run := PWait, pi_child := Running\<rparr>)"
| pipe_start_fails: "pi_run s = PStart \<Longrightarrow> pipe_step receives s (s\<lparr>pi_run := PNew\<rparr>)"
| pipe_exit: "pi_run s = PWait \<Longrightarrow> pipe_step receives s (s\<lparr>pi_run := PNew, pi_child := Exited\<rparr>)"
| pipe_new: "pi_run s = PNew \<Longrightarrow> pipe_step receives s (s\<lparr>pi_run := PTest, pi_child := NoChild\<rparr>)"
| pipe_sent: "pi_run s = PSend \<Longrightarrow> receives \<Longrightarrow> pipe_step receives s (s\<lparr>pi_run := PDeferredSend\<rparr>)"
| pipe_deferred: "pi_run s = PDeferredSend \<Longrightarrow> receives \<Longrightarrow> pipe_step receives s (s\<lparr>pi_run := PDone\<rparr>)"
| pipe_stop: "pi_stop s = PNotCalled \<Longrightarrow> pipe_step receives s (s\<lparr>pi_stop := PSignal, pi_stopped := True\<rparr>)"
| pipe_signal: "pi_stop s = PSignal \<Longrightarrow>
     pipe_step receives s (s\<lparr>pi_stop := (if pi_child s = Exited then PReturned else PRemove)\<rparr>)"
| pipe_remove: "pi_stop s = PRemove \<Longrightarrow> pipe_step receives s (s\<lparr>pi_stop := PReturned, pi_fifo := False\<rparr>)"

inductive_simps pipe_step_iff: "pipe_step receives s s'"

definition pipe_launched :: pipe_sys where
  "pipe_launched = \<lparr>pi_run = PTest, pi_stop = PNotCalled, pi_stopped = False, pi_child = NoChild, pi_fifo = True\<rparr>"

lemma pipe_never_done:
  "(pipe_step False)\<^sup>*\<^sup>* pipe_launched s \<Longrightarrow> pi_run s \<noteq> PDone \<and> pi_run s \<noteq> PDeferredSend"
  by (erule steps_inv) (auto simp: pipe_launched_def elim!: pipe_step.cases split: if_splits)

text \<open>
  The stop of gpspipe never waits: in every state it can take its next step. But the goroutine of gpspipe never ends, and
  after the stop has returned it waits for ever at its first send.
\<close>

theorem gpspipe_goroutine_leaks:
  assumes "(pipe_step False)\<^sup>*\<^sup>* pipe_launched s"
  shows "pi_run s \<noteq> PDone \<and> (pi_stop s = PReturned \<longrightarrow> pi_run s = PSend \<longrightarrow> (\<nexists>s'. pipe_step False s s'))
    \<and> (pi_stop s \<noteq> PReturned \<longrightarrow> (\<exists>s'. pipe_step False s s' \<and> pi_stop s' \<noteq> pi_stop s))"
proof -
  have "\<exists>s'. pipe_step False s s' \<and> pi_stop s' \<noteq> pi_stop s" if "pi_stop s \<noteq> PReturned"
    using that by (cases "pi_stop s"; force simp: pipe_step_iff)
  then show ?thesis using pipe_never_done [OF assms] by (auto simp: pipe_step_iff)
qed

theorem gpspipe_goroutine_leaks_witness: "\<exists>s'. pipe_step False pipe_launched s' \<and> pi_stop s' \<noteq> PNotCalled"
  using gpspipe_goroutine_leaks [OF no_step] by (simp add: pipe_launched_def)

text \<open>
  And it may leave the command running: called in the second before the start it finds no process, removes the named pipe and
  returns; then the command is started.
\<close>

theorem gpspipe_survives_stop:
  "\<exists>s. (pipe_step False)\<^sup>*\<^sup>* pipe_launched s \<and> pi_stop s = PReturned \<and> pi_child s = Running \<and> \<not> pi_fifo s"
proof -
  let ?s = "\<lambda>r t b c f. \<lparr>pi_run = r, pi_stop = t, pi_stopped = b, pi_child = c, pi_fifo = f\<rparr>"
  have "(pipe_step False)\<^sup>*\<^sup>* pipe_launched (?s PTest PNotCalled False NoChild True)" by (simp add: pipe_launched_def)
  then have "(pipe_step False)\<^sup>*\<^sup>* pipe_launched (?s PStart PNotCalled False NoChild True)" by (rule last_step) (simp add: pipe_step_iff)
  then have "(pipe_step False)\<^sup>*\<^sup>* pipe_launched (?s PStart PSignal True NoChild True)" by (rule last_step) (simp add: pipe_step_iff)
  then have "(pipe_step False)\<^sup>*\<^sup>* pipe_launched (?s PStart PRemove True NoChild True)" by (rule last_step) (simp add: pipe_step_iff)
  then have "(pipe_step False)\<^sup>*\<^sup>* pipe_launched (?s PStart PReturned True NoChild False)" by (rule last_step) (simp add: pipe_step_iff)
  then have "(pipe_step False)\<^sup>*\<^sup>* pipe_launched (?s PWait PReturned True Running False)" by (rule last_step) (simp add: pipe_step_iff)
  then show ?thesis by force
qed

section \<open>Reporting the status\<close>

text \<open>
  \<open>ProcessStatus\<close> of gpsd and of gpspipe: a connection that is given is kept (\<open>held\<close>), and the status is written to the one
  that is held; without one it becomes a metric. The result: whether a connection is held, what is written, and the metrics.
\<close>

definition gnss_ProcessStatus :: "string \<Rightarrow> string \<Rightarrow> string \<Rightarrow> bool \<Rightarrow> int \<Rightarrow> int \<Rightarrow> bool \<Rightarrow> metrics_state
    \<Rightarrow> bool \<times> string list \<times> metrics_state" where
  "gnss_ProcessStatus node name tag c now status held m =
     (let held' = c \<or> held in (held', processStatus node held' now name tag status m))"

text \<open>Once a connection has been given, every later status is one line on it and no metric, with or without a connection of its own.\<close>

fun report_all :: "string \<Rightarrow> string \<Rightarrow> string \<Rightarrow> (bool \<times> int \<times> int) list \<Rightarrow> bool \<Rightarrow> metrics_state \<Rightarrow> bool \<times> string list \<times> metrics_state" where
  "report_all node name tag [] held m = (held, [], m)"
| "report_all node name tag ((c, now, status) # rs) held m =
     (case gnss_ProcessStatus node name tag c now status held m of
        (held1, out1, m1) \<Rightarrow> (case report_all node name tag rs held1 m1 of (held2, out2, m2) \<Rightarrow> (held2, out1 @ out2, m2)))"

lemma status_stays_on_connection:
  "report_all node name tag rs True m = (True, map (\<lambda>(c, now, status). status_line now name tag status) rs, m)"
  by (induction rs) (auto simp: gnss_ProcessStatus_def processStatus_def)

end
