(* ===== verification/Dpll_Monitor.thy ===== *)
theory Dpll_Monitor
  imports Dpll
begin

text \<open>
  The netlink monitor of a DPLL, \<open>MonitorDpllNetlink\<close> and \<open>stopDpll\<close> in \<open>pkg/dpll/dpll.go\<close>: its loop over
  dialling, reading the devices, joining the multicast group and starting the goroutine \<open>monitorNtf\<close>, and the
  test for exit and redial. \<open>Dpll\<close> has the operations it calls and their interleaving with the rest; here one
  iteration of the loop is a function of what happens during it.

  The monitor of a card without netlink, \<open>MonitorDpllSysfs\<close>, is at the end.

  Shown: a connection that is lost is dialled again; but an attempt that fails is never repeated; a card whose
  files cannot be read is taken for free-running.
\<close>

text \<open>
  What happens in an iteration: whether dialling succeeds, the multicast group is found, what the dump of the
  devices returns, whether the group can be joined, whether \<open>exitCh\<close> is closed, and whether \<open>monitorNtf\<close> has
  returned before the two seconds of the redial test are over.
\<close>

record nl_attempt =
  na_dial :: bool
  na_group :: bool
  na_devices :: "DoDeviceGetReply list option"
  na_join :: bool
  na_exit :: bool
  na_ended :: bool
  na_now :: int

text \<open>
  The semaphore \<open>sem\<close>: nil; held for the goroutine \<open>monitorNtf\<close>, which releases it when it returns; or taken by
  the redial test, which does not release it.
\<close>

datatype nl_sem = NoSem | ForMonitor | Taken

record nl_state =
  ns_d :: DpllConfig
  ns_redial :: bool
  ns_conn :: bool
  ns_sem :: nl_sem
  ns_done :: bool

datatype nl_event = Dialled | Updated "DoDeviceGetReply list" bool | Joined | Terminated EventChannel

text \<open>From the dial to the start of the goroutine; \<open>Updated\<close> says whether a decision follows the update.\<close>

definition nl_connect :: "nl_attempt \<Rightarrow> nl_state \<Rightarrow> nl_state \<times> nl_event list" where
  "nl_connect a s =
     (if \<not> ns_conn s \<and> \<not> na_dial a then (s, [])
      else
        (let dialled = (if ns_conn s then [] else [Dialled]); abort = s\<lparr>ns_conn := False\<rparr> in
         if \<not> na_group a then (abort, dialled)
         else case na_devices a of
           None \<Rightarrow> (abort, dialled)
         | Some replies \<Rightarrow>
             (let (d, decide) = nlUpdateState replies [] (ns_d s); es = dialled @ [Updated replies decide] in
              if \<not> na_join a then (abort\<lparr>ns_d := d\<rparr>, es)
              else (s\<lparr>ns_d := d, ns_conn := True, ns_sem := ForMonitor\<rparr>, es @ [Joined]))))"

definition nl_check_exit :: "nl_attempt \<Rightarrow> nl_state \<Rightarrow> nl_state \<times> nl_event list" where
  "nl_check_exit a s =
     (if na_exit a then
        (s\<lparr>ns_done := True, ns_conn := False, ns_d := (ns_d s)\<lparr>dp_subscriber := [], dp_onHoldover := False\<rparr>\<rparr>,
         [Terminated (sendDpllTerminationEvent (na_now a) (ns_d s))])
      else if ns_sem s = ForMonitor \<and> na_ended a then (s\<lparr>ns_redial := True, ns_sem := Taken, ns_conn := False\<rparr>, [])
      else (s\<lparr>ns_redial := False\<rparr>, []))"

definition nl_iteration :: "nl_attempt \<Rightarrow> nl_state \<Rightarrow> nl_state \<times> nl_event list" where
  "nl_iteration a s =
     (if ns_done s then (s, [])
      else
        (let (s1, es1) = (if ns_redial s then nl_connect a s else (s, [])); (s2, es2) = nl_check_exit a s1
         in (s2, es1 @ es2)))"

fun nl_run :: "nl_attempt list \<Rightarrow> nl_state \<Rightarrow> nl_state \<times> nl_event list" where
  "nl_run [] s = (s, [])"
| "nl_run (a # as) s = (let (s1, es1) = nl_iteration a s; (s2, es2) = nl_run as s1 in (s2, es1 @ es2))"

definition nl_start :: "DpllConfig \<Rightarrow> nl_state" where
  "nl_start d = \<lparr>ns_d = d, ns_redial = True, ns_conn = False, ns_sem = NoSem, ns_done = False\<rparr>"

definition attempt_ok :: "nl_attempt \<Rightarrow> bool" where
  "attempt_ok a \<longleftrightarrow> na_dial a \<and> na_group a \<and> na_devices a \<noteq> None \<and> na_join a"

section \<open>Properties\<close>

text \<open>At a redial there is no connection, and no goroutine that would release the semaphore.\<close>

definition nl_inv :: "nl_state \<Rightarrow> bool" where
  "nl_inv s \<longleftrightarrow> (ns_redial s \<and> \<not> ns_done s \<longrightarrow> \<not> ns_conn s \<and> ns_sem s \<noteq> ForMonitor)"

lemma nl_inv_iteration: "nl_inv s \<Longrightarrow> nl_inv (fst (nl_iteration a s))"
  by (auto simp: nl_inv_def nl_iteration_def nl_check_exit_def split: prod.splits)

lemma nl_inv_run: "nl_inv s \<Longrightarrow> nl_inv (fst (nl_run as s))"
  by (induction as arbitrary: s) (auto simp: split_beta Let_def nl_inv_iteration)

text \<open>The monitor has given up: nothing makes it dial again.\<close>

definition nl_gave_up :: "nl_state \<Rightarrow> bool" where
  "nl_gave_up s \<longleftrightarrow> \<not> ns_redial s \<and> \<not> ns_conn s \<and> ns_sem s \<noteq> ForMonitor"

definition is_termination :: "nl_event \<Rightarrow> bool" where
  "is_termination e \<longleftrightarrow> (\<exists>ev. e = Terminated ev)"

lemma gave_up_iteration: "nl_gave_up s \<Longrightarrow> nl_gave_up (fst (nl_iteration a s)) \<and> (\<forall>e \<in> set (snd (nl_iteration a s)). is_termination e)"
  by (auto simp: nl_gave_up_def nl_iteration_def nl_check_exit_def is_termination_def)

lemma gave_up_run: "nl_gave_up s \<Longrightarrow> nl_gave_up (fst (nl_run as s)) \<and> (\<forall>e \<in> set (snd (nl_run as s)). is_termination e)"
  by (induction as arbitrary: s) (use gave_up_iteration in \<open>fastforce simp: split_beta Let_def\<close>)+

text \<open>
  An attempt that fails, be it at the dial, the group, the dump or the join, is never repeated: whatever happens afterwards,
  the DPLL is not monitored any more, and the loop only waits for its end.
\<close>

theorem failed_attempt_gives_up:
  assumes "nl_run before (nl_start d) = (s, es)" and "ns_redial s" and "\<not> attempt_ok a"
  shows "\<forall>e \<in> set (snd (nl_run after (fst (nl_iteration a s)))). is_termination e"
proof -
  have inv: "nl_inv s" using nl_inv_run [of "nl_start d" before] assms(1) by (simp add: nl_inv_def nl_start_def)
  have "ns_done s \<or> nl_gave_up (fst (nl_connect a s)\<lparr>ns_redial := False\<rparr>)"
    using inv assms(2,3) by (auto simp: nl_inv_def nl_gave_up_def nl_connect_def attempt_ok_def Let_def split: option.splits prod.splits)
  then have "ns_done s \<or> nl_gave_up (fst (nl_iteration a s)) \<or> ns_done (fst (nl_iteration a s))"
    using assms(2) by (auto simp: nl_iteration_def nl_check_exit_def nl_gave_up_def split: prod.splits)
  moreover have "\<forall>e \<in> set (snd (nl_run after s')). is_termination e" if "ns_done s'" for s'
    using that by (induction after arbitrary: s') (simp_all add: nl_iteration_def)
  ultimately show ?thesis using gave_up_run by (auto simp: nl_iteration_def)
qed

definition nl_monitoring :: "nl_state \<Rightarrow> bool" where
  "nl_monitoring s \<longleftrightarrow> \<not> ns_redial s \<and> \<not> ns_done s \<and> ns_sem s = ForMonitor"

lemma connected_iteration:
  assumes "ns_redial s" and "\<not> ns_conn s" and "\<not> ns_done s" and "attempt_ok a" and "\<not> na_exit a"
  shows "\<exists>r u. na_devices a = Some r \<and> snd (nl_iteration a s) = [Dialled, Updated r u, Joined] \<and>
    (\<not> na_ended a \<longrightarrow> nl_monitoring (fst (nl_iteration a s)))"
  using assms
  by (auto simp: nl_iteration_def nl_connect_def nl_check_exit_def attempt_ok_def nl_monitoring_def Let_def split: prod.splits)

lemma quiet_iterations:
  "nl_monitoring s \<Longrightarrow> \<forall>b \<in> set quiet. \<not> na_exit b \<and> \<not> na_ended b \<Longrightarrow> nl_run (quiet @ rest) s = nl_run rest s"
proof (induction quiet)
  case (Cons b quiet)
  have "s\<lparr>ns_redial := False\<rparr> = s" using Cons.prems(1) by (cases s) (simp add: nl_monitoring_def)
  then have "nl_iteration b s = (s, [])"
    using Cons.prems by (auto simp: nl_iteration_def nl_check_exit_def nl_monitoring_def)
  with Cons show ?case by simp
qed simp

text \<open>C14. A connection whose notifications end is dialled again, and its devices read again.\<close>

theorem lost_connection_redialled:
  assumes "nl_run before (nl_start d) = (s, es)" and "ns_redial s" and "\<not> ns_done s"
    and a: "attempt_ok a" "\<not> na_exit a" "\<not> na_ended a" and quiet: "\<forall>b \<in> set quiet. \<not> na_exit b \<and> \<not> na_ended b"
    and b: "\<not> na_exit b" "na_ended b" and c: "attempt_ok c" "\<not> na_exit c"
  shows "\<exists>r r' u u'. na_devices a = Some r \<and> na_devices c = Some r' \<and>
    snd (nl_run (a # quiet @ [b, c]) s) = [Dialled, Updated r u, Joined, Dialled, Updated r' u', Joined]"
proof -
  have inv: "\<not> ns_conn s" using nl_inv_run [of "nl_start d" before] assms(1-3) by (simp add: nl_inv_def nl_start_def)
  obtain s1 r u where 1: "na_devices a = Some r" "nl_iteration a s = (s1, [Dialled, Updated r u, Joined])"
    "nl_monitoring s1"
    using connected_iteration [OF assms(2) inv assms(3) a(1,2)] a(3) by (force simp: prod_eq_iff)
  obtain s2 where 2: "nl_iteration b s1 = (s2, [])" "ns_redial s2" "\<not> ns_conn s2" "\<not> ns_done s2"
    using 1(3) b by (auto simp: nl_iteration_def nl_check_exit_def nl_monitoring_def)
  obtain r' u' where 3: "na_devices c = Some r'" "snd (nl_iteration c s2) = [Dialled, Updated r' u', Joined]"
    using connected_iteration [OF 2(2-4) c] by blast
  have "nl_run (quiet @ [b, c]) s1 = nl_run [b, c] s1" using quiet_iterations [OF 1(3) quiet] by simp
  then show ?thesis using 1(1,2) 2(1) 3 by (simp add: split_beta)
qed

definition demo_attempt :: nl_attempt where
  "demo_attempt = \<lparr>na_dial = True, na_group = True, na_devices = Some [], na_join = True, na_exit = False, na_ended = False, na_now = 0\<rparr>"

theorem failed_attempt_gives_up_witness:
  "list_all is_termination
     (snd (nl_run [demo_attempt, demo_attempt] (fst (nl_iteration (demo_attempt\<lparr>na_dial := False\<rparr>) (nl_start demo_dpll)))))"
  unfolding list_all_iff
  by (rule failed_attempt_gives_up [of "[]" demo_dpll _ "[]"]) (simp_all add: nl_start_def attempt_ok_def)

theorem lost_connection_redialled_witness:
  "\<exists>r r' u u'. snd (nl_run [demo_attempt, demo_attempt\<lparr>na_ended := True\<rparr>, demo_attempt] (nl_start demo_dpll)) =
     [Dialled, Updated r u, Joined, Dialled, Updated r' u', Joined]"
proof -
  have "attempt_ok demo_attempt" by (simp add: attempt_ok_def demo_attempt_def)
  then show ?thesis
    using lost_connection_redialled [of "[]" demo_dpll "nl_start demo_dpll" "[]" demo_attempt "[]"
        "demo_attempt\<lparr>na_ended := True\<rparr>" demo_attempt]
    by (auto simp: nl_start_def demo_attempt_def)
qed

section \<open>Monitoring through sysfs\<close>

text \<open>
  \<open>MonitorDpllSysfs\<close>: a tick reads the three files and decides; the exit sends the termination event and closes the channel of a
  holdover. A panic of the decision is recovered, and ends the monitor without an event. The result is the system with the
  holdover goroutine (\<open>dpll_sys\<close>), and whether the loop goes on; a decision that waits in its send holds the loop.
\<close>

datatype sysfs_input = SysfsTick int | SysfsExit int

fun sysfs_step :: "(string \<Rightarrow> string option) \<Rightarrow> sysfs_input \<Rightarrow> dpll_sys \<Rightarrow> dpll_sys \<times> bool" where
  "sysfs_step read (SysfsTick now) s =
     (let d = sy_d s;
          (phase, frequency, offset) = sysfs read (dp_iface d);
          s1 = s\<lparr>sy_d := d\<lparr>dp_phaseStatus := phase, dp_frequencyStatus := frequency, dp_phaseOffset := offset\<rparr>\<rparr>
      in case stateDecision now (sy_d s1) of
           Inl _ \<Rightarrow> (s1, False)
         | Inr de \<Rightarrow> (let s2 = run_decision de s1 in (s2, sy_blocked s2 = None)))"
| "sysfs_step read (SysfsExit now) s =
     (s\<lparr>sy_exited := True, sy_events := sy_events s @ [sendDpllTerminationEvent now (sy_d s)],
        sy_closed := (dp_onHoldover (sy_d s) \<or> sy_closed s),
        sy_crashed := (dp_onHoldover (sy_d s) \<and> (\<exists>rest. sy_blocked s = Some (sy_chan s, rest)))\<rparr>, False)"

text \<open>The loop with nothing else under way between its inputs.\<close>

fun sysfs_loop :: "(string \<Rightarrow> string option) \<Rightarrow> sysfs_input list \<Rightarrow> dpll_sys \<Rightarrow> dpll_sys" where
  "sysfs_loop read [] s = s"
| "sysfs_loop read (i # is) s =
     (case sysfs_step read i s of (s1, go) \<Rightarrow> if go then sysfs_loop read is s1 else s1)"

definition MonitorDpllSysfs :: "(string \<Rightarrow> string option) \<Rightarrow> sysfs_input list \<Rightarrow> dpll_sys \<Rightarrow> dpll_sys" where
  "MonitorDpllSysfs read is s = sysfs_loop read is (s\<lparr>sy_d := (sy_d s)\<lparr>dp_inSpec := True\<rparr>\<rparr>)"

text \<open>After the exit nothing is read or sent any more.\<close>

lemma sysfs_exit_is_last:
  "sysfs_loop read (ticks @ SysfsExit now # later) s = sysfs_loop read (ticks @ [SysfsExit now]) s"
  by (induction ticks arbitrary: s) (auto split: prod.splits)

text \<open>
  A card whose files cannot be read is taken for one in the unknown state: out of holdover the DPLL becomes FREERUN, its
  source lost, and one event says so.
\<close>

theorem sysfs_unreadable_is_freerun:
  assumes "\<And>f. read f = None" and "dp_dependsOn (sy_d s) = GNSS # rest" and "\<not> dp_onHoldover (sy_d s)"
    and "dp_iface (sy_d s) \<noteq> ''''" and "pc_hasChannel (dp_processConfig (sy_d s))" and "sy_blocked s = None"
  shows "\<exists>s' ev. sysfs_step read (SysfsTick now) s = (s', True) \<and> sy_events s' = sy_events s @ [ev] \<and> ec_State ev = PTP_FREERUN
     \<and> dp_state (sy_d s') = PTP_FREERUN \<and> dp_sourceLost (sy_d s')"
proof -
  have "sysfs read (dp_iface (sy_d s)) = (0, 0, 0)" using assms(1,4) by (simp add: sysfs_def readInt64FromFile_def)
  then show ?thesis using assms(2,3,5,6)
    by (simp add: decision_defs getWorseState_def getStateQuality_def run_decision_def sendDpllEvent_def decision_log_def hasPPSAsSource_def)
qed

theorem sysfs_unreadable_is_freerun_witness:
  "dp_state (sy_d (fst (sysfs_step (\<lambda>_. None) (SysfsTick 1) (start_sys demo_dpll)))) = PTP_FREERUN"
  using sysfs_unreadable_is_freerun [of "\<lambda>_. None" "start_sys demo_dpll" "[]" 1] demo_dpll_sel
  by (fastforce simp: demo_dpll_def NewDpll_def Let_def start_sys_def)

end
