(* ===== verification/Dpll_Requests.thy ===== *)
theory Dpll_Requests
  imports Dpll_Netlink
begin

text \<open>
  The requests of \<open>pkg/dpll-netlink/dpll.go\<close>. The netlink connection is a function from a request, its command,
  its attributes and whether it is a dump, to the data of the messages that answer it; the library's encoding of
  attributes into bytes is left to it, as is the decoding of the answers (\<open>decode\<close>).

  Shown: what a request for one device or pin returns for any number of answers; a pin's attributes, with the nested ones,
  are read back; a phase adjustment says the pin and the adjustment it was asked for.
\<close>

section \<open>Constants of the kernel interface\<close>

definition DPLL_A_ID :: nat where "DPLL_A_ID = 1"
definition DPLL_A_CLOCK_ID :: nat where "DPLL_A_CLOCK_ID = 4"
definition DPLL_A_TYPE :: nat where "DPLL_A_TYPE = 9"
definition DPLL_A_PIN_ID :: nat where "DPLL_A_PIN_ID = 1"
definition DPLL_A_PIN_PHASE_ADJUST :: nat where "DPLL_A_PIN_PHASE_ADJUST = 22"
definition DPLL_CMD_DEVICE_ID_GET :: nat where "DPLL_CMD_DEVICE_ID_GET = 1"
definition DPLL_CMD_DEVICE_GET :: nat where "DPLL_CMD_DEVICE_GET = 2"
definition DPLL_CMD_PIN_GET :: nat where "DPLL_CMD_PIN_GET = 8"
definition DPLL_CMD_PIN_SET :: nat where "DPLL_CMD_PIN_SET = 9"

lemmas dpll_constants = DPLL_A_ID_def DPLL_A_CLOCK_ID_def DPLL_A_TYPE_def DPLL_A_PIN_ID_def DPLL_A_PIN_PHASE_ADJUST_def
  DPLL_CMD_DEVICE_ID_GET_def DPLL_CMD_DEVICE_GET_def DPLL_CMD_PIN_GET_def DPLL_CMD_PIN_SET_def

section \<open>Requests\<close>

record dpll_request =
  rq_Command :: nat
  rq_Attrs :: attrs
  rq_Dump :: bool

type_synonym dpll_conn = "dpll_request \<Rightarrow> u8 list list res"

definition request :: "nat \<Rightarrow> attrs \<Rightarrow> bool \<Rightarrow> dpll_request" where
  "request cmd as dump = \<lparr>rq_Command = cmd, rq_Attrs = as, rq_Dump = dump\<rparr>"

definition u32_attr :: "nat \<Rightarrow> u32 \<Rightarrow> nat \<times> u8 list" where "u32_attr t v = (t, to_le 4 (unat v))"
definition i32_attr :: "nat \<Rightarrow> int \<Rightarrow> nat \<times> u8 list" where "i32_attr t v = (t, to_le 4 (unat (word_of_int v :: u32)))"

definition exactly_one :: "string \<Rightarrow> 'a list \<Rightarrow> 'a res" where
  "exactly_one what rs = (case rs of [r] \<Rightarrow> Inr r | _ \<Rightarrow> Inl (GoErr (''dpll: expected exactly one '' @ what)))"

definition device_id_attr :: "nat \<times> u8 list \<Rightarrow> u32 \<Rightarrow> u32 res" where
  "device_id_attr a r = (if fst a = DPLL_A_ID then get_u32 (snd a) else Inr r)"

definition DoDeviceIdGet :: "(u8 list \<Rightarrow> attrs res) \<Rightarrow> dpll_conn \<Rightarrow> u64 \<Rightarrow> u8 \<Rightarrow> u32 res" where
  "DoDeviceIdGet decode conn clockId type =
     res_bind (conn (request DPLL_CMD_DEVICE_ID_GET
        ((if clockId \<noteq> 0 then [(DPLL_A_CLOCK_ID, to_le 8 (unat clockId))] else []) @
         (if type \<noteq> 0 then [(DPLL_A_TYPE, to_le 1 (unat type))] else [])) False)) (\<lambda>msgs.
     res_bind (map_res (\<lambda>m. res_bind (decode m) (\<lambda>as. fold_res device_id_attr as 0)) msgs) (exactly_one ''DoDeviceIdGetReply''))"

definition DoDeviceGet :: "(u8 list \<Rightarrow> attrs res) \<Rightarrow> dpll_conn \<Rightarrow> u32 \<Rightarrow> DoDeviceGetReply res" where
  "DoDeviceGet decode conn i =
     res_bind (conn (request DPLL_CMD_DEVICE_GET (if i \<noteq> 0 then [u32_attr DPLL_A_ID i] else []) False)) (\<lambda>msgs.
     res_bind (ParseDeviceReplies decode msgs) (exactly_one ''DoDeviceGetReply''))"

definition DumpDeviceGet :: "(u8 list \<Rightarrow> attrs res) \<Rightarrow> dpll_conn \<Rightarrow> DoDeviceGetReply list res" where
  "DumpDeviceGet decode conn = res_bind (conn (request DPLL_CMD_DEVICE_GET [] True)) (ParseDeviceReplies decode)"

definition DoPinGet :: "(u8 list \<Rightarrow> attrs res) \<Rightarrow> dpll_conn \<Rightarrow> u32 \<Rightarrow> DoPinGetReply res" where
  "DoPinGet decode conn i =
     res_bind (conn (request DPLL_CMD_PIN_GET (if i \<noteq> 0 then [u32_attr DPLL_A_PIN_ID i] else []) False)) (\<lambda>msgs.
     res_bind (ParsePinReplies decode msgs) (exactly_one ''DoPinGetReply''))"

definition DumpPinGet :: "(u8 list \<Rightarrow> attrs res) \<Rightarrow> dpll_conn \<Rightarrow> DoPinGetReply list res" where
  "DumpPinGet decode conn = res_bind (conn (request DPLL_CMD_PIN_GET [] True)) (ParsePinReplies decode)"

text \<open>\<open>PinPhaseAdjust\<close> sends its request and reads no reply.\<close>

definition phase_adjust_request :: "u32 \<Rightarrow> int \<Rightarrow> dpll_request" where
  "phase_adjust_request i adjust =
     request DPLL_CMD_PIN_SET [u32_attr DPLL_A_PIN_ID i, i32_attr DPLL_A_PIN_PHASE_ADJUST adjust] False"

text \<open>\<open>GetMcastGroupId\<close>: the first group with the name.\<close>

definition GetMcastGroupId :: "(string \<times> u32) list \<Rightarrow> string \<Rightarrow> u32 option" where
  "GetMcastGroupId groups mcGroup = map_of groups mcGroup"

text \<open>What \<open>GetPinInfoHR\<close> hands to the JSON encoder: the pin with the names of its codes.\<close>

record PinParentDeviceHR =
  hpd_ParentId :: u32
  hpd_Direction :: string
  hpd_Prio :: u32
  hpd_State :: string
  hpd_PhaseOffset :: int

record PinParentPinHR =
  hpp_ParentId :: u32
  hpp_State :: string

record DoPinGetReplyHR =
  hr_Id :: u32
  hr_ClockId :: u64
  hr_BoardLabel :: string
  hr_PanelLabel :: string
  hr_PackageLabel :: string
  hr_Type :: string
  hr_Frequency :: u64
  hr_FrequencySupported :: FrequencyRange
  hr_Capabilities :: string
  hr_ParentDevice :: PinParentDeviceHR
  hr_ParentPin :: PinParentPinHR
  hr_PhaseAdjustMin :: int
  hr_PhaseAdjustMax :: int
  hr_PhaseAdjust :: int
  hr_FractionalFrequencyOffset :: int
  hr_ModuleName :: string

definition GetPinInfoHR :: "DoPinGetReply \<Rightarrow> DoPinGetReplyHR" where
  "GetPinInfoHR r =
     (let d = pr_ParentDevice r; p = pr_ParentPin r in
      \<lparr>hr_Id = pr_Id r, hr_ClockId = pr_ClockId r, hr_BoardLabel = pr_BoardLabel r, hr_PanelLabel = pr_PanelLabel r,
       hr_PackageLabel = pr_PackageLabel r, hr_Type = GetPinType (pr_Type r), hr_Frequency = pr_Frequency r,
       hr_FrequencySupported = pr_FrequencySupported r, hr_Capabilities = GetPinCapabilities (pr_Capabilities r),
       hr_ParentDevice =
         \<lparr>hpd_ParentId = pd_ParentId d, hpd_Direction = GetPinDirection (pd_Direction d), hpd_Prio = pd_Prio d,
          hpd_State = GetPinState (pd_State d), hpd_PhaseOffset = pd_PhaseOffset d\<rparr>,
       hr_ParentPin = \<lparr>hpp_ParentId = pp_ParentId p, hpp_State = GetPinState (pp_State p)\<rparr>,
       hr_PhaseAdjustMin = pr_PhaseAdjustMin r, hr_PhaseAdjustMax = pr_PhaseAdjustMax r,
       hr_PhaseAdjust = pr_PhaseAdjust r, hr_FractionalFrequencyOffset = pr_FractionalFrequencyOffset r,
       hr_ModuleName = pr_ModuleName r\<rparr>)"

section \<open>Properties\<close>

text \<open>
  A request for one device asks for the device with that id (any, if the id is 0), and succeeds exactly when one
  well-formed answer comes back.
\<close>

theorem device_get_one_reply:
  "DoDeviceGet decode conn i = Inr r \<longleftrightarrow>
    (\<exists>m as. conn (request DPLL_CMD_DEVICE_GET (if i = 0 then [] else [(1, to_le 4 (unat i))]) False) = Inr [m] \<and>
       decode m = Inr as \<and> fold_res device_attr as zero_device = Inr r)"
proof -
  have one: "res_bind (ParseDeviceReplies decode msgs) (exactly_one e) = Inr r \<longleftrightarrow>
      (\<exists>m as. msgs = [m] \<and> decode m = Inr as \<and> fold_res device_attr as zero_device = Inr r)" for msgs e
    by (cases msgs; cases "tl msgs") (auto simp: ParseDeviceReplies_def res_bind_Inr_iff exactly_one_def)
  show ?thesis by (auto simp: DoDeviceGet_def res_bind_Inr_iff [of "conn _"] one u32_attr_def dpll_constants)
qed

text \<open>The attributes of a pin, the nested ones encoded by \<open>enc\<close>.\<close>

definition pin_attrs :: "(attrs \<Rightarrow> u8 list) \<Rightarrow> DoPinGetReply \<Rightarrow> attrs" where
  "pin_attrs enc r =
     [u32_attr 1 (pr_Id r), (5, to_le 8 (unat (pr_ClockId r))), (6, nul_string (pr_BoardLabel r)),
      (7, nul_string (pr_PanelLabel r)), (8, nul_string (pr_PackageLabel r)), u32_attr 9 (pr_Type r),
      (11, to_le 8 (unat (pr_Frequency r))),
      (12, enc [(13, to_le 8 (unat (fr_FrequencyMin (pr_FrequencySupported r)))),
                (14, to_le 8 (unat (fr_FrequencyMax (pr_FrequencySupported r))))]),
      u32_attr 17 (pr_Capabilities r),
      (18, enc (let p = pr_ParentDevice r in [u32_attr 2 (pd_ParentId p), u32_attr 10 (pd_Direction p),
                 u32_attr 15 (pd_Prio p), u32_attr 16 (pd_State p),
                 (23, to_le 8 (unat (word_of_int (pd_PhaseOffset p) :: u64)))])),
      (19, enc [u32_attr 2 (pp_ParentId (pr_ParentPin r)), u32_attr 16 (pp_State (pr_ParentPin r))]),
      i32_attr 20 (pr_PhaseAdjustMin r), i32_attr 21 (pr_PhaseAdjustMax r), i32_attr 22 (pr_PhaseAdjust r),
      i32_attr 24 (pr_FractionalFrequencyOffset r), (3, nul_string (pr_ModuleName r))]"

definition pin_wf :: "DoPinGetReply \<Rightarrow> bool" where
  "pin_wf r \<longleftrightarrow>
     (\<forall>s \<in> {pr_BoardLabel r, pr_PanelLabel r, pr_PackageLabel r, pr_ModuleName r}. CHR 0x00 \<notin> set s) \<and>
     (\<forall>i \<in> {pr_PhaseAdjustMin r, pr_PhaseAdjustMax r, pr_PhaseAdjust r, pr_FractionalFrequencyOffset r}.
        - (2 ^ 31) \<le> i \<and> i < 2 ^ 31) \<and>
     - (2 ^ 63) \<le> pd_PhaseOffset (pr_ParentDevice r) \<and> pd_PhaseOffset (pr_ParentDevice r) < 2 ^ 63"

definition small_attrs :: "attrs \<Rightarrow> bool" where
  "small_attrs as \<longleftrightarrow> (\<forall>a \<in> set as. fst a < 256 \<and> length (snd a) < 256)"

text \<open>
  C39. A pin is read back from its attributes, if the library decodes nested attributes of ordinary size to what was encoded.
\<close>

theorem parse_pin_roundtrip:
  assumes "decode m = Inr (pin_attrs enc r)" and "\<And>as. small_attrs as \<Longrightarrow> decode (enc as) = Inr as" and "pin_wf r"
  shows "ParsePinReplies decode [m] = Inr [r]"
  using assms
  by (simp add: ParsePinReplies_def pin_attrs_def pin_attr_def pin_wf_def zero_pin_def get_string_nul nested_def Let_def
      frequency_attr_def parent_device_attr_def parent_pin_attr_def u32_attr_def i32_attr_def small_attrs_def)

text \<open>An encoding with the property: type and length in one byte each.\<close>

definition demo_encode :: "attrs \<Rightarrow> u8 list" where
  "demo_encode as = concat (map (\<lambda>a. of_nat (fst a) # of_nat (length (snd a)) # snd a) as)"

fun demo_decode :: "u8 list \<Rightarrow> attrs res" where
  "demo_decode [] = Inr []"
| "demo_decode [t] = Inl (GoErr ''short attribute'')"
| "demo_decode (t # n # bs) =
     (if length bs < unat n then Inl (GoErr ''short attribute'')
      else res_bind (demo_decode (drop (unat n) bs)) (\<lambda>as. Inr ((unat t, take (unat n) bs) # as)))"

lemma demo_decode_encode: "small_attrs as \<Longrightarrow> demo_decode (demo_encode as) = Inr as"
  by (induction as) (simp_all add: small_attrs_def demo_encode_def unat_of_nat)

definition demo_pin :: DoPinGetReply where
  "demo_pin = zero_pin\<lparr>pr_Id := 4, pr_ClockId := 7, pr_BoardLabel := ''SMA1'', pr_PhaseAdjust := -20\<rparr>"

theorem parse_pin_roundtrip_witness: "ParsePinReplies demo_decode [demo_encode (pin_attrs demo_encode demo_pin)] = Inr [demo_pin]"
proof (rule parse_pin_roundtrip)
  have "small_attrs (pin_attrs demo_encode demo_pin)"
    by (simp add: small_attrs_def pin_attrs_def demo_encode_def demo_pin_def zero_pin_def nul_string_def Let_def u32_attr_def i32_attr_def)
  then show "demo_decode (demo_encode (pin_attrs demo_encode demo_pin)) = Inr (pin_attrs demo_encode demo_pin)"
    by (rule demo_decode_encode)
qed (simp_all add: demo_decode_encode pin_wf_def demo_pin_def zero_pin_def MaxInt64_def)

text \<open>The request of a phase adjustment, read as the attributes of a pin, says the pin and the adjustment asked for.\<close>

theorem phase_adjust_says_what_was_asked:
  assumes "- (2 ^ 31) \<le> adjust" and "adjust < 2 ^ 31"
  shows "fold_res (pin_attr decode) (rq_Attrs (phase_adjust_request i adjust)) zero_pin =
    Inr (zero_pin\<lparr>pr_Id := i, pr_PhaseAdjust := adjust\<rparr>)"
  using assms
  by (simp add: phase_adjust_request_def request_def u32_attr_def i32_attr_def dpll_constants pin_attr_def Let_def)

theorem phase_adjust_says_what_was_asked_witness:
  "fold_res (pin_attr demo_decode) (rq_Attrs (phase_adjust_request 4 (-7658))) zero_pin =
    Inr (zero_pin\<lparr>pr_Id := 4, pr_PhaseAdjust := -7658\<rparr>)"
  by (rule phase_adjust_says_what_was_asked) simp_all

end
