(* ===== verification/Log_Forward.thy ===== *)
theory Log_Forward
  imports Process_Control "HOL-Library.Sublist"
begin

text \<open>
  The goroutine of \<open>cmdRun\<close> in \<open>pkg/daemon/daemon.go\<close> that forwards the output of a process to the event socket:
  it dials, reads the output through a \<open>bufio.Scanner\<close>, writes line after line, and dials again with a new
  scanner when a write fails. \<^const>\<open>socket_line\<close> is what it does with one line; here is which lines it gets. The
  second part composes it with \<open>cmdRun\<close> and \<open>cmdStop\<close> of \<open>Process_Control\<close>.

  Shown: while the writes succeed, the lines forwarded are the lines of the output up to the first of 64 KiB,
  however the reads divide it; a failed write also loses the lines that the scanner has read ahead; whatever fails, nothing is
  invented or reordered; a stop returns on every execution once the socket can be dialled, and never while it cannot.
\<close>

section \<open>The scanner\<close>

text \<open>\<open>MaxScanTokenSize\<close>, the size to which the buffer of a scanner grows.\<close>

definition max_token :: nat where "max_token = 65536"

definition dropCR :: "string \<Rightarrow> string" where
  "dropCR l = (if l \<noteq> [] \<and> last l = CHR 0x0D then butlast l else l)"

text \<open>
  Where the goroutine is: before \<open>net.Dial\<close>; in \<open>scanner.Scan\<close>; before the write of a line; before its send on \<open>done\<close>. \<open>lg_pipe\<close>
  is the output of the process that is still to be read, up to its end; \<open>lg_buf\<close> is what the scanner has read ahead;
  \<open>lg_sent\<close> are the lines whose write succeeded.
\<close>

datatype log_pc = LConnect | LScan | LWrite string | LDone

record log_sys =
  lg_pc :: log_pc
  lg_pipe :: string
  lg_buf :: string
  lg_sent :: "string list"

definition log_start :: "string \<Rightarrow> log_sys" where
  "log_start output = \<lparr>lg_pc = LConnect, lg_pipe = output, lg_buf = [], lg_sent = []\<rparr>"

text \<open>
  The parameters are the possible outcomes of a dial and of a write. A read returns any part of the
  output that fits into the buffer. The scanner fails when its buffer is full without a line end in it.
\<close>

inductive log_step :: "bool set \<Rightarrow> bool set \<Rightarrow> log_sys \<Rightarrow> log_sys \<Rightarrow> bool" for dials writes where
  lg_dialled: "lg_pc l = LConnect \<Longrightarrow> True \<in> dials \<Longrightarrow> log_step dials writes l (l\<lparr>lg_pc := LScan, lg_buf := []\<rparr>)"
| lg_refused: "lg_pc l = LConnect \<Longrightarrow> False \<in> dials \<Longrightarrow> log_step dials writes l l"
| lg_line: "lg_pc l = LScan \<Longrightarrow> lg_buf l = t @ CHR ''\<newline>'' # b \<Longrightarrow> CHR ''\<newline>'' \<notin> set t \<Longrightarrow>
     log_step dials writes l (l\<lparr>lg_pc := LWrite (dropCR t), lg_buf := b\<rparr>)"
| lg_read: "lg_pc l = LScan \<Longrightarrow> CHR ''\<newline>'' \<notin> set (lg_buf l) \<Longrightarrow> lg_pipe l = c @ p \<Longrightarrow> c \<noteq> [] \<Longrightarrow>
     length (lg_buf l) + length c \<le> max_token \<Longrightarrow> log_step dials writes l (l\<lparr>lg_pipe := p, lg_buf := lg_buf l @ c\<rparr>)"
| lg_last: "lg_pc l = LScan \<Longrightarrow> CHR ''\<newline>'' \<notin> set (lg_buf l) \<Longrightarrow> lg_pipe l = [] \<Longrightarrow> lg_buf l \<noteq> [] \<Longrightarrow>
     length (lg_buf l) < max_token \<Longrightarrow> log_step dials writes l (l\<lparr>lg_pc := LWrite (dropCR (lg_buf l)), lg_buf := []\<rparr>)"
| lg_end: "lg_pc l = LScan \<Longrightarrow> lg_buf l = [] \<Longrightarrow> lg_pipe l = [] \<Longrightarrow> log_step dials writes l (l\<lparr>lg_pc := LDone\<rparr>)"
| lg_too_long: "lg_pc l = LScan \<Longrightarrow> CHR ''\<newline>'' \<notin> set (lg_buf l) \<Longrightarrow> max_token \<le> length (lg_buf l) \<Longrightarrow>
     log_step dials writes l (l\<lparr>lg_pc := LDone\<rparr>)"
| lg_written: "lg_pc l = LWrite t \<Longrightarrow> True \<in> writes \<Longrightarrow>
     log_step dials writes l (l\<lparr>lg_pc := LScan, lg_sent := lg_sent l @ [t]\<rparr>)"
| lg_broken: "lg_pc l = LWrite t \<Longrightarrow> False \<in> writes \<Longrightarrow> log_step dials writes l (l\<lparr>lg_pc := LConnect\<rparr>)"

inductive_cases log_stepE: "log_step dials writes l l'"

section \<open>The lines that are forwarded\<close>

text \<open>The lines of a text as \<open>bufio.ScanLines\<close> defines them: a line end terminates a line, and the last one may be missing.\<close>

fun text_lines :: "string \<Rightarrow> string list" where
  "text_lines [] = []"
| "text_lines (c # cs) =
     (if c = CHR ''\<newline>'' then [] # text_lines cs
      else (case text_lines cs of [] \<Rightarrow> [[c]] | l # ls \<Rightarrow> (c # l) # ls))"

definition scanned_lines :: "string \<Rightarrow> string list" where
  "scanned_lines output = map dropCR (takeWhile (\<lambda>l. length l < max_token) (text_lines output))"

lemma text_lines_newline: "CHR ''\<newline>'' \<notin> set t \<Longrightarrow> text_lines (t @ CHR ''\<newline>'' # b) = t # text_lines b"
  by (induction t) auto

lemma text_lines_last: "CHR ''\<newline>'' \<notin> set t \<Longrightarrow> t \<noteq> [] \<Longrightarrow> text_lines t = [t]"
proof (induction t)
  case (Cons c t)
  then show ?case by (cases "t = []") auto
qed simp

lemma text_lines_prefix: "CHR ''\<newline>'' \<notin> set t \<Longrightarrow> t \<noteq> [] \<Longrightarrow> \<exists>l ls. text_lines (t @ p) = (t @ l) # ls"
proof (induction t)
  case (Cons c t)
  show ?case
  proof (cases "t = []")
    case True
    then show ?thesis using Cons.prems by (auto split: list.splits)
  next
    case False
    then obtain l ls where "text_lines (t @ p) = (t @ l) # ls" using Cons by auto
    then show ?thesis using Cons.prems by auto
  qed
qed simp

text \<open>The lines still to come, and those already sent with them.\<close>

definition lines_to_come :: "log_sys \<Rightarrow> string list" where
  "lines_to_come l =
     (case lg_pc l of
        LConnect \<Rightarrow> scanned_lines (lg_pipe l)
      | LScan \<Rightarrow> scanned_lines (lg_buf l @ lg_pipe l)
      | LWrite t \<Rightarrow> t # scanned_lines (lg_buf l @ lg_pipe l)
      | LDone \<Rightarrow> [])"

definition buffer_ok :: "log_sys \<Rightarrow> bool" where
  "buffer_ok l \<longleftrightarrow> length (lg_buf l) \<le> max_token"

lemma buffer_ok_step: "log_step dials writes l l' \<Longrightarrow> buffer_ok l \<Longrightarrow> buffer_ok l'"
  by (erule log_stepE) (auto simp: buffer_ok_def)

lemma scanned_lines_newline:
  "CHR ''\<newline>'' \<notin> set t \<Longrightarrow> length t < max_token \<Longrightarrow> scanned_lines (t @ CHR ''\<newline>'' # b) = dropCR t # scanned_lines b"
  by (simp add: scanned_lines_def text_lines_newline)

lemma scanned_lines_last:
  "CHR ''\<newline>'' \<notin> set t \<Longrightarrow> t \<noteq> [] \<Longrightarrow> length t < max_token \<Longrightarrow> scanned_lines t = [dropCR t]"
  by (simp add: scanned_lines_def text_lines_last)

lemma scanned_lines_long:
  assumes "CHR ''\<newline>'' \<notin> set t" and "max_token \<le> length t"
  shows "scanned_lines (t @ p) = []"
proof -
  have "t \<noteq> []" using assms(2) by (auto simp: max_token_def)
  then obtain l ls where "text_lines (t @ p) = (t @ l) # ls" using text_lines_prefix assms(1) by blast
  then show ?thesis using assms(2) by (simp add: scanned_lines_def)
qed

lemma lines_kept_step:
  assumes "log_step dials {True} l l'" and "buffer_ok l"
  shows "lg_sent l' @ lines_to_come l' = lg_sent l @ lines_to_come l"
  using assms
proof cases
  case (lg_line t b)
  then have "length t < max_token" using assms(2) by (simp add: buffer_ok_def)
  then show ?thesis using lg_line by (simp add: lines_to_come_def scanned_lines_newline)
next
  case lg_last
  then show ?thesis by (simp add: lines_to_come_def scanned_lines_last) (simp add: scanned_lines_def)
next
  case lg_too_long
  then show ?thesis by (simp add: lines_to_come_def scanned_lines_long)
qed (auto simp: lines_to_come_def scanned_lines_def)

lemma lines_kept:
  assumes "(log_step dials {True})\<^sup>*\<^sup>* l l'" and "buffer_ok l"
  shows "lg_sent l' @ lines_to_come l' = lg_sent l @ lines_to_come l"
proof -
  have "buffer_ok l' \<and> lg_sent l' @ lines_to_come l' = lg_sent l @ lines_to_come l"
    by (rule steps_inv [OF assms(1)]) (use assms(2) buffer_ok_step lines_kept_step in auto)
  then show ?thesis by simp
qed


text \<open>
  C20. A failed write loses more than its line: the lines that the scanner has read ahead are not forwarded either, and
  what is left of a line that it has read in part is forwarded as a line.
\<close>

theorem failed_write_loses_buffer:
  assumes "(log_step dials writes)\<^sup>*\<^sup>* (log_start output) l" and "lg_pc l = LWrite t"
    and "log_step dials writes l l'" and "lg_pc l' = LConnect"
    and "(log_step dials {True})\<^sup>*\<^sup>* l' l''" and "lg_pc l'' = LDone"
  shows "lg_sent l'' = lg_sent l @ scanned_lines (lg_pipe l)"
proof -
  have "lg_sent l' = lg_sent l \<and> lg_pipe l' = lg_pipe l"
    using assms(3,2,4) by cases auto
  moreover have "buffer_ok l"
    by (rule steps_inv [OF assms(1)]) (auto simp: buffer_ok_def log_start_def dest: buffer_ok_step [unfolded buffer_ok_def])
  then have "buffer_ok l'" using buffer_ok_step assms(3) by blast
  ultimately show ?thesis using lines_kept [OF assms(5)] assms(4,6) by (simp add: lines_to_come_def)
qed

definition in_flight :: "log_sys \<Rightarrow> string" where
  "in_flight l = (case lg_pc l of LWrite t \<Rightarrow> t | _ \<Rightarrow> []) @ (if lg_pc l = LConnect then [] else lg_buf l) @ lg_pipe l"

lemma subseq_dropCR: "subseq (dropCR t) t"
  by (simp add: dropCR_def) (metis append_butlast_last_id prefix_imp_subseq prefixI)

lemma in_flight_step:
  assumes "log_step dials writes l l'"
  shows "subseq (concat (lg_sent l') @ in_flight l') (concat (lg_sent l) @ in_flight l)"
  using assms
proof cases
  case (lg_line t b)
  have "subseq (dropCR t @ b @ lg_pipe l) (t @ (CHR ''\<newline>'' # b) @ lg_pipe l)"
    by (intro list_emb_append_mono subseq_dropCR) auto
  then show ?thesis using lg_line by (simp add: in_flight_def subseq_append')
qed (auto simp: in_flight_def subseq_dropCR subseq_append' intro: subseq_drop_many)

text \<open>Whatever fails, the forwarded lines are parts of the output in their order.\<close>

theorem nothing_invented:
  assumes "(log_step dials writes)\<^sup>*\<^sup>* (log_start output) l"
  shows "subseq (concat (lg_sent l)) output"
proof -
  have "subseq (concat (lg_sent l) @ in_flight l) output"
    by (rule steps_inv [OF assms, where I = "\<lambda>l. subseq (concat (lg_sent l) @ in_flight l) output"])
       (auto simp: log_start_def in_flight_def dest: in_flight_step intro: subseq_order.trans)
  then show ?thesis by (rule subseq_order.trans [rotated]) (simp add: subseq_rev_drop_many)
qed

section \<open>With the event socket, cmdRun and cmdStop\<close>

text \<open>
  \<open>cmdRun\<close> launches the goroutine after it has made the pipe, and waits for it before it waits for the command. The goroutine
  reads while the command runs; a command that cannot be started closes the pipe.
\<close>

inductive socket_step :: "bool \<Rightarrow> bool set \<Rightarrow> bool set \<Rightarrow> proc_sys \<times> log_sys \<Rightarrow> proc_sys \<times> log_sys \<Rightarrow> bool"
    for fails dials writes where
  sk_launch: "ps_run p = RTop \<Longrightarrow>
     socket_step fails dials writes (p, l) (p\<lparr>ps_run := RTest\<rparr>, l\<lparr>lg_pc := LConnect, lg_pipe := output\<rparr>)"
| sk_log: "log_step dials writes l l' \<Longrightarrow> lg_pc l = LScan \<longrightarrow> ps_run p = RRead \<Longrightarrow>
     socket_step fails dials writes (p, l) (p, l')"
| sk_start_fails: "ps_run p = RStart \<Longrightarrow> fails \<Longrightarrow> lg_pc l = LScan \<Longrightarrow>
     socket_step fails dials writes (p, l) (p\<lparr>ps_run := RSleep\<rparr>, l\<lparr>lg_pc := LDone\<rparr>)"
| sk_control: "proc_step fails p p' \<Longrightarrow> \<not> (ps_run p = RTop \<and> ps_run p' = RTest) \<Longrightarrow>
     \<not> (ps_run p = RStart \<and> ps_run p' = RSleep) \<Longrightarrow> (ps_run p = RRead \<and> ps_run p' = RSleep \<longrightarrow> lg_pc l = LDone) \<Longrightarrow>
     socket_step fails dials writes (p, l) (p', l)"

inductive_cases socket_stepE: "socket_step fails dials writes (p, l) s'"

definition waits_for_socket :: "proc_sys \<times> log_sys \<Rightarrow> bool" where
  "waits_for_socket s \<longleftrightarrow> lg_pc (snd s) = LConnect \<and> ps_run (fst s) \<in> {RTop, RTest, RStart, RNoEof, RRead}
     \<and> ps_child (fst s) \<noteq> Exited \<and> ps_stop (fst s) \<in> {SNone, SSignal, SWait}"

lemma waits_for_socket_step:
  assumes "socket_step fails {False} writes s s'" and "waits_for_socket s"
  shows "waits_for_socket s'"
  using assms(1)
proof cases
  case (sk_log l l' p)
  from sk_log(3) show ?thesis
    by (rule log_stepE) (use assms(2) sk_log in \<open>simp_all add: waits_for_socket_def\<close>)
next
  case (sk_control p p' l)
  from sk_control(3) show ?thesis
    by (rule proc_stepE) (use assms(2) sk_control in \<open>simp_all add: waits_for_socket_def\<close>)
qed (use assms(2) in \<open>simp_all add: waits_for_socket_def\<close>)

text \<open>
  C18. As long as the event socket cannot be dialled, a stop of the process does not return on any execution, even after the
  command has ended.
\<close>

theorem stop_waits_for_event_socket:
  assumes "(socket_step fails {False} writes)\<^sup>*\<^sup>* (launched, log_start output) (p, l)"
  shows "ps_stop p \<noteq> SReturned \<and> ps_stop p \<noteq> SPanicked"
proof -
  have "waits_for_socket (p, l)"
    by (rule steps_inv [OF assms]) (auto simp: waits_for_socket_def launched_def log_start_def dest: waits_for_socket_step)
  then show ?thesis by (auto simp: waits_for_socket_def)
qed

text \<open>When it can be dialled, a stop that begins while the command runs returns, however often writes fail.\<close>

fun log_left :: "log_pc \<Rightarrow> nat" where
  "log_left LDone = 0" | "log_left LScan = 1" | "log_left LConnect = 2" | "log_left (LWrite _) = 3"

definition bytes_left :: "log_sys \<Rightarrow> nat" where
  "bytes_left l = log_left (lg_pc l) + 3 * length (lg_buf l) + 4 * length (lg_pipe l)"

definition socket_ending :: "proc_sys \<times> log_sys \<Rightarrow> bool" where
  "socket_ending s \<longleftrightarrow> stop_inv (fst s) \<and> (ps_run (fst s) = RRead \<or> lg_pc (snd s) = LDone) \<and> buffer_ok (snd s)"

lemma log_progress: "lg_pc l \<noteq> LDone \<Longrightarrow> buffer_ok l \<Longrightarrow> \<exists>l'. log_step {True} (insert w writes) l l'"
proof (cases "lg_pc l")
  case LScan
  consider t b where "lg_buf l = t @ CHR ''\<newline>'' # b" "CHR ''\<newline>'' \<notin> set t"
    | "CHR ''\<newline>'' \<notin> set (lg_buf l)" "max_token \<le> length (lg_buf l)"
    | c p where "CHR ''\<newline>'' \<notin> set (lg_buf l)" "length (lg_buf l) < max_token" "lg_pipe l = [c] @ p"
    | "CHR ''\<newline>'' \<notin> set (lg_buf l)" "length (lg_buf l) < max_token" "lg_pipe l = []"
    by (metis append_Cons append_Nil leI neq_Nil_conv split_list_first)
  then show ?thesis
  proof cases
    case 3
    then show ?thesis using LScan lg_read [of l "[_]"] by (metis length_Cons list.size(3) not_Cons_self2 Suc_eq_plus1 Suc_leI add_0)
  qed (use LScan in \<open>blast intro: log_step.intros\<close>)+
qed (blast intro: log_step.intros)+

lemma log_step_left:
  "log_step {True} writes l l' \<Longrightarrow> bytes_left l' < bytes_left l"
  by (erule log_stepE) (auto simp: bytes_left_def neq_Nil_conv)

lemma socket_ending_step:
  assumes "socket_step fails {True} writes s s'" and "socket_ending s" and "ps_stop (fst s) \<noteq> SReturned"
  shows "socket_ending s' \<and> left (fst s') + bytes_left (snd s') < left (fst s) + bytes_left (snd s)"
  using assms(1)
proof cases
  case (sk_log l l' p)
  then have "ps_run p = RRead"
    using assms(2,3) by (auto simp: socket_ending_def elim: log_stepE)
  then show ?thesis using sk_log assms(2) log_step_left buffer_ok_step by (auto simp: socket_ending_def)
next
  case (sk_control p p' l)
  then have "stop_inv p' \<and> left p' < left p"
    using stop_inv_step assms(2,3) by (simp add: socket_ending_def)
  moreover have "ps_run p' = RRead \<or> lg_pc l = LDone"
    using sk_control(3) by (rule proc_stepE) (use sk_control assms(2) in \<open>auto simp: socket_ending_def\<close>)
  ultimately show ?thesis using sk_control assms(2) by (simp add: socket_ending_def)
qed (use assms(2,3) in \<open>auto simp: socket_ending_def stop_inv_def\<close>)

lemma socket_ending_progress:
  assumes "socket_ending s" and "ps_stop (fst s) \<noteq> SReturned"
  shows "\<exists>s'. socket_step fails {True} (insert w writes) s s'"
proof (cases "lg_pc (snd s) = LDone")
  case True
  obtain p' where "proc_step fails (fst s) p'" using stop_inv_progress assms by (force simp: socket_ending_def)
  moreover have "ps_run (fst s) \<notin> {RTop, RStart}" using assms by (auto simp: socket_ending_def stop_inv_def)
  ultimately show ?thesis using True sk_control [of fails "fst s" p' "snd s"] by (cases s) auto
next
  case False
  then obtain l' where "log_step {True} (insert w writes) (snd s) l'"
    using log_progress [of "snd s" w writes] assms(1) by (auto simp: socket_ending_def)
  then show ?thesis using sk_log False assms(1) by (cases s) (force simp: socket_ending_def)
qed

interpretation socket_stop: ending_operation "socket_step fails {True} (insert w writes)" "\<lambda>s. ps_stop (fst s) = SReturned"
    socket_ending "\<lambda>s. left (fst s) + bytes_left (snd s)" for fails w writes
  by unfold_locales (use socket_ending_step socket_ending_progress in blast)+


section \<open>Concrete executions\<close>

text \<open>The output of a process as one read returns it.\<close>

definition demo_output :: string where
  "demo_output = ''one'' @ [CHR 0x0D, CHR ''\<newline>''] @ ''two''"

definition demo_log :: "log_pc \<Rightarrow> string \<Rightarrow> string \<Rightarrow> string list \<Rightarrow> log_sys" where
  "demo_log pc pipe buf sent = \<lparr>lg_pc = pc, lg_pipe = pipe, lg_buf = buf, lg_sent = sent\<rparr>"

lemma demo_reads_first:
  "(log_step {True} writes)\<^sup>*\<^sup>* (log_start demo_output) (demo_log (LWrite ''one'') [] ''two'' [])"
proof -
  have 1: "log_step {True} writes (log_start demo_output) (demo_log LScan demo_output [] [])"
    using lg_dialled [of "log_start demo_output" "{True}" writes] by (simp add: log_start_def demo_log_def)
  have 2: "log_step {True} writes (demo_log LScan demo_output [] []) (demo_log LScan [] demo_output [])"
    using lg_read [of "demo_log LScan demo_output [] []" demo_output "[]"]
    by (simp add: demo_log_def demo_output_def max_token_def)
  have 3: "log_step {True} writes (demo_log LScan [] demo_output []) (demo_log (LWrite ''one'') [] ''two'' [])"
    using lg_line [of "demo_log LScan [] demo_output []" "''one'' @ [CHR 0x0D]" "''two''"]
    by (simp add: demo_log_def demo_output_def dropCR_def)
  show ?thesis using 1 2 3 by (blast intro: first_step no_step)
qed

lemma demo_ends:
  "log_step {True} {True} (demo_log LScan [] [] sent) (demo_log LDone [] [] sent)"
  using lg_end [of "demo_log LScan [] [] sent"] by (simp add: demo_log_def)

lemma demo_forwarded:
  "(log_step {True} {True})\<^sup>*\<^sup>* (log_start demo_output) (demo_log LDone [] [] [''one'', ''two''])"
proof -
  have 1: "log_step {True} {True} (demo_log (LWrite ''one'') [] ''two'' []) (demo_log LScan [] ''two'' [''one''])"
    using lg_written [of "demo_log (LWrite ''one'') [] ''two'' []"] by (simp add: demo_log_def)
  have 2: "log_step {True} {True} (demo_log LScan [] ''two'' [''one'']) (demo_log (LWrite ''two'') [] [] [''one''])"
    using lg_last [of "demo_log LScan [] ''two'' [''one'']"] by (simp add: demo_log_def dropCR_def max_token_def)
  have 3: "log_step {True} {True} (demo_log (LWrite ''two'') [] [] [''one'']) (demo_log LScan [] [] [''one'', ''two''])"
    using lg_written [of "demo_log (LWrite ''two'') [] [] [''one'']"] by (simp add: demo_log_def)
  show ?thesis by (blast intro: more_steps [OF demo_reads_first] first_step 1 2 3 demo_ends no_step)
qed


theorem nothing_invented_witness: "subseq (concat [''one'', ''two'']) demo_output"
  using nothing_invented [OF demo_forwarded] by (simp add: demo_log_def)

theorem failed_write_loses_buffer_witness:
  "lg_sent (demo_log LDone [] [] []) = lg_sent (demo_log (LWrite ''one'') [] ''two'' []) @ scanned_lines []"
proof -
  have 1: "log_step {True} {False} (demo_log (LWrite ''one'') [] ''two'' []) (demo_log LConnect [] ''two'' [])"
    using lg_broken [of "demo_log (LWrite ''one'') [] ''two'' []"] by (simp add: demo_log_def)
  have 2: "log_step {True} {True} (demo_log LConnect [] ''two'' []) (demo_log LScan [] [] [])"
    using lg_dialled [of "demo_log LConnect [] ''two'' []"] by (simp add: demo_log_def)
  have 3: "(log_step {True} {True})\<^sup>*\<^sup>* (demo_log LConnect [] ''two'' []) (demo_log LDone [] [] [])"
    by (blast intro: first_step 2 demo_ends no_step)
  show ?thesis
    using failed_write_loses_buffer [OF demo_reads_first _ 1 _ 3] by (simp add: demo_log_def)
qed

theorem stop_waits_for_event_socket_witness:
  "ps_stop (launched\<lparr>ps_stop := SWait, ps_stopped := True\<rparr>) \<noteq> SReturned
     \<and> ps_stop (launched\<lparr>ps_stop := SWait, ps_stopped := True\<rparr>) \<noteq> SPanicked"
proof -
  let ?l = "log_start demo_output"
  have 1: "socket_step True {False} {True} (launched, ?l) (launched\<lparr>ps_stop := SSignal, ps_stopped := True\<rparr>, ?l)"
    using stop_call [of launched True] by (intro sk_control) (simp_all add: launched_def)
  have 2: "socket_step True {False} {True} (launched\<lparr>ps_stop := SSignal, ps_stopped := True\<rparr>, ?l)
      (launched\<lparr>ps_stop := SWait, ps_stopped := True\<rparr>, ?l)"
    using stop_signal [of "launched\<lparr>ps_stop := SSignal, ps_stopped := True\<rparr>" True]
    by (intro sk_control) (simp_all add: launched_def)
  have "(socket_step True {False} {True})\<^sup>*\<^sup>* (launched, ?l) (launched\<lparr>ps_stop := SWait, ps_stopped := True\<rparr>, ?l)"
    by (blast intro: first_step 1 2 no_step)
  then show ?thesis by (rule stop_waits_for_event_socket)
qed


end
