(* ===== verification/Settings_Text.thy ===== *)
theory Settings_Text
  imports Protocol Regex
begin

text \<open>
  Reading the grandmaster settings from the output of pmc: the regular expression that \<open>RegEx\<close> in
  \<open>pkg/protocol/type.go\<close> puts together from the keys and the expressions of their values.

  Shown: the text that \<open>String\<close> prints is matched, behind any words, with the values that were printed, exactly if the UTC
  offset is not negative.
\<close>

section \<open>The expression\<close>

text \<open>The expressions of the values: \<open>(\d+)\<close>, \<open>(0x[\da-f]+)\<close> and \<open>([01])\<close>.\<close>

datatype value_regex = Digits | HexDigits | Bit

definition is_lower_hex :: "char \<Rightarrow> bool" where
  "is_lower_hex c = (is_dig c \<or> (let n = of_char c :: nat in 97 \<le> n \<and> n \<le> 102))"

definition ValueRegEx :: "(string \<times> value_regex) list" where
  "ValueRegEx =
     [(''clockClass'', Digits), (''clockAccuracy'', HexDigits), (''offsetScaledLogVariance'', HexDigits),
      (''currentUtcOffset'', Digits), (''currentUtcOffsetValid'', Bit), (''leap59'', Bit), (''leap61'', Bit),
      (''timeTraceable'', Bit), (''frequencyTraceable'', Bit), (''ptpTimescale'', Bit), (''timeSource'', HexDigits)]"

fun match_value :: "value_regex \<Rightarrow> string \<Rightarrow> (string \<times> string) option" where
  "match_value Digits s = re_plus is_dig s"
| "match_value HexDigits s =
     Option.bind (re_lit ''0x'' s) (\<lambda>t. map_option (\<lambda>(d, r). (''0x'' @ d, r)) (re_plus is_lower_hex t))"
| "match_value Bit s = (case s of [] \<Rightarrow> None | c # r \<Rightarrow> if c \<in> {CHR ''0'', CHR ''1''} then Some ([c], r) else None)"

text \<open>\<open>RegEx\<close>: white space, the key, white space, the value; a key without an expression would have no group.\<close>

definition match_key :: "string \<Rightarrow> string \<Rightarrow> (string \<times> string) option" where
  "match_key k s =
     Option.bind (re_plus is_space s) (\<lambda>(_, s). Option.bind (re_lit k s) (\<lambda>s. Option.bind (re_plus is_space s) (\<lambda>(_, s).
       Option.bind (map_of ValueRegEx k) (\<lambda>r. match_value r s))))"

fun match_keys :: "string list \<Rightarrow> string \<Rightarrow> (string list \<times> string) option" where
  "match_keys [] s = Some ([], s)"
| "match_keys (k # ks) s =
     Option.bind (match_key k s) (\<lambda>(v, s). map_option (\<lambda>(vs, r). (v # vs, r)) (match_keys ks s))"

declare match_keys.simps(2) [simp del]
lemmas match_keys_Cons = match_keys.simps(2)

definition RegEx :: "string \<Rightarrow> (string list \<times> string) option" where
  "RegEx = match_keys Keys"

section \<open>Words and white space\<close>

definition space_text :: "string \<Rightarrow> bool" where
  "space_text s \<longleftrightarrow> s \<noteq> [] \<and> (\<forall>c \<in> set s. is_space c)"

definition at_space :: "string \<Rightarrow> bool" where
  "at_space s \<longleftrightarrow> s = [] \<or> is_space (hd s)"

lemma at_space_simps [simp]:
  "at_space []" "at_space (c # s) \<longleftrightarrow> is_space c" "space_text sp \<Longrightarrow> at_space (sp @ s)"
  by (auto simp: at_space_def space_text_def)

lemma word_hd: "is_word w \<Longrightarrow> \<not> at_space (w @ s)"
  by (cases w) (auto simp: is_word_def)

lemma run_space: "space_text sp \<Longrightarrow> \<not> at_space s \<Longrightarrow> re_plus is_space (sp @ s) = Some (sp, s)"
  by (rule re_plus_run) (auto simp: space_text_def at_space_def)

lemma run_space_None: "\<not> at_space s \<Longrightarrow> re_plus is_space s = None"
  by (cases s) (auto simp: re_plus_def)

lemma word_of_text: "is_word w \<Longrightarrow> at_space s \<Longrightarrow> takeWhile (\<lambda>c. \<not> is_space c) (w @ s) = w"
  by (cases s) (auto simp: is_word_def takeWhile_append2)

lemma match_key_other:
  assumes "is_word w" and "at_space s" and "is_word k" and "w \<noteq> k" and "space_text sp"
  shows "match_key k (sp @ w @ s) = None"
proof -
  have eq: "match_key k (sp @ w @ s) = Option.bind (re_lit k (w @ s)) (\<lambda>s. Option.bind (re_plus is_space s) (\<lambda>(_, s).
      Option.bind (map_of ValueRegEx k) (\<lambda>r. match_value r s)))"
    using run_space [OF assms(5) word_hd [OF assms(1), of s]] by (simp add: match_key_def)
  show ?thesis
  proof (cases "re_lit k (w @ s)")
    case (Some t)
    then have kt: "w @ s = k @ t" by (auto simp: re_lit_def HasPrefix_iff prefix_def split: if_splits)
    have "\<not> at_space t"
    proof
      assume "at_space t"
      then have "k = takeWhile (\<lambda>c. \<not> is_space c) (w @ s)" unfolding kt using word_of_text [OF assms(3)] by simp
      then show False using word_of_text [OF assms(1,2)] assms(4) by simp
    qed
    then show ?thesis unfolding eq Some by (simp add: run_space_None)
  qed (simp add: eq)
qed

lemma match_key_word: "\<not> at_space s \<Longrightarrow> match_key k s = None"
  by (simp add: match_key_def run_space_None)

lemma match_keys_None: "match_key k s = None \<Longrightarrow> match_keys (k # ks) s = None"
  by (simp add: match_keys_Cons)

lemma skip_word:
  assumes "is_word w" and "at_space s" and "is_word k" and "w \<noteq> k" and "sp = [] \<or> space_text sp"
  shows "FindAll (match_keys (k # ks)) (sp @ w @ s) = FindAll (match_keys (k # ks)) s"
proof -
  have "match_keys (k # ks) (t @ s) = None" if t: "suffix t (sp @ w)" "t \<noteq> []" for t
  proof -
    consider "suffix t w" | sp' where "t = sp' @ w" "sp' \<noteq> []" "suffix sp' sp"
      using t(1) unfolding suffix_append by (metis append_Nil suffix_order.refl)
    then show ?thesis
    proof cases
      case 1
      then have "is_word t" using assms(1) t(2) set_mono_suffix by (fastforce simp: is_word_def)
      then show ?thesis by (intro match_keys_None match_key_word word_hd)
    next
      case 2
      then have "space_text sp'" using assms(5) set_mono_suffix by (fastforce simp: space_text_def)
      then show ?thesis using match_key_other [OF assms(1-4)] 2(1) by (intro match_keys_None) simp
    qed
  qed
  then have "FindAll (match_keys (k # ks)) ((sp @ w) @ s) = FindAll (match_keys (k # ks)) s" by (rule FindAll_skip)
  then show ?thesis by simp
qed

text \<open>A text of words, each behind white space.\<close>

fun tokens_text :: "(string \<times> string) list \<Rightarrow> string" where
  "tokens_text [] = []"
| "tokens_text ((sp, w) # ts) = sp @ w @ tokens_text ts"

definition tokens_ok :: "(string \<times> string) list \<Rightarrow> bool" where
  "tokens_ok ts \<longleftrightarrow> (\<forall>(sp, w) \<in> set ts. space_text sp \<and> is_word w)"

lemma at_space_tokens: "tokens_ok ts \<Longrightarrow> at_space s \<Longrightarrow> at_space (tokens_text ts @ s)"
  by (cases ts) (auto simp: tokens_ok_def)

lemma skip_tokens:
  "tokens_ok ts \<Longrightarrow> is_word k \<Longrightarrow> k \<notin> snd ` set ts \<Longrightarrow> at_space s \<Longrightarrow>
     FindAll (match_keys (k # ks)) (tokens_text ts @ s) = FindAll (match_keys (k # ks)) s"
proof (induction ts)
  case (Cons t ts)
  obtain sp w where t: "t = (sp, w)" by (cases t)
  have "FindAll (match_keys (k # ks)) (sp @ w @ tokens_text ts @ s) = FindAll (match_keys (k # ks)) (tokens_text ts @ s)"
    using Cons.prems t by (intro skip_word at_space_tokens) (auto simp: tokens_ok_def)
  with Cons t show ?case by (auto simp: tokens_ok_def)
qed simp

lemma skip_words:
  "\<forall>w \<in> set ws. is_word w \<and> w \<noteq> k \<Longrightarrow> is_word k \<Longrightarrow> at_space s \<Longrightarrow> sp = [] \<or> space_text sp \<Longrightarrow>
     FindAll (match_keys (k # ks)) (sp @ concat (map (\<lambda>w. w @ '' '') ws) @ s)
     = FindAll (match_keys (k # ks)) ((if ws = [] then sp else '' '') @ s)"
proof (induction ws arbitrary: sp)
  case (Cons w ws)
  let ?r = "concat (map (\<lambda>w. w @ '' '') ws) @ s"
  have "FindAll (match_keys (k # ks)) (sp @ w @ '' '' @ ?r) = FindAll (match_keys (k # ks)) ('' '' @ ?r)"
    using Cons.prems by (intro skip_word) (auto simp: is_space_def)
  also have "\<dots> = FindAll (match_keys (k # ks)) ((if ws = [] then '' '' else '' '') @ s)"
    using Cons.prems by (intro Cons.IH) (auto simp: is_space_def space_text_def)
  finally show ?case by simp
qed simp

section \<open>The printed settings\<close>

definition setting_line :: "string \<times> nat \<Rightarrow> string \<Rightarrow> string" where
  "setting_line kn v = '' '' @ fst kn @ replicate (snd kn) CHR '' '' @ v @ ''\<newline>''"

definition key_columns :: "(string \<times> nat) list" where
  "key_columns = zip Keys [14, 11, 1, 8, 18, 18, 3, 12, 11, 6, 14]"

lemma String_lines: "GrandmasterSettings_String g = concat (map2 setting_line key_columns (setting_values g))"
proof -
  have "setting_labels = map (\<lambda>kn. '' '' @ fst kn @ replicate (snd kn) CHR '' '') key_columns"
    by (simp add: setting_labels_def key_columns_def Keys_def numeral_eq_Suc)
  then show ?thesis
    unfolding GrandmasterSettings_String_def \<open>setting_labels = _\<close> by (simp add: zip_map1 comp_def case_prod_unfold setting_line_def)
qed

definition value_ok :: "string \<Rightarrow> string \<Rightarrow> bool" where
  "value_ok k v \<longleftrightarrow> is_word v \<and>
     (\<forall>s. at_space s \<longrightarrow> Option.bind (map_of ValueRegEx k) (\<lambda>r. match_value r (v @ s)) = Some (v, s))"

lemma match_key_line:
  assumes "space_text sp" and "is_word k" and "0 < n" and "value_ok k v" and "at_space s"
  shows "match_key k (sp @ k @ replicate n CHR '' '' @ v @ s) = Some (v, s)"
proof -
  have r: "space_text (replicate n CHR '' '')" using assms(3) by (auto simp: space_text_def is_space_def)
  have "re_plus is_space (sp @ k @ replicate n CHR '' '' @ v @ s) = Some (sp, k @ replicate n CHR '' '' @ v @ s)"
    using assms(1,2) by (intro run_space word_hd)
  moreover have "re_plus is_space (replicate n CHR '' '' @ v @ s) = Some (replicate n CHR '' '', v @ s)"
    using assms(4) r by (intro run_space word_hd) (simp_all add: value_ok_def)
  ultimately show ?thesis using assms(4,5) by (simp add: match_key_def value_ok_def)
qed

definition blank :: "string \<Rightarrow> bool" where
  "blank s \<longleftrightarrow> (\<forall>c \<in> set s. is_space c)"

lemma blank_space [simp]: "blank sp \<Longrightarrow> space_text (sp @ '' '')" "blank ''\<newline>''" "blank []" "space_text ''\<newline>''"
  by (auto simp: blank_def space_text_def is_space_def)

lemma match_keys_lines:
  assumes "\<forall>((k, n), v) \<in> set (zip kns vs). is_word k \<and> 0 < n \<and> value_ok k v" and "length kns = length vs" and "blank sp"
  shows "\<exists>r. match_keys (map fst kns) (sp @ concat (map2 setting_line kns vs)) = Some (vs, r)"
  using assms
proof (induction kns vs arbitrary: sp rule: list_induct2')
  case (4 kn kns v vs)
  obtain k n where kn: "kn = (k, n)" by (cases kn)
  let ?s = "''\<newline>'' @ concat (map2 setting_line kns vs)"
  have "match_key k ((sp @ '' '') @ k @ replicate n CHR '' '' @ v @ ?s) = Some (v, ?s)"
    using 4(2,4) kn by (intro match_key_line) (auto simp: is_space_def)
  moreover obtain r where "match_keys (map fst kns) ?s = Some (vs, r)"
    using 4(1) [of "''\<newline>''"] 4(2,3) by auto
  ultimately show ?case using kn by (simp add: setting_line_def match_keys_Cons)
qed simp_all

lemma dig_of_base10: "c \<in> set (fmt_base 10 n) \<Longrightarrow> is_dig c"
  using fmt_base_digits [of 10 n] by (auto simp: is_dig_def)

lemma hex_of_base16: "c \<in> set (fmt_base 16 n) \<Longrightarrow> is_lower_hex c"
  using fmt_base_digits [of 16 n] by (fastforce simp: is_dig_def is_lower_hex_def)

lemma space_not_digit: "is_space c \<Longrightarrow> \<not> is_dig c" "is_space c \<Longrightarrow> \<not> is_lower_hex c"
  by (auto simp: is_space_def is_dig_def is_lower_hex_def)

lemma word_fmt_base: "2 \<le> b \<Longrightarrow> b \<le> 36 \<Longrightarrow> is_word (fmt_base b n)"
  by (auto simp: is_word_def fmt_base_no_space)

lemma digits_value:
  assumes "map_of ValueRegEx k = Some Digits"
  shows "value_ok k (fmt_base 10 n)" "value_ok k (fmt_d w)"
proof -
  have "re_plus is_dig (fmt_base 10 n @ s) = Some (fmt_base 10 n, s)" if "at_space s" for s n
    using that dig_of_base10 space_not_digit by (intro re_plus_run) (auto simp: at_space_def)
  then show "value_ok k (fmt_base 10 n)" for n using assms by (simp add: value_ok_def)
  then show "value_ok k (fmt_d w)" by (simp add: fmt_d_def)
qed

lemma hex_value:
  assumes "map_of ValueRegEx k = Some HexDigits"
  shows "value_ok k (fmt_0x w)"
proof -
  have "re_plus is_lower_hex (fmt_base 16 (unat w) @ s) = Some (fmt_base 16 (unat w), s)" if "at_space s" for s
    using that hex_of_base16 space_not_digit by (intro re_plus_run) (auto simp: at_space_def)
  moreover have "is_word (fmt_0x w)"
    using word_fmt_base [of 16 "unat w"] by (auto simp: fmt_0x_def is_word_def is_space_def)
  moreover have "re_lit ''0x'' (fmt_0x w @ s) = Some (fmt_base 16 (unat w) @ s)" for s
    by (simp add: fmt_0x_def re_lit_def HasPrefix_def)
  ultimately show ?thesis using assms by (simp add: value_ok_def fmt_0x_def)
qed

lemma bit_value: "map_of ValueRegEx k = Some Bit \<Longrightarrow> value_ok k (fmt_d (btoi b))"
  by (cases b) (simp_all add: value_ok_def fmt_d_btoi is_word_def is_space_def)

lemma key_words: "k \<in> set Keys \<Longrightarrow> is_word k"
  by (auto simp: Keys_def is_word_def is_space_def)

lemma negative_value:
  assumes "i < 0"
  shows "match_value Digits (fmt_int i @ s) = None"
  using assms by (simp add: fmt_int_def re_plus_def is_dig_def)

lemma no_match_before_value:
  assumes "\<forall>((k, n), v) \<in> set (zip kns vs). is_word k \<and> 0 < n \<and> value_ok k v" and "length kns = length vs" and "blank sp"
    and "\<And>sp. blank sp \<Longrightarrow> match_keys ks (sp @ s) = None"
  shows "match_keys (map fst kns @ ks) (sp @ concat (map2 setting_line kns vs) @ s) = None"
  using assms(1-3)
proof (induction kns vs arbitrary: sp rule: list_induct2')
  case 1
  then show ?case using assms(4) by simp
next
  case (4 kn kns v vs)
  obtain k n where kn: "kn = (k, n)" by (cases kn)
  let ?s = "''\<newline>'' @ concat (map2 setting_line kns vs) @ s"
  have "match_key k ((sp @ '' '') @ k @ replicate n CHR '' '' @ v @ ?s) = Some (v, ?s)"
    using 4(2,4) kn by (intro match_key_line) (auto simp: is_space_def)
  moreover have "match_keys (map fst kns @ ks) ?s = None" using 4(1) [of "''\<newline>''"] 4(2,3) by simp
  ultimately show ?case using kn by (simp add: setting_line_def match_keys_Cons)
qed simp_all

lemma settings_values_ok:
  assumes "0 \<le> sint (tp_CurrentUtcOffset (gs_TimePropertiesDS g))"
  shows "\<forall>((k, n), v) \<in> set (zip key_columns (setting_values g)). is_word k \<and> 0 < n \<and> value_ok k v"
proof -
  have "fmt_int i = fmt_base 10 (nat i)" if "0 \<le> i" for i using that by (simp add: fmt_int_def)
  with assms show ?thesis
    by (simp add: key_columns_def Keys_def setting_values_def key_words digits_value hex_value bit_value ValueRegEx_def)
qed

text \<open>The lines as words behind white space.\<close>

fun line_tokens :: "string \<Rightarrow> ((string \<times> nat) \<times> string) list \<Rightarrow> (string \<times> string) list" where
  "line_tokens p [] = []"
| "line_tokens p (((k, n), v) # xs) = (p @ '' '', k) # (replicate n CHR '' '', v) # line_tokens ''\<newline>'' xs"

lemma lines_as_tokens:
  "p @ concat (map (\<lambda>(kn, v). setting_line kn v) xs) = tokens_text (line_tokens p xs) @ (if xs = [] then p else ''\<newline>'')"
proof (induction xs arbitrary: p)
  case (Cons x xs)
  obtain k n v where "x = ((k, n), v)" by (metis surj_pair)
  with Cons [of "''\<newline>''"] show ?case by (auto simp: setting_line_def)
qed simp

lemma line_tokens_ok:
  "\<forall>((k, n), v) \<in> set xs. is_word k \<and> 0 < n \<and> is_word v \<Longrightarrow> blank p \<Longrightarrow> tokens_ok (line_tokens p xs)"
  by (induction p xs rule: line_tokens.induct) (auto simp: tokens_ok_def space_text_def is_space_def blank_def)

lemma line_tokens_words: "snd ` set (line_tokens p xs) = (fst \<circ> fst) ` set xs \<union> snd ` set xs"
  by (induction p xs rule: line_tokens.induct) auto

lemma fmt_0x_word: "is_word (fmt_0x w)" "CHR ''k'' \<notin> set (fmt_0x w)"
proof -
  have "CHR ''k'' \<notin> set (fmt_base 16 (unat w))"
    using hex_of_base16 [of "CHR ''k''" "unat w"] by (auto simp: is_dig_def is_lower_hex_def)
  then show "is_word (fmt_0x w)" "CHR ''k'' \<notin> set (fmt_0x w)"
    using is_word_fmt_base [of 16 "unat w"] by (auto simp: fmt_0x_def is_word_def is_space_def)
qed

lemma setting_value_words: "v \<in> set (setting_values g) \<Longrightarrow> is_word v \<and> v \<noteq> ''clockClass''"
proof -
  have k: "CHR ''k'' \<notin> set (fmt_base 10 n)" for n
    using dig_of_base10 [of "CHR ''k''" n] by (auto simp: is_dig_def)
  assume "v \<in> set (setting_values g)"
  moreover have "CHR ''k'' \<notin> set (fmt_int i)" for i using k by (simp add: fmt_int_def)
  ultimately have "is_word v \<and> CHR ''k'' \<notin> set v"
    using k by (auto simp: setting_values_def fmt_d_def fmt_0x_word)
  then show ?thesis by auto
qed

text \<open>Without a value for the UTC offset there is no match, neither at the first key nor at a later position.\<close>

lemma match_key_no_value:
  assumes "space_text sp" and "is_word k" and "0 < n" and "is_word v" and "map_of ValueRegEx k = Some r" and "match_value r (v @ s) = None"
  shows "match_key k (sp @ k @ replicate n CHR '' '' @ v @ s) = None"
proof -
  have r: "space_text (replicate n CHR '' '')" using assms(3) by (auto simp: space_text_def is_space_def)
  have "re_plus is_space (sp @ k @ replicate n CHR '' '' @ v @ s) = Some (sp, k @ replicate n CHR '' '' @ v @ s)"
    using assms(1,2) by (intro run_space word_hd)
  moreover have "re_plus is_space (replicate n CHR '' '' @ v @ s) = Some (replicate n CHR '' '', v @ s)"
    using r assms(4) by (intro run_space word_hd)
  ultimately show ?thesis using assms(5,6) by (simp add: match_key_def)
qed

lemma match_keys_no_value:
  assumes "is_word k" and "0 < n" and "is_word v" and "map_of ValueRegEx k = Some r" and "match_value r (v @ s) = None" and "blank sp"
  shows "match_keys (k # ks) (sp @ '' '' @ k @ replicate n CHR '' '' @ v @ s) = None"
proof -
  have "match_key k ((sp @ '' '') @ k @ replicate n CHR '' '' @ v @ s) = None"
    using assms by (intro match_key_no_value) simp_all
  then show ?thesis by (intro match_keys_None) simp
qed

lemma no_match_negative:
  assumes "sint (tp_CurrentUtcOffset (gs_TimePropertiesDS g)) < 0" and "blank p"
  shows "match_keys Keys (p @ GrandmasterSettings_String g) = None"
proof -
  let ?k = "take 3 key_columns" and ?v = "take 3 (setting_values g)"
  let ?o = "fmt_int (sint (tp_CurrentUtcOffset (gs_TimePropertiesDS g)))"
  obtain n where n: "n = ''currentUtcOffset''" by simp
  have K: "map fst ?k @ n # drop 4 Keys = Keys" by (simp add: key_columns_def Keys_def n numeral_3_eq_3)
  have o: "is_word ?o" using setting_value_words [of ?o g] by (simp add: setting_values_def)
  obtain s where str: "GrandmasterSettings_String g = concat (map2 setting_line ?k ?v) @ '' '' @ n @ replicate 8 CHR '' '' @ ?o @ s"
    unfolding String_lines by (simp add: key_columns_def Keys_def setting_values_def setting_line_def numeral_3_eq_3 n)
  have nn: "is_word n" "map_of ValueRegEx n = Some Digits" by (simp_all add: n key_words Keys_def ValueRegEx_def)
  have "match_keys (n # drop 4 Keys) (q @ '' '' @ n @ replicate 8 CHR '' '' @ ?o @ s) = None" if "blank q" for q
    using that o nn negative_value [OF assms(1)] by (intro match_keys_no_value) (simp_all del: match_value.simps)
  then have "match_keys (map fst ?k @ n # drop 4 Keys) (p @ concat (map2 setting_line ?k ?v) @ '' '' @ n @ replicate 8 CHR '' '' @ ?o @ s) = None"
    using assms(2)
    by (intro no_match_before_value)
      (auto simp: key_columns_def Keys_def setting_values_def numeral_3_eq_3 key_words digits_value hex_value ValueRegEx_def)
  then show ?thesis unfolding str K by simp
qed

text \<open>Behind words, the search starts at the text of the settings.\<close>

lemma key_columns_length: "length key_columns = length (setting_values g)"
  by (simp add: key_columns_def Keys_def setting_values_def)

lemma key_columns_keys: "map fst key_columns = Keys"
  by (simp add: key_columns_def Keys_def)

lemma Keys_first: "Keys = ''clockClass'' # tl Keys" "''clockClass'' \<notin> set (tl Keys)" "is_word ''clockClass''"
  by (simp_all add: Keys_def is_word_def is_space_def)

lemma settings_behind_words:
  assumes "\<forall>w \<in> set ws. is_word w \<and> w \<noteq> ''clockClass''"
  shows "\<exists>p. blank p \<and> FindAll RegEx (concat (map (\<lambda>w. w @ '' '') ws) @ GrandmasterSettings_String g)
             = FindAll RegEx (p @ GrandmasterSettings_String g)"
proof -
  have sp: "at_space (GrandmasterSettings_String g)"
    unfolding String_lines by (simp add: key_columns_def Keys_def setting_values_def setting_line_def is_space_def)
  have "FindAll (match_keys (''clockClass'' # tl Keys)) ([] @ concat (map (\<lambda>w. w @ '' '') ws) @ GrandmasterSettings_String g)
      = FindAll (match_keys (''clockClass'' # tl Keys)) ((if ws = [] then [] else '' '') @ GrandmasterSettings_String g)"
    using assms sp Keys_first(3) by (intro skip_words) simp_all
  then have "FindAll RegEx (concat (map (\<lambda>w. w @ '' '') ws) @ GrandmasterSettings_String g)
      = FindAll RegEx ((if ws = [] then [] else '' '') @ GrandmasterSettings_String g)"
    using Keys_first(1) by (simp add: RegEx_def)
  moreover have "blank (if ws = [] then [] else '' '')" by (simp add: blank_def is_space_def)
  ultimately show ?thesis by blast
qed

lemma settings_matched:
  assumes "0 \<le> sint (tp_CurrentUtcOffset (gs_TimePropertiesDS g))" and "blank p"
  shows "FindFirst RegEx (p @ GrandmasterSettings_String g) = Some (setting_values g)"
proof -
  obtain r where r: "RegEx (p @ GrandmasterSettings_String g) = Some (setting_values g, r)"
    using match_keys_lines [OF settings_values_ok [OF assms(1)] key_columns_length assms(2)]
    by (auto simp: RegEx_def String_lines key_columns_keys)
  obtain c s where "p @ GrandmasterSettings_String g = c # s"
    by (cases "p @ GrandmasterSettings_String g")
      (auto simp: String_lines key_columns_def Keys_def setting_values_def setting_line_def)
  with r show ?thesis by (simp add: FindFirst_def)
qed

text \<open>The tokens of the settings after the first key.\<close>

definition later_tokens :: "GrandmasterSettings \<Rightarrow> (string \<times> string) list" where
  "later_tokens g = tl (line_tokens [] (zip key_columns (setting_values g)))"

lemma zip_settings_Cons: "\<exists>v xs. zip key_columns (setting_values g) = ((''clockClass'', 14), v) # xs"
  by (simp add: key_columns_def Keys_def setting_values_def)

lemma settings_tokens: "p @ GrandmasterSettings_String g = p @ '' '' @ ''clockClass'' @ tokens_text (later_tokens g) @ ''\<newline>''"
proof -
  obtain v xs where x: "zip key_columns (setting_values g) = ((''clockClass'', 14), v) # xs"
    using zip_settings_Cons by blast
  show ?thesis
    using lines_as_tokens [of p "zip key_columns (setting_values g)"] by (simp add: String_lines later_tokens_def x)
qed

lemma later_tokens_ok: "tokens_ok (later_tokens g)" "''clockClass'' \<notin> snd ` set (later_tokens g)"
proof -
  obtain v xs where x: "zip key_columns (setting_values g) = ((''clockClass'', 14), v) # xs"
    using zip_settings_Cons by blast
  have cols: "\<forall>(k, n) \<in> set key_columns. is_word k \<and> 0 < n" by (simp add: key_columns_def Keys_def key_words)
  have "is_word k \<and> 0 < n \<and> is_word v" if m: "((k, n), v) \<in> set (zip key_columns (setting_values g))" for k n v
    using bspec [OF cols set_zip_leftD [OF m]] setting_value_words [OF set_zip_rightD [OF m]] by simp
  then have ok: "tokens_ok (line_tokens [] (zip key_columns (setting_values g)))"
    by (intro line_tokens_ok) (auto simp: blank_def)
  then show "tokens_ok (later_tokens g)" by (simp add: later_tokens_def x tokens_ok_def)
  have vs: "setting_values g = v # map snd xs"
    using map_snd_zip [OF key_columns_length [of g]] x by simp
  have "key_columns = (''clockClass'', 14) # map fst xs"
    using map_fst_zip [OF key_columns_length [of g]] x by simp
  then have K: "Keys = map fst ((''clockClass'', 14) # map fst xs)"
    using key_columns_keys by (metis (no_types))
  have "tl Keys = map (fst \<circ> fst) xs" by (subst K) simp
  then have ks: "''clockClass'' \<notin> (fst \<circ> fst) ` set xs"
    using Keys_first(2) by (metis list.set_map)
  have "''clockClass'' \<notin> snd ` set xs" "v \<noteq> ''clockClass''"
    using setting_value_words [of _ g] unfolding vs by auto
  with ks show "''clockClass'' \<notin> snd ` set (later_tokens g)"
    by (auto simp: later_tokens_def x line_tokens_words)
qed

lemma settings_not_matched:
  assumes "sint (tp_CurrentUtcOffset (gs_TimePropertiesDS g)) < 0" and "blank p"
  shows "FindAll RegEx (p @ GrandmasterSettings_String g) = []"
proof -
  obtain k ks where k: "k = ''clockClass''" and K: "Keys = k # ks" using Keys_first(1) by blast
  let ?R = "tokens_text (later_tokens g) @ ''\<newline>''"
  have S: "q @ GrandmasterSettings_String g = q @ '' '' @ k @ ?R" for q
    using settings_tokens [of q g] k by simp
  have kw: "is_word k" using Keys_first(3) k by simp
  have "match_keys Keys (t @ ?R) = None" if t: "suffix t (p @ '' '' @ k)" "t \<noteq> []" for t
  proof -
    consider "suffix t k" | q where "t = q @ '' '' @ k" "suffix q p"
      using t(1) by (auto simp: suffix_append suffix_Cons)
    then show ?thesis
    proof cases
      case 1
      then have "is_word t" using kw t(2) set_mono_suffix by (fastforce simp: is_word_def)
      then show ?thesis unfolding K by (intro match_keys_None match_key_word word_hd)
    next
      case 2
      then have "blank q" using assms(2) set_mono_suffix by (fastforce simp: blank_def)
      then have "match_keys Keys (q @ GrandmasterSettings_String g) = None" using assms(1) by (rule no_match_negative [rotated])
      then show ?thesis using S [of q] 2(1) by simp
    qed
  qed
  then have "FindAll RegEx ((p @ '' '' @ k) @ ?R) = FindAll RegEx ?R"
    unfolding RegEx_def by (rule FindAll_skip)
  also have "\<dots> = FindAll RegEx ''\<newline>''"
    unfolding RegEx_def K using later_tokens_ok kw k by (intro skip_tokens) (simp_all add: is_space_def)
  also have "\<dots> = []"
    by (intro FindAll_none)
      (auto simp: RegEx_def K suffix_Cons match_key_def re_plus_def is_space_def re_lit_def HasPrefix_def k intro!: match_keys_None)
  finally show ?thesis using S [of p] by simp
qed

section \<open>Property\<close>

text \<open>
  The settings that \<open>String\<close> prints (the text sent after \<open>SET GRANDMASTER_SETTINGS_NP\<close>), behind any words, are found by the
  expression with the values that were printed if the UTC offset is not negative, and not found at all if it is.
\<close>

lemma settings_found:
  assumes "\<forall>w \<in> set ws. is_word w \<and> w \<noteq> ''clockClass''"
  shows "FindFirst RegEx (concat (map (\<lambda>w. w @ '' '') ws) @ GrandmasterSettings_String g)
         = (if 0 \<le> sint (tp_CurrentUtcOffset (gs_TimePropertiesDS g)) then Some (setting_values g) else None)"
proof -
  obtain p where "blank p" and p: "FindAll RegEx (concat (map (\<lambda>w. w @ '' '') ws) @ GrandmasterSettings_String g)
      = FindAll RegEx (p @ GrandmasterSettings_String g)"
    using settings_behind_words [OF assms] by blast
  then show ?thesis
    using settings_matched [of g p] settings_not_matched [of g p] by (auto simp: FindFirst_def)
qed

end
