(* ===== verification/Pmc.thy ===== *)
theory Pmc
  imports Settings_Text Daemon_Process Event_Loop
begin

text \<open>
  The sessions with the \<open>pmc\<close> tool of \<open>pkg/pmc/pmc.go\<close>: the expressions that read its answers, \<open>RunPMCExp\<close>, what every
  session sends to the tool and how it ends, and the getter and setter of the event handler (\<open>PMCGMGetter\<close>,
  \<open>PMCGMSetter\<close> in \<open>pkg/event/event.go\<close>) over them. What the tool prints is a parameter.

  Shown: the settings that \<open>String\<close> prints are read back through the whole session; every session that was started is
  closed; a tool that never answers makes a change of the clock class clear the leap flags; the parent's clock class is
  reported from the text of the tool.
\<close>

section \<open>Expressions\<close>

text \<open>\<open>matches\<close> begins with the matched text.\<close>

definition with_match :: "(string \<Rightarrow> (string list \<times> string) option) \<Rightarrow> string \<Rightarrow> (string list \<times> string) option" where
  "with_match re s = map_option (\<lambda>(gs, r). (take (length s - length r) s # gs, r)) (re s)"

text \<open>\<open>.\<close> is any character but a newline.\<close>

definition re_any :: "string \<Rightarrow> string option" where
  "re_any s = (case s of [] \<Rightarrow> None | c # r \<Rightarrow> if c = CHR ''\<newline>'' then None else Some r)"

text \<open>A word, white space, and a run of characters that is a group.\<close>

definition re_setting :: "string \<Rightarrow> (string \<Rightarrow> (string \<times> string) option) \<Rightarrow> string \<Rightarrow> (string \<times> string) option" where
  "re_setting k v s =
     Option.bind (re_lit k s) (\<lambda>s. Option.bind (re_plus is_space s) (\<lambda>(_, s). v s))"

definition ClockClassChangeRegEx :: "string \<Rightarrow> (string list \<times> string) option" where
  "ClockClassChangeRegEx s =
     Option.bind (re_lit ''gm'' s) (\<lambda>s. Option.bind (re_any s) (\<lambda>s.
       map_option (\<lambda>(d, r). ([d], r)) (re_setting ''ClockClass'' (re_plus is_dig) s)))"

section \<open>One exchange\<close>

text \<open>
  \<open>Send\<close> fails, \<open>Expect\<close> fails (the process has ended), or the tool prints a text within the time. \<open>Expect\<close> returns the
  first match of the text, and times out if there is none.
\<close>

datatype exchange = NotSent string | Broken string | Prints string

definition timeout_error :: string where
  "timeout_error = ''expect: timer expired after 2 seconds''"

definition attempt_of :: "(string \<Rightarrow> (string list \<times> string) option) \<Rightarrow> exchange \<Rightarrow> pmc_attempt" where
  "attempt_of re x =
     (case x of
        NotSent e \<Rightarrow> SendFails e
      | Broken e \<Rightarrow> ExpectFails e
      | Prints s \<Rightarrow> (case FindFirst re s of None \<Rightarrow> ExpectTimeout timeout_error | Some ms \<Rightarrow> ExpectMatches ms))"

text \<open>\<open>RunPMCExp\<close>: the matches and the error.\<close>

definition RunPMCExp :: "string option \<Rightarrow> exchange \<Rightarrow> (string \<Rightarrow> (string list \<times> string) option) \<Rightarrow> string list \<times> string option" where
  "RunPMCExp spawn_err x promptRE =
     (case spawn_err of
        Some e \<Rightarrow> ([], Some e)
      | None \<Rightarrow>
          (case attempt_of (with_match promptRE) x of
             SendFails e \<Rightarrow> ([], Some e)
           | ExpectTimeout e \<Rightarrow> ([], Some e)
           | ExpectFails e \<Rightarrow> ([], Some e)
           | ExpectMatches ms \<Rightarrow> (ms, None)))"

section \<open>What a session does\<close>

datatype pmc_action = Spawn string | Send string | SigTerm | SendInterrupt | CloseSession

text \<open>\<open>exits\<close>: the tool ends within \<open>sigTimeout\<close> after the signal.\<close>

definition session_end :: "bool \<Rightarrow> pmc_action list" where
  "session_end exits = (if exits then [SigTerm, CloseSession] else [SigTerm, SendInterrupt, CloseSession])"

definition session :: "string \<Rightarrow> string option \<Rightarrow> bool \<Rightarrow> pmc_action list \<Rightarrow> pmc_action list" where
  "session configFileName spawn_err exits body =
     (if spawn_err = None then Spawn (''pmc -u -b 0 -f /var/run/'' @ configFileName) # body @ session_end exits else [])"

definition CmdGetParentDataSet :: string where "CmdGetParentDataSet = ''GET PARENT_DATA_SET''"

definition CmdGetGMSettings :: string where "CmdGetGMSettings = ''GET GRANDMASTER_SETTINGS_NP''"

definition run_actions :: "string \<Rightarrow> string \<Rightarrow> string option \<Rightarrow> bool \<Rightarrow> pmc_action list" where
  "run_actions configFileName cmdStr spawn_err exits = session configFileName spawn_err exits [Send (cmdStr @ ''\<newline>'')]"

text \<open>The sends of the getter: one for each attempt that is made.\<close>

fun get_sends :: "nat \<Rightarrow> (nat \<Rightarrow> pmc_attempt) \<Rightarrow> nat \<Rightarrow> pmc_action list" where
  "get_sends 0 env i = []"
| "get_sends (Suc n) env i =
     Send (CmdGetGMSettings @ ''\<newline>'') #
       (case env i of SendFails _ \<Rightarrow> get_sends n env (Suc i) | ExpectTimeout _ \<Rightarrow> get_sends n env (Suc i) | _ \<Rightarrow> [])"

definition get_actions :: "string \<Rightarrow> string option \<Rightarrow> bool \<Rightarrow> (nat \<Rightarrow> pmc_attempt) \<Rightarrow> pmc_action list" where
  "get_actions configFileName spawn_err exits env = session configFileName spawn_err exits (get_sends numRetry env 0)"

definition set_actions :: "string \<Rightarrow> string option \<Rightarrow> bool \<Rightarrow> GrandmasterSettings \<Rightarrow> pmc_action list" where
  "set_actions configFileName spawn_err exits g = session configFileName spawn_err exits [Send (set_command g @ ''\<newline>'')]"

section \<open>The getter and the setter of the event handler\<close>

text \<open>
  A request goes to the configuration of ptp4l (\<open>PMC_cfgName\<close>). \<open>tool\<close> says for every configuration and attempt what is exchanged.
\<close>

definition PMCGMGetter :: "(string \<Rightarrow> string option) \<Rightarrow> (string \<Rightarrow> nat \<Rightarrow> exchange) \<Rightarrow> string \<Rightarrow> GrandmasterSettings res" where
  "PMCGMGetter spawn tool cfgName =
     (case RunPMCExpGetGMSettings (spawn cfgName) (\<lambda>i. attempt_of RegEx (tool cfgName i)) of
        Inl e \<Rightarrow> Inl e
      | Inr (g, None) \<Rightarrow> Inr g
      | Inr (g, Some e) \<Rightarrow> Inl (GoErr e))"

definition PMCGMSetter :: "(string \<Rightarrow> string option) \<Rightarrow> (string \<Rightarrow> exchange) \<Rightarrow> string \<Rightarrow> GrandmasterSettings \<Rightarrow> go_error option" where
  "PMCGMSetter spawn tool cfgName g =
     map_option (\<lambda>e. GoErr (''failed to update GRANDMASTER_SETTINGS_NP: '' @ e))
       (snd (RunPMCExpSetGMSettings (spawn cfgName) (attempt_of RegEx (tool cfgName)) g))"

section \<open>Lemmas\<close>

lemma attempt_reads_settings:
  assumes "\<forall>w \<in> set ws. is_word w \<and> w \<noteq> ''clockClass''"
  shows "attempt_of RegEx (Prints (concat (map (\<lambda>w. w @ '' '') ws) @ GrandmasterSettings_String g))
      = (if 0 \<le> sint (tp_CurrentUtcOffset (gs_TimePropertiesDS g)) then ExpectMatches (setting_values g)
         else ExpectTimeout timeout_error)"
  by (simp only: attempt_of_def exchange.case settings_found [OF assms]) simp

lemma index_of_suffix: "index_of u p = None \<Longrightarrow> suffix t u \<Longrightarrow> t \<noteq> [] \<Longrightarrow> \<not> HasPrefix t p"
  by (induction u) (auto simp: suffix_Cons split: if_splits)

lemma class_expression_skips:
  assumes "\<not> Contains pre ''gm''" and "pre = [] \<or> is_space (last pre)"
  shows "FindAll (with_match ClockClassChangeRegEx) (pre @ s) = FindAll (with_match ClockClassChangeRegEx) s"
proof (rule FindAll_skip)
  fix t assume t: "suffix t pre" "t \<noteq> []"
  have no: "\<not> HasPrefix t ''gm''" using index_of_suffix [OF _ t, of "''gm''"] assms(1) by (simp add: Contains_def)
  have "\<not> HasPrefix (t @ s) ''gm''"
  proof (cases "length t = 1")
    case True
    then obtain c where c: "t = [c]" by (auto simp: length_Suc_conv)
    then have "is_space c" using t assms(2) by (auto simp: suffix_def)
    then show ?thesis using c by (auto simp: HasPrefix_def is_space_def)
  next
    case False
    moreover have "length t \<noteq> 0" using t(2) by simp
    ultimately have "2 \<le> length t" by linarith
    then have "take (length ''gm'') (t @ s) = take (length ''gm'') t" by simp
    with no show ?thesis by (simp only: HasPrefix_def simp_thms)
  qed
  then show "with_match ClockClassChangeRegEx (t @ s) = None"
    by (simp add: with_match_def ClockClassChangeRegEx_def re_lit_None)
qed

lemma class_expression_matches:
  assumes "c \<noteq> CHR ''\<newline>''" and "space_text sp" and "ds \<noteq> []" and "\<forall>d \<in> set ds. is_dig d" and "rest = [] \<or> \<not> is_dig (hd rest)"
  shows "ClockClassChangeRegEx (''gm'' @ c # ''ClockClass'' @ sp @ ds @ rest) = Some ([ds], rest)"
proof -
  obtain gm k where k: "gm = ''gm''" "k = ''ClockClass''" by simp
  have "\<not> at_space (ds @ rest)" using assms(3,4) by (cases ds) (auto simp: is_space_def is_dig_def)
  with assms(2) have "re_plus is_space (sp @ ds @ rest) = Some (sp, ds @ rest)" by (rule run_space)
  moreover have "re_plus is_dig (ds @ rest) = Some (ds, rest)" using assms(3-5) by (intro re_plus_run)
  ultimately show ?thesis
    using assms(1) unfolding ClockClassChangeRegEx_def re_setting_def k [symmetric] by (simp add: re_any_def)
qed

lemma get_sends_bound: "length (get_sends n env i) \<le> n"
  by (induction n env i rule: get_sends.induct) (auto split: pmc_attempt.splits)

section \<open>Properties\<close>

text \<open>
  C36. Settings printed by \<open>String\<close> behind words and read through the whole session (expression, groups, \<open>Update\<close>)
  come back as they were if the UTC offset is not negative; otherwise all six attempts time out, and the caller gets the
  zero settings without an error.
\<close>

theorem settings_read_back:
  assumes "\<forall>w \<in> set ws. is_word w \<and> w \<noteq> ''clockClass''"
  shows "RunPMCExpGetGMSettings None (\<lambda>_. attempt_of RegEx (Prints (concat (map (\<lambda>w. w @ '' '') ws) @ GrandmasterSettings_String g)))
      = Inr (if 0 \<le> sint (tp_CurrentUtcOffset (gs_TimePropertiesDS g)) then g else zero_settings, None)"
  unfolding attempt_reads_settings [OF assms]
  by (simp add: RunPMCExpGetGMSettings_def numRetry_def eval_nat_numeral settings_text_roundtrip_aux)

definition demo_settings :: GrandmasterSettings where
  "demo_settings = upd_time (\<lambda>t. t\<lparr>tp_CurrentUtcOffset := 37, tp_Leap61 := True\<rparr>) zero_settings"

lemma demo_offset: "0 \<le> sint (tp_CurrentUtcOffset (gs_TimePropertiesDS demo_settings))"
  by (simp add: demo_settings_def upd_time_def zero_settings_def)

theorem settings_read_back_witness:
  "RunPMCExpGetGMSettings None (\<lambda>_. attempt_of RegEx (Prints (concat (map (\<lambda>w. w @ '' '') [''RESPONSE'', ''seq'']) @ GrandmasterSettings_String demo_settings)))
   = Inr (demo_settings, None)"
proof -
  have "\<forall>w \<in> set [''RESPONSE'', ''seq'']. is_word w \<and> w \<noteq> ''clockClass''" by (simp add: is_word_def is_space_def)
  from settings_read_back [OF this, of demo_settings] demo_offset show ?thesis by (simp only: if_True)
qed

text \<open>
  A session that was started ends with the signal and is closed, whatever was exchanged, and the getter sends at most six
  commands; without a process nothing is done.
\<close>

theorem session_closed:
  "spawn_err = None \<and> (\<exists>body. get_actions cfg spawn_err exits env = Spawn (''pmc -u -b 0 -f /var/run/'' @ cfg) # body @ session_end exits
      \<and> length body \<le> 6 \<and> set body \<subseteq> {Send (CmdGetGMSettings @ ''\<newline>'')})
   \<or> spawn_err \<noteq> None \<and> get_actions cfg spawn_err exits env = []"
proof -
  have "set (get_sends n env i) \<subseteq> {Send (CmdGetGMSettings @ ''\<newline>'')}" for n i
    by (induction n env i rule: get_sends.induct) (auto split: pmc_attempt.splits)
  then show ?thesis
    using get_sends_bound [of numRetry env 0] by (cases spawn_err) (auto simp: get_actions_def session_def numRetry_def)
qed

text \<open>
  C37. A tool that answers nothing the expression matches makes the change of the clock class clear both leap flags: the getter
  reports the zero settings, and the settings written start from them.
\<close>

theorem silent_tool_clears_leap_flags:
  assumes "spawn cfg = None" and "\<And>i. \<exists>s. tool cfg i = Prints s \<and> FindFirst RegEx s = None"
    and "class_spec cls acc = Some spec"
  shows "\<exists>g. updateCLockClass cls GM acc utc (PMCGMGetter spawn tool cfg) setter
              = (setter g, cls, cq_ClockAccuracy (gs_ClockQuality g), Some g)
          \<and> \<not> tp_Leap59 (gs_TimePropertiesDS g) \<and> \<not> tp_Leap61 (gs_TimePropertiesDS g)"
proof -
  have "attempt_of RegEx (tool cfg i) = ExpectTimeout timeout_error" for i
    using assms(2) [of i] by (auto simp: attempt_of_def)
  then have "PMCGMGetter spawn tool cfg = Inr zero_settings"
    using assms(1) by (simp add: PMCGMGetter_def RunPMCExpGetGMSettings_def numRetry_def eval_nat_numeral)
  moreover have "cls = 6 \<or> cls = 7 \<or> cls = 140 \<or> cls = 248"
    using assms(3) by (auto simp: class_spec_def split: if_splits)
  ultimately show ?thesis by (elim disjE) (simp_all add: class_update_defs zero_settings_def)
qed

theorem silent_tool_clears_leap_flags_witness:
  "\<exists>g. updateCLockClass 7 GM 0x22 37 (PMCGMGetter (\<lambda>_. None) (\<lambda>_ _. Prints '''') ''ptp4l.0.config'') (\<lambda>_. None)
        = (None, 7, cq_ClockAccuracy (gs_ClockQuality g), Some g)
      \<and> \<not> tp_Leap59 (gs_TimePropertiesDS g) \<and> \<not> tp_Leap61 (gs_TimePropertiesDS g)"
proof -
  have spec: "class_spec 7 0x22 = Some (True, 0xA0, 0xffff, 0x22)" by (simp add: class_spec_def)
  show ?thesis
    using silent_tool_clears_leap_flags [of "\<lambda>_. None" "''ptp4l.0.config''" "\<lambda>_ _. Prints ''''", OF _ _ spec, of 37 "\<lambda>_. None"]
    by (simp add: FindFirst_def)
qed

text \<open>
  The class of the parent in the text of the tool is reported: behind a text without \<open>gm\<close>, the digits after
  \<open>gm.ClockClass\<close> are the second match, and a class other than the last one is kept and makes one line.
\<close>

theorem parent_class_reported:
  assumes "\<not> Contains pre ''gm''" and "pre = [] \<or> is_space (last pre)" and "space_text sp"
    and "ds \<noteq> []" and "\<forall>d \<in> set ds. is_dig d" and "rest = [] \<or> \<not> is_dig (hd rest)"
    and "ParseFloat ds = (Fin x, None)" and "pr_parentClockClass p \<noteq> Fin x"
  shows "updateClockClass node conn now
           (Some (fst (RunPMCExp None (Prints (pre @ ''gm.ClockClass'' @ sp @ ds @ rest)) ClockClassChangeRegEx))) p m
      = (p\<lparr>pr_parentClockClass := Fin x\<rparr>, [clock_class_line now p (Fin x)],
         if conn then [clock_class_line now p (Fin x)] else [], if conn then m else UpdateClockClassMetrics node (Fin x) m)"
proof -
  let ?t = "''gm.ClockClass'' @ sp @ ds @ rest"
  obtain w where w: "with_match ClockClassChangeRegEx ?t = Some ([w, ds], rest)"
    using class_expression_matches [of "CHR ''.''" sp ds rest] assms(3-6) by (simp add: with_match_def)
  have "FindFirst (with_match ClockClassChangeRegEx) (pre @ ?t) = Some [w, ds]"
    using w by (simp only: FindFirst_def class_expression_skips [OF assms(1,2)]) simp
  then have r: "fst (RunPMCExp None (Prints (pre @ ?t)) ClockClassChangeRegEx) = [w, ds]"
    by (simp only: RunPMCExp_def attempt_of_def option.case exchange.case pmc_attempt.case fst_conv)
  have "\<not> f64_eq (Fin x) (pr_parentClockClass p)" using assms(8) by (cases "pr_parentClockClass p") auto
  then show ?thesis using assms(7) unfolding r by (simp add: updateClockClass_def Let_def)
qed

theorem parent_class_reported_witness:
  "fst (snd (updateClockClass ''node'' False 7
      (Some (fst (RunPMCExp None (Prints (''grandmasterPriority1 128 '' @ ''gm.ClockClass'' @ ''  '' @ ''248'' @ '' '')) ClockClassChangeRegEx)))
      demo_ha demo_metrics)) = [clock_class_line 7 demo_ha (Fin 248)]"
proof -
  have "ParseFloat ''248'' = (Fin 248, None)" by code_simp
  moreover have "\<not> Contains ''grandmasterPriority1 128 '' ''gm''" by code_simp
  moreover have "space_text ''  ''" by (simp add: space_text_def is_space_def)
  moreover have "\<forall>d \<in> set ''248''. is_dig d" "\<not> is_dig (hd '' '')" by (simp_all add: is_dig_def)
  ultimately show ?thesis
    using parent_class_reported [of "''grandmasterPriority1 128 ''" "''  ''" "''248''" "'' ''" 248 demo_ha "''node''" False 7 demo_metrics]
    by (simp add: demo_ha_def is_space_def)
qed

end
