(* ===== verification/Pci_Vpd.thy ===== *)
theory Pci_Vpd
  imports Prelude "HOL-Library.AList"
begin

unbundle bit_operations_syntax

text \<open>
  What the E810 plugin reads from the PCI configuration of a card: the serial number that becomes the DPLL clock
  id (\<open>getClockIdE810\<close> in \<open>addons/intel/e810.go\<close>) and the vital product data (\<open>ParseVpd\<close>,
  \<open>parseVpdBlock\<close>, \<open>GetHardwareFingerprint\<close> in \<open>addons/intel/phaseAdjust.go\<close>).

  A file read is a list of bytes; Go's slice expressions may reach beyond its length up to its capacity, where
  \<open>os.ReadFile\<close> leaves zeros. A loop that may not end is a \<open>partial_function\<close>: \<^const>\<open>None\<close> means that it runs for ever.

  Shown: the serial number is found behind any list of capabilities that leads to it; a list that runs in a circle
  makes the daemon loop for ever; VPD data of the documented format is read back; parsing a file that is smaller than
  64 KiB always ends, with a result or a panic; a card without a vendor field panics.
\<close>

section \<open>The serial number\<close>

text \<open>\<open>binary.LittleEndian.Uint16(b[i:])\<close> and \<open>Uint64\<close>: panic unless the bytes are there.\<close>

definition byte_at :: "u8 list \<Rightarrow> nat \<Rightarrow> nat" where
  "byte_at b i = unat (b ! i)"

definition le16 :: "u8 list \<Rightarrow> nat \<Rightarrow> nat res" where
  "le16 b i = (if i + 2 \<le> length b then Inr (byte_at b i + 256 * byte_at b (i + 1)) else Inl IndexOutOfRange)"

fun le_bytes :: "u8 list \<Rightarrow> nat" where
  "le_bytes [] = 0"
| "le_bytes (x # xs) = unat x + 256 * le_bytes xs"

definition le64 :: "u8 list \<Rightarrow> nat \<Rightarrow> nat res" where
  "le64 b i = (if i + 8 \<le> length b then Inr (le_bytes (take 8 (drop i b))) else Inl IndexOutOfRange)"

text \<open>\<open>offset\<close> is a \<open>uint16\<close>: adding to it wraps.\<close>

definition u16_add :: "nat \<Rightarrow> nat \<Rightarrow> nat" where
  "u16_add x y = (x + y) mod 2 ^ 16"

text \<open>The loop: the offset of the serial number capability, or none.\<close>

partial_function (option) find_dsn :: "u8 list \<Rightarrow> nat \<Rightarrow> nat option res option" where
  "find_dsn b off =
     (case le16 b off of
        Inl e \<Rightarrow> Some (Inl e)
      | Inr i \<Rightarrow>
          if i = 3 then Some (Inr (Some off))
          else if i = 0 then Some (Inr None)
          else (case le16 b (u16_add off 2) of
             Inl e \<Rightarrow> Some (Inl e)
           | Inr n \<Rightarrow> find_dsn b (n div 2 ^ 4)))"

definition getClockIdE810 :: "u8 list option \<Rightarrow> nat res option" where
  "getClockIdE810 config =
     (case config of
        None \<Rightarrow> Some (Inr 0)
      | Some b \<Rightarrow>
          (case find_dsn b 256 of
             None \<Rightarrow> None
           | Some (Inl e) \<Rightarrow> Some (Inl e)
           | Some (Inr None) \<Rightarrow> Some (Inr 0)
           | Some (Inr (Some off)) \<Rightarrow> Some (le64 b (u16_add off 4))))"

text \<open>A capability that is neither the serial number nor the end of the list, with the offset of the next.\<close>

definition cap_link :: "u8 list \<Rightarrow> nat \<Rightarrow> nat \<Rightarrow> bool" where
  "cap_link b i j \<longleftrightarrow> (\<exists>c n. le16 b i = Inr c \<and> c \<noteq> 0 \<and> c \<noteq> 3 \<and> le16 b (u16_add i 2) = Inr n \<and> j = n div 2 ^ 4)"

fun cap_chain :: "u8 list \<Rightarrow> nat \<Rightarrow> nat list \<Rightarrow> nat \<Rightarrow> bool" where
  "cap_chain b i [] k \<longleftrightarrow> i = k"
| "cap_chain b i (j # js) k \<longleftrightarrow> cap_link b i j \<and> cap_chain b j js k"

lemma find_dsn_link: "cap_link b i j \<Longrightarrow> find_dsn b i = find_dsn b j"
  by (subst find_dsn.simps) (auto simp: cap_link_def)

lemma find_dsn_chain: "cap_chain b i js k \<Longrightarrow> find_dsn b i = find_dsn b k"
  by (induction js arbitrary: i) (auto dest: find_dsn_link)

text \<open>
  The clock id of a card is its serial number: if the list of extended capabilities leads from its start at 256 to a
  capability with the id 3, the result is the number in the eight bytes after its header.
\<close>

theorem clock_id_is_serial_number:
  assumes "cap_chain b 256 js k" and "le16 b k = Inr 3" and "k < 2 ^ 15" and "k + 12 \<le> length b"
  shows "getClockIdE810 (Some b) = Some (Inr (le_bytes (take 8 (drop (k + 4) b))))"
proof -
  have "find_dsn b k = Some (Inr (Some k))" using assms(2) by (subst find_dsn.simps) simp
  then have "find_dsn b 256 = Some (Inr (Some k))" using find_dsn_chain [OF assms(1)] by simp
  moreover have "u16_add k 4 = k + 4" using assms(3) by (simp add: u16_add_def)
  ultimately show ?thesis using assms(4) by (simp add: getClockIdE810_def le64_def)
qed

definition demo_config :: "u8 list" where
  "demo_config = replicate 256 0 @ [1, 0, 0x81, 0x10] @ replicate 4 0 @ [3, 0, 1, 0] @ [0x5E, 0xBF, 0x62, 0, 0, 0x2A, 0x7C, 0x50]"

theorem clock_id_is_serial_number_witness:
  "getClockIdE810 (Some demo_config) = Some (Inr 0x507C2A000062BF5E)"
  using clock_id_is_serial_number [of demo_config "[264]" 264]
  by (simp add: demo_config_def cap_link_def le16_def byte_at_def u16_add_def nth_append)

lemma find_dsn_ends:
  assumes "find_dsn b i = Some r"
  shows "i \<in> S \<Longrightarrow> \<forall>i \<in> S. \<exists>j \<in> S. cap_link b i j \<Longrightarrow> False"
  using assms
proof (induction arbitrary: S rule: find_dsn.raw_induct [rotated 1, consumes 1, case_names step])
  case (step f b i r)
  then obtain j where j: "j \<in> S" "cap_link b i j" by blast
  have "f b j = Some r" using step(2) j(2) by (auto simp: cap_link_def)
  then show ?case using j(1) step.prems(2) by (rule step.IH)
qed

text \<open>
  The reading does not check that the list advances: if from its start the capabilities stay in a set that the
  links never leave, and that has neither the serial number nor the end, the plugin loops for ever.
\<close>

theorem circular_capabilities_hang:
  assumes "256 \<in> S" and "\<forall>i \<in> S. \<exists>j \<in> S. cap_link b i j"
  shows "getClockIdE810 (Some b) = None"
proof -
  have "find_dsn b 256 = None" using find_dsn_ends [OF _ assms] by fastforce
  then show ?thesis by (simp add: getClockIdE810_def)
qed

theorem circular_capabilities_hang_witness:
  "getClockIdE810 (Some (replicate 256 0 @ [1, 0, 0x01, 0x10] @ replicate 60 0)) = None"
  by (rule circular_capabilities_hang [of "{256}"])
    (simp_all add: cap_link_def le16_def byte_at_def u16_add_def nth_append)

section \<open>Vital product data\<close>

text \<open>
  \<open>b[lo:hi]\<close> of a slice with the bytes \<open>b\<close> and \<open>spare\<close> bytes behind them up to its capacity: the bound is the
  capacity, not the length. The result is the new slice, with its own spare bytes.
\<close>

definition slice_cap :: "u8 list \<Rightarrow> u8 list \<Rightarrow> nat \<Rightarrow> nat \<Rightarrow> (u8 list \<times> u8 list) res" where
  "slice_cap b spare lo hi =
     (if lo \<le> hi \<and> hi \<le> length b + length spare
      then Inr (take (hi - lo) (drop lo (b @ spare)), drop hi (b @ spare)) else Inl IndexOutOfRange)"

definition bytes_string :: "u8 list \<Rightarrow> string" where
  "bytes_string = map (\<lambda>w. char_of (unat w))"

record Vpd =
  vpd_IdentifierStringDescriptor :: string
  vpd_PartNumber :: string
  vpd_SerialNumber :: string
  vpd_VendorSpecific1 :: string
  vpd_VendorSpecific2 :: string

definition empty_Vpd :: Vpd where
  "empty_Vpd = \<lparr>vpd_IdentifierStringDescriptor = '''', vpd_PartNumber = '''', vpd_SerialNumber = '''',
     vpd_VendorSpecific1 = '''', vpd_VendorSpecific2 = ''''\<rparr>"

text \<open>One keyword of a block: the key, its data and the offset of the next keyword.\<close>

definition vpd_keyword :: "u8 list \<Rightarrow> u8 list \<Rightarrow> nat \<Rightarrow> (string \<times> string \<times> nat) res" where
  "vpd_keyword block spare off =
     res_bind (slice_cap block spare off (off + 2)) (\<lambda>(kw, _).
     res_bind (index_at block (off + 2)) (\<lambda>ln.
     res_bind (slice_cap block spare (off + 3) (off + unat ln + 3)) (\<lambda>(data, _).
       Inr (bytes_string kw, bytes_string data, off + unat ln + 3))))"

lemma vpd_keyword_advances: "vpd_keyword block spare off = Inr (kw, data, off') \<Longrightarrow> off < off'"
  by (auto simp: vpd_keyword_def res_bind_Inr_iff split: prod.splits)

function vpd_keywords :: "u8 list \<Rightarrow> u8 list \<Rightarrow> nat \<Rightarrow> (string \<rightharpoonup> string) \<Rightarrow> (string \<rightharpoonup> string) res" where
  "vpd_keywords block spare off rv =
     (if off < length block then
        (case vpd_keyword block spare off of
           Inl e \<Rightarrow> Inl e
         | Inr (kw, data, off') \<Rightarrow>
             vpd_keywords block spare off'
               (if HasPrefix kw ''V'' \<or> kw = ''PN'' \<or> kw = ''SN'' then rv(kw \<mapsto> data) else rv))
      else Inr rv)"
  by pat_completeness auto
termination
  by (relation "measure (\<lambda>(block, spare, off, rv). length block - off)") (auto dest!: vpd_keyword_advances)

declare vpd_keywords.simps [simp del]

definition parseVpdBlock :: "u8 list \<Rightarrow> u8 list \<Rightarrow> (string \<rightharpoonup> string) res" where
  "parseVpdBlock block spare = vpd_keywords block spare 0 Map.empty"

text \<open>The loop over the keywords found sets one field for each of four keys, in whatever order the map is visited.\<close>

definition set_ro_fields :: "(string \<rightharpoonup> string) \<Rightarrow> Vpd \<Rightarrow> Vpd" where
  "set_ro_fields ro vpd = (let get = (\<lambda>k old. case ro k of Some v \<Rightarrow> v | None \<Rightarrow> old) in
     vpd\<lparr>vpd_SerialNumber := get ''SN'' (vpd_SerialNumber vpd), vpd_PartNumber := get ''PN'' (vpd_PartNumber vpd),
         vpd_VendorSpecific1 := get ''V1'' (vpd_VendorSpecific1 vpd),
         vpd_VendorSpecific2 := get ''V2'' (vpd_VendorSpecific2 vpd)\<rparr>)"

text \<open>The head of the loop body: tag, block with the bytes behind it, offset of the next block (the sum is a \<open>uint16\<close>).\<close>

definition vpd_block :: "u8 list \<Rightarrow> u8 list \<Rightarrow> nat \<Rightarrow> (nat \<times> u8 list \<times> u8 list \<times> nat) res" where
  "vpd_block content spare off =
     res_bind (slice_cap content spare off (off + 3)) (\<lambda>(desc, _).
     res_bind (index_at content off) (\<lambda>tag.
     res_bind (le16 (drop 1 desc) 0) (\<lambda>n.
     res_bind (slice_cap content spare (off + 3) (off + 3 + n)) (\<lambda>(block, behind).
       Inr (unat tag, block, behind, off + u16_add n 3)))))"

partial_function (option) vpd_blocks :: "u8 list \<Rightarrow> u8 list \<Rightarrow> nat \<Rightarrow> Vpd \<Rightarrow> Vpd res option" where
  "vpd_blocks content spare off vpd =
     (if off < length content then
        (case vpd_block content spare off of
           Inl e \<Rightarrow> Some (Inl e)
         | Inr (tag, block, behind, off') \<Rightarrow>
             if tag = 0x82 then vpd_blocks content spare off' (vpd\<lparr>vpd_IdentifierStringDescriptor := bytes_string block\<rparr>)
             else if tag = 0x90 then
               (case parseVpdBlock block behind of
                  Inl e \<Rightarrow> Some (Inl e)
                | Inr ro \<Rightarrow> vpd_blocks content spare off' (set_ro_fields ro vpd))
             else if tag = 0x78 then Some (Inr vpd)
             else vpd_blocks content spare off' vpd)
      else Some (Inr vpd))"

definition ParseVpd :: "u8 list \<Rightarrow> u8 list \<Rightarrow> Vpd res option" where
  "ParseVpd content spare = vpd_blocks content spare 0 empty_Vpd"

text \<open>The file is absent when it cannot be read; an empty vendor field makes the index of the last word negative.\<close>

definition GetHardwareFingerprint :: "(u8 list \<times> u8 list) option \<Rightarrow> string res option" where
  "GetHardwareFingerprint vpdFile =
     (case vpdFile of
        None \<Rightarrow> Some (Inr '''')
      | Some (content, spare) \<Rightarrow>
          (case ParseVpd content spare of
             None \<Rightarrow> None
           | Some (Inl e) \<Rightarrow> Some (Inl e)
           | Some (Inr vpd) \<Rightarrow>
               let ws = Fields (vpd_VendorSpecific1 vpd)
               in Some (if ws = [] then Inl IndexOutOfRange else Inr (last ws))))"

subsection \<open>Reading ends\<close>

lemma vpd_block_advances:
  "vpd_block content spare off = Inr (tag, block, behind, off') \<Longrightarrow> length content + length spare < 2 ^ 16 \<Longrightarrow> off < off'"
  by (auto simp: vpd_block_def res_bind_Inr_iff slice_cap_def u16_add_def split: prod.splits if_splits)

lemma vpd_blocks_end:
  assumes "length content + length spare < 2 ^ 16"
  shows "\<exists>r. vpd_blocks content spare off vpd = Some r"
proof (induction "length content - off" arbitrary: off vpd rule: less_induct)
  case less
  have "\<exists>r. vpd_blocks content spare off' vpd' = Some r"
    if "off < length content" and "vpd_block content spare off = Inr (tag, block, behind, off')" for tag block behind off' vpd'
    using less [of off' vpd'] that vpd_block_advances [OF that(2) assms] by simp
  then show ?case by (subst vpd_blocks.simps) (auto split: sum.splits prod.splits)
qed

text \<open>C27. A file smaller than 64 KiB (with its spare capacity) is read in finitely many steps, to a result or a panic.\<close>

theorem vpd_parsing_ends:
  assumes "length content + length spare < 2 ^ 16"
  shows "\<exists>r. ParseVpd content spare = Some r"
  unfolding ParseVpd_def by (rule vpd_blocks_end [OF assms])

theorem vpd_parsing_ends_witness: "\<exists>r. ParseVpd [0x82, 0xFD, 0xFF, 0] [0, 0, 0] = Some r"
  by (rule vpd_parsing_ends) simp

lemma vpd_blocks_ends_not:
  assumes "vpd_blocks content spare off vpd = Some r"
  shows "off < length content \<Longrightarrow> vpd_block content spare off = Inr (tag, block, behind, off) \<Longrightarrow>
    tag \<noteq> 0x78 \<Longrightarrow> tag \<noteq> 0x90 \<Longrightarrow> False"
  using assms
proof (induction rule: vpd_blocks.raw_induct [rotated 1, consumes 1, case_names step])
  case (step f content spare off vpd r)
  then show ?case by (auto split: if_splits)
qed

text \<open>
  C28. A larger one may not be: the length of a block is a \<open>uint16\<close>, and so is its sum with the length of the descriptor.
  A first block of 65533 bytes that is neither the read-only block nor the end makes the sum 0 and the loop endless.
\<close>

theorem vpd_long_block_hangs:
  assumes "tag \<noteq> 0x78" and "tag \<noteq> 0x90" and "65533 \<le> length rest + length spare"
  shows "ParseVpd (tag # 0xFD # 0xFF # rest) spare = None"
proof -
  let ?b = "tag # 0xFD # 0xFF # rest"
  have "slice_cap ?b spare 0 3 = Inr ([tag, 0xFD, 0xFF], rest @ spare)" by (simp add: slice_cap_def)
  moreover have "slice_cap ?b spare 3 (3 + 65533) = Inr (take 65533 (rest @ spare), drop 65533 (rest @ spare))"
    using assms(3) by (simp add: slice_cap_def)
  moreover have "le16 (drop 1 [tag, 0xFD, 0xFF]) 0 = Inr 65533" by (simp add: le16_def byte_at_def)
  moreover have "index_at ?b 0 = Inr tag" by (simp add: index_at_def)
  moreover have "u16_add 65533 3 = 0" by (simp add: u16_add_def)
  ultimately have "vpd_block ?b spare 0 = Inr (unat tag, take 65533 (rest @ spare), drop 65533 (rest @ spare), 0)"
    by (simp only: vpd_block_def add_0 res_bind_simps prod.case)
  moreover have "unat tag \<noteq> 0x78" using assms(1) by (auto simp: word_unat_eq_iff)
  moreover have "unat tag \<noteq> 0x90" using assms(2) by (auto simp: word_unat_eq_iff)
  ultimately show ?thesis
    unfolding ParseVpd_def using vpd_blocks_ends_not [of ?b spare 0 empty_Vpd] by (metis length_greater_0_conv list.distinct(1) not_None_eq)
qed

theorem vpd_long_block_hangs_witness: "ParseVpd [0x91, 0xFD, 0xFF] (replicate 65533 0) = None"
  using vpd_long_block_hangs [of "0x91" "[]" "replicate 65533 0"] by (simp only: length_replicate) simp

subsection \<open>Reading the documented format back\<close>

text \<open>The format: a keyword with its data; a resource with its tag and its length in two bytes.\<close>

definition vpd_field :: "u8 list \<times> u8 list \<Rightarrow> u8 list" where
  "vpd_field kd = fst kd @ word_of_nat (length (snd kd)) # snd kd"

definition vpd_resource :: "u8 \<Rightarrow> u8 list \<Rightarrow> u8 list" where
  "vpd_resource tag bs = tag # word_of_nat (length bs mod 256) # word_of_nat (length bs div 256) # bs"

definition vpd_entries :: "(u8 list \<times> u8 list) list \<Rightarrow> (string \<times> string) list" where
  "vpd_entries kvs = map (\<lambda>kd. (bytes_string (fst kd), bytes_string (snd kd))) kvs"

definition vpd_value :: "(u8 list \<times> u8 list) list \<Rightarrow> string \<Rightarrow> string" where
  "vpd_value kvs key = (case map_of (rev (vpd_entries kvs)) key of Some v \<Rightarrow> v | None \<Rightarrow> '''')"

lemma slice_cap_middle: "slice_cap (pre @ x @ post) spare (length pre) (length pre + length x) = Inr (x, post @ spare)"
  by (simp add: slice_cap_def)

lemma vpd_keyword_at:
  assumes "length k = 2" and "length d < 256"
  shows "vpd_keyword (pre @ vpd_field (k, d) @ post) spare (length pre) =
    Inr (bytes_string k, bytes_string d, length pre + length d + 3)"
proof -
  let ?b = "pre @ vpd_field (k, d) @ post"
  have "slice_cap ?b spare (length pre) (length pre + 2) = Inr (k, word_of_nat (length d) # d @ post @ spare)"
    using slice_cap_middle [of pre k "word_of_nat (length d) # d @ post"] assms(1) by (simp add: vpd_field_def)
  moreover have "index_at ?b (length pre + 2) = Inr (word_of_nat (length d))"
    using assms(1) by (simp add: index_at_def vpd_field_def nth_append)
  moreover have "slice_cap ?b spare (length pre + 3) (length pre + length d + 3) = Inr (d, post @ spare)"
    using slice_cap_middle [of "pre @ k @ [word_of_nat (length d)]" d post spare] assms(1)
    by (simp add: vpd_field_def numeral_3_eq_3 algebra_simps)
  moreover have "unat (word_of_nat (length d) :: u8) = length d" using assms(2) by (simp add: unat_of_nat)
  ultimately show ?thesis by (simp add: vpd_keyword_def)
qed

definition kept_key :: "string \<Rightarrow> bool" where
  "kept_key k \<longleftrightarrow> HasPrefix k ''V'' \<or> k = ''PN'' \<or> k = ''SN''"

lemma vpd_keywords_fields:
  "\<forall>kd \<in> set kvs. length (fst kd) = 2 \<and> length (snd kd) < 256 \<Longrightarrow>
   vpd_keywords (pre @ concat (map vpd_field kvs)) spare (length pre) rv =
     Inr (fold (\<lambda>(k, d) m. if kept_key k then m(k \<mapsto> d) else m) (vpd_entries kvs) rv)"
proof (induction kvs arbitrary: pre rv)
  case Nil
  then show ?case by (simp add: vpd_entries_def vpd_keywords.simps)
next
  case (Cons kd kvs)
  obtain k d where kd: "kd = (k, d)" by force
  have "vpd_keyword (pre @ vpd_field kd @ concat (map vpd_field kvs)) spare (length pre) =
      Inr (bytes_string k, bytes_string d, length (pre @ vpd_field kd))"
    using Cons.prems vpd_keyword_at [of k d pre "concat (map vpd_field kvs)" spare] by (simp add: kd) (simp add: vpd_field_def)
  moreover have "vpd_field kd \<noteq> []" by (simp add: vpd_field_def)
  moreover have "vpd_entries (kd # kvs) = (bytes_string k, bytes_string d) # vpd_entries kvs"
    by (simp add: vpd_entries_def kd)
  ultimately show ?case
    using Cons.IH [of "pre @ vpd_field kd"] Cons.prems
    by (subst vpd_keywords.simps) (simp add: kept_key_def)
qed

lemma fold_kept_key:
  "kept_key key \<Longrightarrow>
   fold (\<lambda>(k, d) m. if kept_key k then m(k \<mapsto> d) else m) es rv key =
     (case map_of (rev es) key of Some v \<Rightarrow> Some v | None \<Rightarrow> rv key)"
  by (induction es arbitrary: rv) (auto simp: map_add_def split: option.splits)

lemma parseVpdBlock_fields:
  assumes "\<forall>kd \<in> set kvs. length (fst kd) = 2 \<and> length (snd kd) < 256"
  obtains ro where "parseVpdBlock (concat (map vpd_field kvs)) spare = Inr ro"
    and "\<And>key. kept_key key \<Longrightarrow> ro key = map_of (rev (vpd_entries kvs)) key"
proof
  show "parseVpdBlock (concat (map vpd_field kvs)) spare =
      Inr (fold (\<lambda>(k, d) m. if kept_key k then m(k \<mapsto> d) else m) (vpd_entries kvs) Map.empty)"
    using vpd_keywords_fields [OF assms, of "[]"] by (simp add: parseVpdBlock_def)
qed (simp add: fold_kept_key split: option.splits)

lemma vpd_block_at:
  assumes "length bs < 65533"
  shows "vpd_block (pre @ vpd_resource tag bs @ post) spare (length pre) =
    Inr (unat tag, bs, post @ spare, length (pre @ vpd_resource tag bs))"
proof -
  let ?h = "[tag, word_of_nat (length bs mod 256), word_of_nat (length bs div 256)]"
  let ?b = "pre @ vpd_resource tag bs @ post"
  have "slice_cap ?b spare (length pre) (length pre + 3) = Inr (?h, bs @ post @ spare)"
    using slice_cap_middle [of pre ?h "bs @ post" spare] by (simp add: vpd_resource_def numeral_3_eq_3)
  moreover have "slice_cap ?b spare (length pre + 3) (length pre + 3 + length bs) = Inr (bs, post @ spare)"
    using slice_cap_middle [of "pre @ ?h" bs post spare] by (simp add: vpd_resource_def numeral_3_eq_3)
  moreover have "le16 (drop 1 ?h) 0 = Inr (length bs)"
    using assms by (simp add: le16_def byte_at_def unat_of_nat)
  moreover have "index_at ?b (length pre) = Inr tag" by (simp add: index_at_def vpd_resource_def)
  moreover have "length pre + u16_add (length bs) 3 = length (pre @ vpd_resource tag bs)"
    using assms by (simp add: u16_add_def vpd_resource_def)
  ultimately show ?thesis by (simp only: vpd_block_def res_bind_simps prod.case)
qed

lemma vpd_block_end:
  "vpd_block (pre @ [0x78]) (0 # 0 # spare) (length pre) = Inr (0x78, [], spare, length pre + 3)"
proof -
  let ?b = "pre @ [0x78]" and ?sp = "0 # 0 # spare"
  have "slice_cap ?b ?sp (length pre) (length pre + 3) = Inr ([0x78, 0, 0], spare)"
    "slice_cap ?b ?sp (length pre + 3) (length pre + 3 + 0) = Inr ([], spare)"
    by (simp_all add: slice_cap_def numeral_3_eq_3)
  moreover have "le16 (drop 1 [0x78, 0, 0]) 0 = Inr 0" by (simp add: le16_def byte_at_def)
  moreover have "index_at ?b (length pre) = Inr 0x78" by (simp add: index_at_def)
  ultimately show ?thesis by (simp only: vpd_block_def res_bind_simps prod.case) (simp add: u16_add_def)
qed

lemma vpd_read:
  assumes kvs: "\<forall>kd \<in> set kvs. length (fst kd) = 2 \<and> length (snd kd) < 256"
    and len: "length ident < 65533" "length (concat (map vpd_field kvs)) < 65533" "length rw < 65533"
  shows "ParseVpd (vpd_resource 0x82 ident @ vpd_resource 0x90 (concat (map vpd_field kvs)) @ vpd_resource 0x91 rw @ [0x78])
      (0 # 0 # spare) =
    Some (Inr \<lparr>vpd_IdentifierStringDescriptor = bytes_string ident, vpd_PartNumber = vpd_value kvs ''PN'',
      vpd_SerialNumber = vpd_value kvs ''SN'', vpd_VendorSpecific1 = vpd_value kvs ''V1'',
      vpd_VendorSpecific2 = vpd_value kvs ''V2''\<rparr>)"
proof -
  let ?id = "vpd_resource 0x82 ident" and ?rob = "concat (map vpd_field kvs)" and ?rwr = "vpd_resource 0x91 rw"
  let ?ro = "vpd_resource 0x90 ?rob" and ?sp = "0 # 0 # spare"
  let ?b = "?id @ ?ro @ ?rwr @ [0x78]"
  obtain ro where ro: "parseVpdBlock ?rob (?rwr @ [0x78] @ ?sp) = Inr ro"
    "\<And>key. kept_key key \<Longrightarrow> ro key = map_of (rev (vpd_entries kvs)) key"
    using parseVpdBlock_fields [OF kvs] by metis
  have e1: "vpd_block ?b ?sp 0 = Inr (0x82, ident, ?ro @ ?rwr @ [0x78] @ ?sp, length ?id)"
    using vpd_block_at [OF len(1), of "[]" "0x82" "?ro @ ?rwr @ [0x78]" ?sp] by simp
  have e2: "vpd_block ?b ?sp (length ?id) = Inr (0x90, ?rob, ?rwr @ [0x78] @ ?sp, length (?id @ ?ro))"
    using vpd_block_at [OF len(2), of ?id "0x90" "?rwr @ [0x78]" ?sp] by simp
  have e3: "vpd_block ?b ?sp (length (?id @ ?ro)) = Inr (0x91, rw, [0x78] @ ?sp, length (?id @ ?ro @ ?rwr))"
    using vpd_block_at [OF len(3), of "?id @ ?ro" "0x91" "[0x78]" ?sp] by simp
  have e4: "\<exists>block behind off. vpd_block ?b ?sp (length (?id @ ?ro @ ?rwr)) = Inr (0x78, block, behind, off)"
    using vpd_block_end [of "?id @ ?ro @ ?rwr" spare] by simp
  let ?v = "empty_Vpd\<lparr>vpd_IdentifierStringDescriptor := bytes_string ident\<rparr>"
  have "vpd_blocks ?b ?sp 0 empty_Vpd = vpd_blocks ?b ?sp (length ?id) ?v"
    by (subst vpd_blocks.simps) (simp only: e1, simp)
  also have "\<dots> = vpd_blocks ?b ?sp (length (?id @ ?ro)) (set_ro_fields ro ?v)"
    by (subst vpd_blocks.simps) (simp only: e2, simp add: ro(1) [simplified])
  also have "\<dots> = vpd_blocks ?b ?sp (length (?id @ ?ro @ ?rwr)) (set_ro_fields ro ?v)"
    by (subst vpd_blocks.simps) (simp only: e3, simp)
  also have "\<dots> = Some (Inr (set_ro_fields ro ?v))"
    using e4 by (subst vpd_blocks.simps) auto
  finally show ?thesis
    by (simp add: ParseVpd_def set_ro_fields_def ro(2) kept_key_def HasPrefix_def empty_Vpd_def vpd_value_def)
qed

text \<open>
  C26. Vital product data in the documented format (identifier, read-only and read-write resource, end tag) is read back:
  the identifier, and for each of the four keywords the data of its last entry. The end tag has no length bytes; the
  reader takes the two bytes behind it, which are spare bytes of the buffer.
\<close>

theorem vpd_roundtrip:
  assumes "\<forall>kd \<in> set kvs. length (fst kd) = 2 \<and> length (snd kd) < 256"
    and "length ident < 65533" and "length (concat (map vpd_field kvs)) < 65533" and "length rw < 65533"
  shows "ParseVpd (vpd_resource 0x82 ident @ vpd_resource 0x90 (concat (map vpd_field kvs)) @ vpd_resource 0x91 rw @ [0x78])
      (0 # 0 # spare) =
    Some (Inr \<lparr>vpd_IdentifierStringDescriptor = bytes_string ident, vpd_PartNumber = vpd_value kvs ''PN'',
      vpd_SerialNumber = vpd_value kvs ''SN'', vpd_VendorSpecific1 = vpd_value kvs ''V1'',
      vpd_VendorSpecific2 = vpd_value kvs ''V2''\<rparr>)"
  by (rule vpd_read [OF assms])

text \<open>Keyword \<open>PN\<close> with the value \<open>K9\<close>, a checksum field and the vendor field \<open>V1\<close> with the value \<open>E 8T\<close>.\<close>

definition demo_fields :: "(u8 list \<times> u8 list) list" where
  "demo_fields = [([0x50, 0x4E], [0x4B, 0x39]), ([0x52, 0x56], [0x7F]), ([0x56, 0x31], [0x45, 0x20, 0x38, 0x54])]"

theorem vpd_roundtrip_witness:
  "ParseVpd (vpd_resource 0x82 [0x45] @ vpd_resource 0x90 (concat (map vpd_field demo_fields)) @ vpd_resource 0x91 [] @ [0x78]) [0, 0] =
    Some (Inr \<lparr>vpd_IdentifierStringDescriptor = ''E'', vpd_PartNumber = ''K9'', vpd_SerialNumber = '''',
      vpd_VendorSpecific1 = ''E 8T'', vpd_VendorSpecific2 = ''''\<rparr>)"
proof -
  have "vpd_value demo_fields ''PN'' = ''K9''" "vpd_value demo_fields ''SN'' = ''''"
    "vpd_value demo_fields ''V1'' = ''E 8T''" "vpd_value demo_fields ''V2'' = ''''"
    by code_simp+
  moreover have "bytes_string [0x45] = ''E''" by code_simp
  ultimately show ?thesis
    using vpd_roundtrip [of demo_fields "[0x45]" "[]" "[]"] by (simp add: demo_fields_def vpd_field_def)
qed

text \<open>
  The fingerprint of such a card is the last word of its vendor field \<open>V1\<close>; a card whose field is missing or blank
  makes the daemon panic.
\<close>

theorem fingerprint_last_word:
  assumes "\<forall>kd \<in> set kvs. length (fst kd) = 2 \<and> length (snd kd) < 256"
    and "length ident < 65533" and "length (concat (map vpd_field kvs)) < 65533" and "length rw < 65533"
  shows "GetHardwareFingerprint (Some
      (vpd_resource 0x82 ident @ vpd_resource 0x90 (concat (map vpd_field kvs)) @ vpd_resource 0x91 rw @ [0x78],
       0 # 0 # spare)) =
    Some (if Fields (vpd_value kvs ''V1'') = [] then Inl IndexOutOfRange else Inr (last (Fields (vpd_value kvs ''V1''))))"
  by (simp add: GetHardwareFingerprint_def vpd_read [OF assms] Let_def)

theorem fingerprint_last_word_witness:
  "GetHardwareFingerprint (Some
      (vpd_resource 0x82 [] @ vpd_resource 0x90 (concat (map vpd_field demo_fields)) @ vpd_resource 0x91 [] @ [0x78], [0, 0])) =
     Some (Inr ''8T'')"
proof -
  have "Fields (vpd_value demo_fields ''V1'') = [''E'', ''8T'']" by code_simp
  then show ?thesis using fingerprint_last_word [of demo_fields "[]" "[]" "[]"] by (simp add: demo_fields_def vpd_field_def)
qed

end
