(* ===== verification/E810.thy ===== *)
theory E810
  imports Pci_Vpd Daemon_Apply
begin

text \<open>
  The E810 plugin, \<open>addons/intel/e810.go\<close> and the delay table of \<open>addons/intel/phaseAdjust.go\<close>: what a change of the
  profile makes it write (clock ids and phase-offset filters into the settings of the profile, pin
  configurations, phase adjustments of the DPLL pins), and what it runs after gpspipe has been started.

  The plugin's options are the value that the JSON decoder makes of the profile's \<open>e810\<close> entry. Maps are lists of
  entries with distinct keys, in the order the loop visits them. Files, the DPLL connection and \<open>ubxtool\<close> are in
  \<open>e810_env\<close>.

  Shown: the DPLL of a card answers to the serial number of the card; which phase adjustments are computed, and
  to which pins they are sent; an unknown card makes the daemon panic on a node with DPLL pins; the reports of
  \<open>ubxtool\<close> accumulate.
\<close>

section \<open>Options and delay tables\<close>

record InputDelay =
  in_Connector :: string
  in_DelayPs :: int
  in_DelayVariationPs :: int

record InputPhaseDelays =
  ipd_Id :: string
  ipd_Part :: string
  ipd_Input :: "InputDelay option"
  ipd_GnssInput :: bool
  ipd_PhaseOutputConnectors :: "string list"

record InternalLink =
  il_Connector :: string
  il_Pin :: string
  il_DelayPs :: int

record InternalDelays =
  idl_PartType :: string
  idl_ExternalInputs :: "InternalLink list"
  idl_ExternalOutputs :: "InternalLink list"
  idl_GnssInput :: InternalLink

record delayCompensation =
  dc_DelayPs :: int
  dc_pinLabel :: string
  dc_iface :: string
  dc_direction :: string
  dc_clockId :: string

record E810UblxCmds =
  uc_ReportOutput :: bool
  uc_Args :: "string list"

record E810Opts =
  eo_EnableDefaultConfig :: bool
  eo_UblxCmds :: "E810UblxCmds list"
  eo_DevicePins :: "(string \<times> (string \<times> string) list) list"
  eo_DpllSettings :: "(string \<times> nat) list"
  eo_PhaseOffsetPins :: "(string \<times> (string \<times> string) list) list"
  eo_InputDelays :: "InputPhaseDelays list"

text \<open>The table \<open>hardware\<close>, which the code keeps as YAML text.\<close>

definition internal_link :: "string \<Rightarrow> string \<Rightarrow> int \<Rightarrow> InternalLink" where
  "internal_link connector pin delay = \<lparr>il_Connector = connector, il_Pin = pin, il_DelayPs = delay\<rparr>"

definition hardware :: "(string \<times> InternalDelays) list" where
  "hardware =
     [(''E810-XXVDA4T'',
       \<lparr>idl_PartType = ''E810-XXVDA4T'',
        idl_ExternalInputs =
          [internal_link ''SMA1'' ''SMA1'' 7658, internal_link ''SMA2'' ''SMA2/U.FL2'' 7385,
           internal_link ''u.FL2'' ''SMA2/U.FL2'' 9795],
        idl_ExternalOutputs =
          [internal_link ''u.FL1'' ''REF-SMA1'' 1274, internal_link ''SMA1'' ''REF-SMA1'' 1376,
           internal_link ''SMA2'' ''REF-SMA2/U.FL2'' 2908],
        idl_GnssInput = internal_link ''GNSS'' ''GNSS-1PPS'' 6999\<rparr>)]"

definition InitInternalDelays :: "string \<Rightarrow> InternalDelays res" where
  "InitInternalDelays part =
     (case map_of hardware part of None \<Rightarrow> Inl (GoErr (''can't find delays for '' @ part)) | Some delays \<Rightarrow> Inr delays)"

definition findInternalLink :: "InternalLink list \<Rightarrow> string \<Rightarrow> InternalLink option" where
  "findInternalLink links connector = find (\<lambda>link. EqualFold (il_Connector link) connector) links"

section \<open>Delay compensation\<close>

definition clock_id_key :: "string \<Rightarrow> string" where
  "clock_id_key iface = ''clockId['' @ iface @ '']''"

definition addClockId :: "string \<Rightarrow> (string \<times> string) list \<Rightarrow> string res" where
  "addClockId iface settings =
     (case map_of settings (clock_id_key iface) of
        None \<Rightarrow> Inl (GoErr (''plugin E810 error: can't find clock ID for interface '' @ iface @ '' - are all pins configured?''))
      | Some clockId \<Rightarrow> Inr clockId)"

text \<open>One compensation: the link of the table, then the clock id. \<open>DelayPs\<close> is an \<open>int32\<close>.\<close>

definition compensation ::
    "(string \<times> string) list \<Rightarrow> InputPhaseDelays \<Rightarrow> string \<Rightarrow> int \<Rightarrow> InternalLink \<Rightarrow> delayCompensation res" where
  "compensation settings hw direction externalDelay link =
     res_bind (addClockId (ipd_Id hw) settings) (\<lambda>clockId.
       Inr \<lparr>dc_DelayPs = to_i32 (to_i32 externalDelay + il_DelayPs link), dc_pinLabel = il_Pin link,
            dc_iface = ipd_Id hw, dc_direction = direction, dc_clockId = clockId\<rparr>)"

definition link_of :: "InputPhaseDelays \<Rightarrow> InternalLink list \<Rightarrow> string \<Rightarrow> InternalLink res" where
  "link_of hw links connector =
     (case findInternalLink links connector of
        None \<Rightarrow> Inl (GoErr (''plugin E810 error: can't find connector '' @ connector @ '' in the hw '' @ ipd_Part hw @ '' spec''))
      | Some link \<Rightarrow> Inr link)"

fun output_compensations ::
    "(string \<times> string) list \<Rightarrow> InputPhaseDelays \<Rightarrow> InternalLink list \<Rightarrow> string list \<Rightarrow> delayCompensation list res" where
  "output_compensations settings hw links [] = Inr []"
| "output_compensations settings hw links (conn # conns) =
     res_bind (link_of hw links conn) (\<lambda>link.
     res_bind (compensation settings hw ''output'' 0 link) (\<lambda>c.
     res_bind (output_compensations settings hw links conns) (\<lambda>cs. Inr (c # cs))))"

definition card_compensations :: "(string \<times> string) list \<Rightarrow> InputPhaseDelays \<Rightarrow> delayCompensation list res" where
  "card_compensations settings hw =
     res_bind (InitInternalDelays (ipd_Part hw)) (\<lambda>delays.
     res_bind
       (case ipd_Input hw of
          None \<Rightarrow> Inr []
        | Some input \<Rightarrow>
            res_bind (link_of hw (idl_ExternalInputs delays) (in_Connector input)) (\<lambda>link.
            res_bind (compensation settings hw ''input'' (in_DelayPs input) link) (\<lambda>c. Inr [c]))) (\<lambda>inputs.
     res_bind
       (if ipd_GnssInput hw
        then res_bind (compensation settings hw ''input'' 0 (idl_GnssInput delays)) (\<lambda>c. Inr [c]) else Inr []) (\<lambda>gnss.
     res_bind (output_compensations settings hw (idl_ExternalOutputs delays) (ipd_PhaseOutputConnectors hw)) (\<lambda>outputs.
       Inr (inputs @ gnss @ outputs)))))"

fun findDelayCompensation :: "(string \<times> string) list \<Rightarrow> InputPhaseDelays list \<Rightarrow> delayCompensation list res" where
  "findDelayCompensation settings [] = Inr []"
| "findDelayCompensation settings (hw # cards) =
     res_bind (card_compensations settings hw) (\<lambda>cs.
     res_bind (findDelayCompensation settings cards) (\<lambda>rest. Inr (cs @ rest)))"

section \<open>Effects\<close>

datatype e810_effect =
    RunConfigScript
  | WritePin string string
  | PhaseAdjust u32 int
  | UbxTool "string list"

text \<open>
  The plugin's surroundings: the PCI configuration file of a device, the random clock ids of unit tests, the PHCs below a
  device, whether the DPLL can be dialled, the pins it dumps, and whether it takes an adjustment.
\<close>

record e810_env =
  e8_config :: "string \<Rightarrow> u8 list option"
  e8_random :: "string \<Rightarrow> nat"
  e8_phcs :: "string \<Rightarrow> string list option"
  e8_dial :: bool
  e8_pins :: "DoPinGetReply list option"
  e8_adjusted :: "u32 \<Rightarrow> int \<Rightarrow> bool"

text \<open>\<open>sendDelayCompensation\<close>: the requests sent, and the error that ended it. The list is reached through a pointer.\<close>

definition pin_matches :: "DoPinGetReply \<Rightarrow> nat \<Rightarrow> delayCompensation \<Rightarrow> bool" where
  "pin_matches pin desired dc \<longleftrightarrow> of_nat desired = pr_ClockId pin \<and> EqualFold (pr_BoardLabel pin) (dc_pinLabel dc)"

fun adjust_pin :: "e810_env \<Rightarrow> DoPinGetReply \<Rightarrow> delayCompensation list \<Rightarrow> e810_effect list \<times> go_error option" where
  "adjust_pin env pin [] = ([], None)"
| "adjust_pin env pin (dc # dcs) =
     (case ParseUint (dc_clockId dc) 10 64 of
        (_, Some _) \<Rightarrow> ([], Some (GoErr (''failed to parse clock id '' @ dc_clockId dc)))
      | (desired, None) \<Rightarrow>
          if \<not> pin_matches pin desired dc then adjust_pin env pin dcs
          else if \<not> e8_adjusted env (pr_Id pin) (dc_DelayPs dc) then
            ([PhaseAdjust (pr_Id pin) (dc_DelayPs dc)], Some (GoErr (''failed to send phase adjustment to '' @ pr_BoardLabel pin)))
          else (let (es, e) = adjust_pin env pin dcs in (PhaseAdjust (pr_Id pin) (dc_DelayPs dc) # es, e)))"

fun adjust_pins :: "e810_env \<Rightarrow> DoPinGetReply list \<Rightarrow> delayCompensation list \<Rightarrow> e810_effect list \<times> go_error option" where
  "adjust_pins env [] dcs = ([], None)"
| "adjust_pins env (pin # pins) dcs =
     (case adjust_pin env pin dcs of
        (es, Some e) \<Rightarrow> (es, Some e)
      | (es, None) \<Rightarrow> (let (es', e) = adjust_pins env pins dcs in (es @ es', e)))"

definition sendDelayCompensation ::
    "e810_env \<Rightarrow> delayCompensation list option \<Rightarrow> (e810_effect list \<times> go_error option) res" where
  "sendDelayCompensation env comps =
     (if \<not> e8_dial env then Inr ([], Some (GoErr ''failed to dial DPLL''))
      else case e8_pins env of
        None \<Rightarrow> Inr ([], Some (GoErr ''failed to dump DPLL pins''))
      | Some pins \<Rightarrow>
          (case comps of
             None \<Rightarrow> if pins = [] then Inr ([], None) else Inl NilDereference
           | Some dcs \<Rightarrow> Inr (adjust_pins env pins dcs)))"

section \<open>A change of the profile\<close>

text \<open>A computation that may panic or never end.\<close>

definition run_bind :: "'a res option \<Rightarrow> ('a \<Rightarrow> 'b res option) \<Rightarrow> 'b res option" where
  "run_bind r f = (case r of None \<Rightarrow> None | Some (Inl e) \<Rightarrow> Some (Inl e) | Some (Inr x) \<Rightarrow> f x)"

lemma run_bind_simps [simp]:
  "run_bind None f = None" "run_bind (Some (Inl e)) f = Some (Inl e)" "run_bind (Some (Inr x)) f = f x"
  by (simp_all add: run_bind_def)

lemma run_bind_Inr_iff: "run_bind r f = Some (Inr y) \<longleftrightarrow> (\<exists>x. r = Some (Inr x) \<and> f x = Some (Inr y))"
  by (cases r; cases "the r") auto

definition pin_path :: "string \<Rightarrow> string \<Rightarrow> string \<Rightarrow> string" where
  "pin_path device phc pin =
     ''/sys/class/net/'' @ device @ ''/device/ptp/'' @ phc @
       (if HasPrefix pin ''SDP'' then ''/period'' else ''/pins/'' @ pin)"

definition device_pins :: "e810_env \<Rightarrow> string \<Rightarrow> (string \<times> string) list \<Rightarrow> e810_effect list" where
  "device_pins env device pins =
     (case e8_phcs env device of
        None \<Rightarrow> []
      | Some phcs \<Rightarrow> concat (map (\<lambda>pv. map (\<lambda>phc. WritePin (pin_path device phc (fst pv)) (snd pv)) phcs) pins))"

fun devices_step ::
    "e810_env \<Rightarrow> bool \<Rightarrow> (string \<times> (string \<times> string) list) list \<Rightarrow> (string \<times> string) list
       \<Rightarrow> ((string \<times> string) list \<times> e810_effect list) res option" where
  "devices_step env unitTest [] settings = Some (Inr (settings, []))"
| "devices_step env unitTest ((device, pins) # devs) settings =
     run_bind (if unitTest then Some (Inr (e8_random env device)) else getClockIdE810 (e8_config env device)) (\<lambda>clockId.
     run_bind (devices_step env unitTest devs (AList.update (clock_id_key device) (fmt_base 10 clockId) settings))
       (\<lambda>(settings', es). Some (Inr (settings', (if unitTest then [] else device_pins env device pins) @ es))))"

definition default_setting :: "string \<times> nat \<Rightarrow> (string \<times> string) list \<Rightarrow> (string \<times> string) list" where
  "default_setting kv settings =
     (if map_of settings (fst kv) = None then AList.update (fst kv) (fmt_base 10 (snd kv)) settings else settings)"

text \<open>The phase-offset filters: the loop is left at the first interface that is not a device of the plugin.\<close>

definition filter_key :: "string \<Rightarrow> nat \<Rightarrow> string \<Rightarrow> string" where
  "filter_key iface clockId pinProperty = Join [iface, ''phaseOffsetFilter'', fmt_base 10 clockId, pinProperty] ''.''"

fun phase_filters ::
    "e810_env \<Rightarrow> string list \<Rightarrow> (string \<times> (string \<times> string) list) list \<Rightarrow> (string \<times> string) list
       \<Rightarrow> (string \<times> string) list res option" where
  "phase_filters env devices [] settings = Some (Inr settings)"
| "phase_filters env devices ((iface, properties) # rest) settings =
     (if iface \<notin> set devices then Some (Inr settings)
      else if properties = [] then phase_filters env devices rest settings
      else run_bind (getClockIdE810 (e8_config env iface)) (\<lambda>clockId.
        phase_filters env devices rest (fold (\<lambda>pv. AList.update (filter_key iface clockId (fst pv)) (snd pv)) properties settings)))"

definition OnPTPConfigChangeE810 ::
    "e810_env \<Rightarrow> E810Opts option \<Rightarrow> (string \<times> string) list \<Rightarrow> ((string \<times> string) list \<times> e810_effect list) res option" where
  "OnPTPConfigChangeE810 env pluginOpts settings =
     (case pluginOpts of
        None \<Rightarrow> Some (Inr (settings, []))
      | Some opts \<Rightarrow>
          (let unitTest = (map_of settings ''unitTest'' \<noteq> None) in
           run_bind (devices_step env unitTest (eo_DevicePins opts) settings) (\<lambda>(settings1, es).
           run_bind (Some (sendDelayCompensation env
               (case findDelayCompensation settings1 (eo_InputDelays opts) of Inl _ \<Rightarrow> None | Inr dcs \<Rightarrow> Some dcs))) (\<lambda>(sent, _).
           run_bind (phase_filters env (map fst (eo_DevicePins opts)) (eo_PhaseOffsetPins opts)
               (fold default_setting (eo_DpllSettings opts) settings1)) (\<lambda>settings2.
             Some (Inr (settings2, (if eo_EnableDefaultConfig opts then [RunConfigScript] else []) @ es @ sent)))))))"

section \<open>After a process has been started, and the report\<close>

definition getDefaultUblxCmds :: "E810UblxCmds list" where
  "getDefaultUblxCmds = map (\<lambda>args. \<lparr>uc_ReportOutput = False, uc_Args = args\<rparr>)
     [[''-p'', ''CFG-MSG,1,34,1''], [''-p'', ''CFG-MSG,1,3,1''], [''-p'', ''CFG-MSG,0xf0,0x02,0''],
      [''-p'', ''CFG-MSG,0xf0,0x03,0''], [''-z'', ''CFG-MSGOUT-NMEA_ID_VTG_I2C,0''],
      [''-z'', ''CFG-MSGOUT-NMEA_ID_GST_I2C,0''], [''-z'', ''CFG-MSGOUT-NMEA_ID_ZDA_I2C,0''],
      [''-z'', ''CFG-MSGOUT-NMEA_ID_GBS_I2C,0''], [''-p'', ''SAVE'']]"

text \<open>The plugin's data are the status strings \<open>hwplugins\<close>; \<open>ubxtool\<close> maps arguments to their output.\<close>

definition ublx_step :: "(string list \<Rightarrow> string) \<Rightarrow> E810UblxCmds \<Rightarrow> string list \<times> e810_effect list \<Rightarrow> string list \<times> e810_effect list" where
  "ublx_step ubxtool c st =
     (if uc_ReportOutput c then fst st @ [''ublx data: '' @ ubxtool (uc_Args c)] else fst st, snd st @ [UbxTool (uc_Args c)])"

definition AfterRunPTPCommandE810 ::
    "(string list \<Rightarrow> string) \<Rightarrow> string list \<Rightarrow> E810Opts option \<Rightarrow> string \<Rightarrow> string list \<times> e810_effect list" where
  "AfterRunPTPCommandE810 ubxtool hwplugins pluginOpts command =
     (case pluginOpts of
        None \<Rightarrow> (hwplugins, [])
      | Some opts \<Rightarrow>
          if command = ''gpspipe'' then fold (ublx_step ubxtool) (eo_UblxCmds opts @ getDefaultUblxCmds) (hwplugins, [])
          else (hwplugins, []))"

text \<open>\<open>HwConfig\<close> is a device id with a status.\<close>

definition PopulateHwConfigE810 :: "string list \<Rightarrow> (string \<times> string) list \<Rightarrow> (string \<times> string) list" where
  "PopulateHwConfigE810 hwplugins hwconfigs = hwconfigs @ map (\<lambda>status. (''e810'', status)) hwplugins"

section \<open>The clock id of a card\<close>

lemma le_bytes_bound: "le_bytes bs < 256 ^ length bs"
proof (induction bs)
  case (Cons x xs)
  have "unat x < 2 ^ LENGTH(8)" by (rule unsigned_less)
  with Cons show ?case by simp
qed simp

lemma le64_bound: "le64 b i = Inr n \<Longrightarrow> n < 2 ^ 64"
  using le_bytes_bound [of "take 8 (drop i b)"] by (auto simp: le64_def split: if_splits)

lemma getClockIdE810_bound: "getClockIdE810 config = Some (Inr n) \<Longrightarrow> n < 2 ^ 64"
  by (auto simp: getClockIdE810_def dest: le64_bound split: option.splits sum.splits)

lemma clock_id_key_inject [simp]: "clock_id_key d = clock_id_key d' \<longleftrightarrow> d = d'"
  by (simp add: clock_id_key_def)

lemma devices_step_other:
  "devices_step env u devs s = Some (Inr (s', es)) \<Longrightarrow> d \<notin> fst ` set devs \<Longrightarrow>
    map_of s' (clock_id_key d) = map_of s (clock_id_key d)"
  by (induction devs arbitrary: s s' es)
    (auto simp: run_bind_Inr_iff update_conv' split: prod.splits)

lemma devices_step_clock:
  "devices_step env False devs s = Some (Inr (s', es)) \<Longrightarrow> distinct (map fst devs) \<Longrightarrow> (d, pins) \<in> set devs \<Longrightarrow>
    \<exists>n. getClockIdE810 (e8_config env d) = Some (Inr n) \<and> map_of s' (clock_id_key d) = Some (fmt_base 10 n)"
proof (induction devs arbitrary: s s' es)
  case (Cons dp devs)
  obtain d0 ps where dp: "dp = (d0, ps)" by force
  from Cons.prems(1) obtain n es' where
    n: "getClockIdE810 (e8_config env d0) = Some (Inr n)"
      "devices_step env False devs (AList.update (clock_id_key d0) (fmt_base 10 n) s) = Some (Inr (s', es'))"
    by (auto simp: dp run_bind_Inr_iff split: prod.splits)
  show ?case
  proof (cases "d = d0")
    case True
    then have "d \<notin> fst ` set devs" using Cons.prems(2) by (simp add: dp)
    then show ?thesis using True n(1) devices_step_other [OF n(2)] by (simp add: update_conv')
  next
    case False
    then show ?thesis using Cons.IH [OF n(2)] Cons.prems(2,3) by (auto simp: dp)
  qed
qed simp

lemma devices_step_distinct:
  "devices_step env u devs s = Some (Inr (s', es)) \<Longrightarrow> distinct (map fst s) \<Longrightarrow> distinct (map fst s')"
  by (induction devs arbitrary: s s' es) (auto simp: run_bind_Inr_iff distinct_update split: prod.splits)

lemma default_setting_keeps: "map_of s k = Some v \<Longrightarrow> map_of (default_setting kv s) k = Some v"
  by (auto simp: default_setting_def update_conv')

lemma default_settings_keep: "map_of s k = Some v \<Longrightarrow> map_of (fold default_setting kvs s) k = Some v"
  by (induction kvs arbitrary: s) (simp_all add: default_setting_keeps)

lemma default_settings_distinct: "distinct (map fst s) \<Longrightarrow> distinct (map fst (fold default_setting kvs s))"
  by (induction kvs arbitrary: s) (auto simp: default_setting_def distinct_update)

lemma Contains_filter_key: "Contains (filter_key iface n p) ''phaseOffsetFilter''"
  using sublist_appendI [of "''phaseOffsetFilter''" "iface @ ''.''" "''.'' @ fmt_base 10 n @ ''.'' @ p"]
  by (simp add: filter_key_def Contains_sublist)

lemma filter_updates_keep:
  "\<not> Contains k ''phaseOffsetFilter'' \<Longrightarrow>
    map_of (fold (\<lambda>pv. AList.update (filter_key iface n (fst pv)) (snd pv)) ps s) k = map_of s k"
  using Contains_filter_key by (induction ps arbitrary: s) (auto simp: update_conv')

lemma filter_updates_distinct:
  "distinct (map fst s) \<Longrightarrow> distinct (map fst (fold (\<lambda>pv. AList.update (filter_key iface n (fst pv)) (snd pv)) ps s))"
  by (induction ps arbitrary: s) (auto simp: distinct_update)

lemma phase_filters_keep:
  "phase_filters env devs ps s = Some (Inr s') \<Longrightarrow> \<not> Contains k ''phaseOffsetFilter'' \<Longrightarrow> map_of s' k = map_of s k"
  by (induction ps arbitrary: s) (auto simp: run_bind_Inr_iff filter_updates_keep split: if_splits)

lemma phase_filters_distinct:
  "phase_filters env devs ps s = Some (Inr s') \<Longrightarrow> distinct (map fst s) \<Longrightarrow> distinct (map fst s')"
  by (induction ps arbitrary: s) (auto simp: run_bind_Inr_iff filter_updates_distinct split: if_splits)

text \<open>The DPLL settings of an interface: the entry with its clock id decides, wherever it stands.\<close>

lemma dpll_setting_finds_clockId:
  assumes "distinct (map fst s)" and "map_of s (clock_id_key d) = Some (fmt_base 10 n)" and "n < 2 ^ 64"
  shows "dq_clockId (fold (dpll_setting d) s q) = of_nat n"
  using assms
proof (induction s arbitrary: q)
  case (Cons kv s)
  show ?case
  proof (cases "fst kv = clock_id_key d")
    case True
    then have other: "\<forall>x \<in> set s. fst x \<noteq> ''clockId['' @ d @ '']''"
      using Cons.prems(1) by (force simp: clock_id_key_def)
    have "\<not> Contains (clock_id_key d) (d @ ''.phaseOffset'')"
      using sublist_length_le [of "d @ ''.phaseOffset''" "clock_id_key d"] by (auto simp: clock_id_key_def Contains_sublist)
    moreover have "snd kv = fmt_base 10 n" using True Cons.prems(2) by (cases kv) simp
    ultimately have "dq_clockId (dpll_setting d kv q) = of_nat n"
      using True Cons.prems(3) by (simp add: dpll_setting_def ParseUint_fmt_base clock_id_key_def)
    then show ?thesis using other by (simp add: dpll_setting_clockId)
  qed (use Cons in auto)
qed simp

lemma init_dpll_sel:
  "dp_iface (CmdInit sys nl (NewDpll c h t m i srcs api f)) = i"
  "dp_clockId (CmdInit sys nl (NewDpll c h t m i srcs api f)) = c"
  by (simp_all add: CmdInit_def setAPIType_def NewDpll_def Let_def)

lemma dpll_deps_clockId:
  "\<forall>q. dq_clockId (fold (dpll_setting d) (pp_PtpSettings prof) q) = c \<Longrightarrow>
    dpll_deps env prof ifs q = Inr ds \<Longrightarrow> DpllDep dd \<in> set ds \<Longrightarrow> dp_iface dd = d \<Longrightarrow> dp_clockId dd = c"
proof (induction ifs arbitrary: q ds)
  case (Cons i ifs)
  then show ?case by (auto simp: Let_def res_bind_Inr_iff init_dpll_sel split: if_splits)
qed simp


definition demo_e810_env :: e810_env where
  "demo_e810_env = \<lparr>e8_config = (\<lambda>d. if d = ''ens1f0'' then Some demo_config else None), e8_random = (\<lambda>d. 0),
     e8_phcs = (\<lambda>d. Some [''ptp2'']), e8_dial = True, e8_pins = Some [zero_pin], e8_adjusted = (\<lambda>i x. True)\<rparr>"

definition demo_opts :: E810Opts where
  "demo_opts = \<lparr>eo_EnableDefaultConfig = False, eo_UblxCmds = [], eo_DevicePins = [(''ens1f0'', [(''SMA1'', ''2 1'')])],
     eo_DpllSettings = [(''MaxInSpecOffset'', 100)], eo_PhaseOffsetPins = [], eo_InputDelays = []\<rparr>"

lemma demo_clock_id: "getClockIdE810 (Some demo_config) = Some (Inr 0x507C2A000062BF5E)"
proof -
  have "cap_chain demo_config 256 [264] 264" "le16 demo_config 264 = Inr 3" "le64 demo_config 268 = Inr 0x507C2A000062BF5E"
    by (simp_all add: demo_config_def cap_link_def le16_def le64_def byte_at_def u16_add_def nth_append)
  moreover from this have "find_dsn demo_config 256 = Some (Inr (Some 264))"
    using find_dsn_chain [of demo_config 256 "[264]" 264] find_dsn.simps [of demo_config 264] by simp
  ultimately show ?thesis by (simp add: getClockIdE810_def u16_add_def)
qed

lemma dpll_deps_first:
  "dpll_deps env prof (i # ifs) q = Inr ds \<Longrightarrow> if_Source i = GNSS \<or> if_Source i = PPS \<Longrightarrow>
    \<exists>dd. DpllDep dd \<in> set ds \<and> dp_iface dd = if_Name i"
  by (auto simp: Let_def res_bind_Inr_iff) (metis init_dpll_sel(1) list.set_intros(1))+


section \<open>Phase adjustments\<close>

text \<open>A card in the table, with the connectors named, and with a clock id in the settings if it needs one.\<close>

definition card_known :: "(string \<times> string) list \<Rightarrow> InputPhaseDelays \<Rightarrow> bool" where
  "card_known settings hw \<longleftrightarrow>
     (case map_of hardware (ipd_Part hw) of
        None \<Rightarrow> False
      | Some delays \<Rightarrow>
          (case ipd_Input hw of None \<Rightarrow> True
           | Some input \<Rightarrow> findInternalLink (idl_ExternalInputs delays) (in_Connector input) \<noteq> None)
          \<and> (\<forall>conn \<in> set (ipd_PhaseOutputConnectors hw). findInternalLink (idl_ExternalOutputs delays) conn \<noteq> None)
          \<and> (ipd_Input hw = None \<and> \<not> ipd_GnssInput hw \<and> ipd_PhaseOutputConnectors hw = []
             \<or> map_of settings (clock_id_key (ipd_Id hw)) \<noteq> None))"

lemma compensation_known:
  "(\<exists>c. compensation settings hw dir ext link = Inr c) \<longleftrightarrow> map_of settings (clock_id_key (ipd_Id hw)) \<noteq> None"
  by (auto simp: compensation_def addClockId_def split: option.splits)

lemma compensation_clock_id:
  "compensation settings hw dir ext link = Inr c \<Longrightarrow> map_of settings (clock_id_key (dc_iface c)) = Some (dc_clockId c)"
  by (auto simp: compensation_def addClockId_def split: option.splits)

lemma output_compensations_known:
  "(\<exists>cs. output_compensations settings hw links conns = Inr cs) \<longleftrightarrow>
    (\<forall>conn \<in> set conns. findInternalLink links conn \<noteq> None) \<and>
    (conns = [] \<or> map_of settings (clock_id_key (ipd_Id hw)) \<noteq> None)"
proof (induction conns)
  case (Cons conn conns)
  have "(\<exists>cs. output_compensations settings hw links (conn # conns) = Inr cs) \<longleftrightarrow>
      (\<exists>link. findInternalLink links conn = Some link \<and> (\<exists>c. compensation settings hw ''output'' 0 link = Inr c)) \<and>
      (\<exists>cs. output_compensations settings hw links conns = Inr cs)"
    by (auto simp: res_bind_Inr_iff link_of_def split: option.splits)
  then show ?case unfolding compensation_known Cons.IH by auto
qed simp

lemma output_compensations_clock_id:
  "output_compensations settings hw links conns = Inr cs \<Longrightarrow> c \<in> set cs \<Longrightarrow>
    map_of settings (clock_id_key (dc_iface c)) = Some (dc_clockId c)"
  by (induction conns arbitrary: cs) (auto simp: res_bind_Inr_iff compensation_clock_id)

lemma card_compensations_known: "(\<exists>cs. card_compensations settings hw = Inr cs) \<longleftrightarrow> card_known settings hw"
proof (cases "map_of hardware (ipd_Part hw)")
  case None
  then show ?thesis by (simp add: card_compensations_def InitInternalDelays_def card_known_def)
next
  case (Some delays)
  have "(\<exists>cs. card_compensations settings hw = Inr cs) \<longleftrightarrow>
      (\<forall>input. ipd_Input hw = Some input \<longrightarrow>
         (\<exists>link. findInternalLink (idl_ExternalInputs delays) (in_Connector input) = Some link \<and>
            (\<exists>c. compensation settings hw ''input'' (in_DelayPs input) link = Inr c))) \<and>
      (ipd_GnssInput hw \<longrightarrow> (\<exists>c. compensation settings hw ''input'' 0 (idl_GnssInput delays) = Inr c)) \<and>
      (\<exists>cs. output_compensations settings hw (idl_ExternalOutputs delays) (ipd_PhaseOutputConnectors hw) = Inr cs)"
    by (auto simp: card_compensations_def InitInternalDelays_def Some res_bind_Inr_iff link_of_def split: option.splits)
  then show ?thesis
    unfolding compensation_known output_compensations_known by (auto simp: card_known_def Some split: option.splits)
qed

lemma card_compensations_clock_id:
  "card_compensations settings hw = Inr cs \<Longrightarrow> c \<in> set cs \<Longrightarrow> map_of settings (clock_id_key (dc_iface c)) = Some (dc_clockId c)"
  by (auto simp: card_compensations_def res_bind_Inr_iff split: option.splits if_splits)
    (metis compensation_clock_id output_compensations_clock_id)+

lemma findDelayCompensation_clock_id:
  "findDelayCompensation settings cards = Inr cs \<Longrightarrow> c \<in> set cs \<Longrightarrow>
    map_of settings (clock_id_key (dc_iface c)) = Some (dc_clockId c)"
  by (induction cards arbitrary: cs) (auto simp: res_bind_Inr_iff dest: card_compensations_clock_id)

lemma findDelayCompensation_known:
  "(\<exists>cs. findDelayCompensation settings cards = Inr cs) \<longleftrightarrow> (\<forall>hw \<in> set cards. card_known settings hw)"
proof (induction cards)
  case (Cons hw cards)
  have "(\<exists>cs. findDelayCompensation settings (hw # cards) = Inr cs) \<longleftrightarrow>
      (\<exists>cs. card_compensations settings hw = Inr cs) \<and> (\<exists>cs. findDelayCompensation settings cards = Inr cs)"
    by (auto simp: res_bind_Inr_iff)
  then show ?case unfolding card_compensations_known Cons.IH by simp
qed simp

text \<open>
  The compensations exist exactly if every card is known; then each compensation carries the clock id of its card.
\<close>

theorem delay_compensations:
  "if \<forall>hw \<in> set cards. card_known settings hw
   then \<exists>dcs. findDelayCompensation settings cards = Inr dcs \<and>
     (\<forall>dc \<in> set dcs. map_of settings (clock_id_key (dc_iface dc)) = Some (dc_clockId dc))
   else \<exists>e. findDelayCompensation settings cards = Inl e"
proof (cases "\<forall>hw \<in> set cards. card_known settings hw")
  case True
  then show ?thesis using findDelayCompensation_known findDelayCompensation_clock_id by (metis (no_types, lifting))
next
  case False
  then show ?thesis using findDelayCompensation_known [of settings cards] by (cases "findDelayCompensation settings cards") auto
qed

text \<open>The compensations meant for a pin have its clock id and, up to upper and lower case, its board label.\<close>

definition wanted :: "DoPinGetReply \<Rightarrow> delayCompensation \<Rightarrow> bool" where
  "wanted pin dc \<longleftrightarrow> dc_clockId dc = fmt_base 10 (unat (pr_ClockId pin)) \<and> EqualFold (pr_BoardLabel pin) (dc_pinLabel dc)"

lemma pin_matches_wanted:
  assumes "dc_clockId dc = fmt_base 10 n" and "n < 2 ^ 64"
  shows "ParseUint (dc_clockId dc) 10 64 = (n, None)" and "pin_matches pin n dc \<longleftrightarrow> wanted pin dc"
proof -
  have "(of_nat n :: u64) = w \<longleftrightarrow> n = unat w" for w using assms(2) by (auto simp: unat_of_nat)
  then show "pin_matches pin n dc \<longleftrightarrow> wanted pin dc"
    by (auto simp: pin_matches_def wanted_def assms(1) dest: fmt_base_inj)
  show "ParseUint (dc_clockId dc) 10 64 = (n, None)"
    unfolding assms(1) by (rule ParseUint_fmt_base) (use assms(2) in simp_all)
qed

lemma adjust_pin_requests:
  "\<forall>dc \<in> set dcs. \<exists>n < 2 ^ 64. dc_clockId dc = fmt_base 10 n \<Longrightarrow> \<forall>i x. e8_adjusted env i x \<Longrightarrow>
    adjust_pin env pin dcs = (map (\<lambda>dc. PhaseAdjust (pr_Id pin) (dc_DelayPs dc)) (filter (wanted pin) dcs), None)"
proof (induction dcs)
  case (Cons dc dcs)
  then obtain n where "dc_clockId dc = fmt_base 10 n" "n < 2 ^ 64" by auto
  note n = pin_matches_wanted [OF this]
  show ?case using Cons by (simp add: n)
qed simp

lemma adjust_pins_requests:
  assumes "\<forall>dc \<in> set dcs. \<exists>n < 2 ^ 64. dc_clockId dc = fmt_base 10 n" and "\<forall>i x. e8_adjusted env i x"
  shows "adjust_pins env pins dcs =
    (concat (map (\<lambda>pin. map (\<lambda>dc. PhaseAdjust (pr_Id pin) (dc_DelayPs dc)) (filter (wanted pin) dcs)) pins), None)"
  by (induction pins) (simp_all add: adjust_pin_requests [OF assms])

text \<open>
  C25. The requests, when the driver takes them all: for each pin, in the order dumped, the compensations that are meant
  for it, in their order.
\<close>

theorem adjustments_sent:
  assumes "e8_dial env" and "e8_pins env = Some pins" and "\<forall>i x. e8_adjusted env i x"
    and "\<forall>dc \<in> set dcs. \<exists>n < 2 ^ 64. dc_clockId dc = fmt_base 10 n"
  shows "sendDelayCompensation env (Some dcs) =
    Inr (concat (map (\<lambda>pin. map (\<lambda>dc. PhaseAdjust (pr_Id pin) (dc_DelayPs dc)) (filter (wanted pin) dcs)) pins), None)"
  using assms adjust_pins_requests by (simp add: sendDelayCompensation_def)

text \<open>
  A card that is not in the table, or a connector or clock id that is missing, leaves no list to send; the sending goes through
  the missing list all the same, and panics as soon as the node has a DPLL pin.
\<close>

theorem unknown_card_panics:
  assumes "hw \<in> set (eo_InputDelays opts)" and "e8_dial env" and "e8_pins env = Some (pin # pins)"
    and devs: "devices_step env (map_of settings ''unitTest'' \<noteq> None) (eo_DevicePins opts) settings = Some (Inr (settings1, es))"
    and "\<not> card_known settings1 hw"
  shows "OnPTPConfigChangeE810 env (Some opts) settings = Some (Inl NilDereference)"
proof -
  obtain e where "findDelayCompensation settings1 (eo_InputDelays opts) = Inl e"
    using findDelayCompensation_known [of settings1 "eo_InputDelays opts"] assms(1,5) by (meson old.sum.exhaust)
  then show ?thesis using assms(2,3) devs by (simp add: OnPTPConfigChangeE810_def sendDelayCompensation_def)
qed

text \<open>The plugin's data are only ever appended to: every start of gpspipe adds the same reports again.\<close>

definition ublx_reports :: "(string list \<Rightarrow> string) \<Rightarrow> E810Opts \<Rightarrow> string list" where
  "ublx_reports ubxtool opts = map (\<lambda>c. ''ublx data: '' @ ubxtool (uc_Args c)) (filter uc_ReportOutput (eo_UblxCmds opts))"

lemma ublx_steps:
  "fold (ublx_step ubxtool) cs (h, es) =
    (h @ map (\<lambda>c. ''ublx data: '' @ ubxtool (uc_Args c)) (filter uc_ReportOutput cs), es @ map (\<lambda>c. UbxTool (uc_Args c)) cs)"
  by (induction cs arbitrary: h es) (simp_all add: ublx_step_def)

lemma after_gpspipe:
  "AfterRunPTPCommandE810 ubxtool h (Some opts) ''gpspipe'' =
    (h @ ublx_reports ubxtool opts, map (\<lambda>c. UbxTool (uc_Args c)) (eo_UblxCmds opts @ getDefaultUblxCmds))"
proof -
  have "filter uc_ReportOutput getDefaultUblxCmds = []" by (simp add: getDefaultUblxCmds_def)
  then show ?thesis by (simp add: AfterRunPTPCommandE810_def ublx_steps ublx_reports_def del: fold_append)
qed

theorem e810_reports_accumulate:
  "PopulateHwConfigE810 (((\<lambda>h. fst (AfterRunPTPCommandE810 ubxtool h (Some opts) ''gpspipe'')) ^^ k) []) hwconfigs =
    hwconfigs @ map (\<lambda>status. (''e810'', status)) (concat (replicate k (ublx_reports ubxtool opts)))"
proof -
  have "((\<lambda>h. fst (AfterRunPTPCommandE810 ubxtool h (Some opts) ''gpspipe'')) ^^ k) h =
      h @ concat (replicate k (ublx_reports ubxtool opts))" for h
    by (induction k arbitrary: h) (simp_all add: after_gpspipe funpow_Suc_right del: funpow.simps(2))
  then show ?thesis by (simp add: PopulateHwConfigE810_def)
qed

section \<open>Examples\<close>

definition demo_card :: InputPhaseDelays where
  "demo_card = \<lparr>ipd_Id = ''ens1f0'', ipd_Part = ''E810-XXVDA4T'',
     ipd_Input = Some \<lparr>in_Connector = ''sma1'', in_DelayPs = 920, in_DelayVariationPs = 0\<rparr>, ipd_GnssInput = False,
     ipd_PhaseOutputConnectors = [''SMA2'']\<rparr>"

definition demo_comps :: "delayCompensation list" where
  "demo_comps =
     [\<lparr>dc_DelayPs = 8578, dc_pinLabel = ''SMA1'', dc_iface = ''ens1f0'', dc_direction = ''input'', dc_clockId = fmt_base 10 7\<rparr>,
      \<lparr>dc_DelayPs = 2908, dc_pinLabel = ''REF-SMA2/U.FL2'', dc_iface = ''ens1f0'', dc_direction = ''output'',
       dc_clockId = fmt_base 10 7\<rparr>]"

lemma demo_card_known: "card_known [(''clockId[ens1f0]'', fmt_base 10 7)] demo_card"
  by code_simp

theorem delay_compensations_witness:
  "(\<exists>dcs. findDelayCompensation [(''clockId[ens1f0]'', fmt_base 10 7)] [demo_card] = Inr dcs) \<and>
   (\<exists>e. findDelayCompensation [] [demo_card] = Inl e)"
proof -
  have "\<not> card_known [] demo_card" by code_simp
  then show ?thesis
    using delay_compensations [of "[demo_card]" "[(''clockId[ens1f0]'', fmt_base 10 7)]"]
      delay_compensations [of "[demo_card]" "[]"] demo_card_known
    by (auto simp del: findDelayCompensation.simps)
qed

lemma demo_comps_found: "findDelayCompensation [(''clockId[ens1f0]'', fmt_base 10 7)] [demo_card] = Inr demo_comps"
  by code_simp

theorem adjustments_sent_witness:
  "sendDelayCompensation
     (demo_e810_env\<lparr>e8_pins := Some [zero_pin\<lparr>pr_Id := 4, pr_ClockId := 7, pr_BoardLabel := ''SMA1''\<rparr>, zero_pin]\<rparr>)
     (Some demo_comps) = Inr ([PhaseAdjust 4 8578], None)"
proof -
  have "filter (wanted (zero_pin\<lparr>pr_Id := 4, pr_ClockId := 7, pr_BoardLabel := ''SMA1''\<rparr>)) demo_comps = [hd demo_comps]"
    "filter (wanted zero_pin) demo_comps = []" "dc_DelayPs (hd demo_comps) = 8578"
    by code_simp+
  moreover have "\<forall>dc \<in> set demo_comps. \<exists>n < 2 ^ 64. dc_clockId dc = fmt_base 10 n" by (auto simp: demo_comps_def intro!: exI [of _ 7])
  ultimately show ?thesis
    using adjustments_sent [of "demo_e810_env\<lparr>e8_pins := Some [zero_pin\<lparr>pr_Id := 4, pr_ClockId := 7, pr_BoardLabel := ''SMA1''\<rparr>, zero_pin]\<rparr>"]
    by (simp add: demo_e810_env_def)
qed

theorem unknown_card_panics_witness:
  "OnPTPConfigChangeE810 demo_e810_env
     (Some (demo_opts\<lparr>eo_DevicePins := [], eo_InputDelays := [demo_card\<lparr>ipd_Part := ''E810-CQDA2T''\<rparr>]\<rparr>)) [] =
   Some (Inl NilDereference)"
proof (rule unknown_card_panics)
  show "\<not> card_known [] (demo_card\<lparr>ipd_Part := ''E810-CQDA2T''\<rparr>)" by code_simp
qed (simp_all add: demo_e810_env_def)

end
