(* ===== verification/Network.thy ===== *)
theory Network
  imports Prelude
begin

text \<open>
  Network utilities, \<open>pkg/network/utils.go\<close>: which interfaces can do hardware time stamping, and which PTP clock
  an interface has; both read the output of ethtool.

  Shown: exactly which interfaces are discovered, and that a blank line in ethtool's output makes the daemon panic;
  the index of the PTP clock is read back.
\<close>

section \<open>Time stamping capabilities\<close>

text \<open>\<open>bufio.Scanner\<close> over lines: a final empty line is not one, and a carriage return at the end of a line is dropped.\<close>

definition scan_lines :: "string \<Rightarrow> string list" where
  "scan_lines s =
     (let ls = Split s CHR 0x0A; ls' = (if last ls = [] then butlast ls else ls)
      in map (\<lambda>l. if l \<noteq> [] \<and> last l = CHR 0x0D then butlast l else l) ls')"

text \<open>The flags for receive, transmit and raw clock; \<open>parts[0]\<close> panics on a blank line.\<close>

fun timestamp_flags :: "string list \<Rightarrow> bool \<times> bool \<times> bool \<Rightarrow> (bool \<times> bool \<times> bool) res" where
  "timestamp_flags [] flags = Inr flags"
| "timestamp_flags (l # ls) (rx, tx, raw) =
     (case Fields l of
        [] \<Rightarrow> Inl IndexOutOfRange
      | p # _ \<Rightarrow>
          timestamp_flags ls (rx \<or> p = ''hardware-receive'', tx \<or> p = ''hardware-transmit'', raw \<or> p = ''hardware-raw-clock''))"

definition netParseEthtoolTimeStampFeature :: "string \<Rightarrow> bool res" where
  "netParseEthtoolTimeStampFeature cmdOut =
     res_bind (timestamp_flags (scan_lines cmdOut) (False, False, False)) (\<lambda>(rx, tx, raw). Inr (rx \<and> tx \<and> raw))"

text \<open>
  The node: whether ethtool is installed, its interfaces, ethtool's output for one, the link below \<open>/sys/class/net\<close>,
  and which paths do not exist.
\<close>

record net_env =
  ne_ethtool :: bool
  ne_nics :: "string list option"
  ne_timestamps :: "string \<Rightarrow> string"
  ne_link :: "string \<Rightarrow> string option"
  ne_absent :: "string \<Rightarrow> bool"

text \<open>The device is a physical function of a known PCI device.\<close>

definition physical_device :: "net_env \<Rightarrow> string \<Rightarrow> bool" where
  "physical_device env link =
     (let pathSegments = Split link CHR ''/''; n = length pathSegments;
          dev = ''/sys/bus/pci/devices/'' @ pathSegments ! (n - 3)
      in 3 < n \<and> \<not> ne_absent env dev \<and> ne_absent env (dev @ ''/physfn''))"

definition physical :: "net_env \<Rightarrow> string \<Rightarrow> bool" where
  "physical env dev = (case ne_link env dev of None \<Rightarrow> False | Some link \<Rightarrow> physical_device env link)"

fun discover_nics :: "net_env \<Rightarrow> string list \<Rightarrow> string list res" where
  "discover_nics env [] = Inr []"
| "discover_nics env (dev # devs) =
     res_bind (netParseEthtoolTimeStampFeature (ne_timestamps env dev)) (\<lambda>capable.
     res_bind (discover_nics env devs) (\<lambda>nics.
       Inr (if capable \<and> physical env dev then dev # nics else nics)))"

definition DiscoverPTPDevices :: "net_env \<Rightarrow> string list res" where
  "DiscoverPTPDevices env =
     (if \<not> ne_ethtool env then Inl (GoErr ''discoverDevices(): ethtool not installed. Cannot grab NIC capabilities'')
      else case ne_nics env of
        None \<Rightarrow> Inl (GoErr ''discoverDevices(): error getting network info'')
      | Some nics \<Rightarrow> discover_nics env nics)"

section \<open>The PTP clock of an interface\<close>

text \<open>The first match of \<open>PTP Hardware Clock: (\d+)\<close>.\<close>

definition is_digit :: "char \<Rightarrow> bool" where
  "is_digit c \<longleftrightarrow> (of_char c :: nat) \<in> {48..57}"

definition clock_label :: string where
  "clock_label = ''PTP Hardware Clock: ''"

fun clock_match :: "string \<Rightarrow> string option" where
  "clock_match [] = None"
| "clock_match (c # s) =
     (let ds = takeWhile is_digit (drop (length clock_label) (c # s))
      in if HasPrefix (c # s) clock_label \<and> ds \<noteq> [] then Some ds else clock_match s)"

text \<open>\<open>fmt.Sscanln\<close> of a run of digits into an \<open>int\<close>: a leading zero makes the number octal, and other digits after it are an error.\<close>

definition scan_int :: "string \<Rightarrow> int option" where
  "scan_int ds =
     (let base = (if 1 < length ds \<and> hd ds = CHR ''0'' then 8 else 10)
      in case ParseInt ds base 64 of (i, None) \<Rightarrow> Some i | (_, Some _) \<Rightarrow> None)"

text \<open>\<open>out\<close> is absent when ethtool fails.\<close>

definition getPTPClockIndex :: "bool \<Rightarrow> string option \<Rightarrow> int res" where
  "getPTPClockIndex installed out =
     (if \<not> installed then Inl (GoErr ''discoverDevices(): ethtool not installed. Cannot grab NIC capabilities'')
      else case out of
        None \<Rightarrow> Inl (GoErr ''failed to run ethtool'')
      | Some o1 \<Rightarrow>
          (case clock_match o1 of
             None \<Rightarrow> Inl (GoErr ''no PTP hardware clock found'')
           | Some ds \<Rightarrow> (case scan_int ds of None \<Rightarrow> Inl (GoErr ''expected integer'') | Some i \<Rightarrow> Inr i)))"

definition GetPhcId :: "bool \<Rightarrow> string option \<Rightarrow> string" where
  "GetPhcId installed out =
     (case getPTPClockIndex installed out of Inl _ \<Rightarrow> '''' | Inr i \<Rightarrow> ''/dev/ptp'' @ fmt_int i)"

section \<open>Properties\<close>

definition has_blank_line :: "string \<Rightarrow> bool" where
  "has_blank_line out \<longleftrightarrow> (\<exists>l \<in> set (scan_lines out). Fields l = [])"

definition reports_feature :: "string \<Rightarrow> string \<Rightarrow> bool" where
  "reports_feature out f \<longleftrightarrow> (\<exists>l \<in> set (scan_lines out). Fields l \<noteq> [] \<and> hd (Fields l) = f)"

lemma timestamp_flags_result:
  "timestamp_flags ls (rx, tx, raw) =
    (if \<exists>l \<in> set ls. Fields l = [] then Inl IndexOutOfRange
     else Inr (rx \<or> (\<exists>l \<in> set ls. hd (Fields l) = ''hardware-receive''), tx \<or> (\<exists>l \<in> set ls. hd (Fields l) = ''hardware-transmit''),
               raw \<or> (\<exists>l \<in> set ls. hd (Fields l) = ''hardware-raw-clock'')))"
  by (induction ls arbitrary: rx tx raw) (auto split: list.splits)

definition full_features :: "string \<Rightarrow> bool" where
  "full_features out \<longleftrightarrow>
     reports_feature out ''hardware-receive'' \<and> reports_feature out ''hardware-transmit'' \<and> reports_feature out ''hardware-raw-clock''"

lemma timestamp_feature_result:
  "netParseEthtoolTimeStampFeature out = (if has_blank_line out then Inl IndexOutOfRange else Inr (full_features out))"
  by (auto simp: full_features_def netParseEthtoolTimeStampFeature_def timestamp_flags_result has_blank_line_def reports_feature_def)

text \<open>
  The PTP devices of a node are its physical PCI functions that report the three hardware capabilities, in
  their order; but one blank line in ethtool's output for any interface makes the daemon panic.
\<close>

theorem devices_discovered:
  assumes "ne_ethtool env" and "ne_nics env = Some nics"
  shows "DiscoverPTPDevices env =
    (if \<exists>dev \<in> set nics. has_blank_line (ne_timestamps env dev) then Inl IndexOutOfRange else Inr (filter (\<lambda>dev. full_features (ne_timestamps env dev) \<and> physical env dev) nics))"
proof -
  have "discover_nics env nics =
      (if \<exists>dev \<in> set nics. has_blank_line (ne_timestamps env dev) then Inl IndexOutOfRange else Inr (filter (\<lambda>dev. full_features (ne_timestamps env dev) \<and> physical env dev) nics))"
    by (induction nics) (auto simp: timestamp_feature_result)
  then show ?thesis using assms by (simp add: DiscoverPTPDevices_def)
qed

definition demo_net :: net_env where
  "demo_net = \<lparr>ne_ethtool = True, ne_nics = Some [''eno1'', ''lo''],
     ne_timestamps = (\<lambda>d. if d = ''eno1'' then Join [''Capabilities:'', ''hardware-transmit'', ''hardware-receive x'', ''hardware-raw-clock''] [CHR 0x0A] else ''''),
     ne_link = (\<lambda>d. Some ''/sys/devices/pci0000:17/0000:19:00.5/net/eno1''),
     ne_absent = (\<lambda>p. p = ''/sys/bus/pci/devices/0000:19:00.5/physfn'')\<rparr>"

theorem devices_discovered_witness: "DiscoverPTPDevices demo_net = Inr [''eno1'']"
proof -
  have "filter (\<lambda>dev. full_features (ne_timestamps demo_net dev) \<and> physical demo_net dev) [''eno1'', ''lo''] = [''eno1'']"
    "\<not> (\<exists>dev \<in> set [''eno1'', ''lo'']. has_blank_line (ne_timestamps demo_net dev))"
    by code_simp+
  moreover have "ne_ethtool demo_net" "ne_nics demo_net = Some [''eno1'', ''lo'']" by (simp_all add: demo_net_def)
  ultimately show ?thesis using devices_discovered by simp
qed

text \<open>
  The clock that ethtool names is the clock of the interface: the first label that a number follows counts, whatever
  stands before and behind it.
\<close>

lemma clock_match_first:
  assumes "\<not> sublist clock_label (pre @ butlast clock_label)" and "ds \<noteq> []" and "\<forall>c \<in> set ds. is_digit c"
    and "post = [] \<or> \<not> is_digit (hd post)"
  shows "clock_match (pre @ clock_label @ ds @ post) = Some ds"
  using assms(1)
proof (induction pre)
  case Nil
  have "takeWhile is_digit (ds @ post) = ds" using assms(3,4) by (cases post) auto
  then show ?case using assms(2) by (simp add: clock_label_def HasPrefix_def)
next
  case (Cons c pre)
  have "\<not> prefix clock_label ((c # pre) @ butlast clock_label)" using Cons.prems by (blast intro: prefix_imp_sublist)
  moreover have "take (length clock_label) ((c # pre) @ clock_label @ ds @ post) =
      take (length clock_label) ((c # pre) @ butlast clock_label)"
    by (simp add: clock_label_def take_append take_Cons')
  ultimately have "\<not> HasPrefix ((c # pre) @ clock_label @ ds @ post) clock_label"
    unfolding HasPrefix_iff by (metis append_eq_conv_conj prefix_def take_is_prefix)
  moreover have "\<not> sublist clock_label (pre @ butlast clock_label)" using Cons.prems by (auto simp: sublist_Cons_right)
  ultimately show ?case using Cons.IH by simp
qed

lemma fmt_base_no_leading_zero: "2 \<le> b \<Longrightarrow> b \<le> 10 \<Longrightarrow> b \<le> n \<Longrightarrow> hd (fmt_base b n) \<noteq> CHR ''0''"
proof (induction n rule: less_induct)
  case (less n)
  show ?case
  proof (cases "n div b < b")
    case True
    have "0 < n div b" using less.prems by (simp add: div_greater_zero_iff)
    have "digit_val (digit_char (n div b)) = Some (n div b)" using True less.prems by simp
    moreover have "digit_val (CHR ''0'') = Some 0" by code_simp
    ultimately have "digit_char (n div b) \<noteq> CHR ''0''" using \<open>0 < n div b\<close> by (metis option.inject less_irrefl)
    moreover have "fmt_base b n = [digit_char (n div b), digit_char (n mod b)]"
      using True less.prems by (subst fmt_base.simps) (simp add: fmt_base.simps [of b "n div b"])
    ultimately show ?thesis by simp
  next
    case False
    then have "hd (fmt_base b (n div b)) \<noteq> CHR ''0''" using less.IH [of "n div b"] less.prems by simp
    then show ?thesis using less.prems by (subst fmt_base.simps) simp
  qed
qed

lemma scan_int_fmt:
  assumes "n < 2 ^ 63"
  shows "scan_int (fmt_base 10 n) = Some (int n)"
proof -
  have "\<not> (1 < length (fmt_base 10 n) \<and> hd (fmt_base 10 n) = CHR ''0'')"
    using fmt_base_no_leading_zero [of 10 n] by (cases "n < 10") (auto simp: fmt_base.simps [of 10 n])
  moreover have "ParseInt (fmt_base 10 n) 10 64 = (int n, None)"
    using ParseInt_fmt_int [of 64 "int n"] assms by (simp add: fmt_int_def)
  ultimately show ?thesis by (auto simp: scan_int_def)
qed

theorem phc_id_read:
  assumes "\<not> sublist clock_label (pre @ butlast clock_label)" and "n < 2 ^ 63" and "post = [] \<or> \<not> is_digit (hd post)"
  shows "GetPhcId True (Some (pre @ clock_label @ fmt_base 10 n @ post)) = ''/dev/ptp'' @ fmt_base 10 n"
proof -
  have "clock_match (pre @ clock_label @ fmt_base 10 n @ post) = Some (fmt_base 10 n)"
    using assms(1,3) fmt_base_digits [of 10 n] by (intro clock_match_first) (auto simp: is_digit_def)
  then show ?thesis using assms(2) by (simp add: GetPhcId_def getPTPClockIndex_def scan_int_fmt fmt_int_def)
qed

theorem phc_id_read_witness:
  "GetPhcId True (Some (''Time stamping: '' @ clock_label @ ''4'' @ [CHR 0x0A])) = ''/dev/ptp4''"
proof -
  have "fmt_base 10 4 = ''4''" by code_simp
  moreover have "\<not> sublist clock_label (''Time stamping: '' @ butlast clock_label)" by (simp add: clock_label_def sublist_Cons_right)
  ultimately show ?thesis using phc_id_read [of "''Time stamping: ''" 4 "[CHR 0x0A]"] by (simp add: is_digit_def)
qed

end
