(* ===== verification/Plugins.thy ===== *)
theory Plugins
  imports E810 Network
begin

text \<open>
  The plugin manager, \<open>pkg/daemon/plugin.go\<close>, with the table of plugins in \<open>addons/mapping.go\<close>, the reference
  plugin \<open>addons/generic/generic.go\<close>, and the status of the node's PTP device, \<open>pkg/daemon/ptpdev.go\<close>.

  The maps \<open>plugins\<close> and \<open>data\<close> of the manager have the same keys; here they are one list of names with the
  plugin's data, whose constructor says which plugin it is.

  Shown: which plugins are registered; what the status reports after a profile has been applied, in any order of the map.
\<close>

datatype plugin_data = GenericPluginData string | E810PluginData "string list"

type_synonym PluginManager = "(string \<times> plugin_data) list"

text \<open>What the JSON decoder makes of the plugin entries of a profile: a string (or an error), and the options of the E810 plugin.\<close>

record profile_plugins =
  pg_reference :: "string option option"
  pg_e810 :: "E810Opts option"

section \<open>Registration\<close>

definition Reference :: "string \<Rightarrow> plugin_data option" where
  "Reference name = (if name \<noteq> ''reference'' then None else Some (GenericPluginData ''''))"

definition E810_plugin :: "string \<Rightarrow> plugin_data option" where
  "E810_plugin name = (if name \<noteq> ''e810'' then None else Some (E810PluginData []))"

definition PluginMapping :: "(string \<times> (string \<Rightarrow> plugin_data option)) list" where
  "PluginMapping = [(''reference'', Reference), (''e810'', E810_plugin)]"

definition registerPlugin :: "string \<Rightarrow> plugin_data option" where
  "registerPlugin name = (case map_of PluginMapping name of None \<Rightarrow> None | Some mConstructor \<Rightarrow> mConstructor name)"

definition registerPlugins :: "string list \<Rightarrow> PluginManager" where
  "registerPlugins plugins =
     fold (\<lambda>name m. case registerPlugin name of None \<Rightarrow> m | Some d \<Rightarrow> AList.update name d m) plugins []"

section \<open>The reference plugin\<close>

definition generic_opts :: "profile_plugins \<Rightarrow> string" where
  "generic_opts pg = (case pg_reference pg of Some (Some s) \<Rightarrow> s | _ \<Rightarrow> '''')"

definition OnPTPConfigChangeGeneric :: "profile_plugins \<Rightarrow> string \<Rightarrow> string" where
  "OnPTPConfigChangeGeneric pg referenceString = (if generic_opts pg \<noteq> '''' then generic_opts pg else referenceString)"

definition PopulateHwConfigGeneric :: "string \<Rightarrow> (string \<times> string) list \<Rightarrow> (string \<times> string) list" where
  "PopulateHwConfigGeneric referenceString hwconfigs = hwconfigs @ [(''reference'', referenceString)]"

section \<open>The manager\<close>

fun config_change ::
    "e810_env \<Rightarrow> profile_plugins \<Rightarrow> PluginManager \<Rightarrow> (string \<times> string) list
       \<Rightarrow> (PluginManager \<times> (string \<times> string) list \<times> e810_effect list) res option" where
  "config_change env pg [] settings = Some (Inr ([], settings, []))"
| "config_change env pg ((name, GenericPluginData s) # pm) settings =
     run_bind (config_change env pg pm settings) (\<lambda>(pm', settings', es).
       Some (Inr ((name, GenericPluginData (OnPTPConfigChangeGeneric pg s)) # pm', settings', es)))"
| "config_change env pg ((name, E810PluginData h) # pm) settings =
     run_bind (OnPTPConfigChangeE810 env (pg_e810 pg) settings) (\<lambda>(settings1, es).
     run_bind (config_change env pg pm settings1) (\<lambda>(pm', settings', es').
       Some (Inr ((name, E810PluginData h) # pm', settings', es @ es'))))"

definition after_run_data :: "(string list \<Rightarrow> string) \<Rightarrow> profile_plugins \<Rightarrow> string \<Rightarrow> plugin_data \<Rightarrow> plugin_data \<times> e810_effect list" where
  "after_run_data ubxtool pg command d =
     (case d of
        GenericPluginData s \<Rightarrow> (d, [])
      | E810PluginData h \<Rightarrow> (let (h', es) = AfterRunPTPCommandE810 ubxtool h (pg_e810 pg) command in (E810PluginData h', es)))"

definition after_run :: "(string list \<Rightarrow> string) \<Rightarrow> profile_plugins \<Rightarrow> string \<Rightarrow> PluginManager \<Rightarrow> PluginManager \<times> e810_effect list" where
  "after_run ubxtool pg command pm =
     (map (\<lambda>(name, d). (name, fst (after_run_data ubxtool pg command d))) pm,
      concat (map (\<lambda>(name, d). snd (after_run_data ubxtool pg command d)) pm))"

definition populate_plugin :: "plugin_data \<Rightarrow> (string \<times> string) list \<Rightarrow> (string \<times> string) list" where
  "populate_plugin d = (case d of GenericPluginData s \<Rightarrow> PopulateHwConfigGeneric s | E810PluginData h \<Rightarrow> PopulateHwConfigE810 h)"

definition PopulateHwConfig :: "PluginManager \<Rightarrow> (string \<times> string) list \<Rightarrow> (string \<times> string) list" where
  "PopulateHwConfig pm hwconfigs = fold (\<lambda>(name, d). populate_plugin d) pm hwconfigs"

section \<open>The status of the PTP device\<close>

record NodePtpDevice =
  nd_Devices :: "(string \<times> string) list"
  nd_Hwconfig :: "(string \<times> string) list"

definition populateNodePTPDevices :: "NodePtpDevice \<Rightarrow> (string \<times> string) list \<Rightarrow> NodePtpDevice" where
  "populateNodePTPDevices nodePTPDev hwconfigs = nodePTPDev\<lparr>nd_Hwconfig := hwconfigs\<rparr>"

text \<open>On an error the device is returned as it was; a panic stays a panic.\<close>

definition GetDevStatusUpdate :: "net_env \<Rightarrow> NodePtpDevice \<Rightarrow> NodePtpDevice res" where
  "GetDevStatusUpdate env nodePTPDev =
     (case DiscoverPTPDevices env of
        Inr hostDevs \<Rightarrow> Inr (nodePTPDev\<lparr>nd_Devices := map (\<lambda>d. (d, '''')) hostDevs\<rparr>)
      | Inl (GoErr e) \<Rightarrow> Inr nodePTPDev
      | Inl e \<Rightarrow> Inl e)"

text \<open>The first discovery of \<open>runDeviceStatusUpdate\<close> is for its log line only, but it can panic as well.\<close>

definition runDeviceStatusUpdate :: "net_env \<Rightarrow> NodePtpDevice \<Rightarrow> (string \<times> string) list \<Rightarrow> NodePtpDevice res" where
  "runDeviceStatusUpdate env ptpDev hwconfigs =
     res_bind (GetDevStatusUpdate env ptpDev) (\<lambda>dev. Inr (populateNodePTPDevices dev hwconfigs))"

section \<open>Properties\<close>

lemma registerPlugin_cases:
  "registerPlugin name =
    (if name = ''reference'' then Some (GenericPluginData '''') else if name = ''e810'' then Some (E810PluginData []) else None)"
  by (simp add: registerPlugin_def PluginMapping_def Reference_def E810_plugin_def)

text \<open>Exactly the known names of the list are registered, once each, with empty data; unknown ones are skipped.\<close>

theorem registered_plugins:
  "map_of (registerPlugins names) name = (if name \<in> set names then registerPlugin name else None) \<and>
   distinct (map fst (registerPlugins names))"
proof -
  let ?f = "\<lambda>name m. case registerPlugin name of None \<Rightarrow> m | Some d \<Rightarrow> AList.update name d m"
  have "map_of (fold ?f names m) name = (if name \<in> set names \<and> registerPlugin name \<noteq> None then registerPlugin name else map_of m name)" for m
    by (induction names arbitrary: m) (auto simp: update_conv' split: option.splits)
  moreover have "distinct (map fst m) \<Longrightarrow> distinct (map fst (fold ?f names m))" for m
    by (induction names arbitrary: m) (auto simp: distinct_update split: option.splits)
  ultimately show ?thesis by (simp add: registerPlugins_def)
qed

text \<open>What one plugin contributes to the report.\<close>

definition hw_entries :: "plugin_data \<Rightarrow> (string \<times> string) list" where
  "hw_entries d = (case d of GenericPluginData s \<Rightarrow> [(''reference'', s)] | E810PluginData h \<Rightarrow> map (\<lambda>status. (''e810'', status)) h)"

text \<open>The contract of a plugin's \<open>PopulateHwConfig\<close>: it adds its entries behind those of the others.\<close>

locale hwconfig_reporter =
  fixes populate :: "'d \<Rightarrow> (string \<times> string) list \<Rightarrow> (string \<times> string) list"
    and entries :: "'d \<Rightarrow> (string \<times> string) list"
  assumes populate_appends: "populate d hwconfigs = hwconfigs @ entries d"
begin

lemma populate_all: "fold populate ds hwconfigs = hwconfigs @ concat (map entries ds)"
  by (induction ds arbitrary: hwconfigs) (simp_all add: populate_appends)

end

interpretation reference: hwconfig_reporter PopulateHwConfigGeneric "\<lambda>s. [(''reference'', s)]"
  by unfold_locales (simp add: PopulateHwConfigGeneric_def)

interpretation e810: hwconfig_reporter PopulateHwConfigE810 "map (\<lambda>status. (''e810'', status))"
  by unfold_locales (simp add: PopulateHwConfigE810_def)

interpretation plugins: hwconfig_reporter populate_plugin hw_entries
  by unfold_locales
    (auto simp: populate_plugin_def hw_entries_def reference.populate_appends e810.populate_appends split: plugin_data.splits)

lemma populate_entries: "PopulateHwConfig pm hwconfigs = hwconfigs @ concat (map (\<lambda>(name, d). hw_entries d) pm)"
proof -
  have "PopulateHwConfig pm hwconfigs = fold populate_plugin (map snd pm) hwconfigs"
    by (simp add: PopulateHwConfig_def fold_map comp_def case_prod_beta')
  then show ?thesis by (simp add: plugins.populate_all comp_def case_prod_beta')
qed

definition changed_data :: "profile_plugins \<Rightarrow> plugin_data \<Rightarrow> plugin_data" where
  "changed_data pg d =
     (case d of GenericPluginData s \<Rightarrow> GenericPluginData (OnPTPConfigChangeGeneric pg s) | E810PluginData h \<Rightarrow> d)"

lemma config_change_data:
  "config_change env pg pm settings = Some (Inr (pm', settings', es)) \<Longrightarrow>
    pm' = map (\<lambda>(name, d). (name, changed_data pg d)) pm"
  by (induction env pg pm settings arbitrary: pm' settings' es rule: config_change.induct)
    (auto simp: run_bind_Inr_iff changed_data_def split: prod.splits)

lemma after_run_none: "AfterRunPTPCommandE810 ubxtool h None command = (h, [])"
  by (simp add: AfterRunPTPCommandE810_def)

text \<open>
  The report after a profile has been applied and gpspipe started: the reference plugin reports the profile's string, or, if
  the profile has none, the one of the profile before it; the E810 plugin reports everything it has collected so far.
\<close>

definition reported :: "(string list \<Rightarrow> string) \<Rightarrow> profile_plugins \<Rightarrow> plugin_data \<Rightarrow> (string \<times> string) list" where
  "reported ubxtool pg d =
     (case d of
        GenericPluginData s \<Rightarrow> [(''reference'', if generic_opts pg = '''' then s else generic_opts pg)]
      | E810PluginData h \<Rightarrow>
          map (\<lambda>status. (''e810'', status)) (h @ (case pg_e810 pg of None \<Rightarrow> [] | Some opts \<Rightarrow> ublx_reports ubxtool opts)))"

theorem hardware_report:
  assumes "config_change env pg pm settings = Some (Inr (pm1, settings', es))"
  shows "PopulateHwConfig (fst (after_run ubxtool pg ''gpspipe'' pm1)) hwconfigs =
    hwconfigs @ concat (map (reported ubxtool pg) (map snd pm))"
proof -
  have "hw_entries (fst (after_run_data ubxtool pg ''gpspipe'' (changed_data pg d))) = reported ubxtool pg d" for d
    by (cases d; cases "pg_e810 pg")
      (simp_all add: hw_entries_def after_run_data_def changed_data_def reported_def OnPTPConfigChangeGeneric_def
        after_gpspipe after_run_none)
  then show ?thesis
    unfolding config_change_data [OF assms] populate_entries after_run_def by (simp add: case_prod_beta' comp_def)
qed

theorem hardware_report_witness:
  "PopulateHwConfig
     (fst (after_run (\<lambda>args. ''ok'') \<lparr>pg_reference = Some (Some ''r2''), pg_e810 = None\<rparr> ''gpspipe''
       [(''reference'', GenericPluginData ''r2''), (''e810'', E810PluginData [''ublx data: x''])])) [] =
    [(''reference'', ''r2''), (''e810'', ''ublx data: x'')]"
  using hardware_report [of demo_e810_env "\<lparr>pg_reference = Some (Some ''r2''), pg_e810 = None\<rparr>"
      "[(''reference'', GenericPluginData ''r1''), (''e810'', E810PluginData [''ublx data: x''])]" "[]"
      "[(''reference'', GenericPluginData ''r2''), (''e810'', E810PluginData [''ublx data: x''])]" "[]" "[]" "\<lambda>args. ''ok''" "[]"]
  by (simp add: OnPTPConfigChangeGeneric_def generic_opts_def OnPTPConfigChangeE810_def reported_def)

end
