(* ===== verification/Daemon_Main.thy ===== *)
theory Daemon_Main
  imports Process_Control Plugins
begin

text \<open>
  The program as a whole: the loop of \<open>main\<close> in \<open>cmd/main.go\<close> and the loop \<open>Run\<close> of the daemon in
  \<open>pkg/daemon/daemon.go\<close>, which meet at the unbuffered channel \<open>UpdateCh\<close>, as a step relation. Main reads the
  profile file at every tick and calls \<open>UpdateConfig\<close>, which sends when the text has changed; the daemon
  receives and applies the profiles.

  Shown: no update is lost; a daemon that hangs blocks main at the next update for ever, so that no signal ends the
  program any more; and one set of profiles that fails half way is enough for that.
\<close>

section \<open>Start-up\<close>

text \<open>\<open>LOGS_TO_SOCKET\<close> and \<open>PLUGINS\<close> of the environment, and the label of the pod.\<close>

definition stdout_to_socket :: "string option \<Rightarrow> bool" where
  "stdout_to_socket v =
     (case v of None \<Rightarrow> False
      | Some s \<Rightarrow> if s = '''' then False else (case ParseBool s of Some b \<Rightarrow> b | None \<Rightarrow> False))"

definition plugin_names :: "string option \<Rightarrow> string list" where
  "plugin_names v = (case v of None \<Rightarrow> [] | Some s \<Rightarrow> if s = '''' then [] else Split s CHR '','')"

definition pod_label :: "string \<Rightarrow> string" where
  "pod_label nodeName = (if nodeName \<noteq> '''' \<and> Contains nodeName ''.'' then hd (Split nodeName CHR ''.'') else nodeName)"

section \<open>The two loops\<close>

text \<open>
  Main waits in its \<open>select\<close>, is blocked in the send on \<open>UpdateCh\<close>, is blocked in the send on the channel that
  closes the event handler, or has returned. The daemon waits, has received and applies, or is in a call that never
  returns. \<open>my_last\<close> is what was last applied to its end.
\<close>

datatype main_pc = MSelect | MSend | MClosing | MReturned

datatype daemon_pc = DSelect | DApply | DHung

record main_sys =
  my_main :: main_pc
  my_daemon :: daemon_pc
  my_conf :: "PtpProfile LinuxPTPConfUpdate"
  my_mn :: manager
  my_last :: "PtpProfile list"
  my_crashed :: bool

record main_env =
  me_load :: "string \<Rightarrow> PtpProfile profile list option"
  me_load_old :: "string \<Rightarrow> PtpProfile profile option"
  me_apply :: apply_env
  me_ends :: "ptpProcess \<Rightarrow> stop_pc"
  me_node :: string

definition profiles_of :: "PtpProfile LinuxPTPConfUpdate \<Rightarrow> PtpProfile list" where
  "profiles_of l = map pf_rest (up_NodeProfiles l)"

definition tick :: "main_env \<Rightarrow> string \<Rightarrow> main_sys \<Rightarrow> main_sys" where
  "tick env json s =
     (let l = fst (UpdateConfig (me_load env) (me_load_old env) json (my_conf s))
      in s\<lparr>my_conf := l, my_main := (if up_signals l = up_signals (my_conf s) then MSelect else MSend)\<rparr>)"

definition apply_update :: "main_env \<Rightarrow> main_sys \<Rightarrow> main_sys" where
  "apply_update env s =
     (let ps = profiles_of (my_conf s); (r, mn) = applyNodePTPProfiles (me_apply env) (me_ends env) (me_node env) ps (my_mn s)
      in s\<lparr>my_mn := mn, my_daemon := (if r = Hangs then DHung else DSelect), my_crashed := (r = Panics), my_last := ps\<rparr>)"

inductive main_step :: "main_env \<Rightarrow> main_sys \<Rightarrow> main_sys \<Rightarrow> bool" for env :: main_env where
  main_tick: "my_main s = MSelect \<Longrightarrow> \<not> my_crashed s \<Longrightarrow> main_step env s (tick env json s)"
| main_deliver: "my_main s = MSend \<Longrightarrow> my_daemon s = DSelect \<Longrightarrow> \<not> my_crashed s \<Longrightarrow>
     main_step env s (s\<lparr>my_main := MSelect, my_daemon := DApply\<rparr>)"
| daemon_apply: "my_daemon s = DApply \<Longrightarrow> \<not> my_crashed s \<Longrightarrow> main_step env s (apply_update env s)"
| main_signal: "my_main s = MSelect \<Longrightarrow> \<not> my_crashed s \<Longrightarrow> main_step env s (s\<lparr>my_main := MClosing\<rparr>)"
| main_return: "my_main s = MClosing \<Longrightarrow> \<not> my_crashed s \<Longrightarrow> main_step env s (s\<lparr>my_main := MReturned\<rparr>)"

inductive_cases main_stepE: "main_step env s s'"

definition main_start :: "manager \<Rightarrow> main_sys" where
  "main_start mn = \<lparr>my_main = MSelect, my_daemon = DSelect,
     my_conf = \<lparr>up_NodeProfiles = [], up_applied = '''', up_signals = 0\<rparr>, my_mn = mn, my_last = [], my_crashed = False\<rparr>"

section \<open>Properties\<close>

lemma update_config_cases:
  "UpdateConfig load load_old json l = (l', e) \<Longrightarrow> l' = l \<or> up_signals l' = Suc (up_signals l)"
  by (auto simp: UpdateConfig_def take_over_def split: option.splits if_splits)



text \<open>With the daemon hung, a send of main never ends: no tick and no signal is handled any more.\<close>

lemma hung_blocks_main:
  assumes "(main_step env)\<^sup>*\<^sup>* s s'" and "my_daemon s = DHung" and "my_main s = MSend"
  shows "my_main s' = MSend \<and> my_daemon s' = DHung"
  using assms(1)
  by (rule steps_inv [where I = "\<lambda>s. my_main s = MSend \<and> my_daemon s = DHung"])
    (use assms(2,3) in \<open>auto elim!: main_stepE\<close>)

text \<open>A text that decodes and differs from the last one is sent.\<close>

lemma tick_new:
  assumes "me_load env json = Some ps" and "up_applied (my_conf s) \<noteq> json"
  shows "tick env json s = s\<lparr>my_conf := take_over json ps (my_conf s), my_main := MSend\<rparr>"
  using assms by (simp add: tick_def UpdateConfig_def take_over_def)

text \<open>A text that decodes, arriving while both loops wait, is applied.\<close>

lemma update_applied:
  assumes "me_load env json = Some ps" and "up_applied (my_conf s) \<noteq> json"
    and "my_main s = MSelect" and "my_daemon s = DSelect" and "\<not> my_crashed s"
    and r: "applyNodePTPProfiles (me_apply env) (me_ends env) (me_node env) (map pf_rest ps) (my_mn s) = (r, mn)" "r \<noteq> Panics"
  shows "\<exists>s'. (main_step env)\<^sup>*\<^sup>* s s' \<and> my_main s' = MSelect \<and> my_daemon s' = (if r = Hangs then DHung else DSelect) \<and>
    \<not> my_crashed s' \<and> my_mn s' = mn \<and> up_applied (my_conf s') = json"
proof -
  let ?s1 = "s\<lparr>my_conf := take_over json ps (my_conf s), my_main := MSend\<rparr>"
  let ?s2 = "?s1\<lparr>my_main := MSelect, my_daemon := DApply\<rparr>"
  have 1: "main_step env s ?s1" using main_tick [of s env json] assms(3,5) tick_new [OF assms(1,2)] by simp
  have 2: "main_step env ?s1 ?s2" by (rule main_deliver) (use assms(4,5) in simp_all)
  have 3: "main_step env ?s2 (apply_update env ?s2)" by (rule daemon_apply) (use assms(5) in simp_all)
  have "(main_step env)\<^sup>*\<^sup>* s (apply_update env ?s2)" using 1 2 3 by (meson no_step last_step)
  moreover have "my_main (apply_update env ?s2) = MSelect \<and> my_daemon (apply_update env ?s2) = (if r = Hangs then DHung else DSelect) \<and>
      \<not> my_crashed (apply_update env ?s2) \<and> my_mn (apply_update env ?s2) = mn \<and> up_applied (my_conf (apply_update env ?s2)) = json"
    using r by (simp add: apply_update_def profiles_of_def take_over_def Let_def)
  ultimately show ?thesis by blast
qed

text \<open>
  C13. Three texts are enough to make the program deaf: after one whose profiles fail half way, a second makes the daemon
  hang, and a third blocks main; from then on nothing is applied and no signal ends the program.
\<close>

theorem failed_profiles_deafen_program:
  assumes "my_main s = MSelect" and "my_daemon s = DSelect" and "\<not> my_crashed s"
    and load: "me_load env j1 = Some ps1" "me_load env j2 = Some ps2" "me_load env j3 = Some ps3"
    and "up_applied (my_conf s) \<noteq> j1" and "j1 \<noteq> j2" and "j2 \<noteq> j3"
    and fails: "applyNodePTPProfiles (me_apply env) (me_ends env) (me_node env) (map pf_rest ps1) (my_mn s) = (ApplyError e, mn)"
      "dn_process (mn_daemon mn) \<noteq> []"
  shows "\<exists>s'. (main_step env)\<^sup>*\<^sup>* s s' \<and> (\<forall>s''. (main_step env)\<^sup>*\<^sup>* s' s'' \<longrightarrow> my_main s'' = MSend \<and> my_daemon s'' = DHung)"
proof -
  obtain s1 where s1: "(main_step env)\<^sup>*\<^sup>* s s1" "my_main s1 = MSelect" "my_daemon s1 = DSelect" "\<not> my_crashed s1"
    "my_mn s1 = mn" "up_applied (my_conf s1) = j1"
    using update_applied [OF load(1) assms(7,1,2,3) fails(1)] by auto
  have "applyNodePTPProfiles (me_apply env) (me_ends env) (me_node env) (map pf_rest ps2) (my_mn s1) = (Hangs, mn)"
    using unlaunched_apply_hangs [OF apply_error_unlaunched [OF fails(1)] fails(2)] s1(5) by simp
  then obtain s2 where s2: "(main_step env)\<^sup>*\<^sup>* s1 s2" "my_main s2 = MSelect" "my_daemon s2 = DHung" "\<not> my_crashed s2"
    "up_applied (my_conf s2) = j2"
    using update_applied [OF load(2) _ s1(2-4), of Hangs mn] assms(8) s1(6) by auto
  have "main_step env s2 (tick env j3 s2)" using s2(2,4) by (rule main_tick)
  moreover have "my_main (tick env j3 s2) = MSend \<and> my_daemon (tick env j3 s2) = DHung"
    using tick_new [OF load(3), of s2] s2(3,5) assms(9) by simp
  ultimately show ?thesis
    using last_step [OF more_steps [OF s1(1) s2(1)]] hung_blocks_main by blast
qed

definition demo_json :: "string \<Rightarrow> PtpProfile profile list option" where
  "demo_json j = (if j = ''bad'' then Some [\<lparr>pf_Name = Some ''bc2'', pf_Interface = None, pf_rest = demo_bad\<rparr>,
       \<lparr>pf_Name = Some ''bc1'', pf_Interface = None, pf_rest = demo_bc\<rparr>]
     else Some [\<lparr>pf_Name = Some ''bc1'', pf_Interface = None, pf_rest = demo_bc\<rparr>])"

definition demo_main :: main_env where
  "demo_main = \<lparr>me_load = demo_json, me_load_old = (\<lambda>_. None), me_apply = demo_env, me_ends = (\<lambda>_. SReturned), me_node = ''node''\<rparr>"

theorem failed_profiles_deafen_program_witness:
  "\<exists>s'. (main_step demo_main)\<^sup>*\<^sup>* (main_start demo_manager) s' \<and>
     (\<forall>s''. (main_step demo_main)\<^sup>*\<^sup>* s' s'' \<longrightarrow> my_main s'' = MSend \<and> my_daemon s'' = DHung)"
proof -
  have "case applyNodePTPProfiles demo_env (\<lambda>_. SReturned) ''node'' [demo_bad, demo_bc] demo_manager of
      (ApplyError e, mn') \<Rightarrow> dn_process (mn_daemon mn') \<noteq> [] | _ \<Rightarrow> False"
    by code_simp
  then obtain e mn where "applyNodePTPProfiles demo_env (\<lambda>_. SReturned) ''node'' [demo_bad, demo_bc] demo_manager = (ApplyError e, mn)"
    "dn_process (mn_daemon mn) \<noteq> []" by (auto split: prod.splits apply_result.splits)
  then show ?thesis
    using failed_profiles_deafen_program [of "main_start demo_manager" demo_main "''bad''" _ "''a''" _ "''b''" _ e mn]
    by (simp add: demo_main_def demo_json_def main_start_def)
qed

end
