(* ===== verification/Startup.thy ===== *)
theory Startup
  imports Daemon_Main Leap Event_Handler
begin

text \<open>
  From the start of the program to its two loops: \<open>main\<close> and \<open>labelPod\<close> in \<open>cmd/main.go\<close>, \<open>GetKubeConfig\<close> in
  \<open>pkg/config/config.go\<close>, \<open>NewLinuxPTPConfUpdate\<close> in \<open>pkg/daemon/config.go\<close>, \<open>New\<close> in \<open>pkg/leap/leap-file.go\<close> and
  \<open>New\<close> in \<open>pkg/daemon/daemon.go\<close>, in the order of the code. The environment variables, files and the
  outcomes of the Kubernetes calls are parameters.

  Shown: the daemon is started exactly if every step succeeds, and with which arguments; the label the pod gets has no
  dot; the leap file's manager is made once.
\<close>

section \<open>Finding the configurations\<close>

datatype kube_source = FromFile string | InCluster

text \<open>
  \<open>GetKubeConfig\<close>: \<open>kubeconfig\<close> is the environment variable (empty if it is not set), \<open>loads\<close> says which
  files exist and can be loaded, \<open>home\<close> is the home directory of the current user, if known.
\<close>

definition GetKubeConfig :: "string \<Rightarrow> (string \<Rightarrow> bool) \<Rightarrow> bool \<Rightarrow> string option \<Rightarrow> string + kube_source" where
  "GetKubeConfig kubeconfig loads inCluster home =
     (let from_file = \<lambda>f. if loads f then Inr (FromFile f) else Inl (''cannot start kubeconfig '' @ f) in
      if 0 < length kubeconfig then from_file kubeconfig
      else if inCluster then Inr InCluster
      else case home of
             Some h \<Rightarrow> from_file (h @ ''/.kube/config'')
           | None \<Rightarrow> Inl ''could not locate a kubeconfig'')"

datatype conf_file = ConfMissing | ConfStatFails | ConfReadFails | ConfContent string

definition NewLinuxPTPConfUpdate :: "conf_file \<Rightarrow> string + PtpProfile LinuxPTPConfUpdate" where
  "NewLinuxPTPConfUpdate f =
     (case f of
        ConfMissing \<Rightarrow> Inl ''ptp.conf file doesn't exist''
      | ConfStatFails \<Rightarrow> Inl ''unknow error searching for the file''
      | ConfReadFails \<Rightarrow> Inl ''failed to read''
      | ConfContent _ \<Rightarrow> Inr \<lparr>up_NodeProfiles = [], up_applied = '''', up_signals = 0\<rparr>)"

section \<open>The leap file's manager\<close>

text \<open>The zero time of Go, 1 January of the year 1.\<close>

definition zero_time :: int where "zero_time = - 693595 * 86400 * NanoSec"

definition new_manager :: LeapManager where
  "new_manager =
     \<lparr>lm_leapFile = zero_leapfile, lm_retryUpdate = False, lm_utcOffset = 0, lm_utcOffsetTime = zero_time,
      lm_ptp4lConfigPath = '''', lm_pmcLeapSent = False\<rparr>"

text \<open>\<open>leap.New\<close>: the global \<open>LeapMgr\<close> afterwards and the result. A manager whose data cannot be read is not kept.\<close>

definition LeapNew :: "string option \<Rightarrow> string option \<Rightarrow> bool \<Rightarrow> LeapManager option \<Rightarrow> LeapManager option \<times> LeapManager res" where
  "LeapNew cm file put leapMgr =
     (case leapMgr of
        Some l \<Rightarrow> (leapMgr, Inr l)
      | None \<Rightarrow>
          (case populateLeapData cm file put new_manager of
             Inl e \<Rightarrow> (None, Inl e)
           | Inr l \<Rightarrow> (Some l, Inr l)))"

section \<open>The label of the pod\<close>

record patchStringValue =
  pt_Op :: string
  pt_Path :: string
  pt_Value :: string

datatype pod_lookup = PodError | PodNil | PodFound

definition labelPod :: "pod_lookup \<Rightarrow> (patchStringValue list \<Rightarrow> bool) \<Rightarrow> string \<Rightarrow> patchStringValue list option \<times> string option" where
  "labelPod pod patch nodeName =
     (case pod of
        PodError \<Rightarrow> (None, Some ''error getting linuxptp-daemon pod'')
      | PodNil \<Rightarrow> (None, Some ''could not find linux-ptp-daemon pod to label'')
      | PodFound \<Rightarrow>
          (let payload = [\<lparr>pt_Op = ''replace'', pt_Path = ''/metadata/labels/nodeName'', pt_Value = pod_label nodeName\<rparr>]
           in (Some payload, if patch payload then None else Some ''could not label'')))"

section \<open>main up to its loop\<close>

record startup_env =
  se_getenv :: "string \<Rightarrow> string option"
  se_loads :: "string \<Rightarrow> bool"
  se_inCluster :: bool
  se_home :: "string option"
  se_kubeClient :: bool
  se_ptpClient :: bool
  se_conf :: conf_file
  se_pod :: pod_lookup
  se_patch :: "patchStringValue list \<Rightarrow> bool"
  se_leapMap :: "string option"
  se_leapFile :: "string option"
  se_leapPut :: bool

definition Getenv :: "startup_env \<Rightarrow> string \<Rightarrow> string" where
  "Getenv env k = (case se_getenv env k of Some v \<Rightarrow> v | None \<Rightarrow> '''')"

text \<open>What \<open>daemon.New\<close> and \<open>StartMetricsServer\<close> are called with.\<close>

record daemon_args =
  da_nodeName :: string
  da_stdoutToSocket :: bool
  da_plugins :: "string list"
  da_conf :: "PtpProfile LinuxPTPConfUpdate"
  da_metricsServer :: bool

text \<open>A step that fails ends \<open>main\<close> (\<open>Inl\<close> with what it logs).\<close>

definition need :: "bool \<Rightarrow> string \<Rightarrow> ('a res) \<Rightarrow> 'a res" where
  "need ok msg r = (if ok then r else Inl (GoErr msg))"

definition main_startup :: "startup_env \<Rightarrow> daemon_args res" where
  "main_startup env =
     (let nodeName = Getenv env ''NODE_NAME'' in
      need (\<not> isl (GetKubeConfig (Getenv env ''KUBECONFIG'') (se_loads env) (se_inCluster env) (se_home env))) ''get kubeconfig failed''
      (need (se_kubeClient env) ''cannot create new config for kubeClient''
      (need (se_ptpClient env) ''cannot create new config for ptpClient''
      (need (nodeName \<noteq> '''') ''cannot find NODE_NAME environment variable''
      (case NewLinuxPTPConfUpdate (se_conf env) of
         Inl _ \<Rightarrow> Inl (GoErr ''failed to create a ptp config update'')
       | Inr conf \<Rightarrow>
           need (snd (labelPod (se_pod env) (se_patch env) nodeName) = None) ''failed to label linuxptp-daemon with node name''
           (case snd (LeapNew (se_leapMap env) (se_leapFile env) (se_leapPut env) None) of
              Inl (GoErr _) \<Rightarrow> Inl (GoErr ''failed to initialize Leap manager'')
            | Inl e \<Rightarrow> Inl e
            | Inr _ \<Rightarrow>
                (let socket = stdout_to_socket (se_getenv env ''LOGS_TO_SOCKET'') in
                 Inr \<lparr>da_nodeName = nodeName, da_stdoutToSocket = socket,
                      da_plugins = plugin_names (se_getenv env ''PLUGINS''), da_conf = conf,
                      da_metricsServer = \<not> socket\<rparr>)))))))"

text \<open>\<open>daemon.New\<close>: the offset maps, the plugins and an event handler for a channel of 100 events.\<close>

definition NewDaemon :: "daemon_args \<Rightarrow> metrics_state \<Rightarrow> PluginManager \<times> metrics_state \<times> EventHandler \<times> effect list" where
  "NewDaemon args m =
     (registerPlugins (da_plugins args), InitializeOffsetMaps m, Init (da_nodeName args) (da_stdoutToSocket args))"

section \<open>The files main reads\<close>

text \<open>The profile of the node at a tick: nothing happens unless it can be read.\<close>

datatype profile_file = ProfileMissing | ProfileStatFails | ProfileReadFails | ProfileContent string

definition pull_tick :: "main_env \<Rightarrow> profile_file \<Rightarrow> main_sys \<Rightarrow> main_sys" where
  "pull_tick env f s = (case f of ProfileContent json \<Rightarrow> tick env json s | _ \<Rightarrow> s)"

section \<open>Properties\<close>

lemma need_Inr [simp]: "need ok msg r = Inr a \<longleftrightarrow> ok \<and> r = Inr a"
  by (simp add: need_def)

text \<open>
  The daemon is started exactly if there are a Kubernetes configuration and both clients, the node has a name, \<open>ptp.conf\<close> can
  be read, the pod is labelled, and the leap seconds can be read; it gets the name of the node, and the metrics server runs unless
  the lines go to the event socket.
\<close>

theorem daemon_started_iff:
  "main_startup env = Inr args \<longleftrightarrow>
     (\<exists>k content l.
        GetKubeConfig (Getenv env ''KUBECONFIG'') (se_loads env) (se_inCluster env) (se_home env) = Inr k \<and>
        se_kubeClient env \<and> se_ptpClient env \<and> Getenv env ''NODE_NAME'' \<noteq> '''' \<and> se_conf env = ConfContent content \<and>
        se_pod env = PodFound \<and>
        se_patch env [\<lparr>pt_Op = ''replace'', pt_Path = ''/metadata/labels/nodeName'', pt_Value = pod_label (Getenv env ''NODE_NAME'')\<rparr>] \<and>
        populateLeapData (se_leapMap env) (se_leapFile env) (se_leapPut env) new_manager = Inr l \<and>
        args = \<lparr>da_nodeName = Getenv env ''NODE_NAME'', da_stdoutToSocket = stdout_to_socket (se_getenv env ''LOGS_TO_SOCKET''),
                da_plugins = plugin_names (se_getenv env ''PLUGINS''), da_conf = \<lparr>up_NodeProfiles = [], up_applied = [], up_signals = 0\<rparr>,
                da_metricsServer = (\<not> stdout_to_socket (se_getenv env ''LOGS_TO_SOCKET''))\<rparr>)"
proof -
  have kube: "(\<not> isl r) = (\<exists>k. r = Inr k)" for r :: "string + kube_source" by (cases r) simp_all
  have pod: "snd (labelPod (se_pod env) (se_patch env) n) = None \<longleftrightarrow> se_pod env = PodFound \<and>
      se_patch env [\<lparr>pt_Op = ''replace'', pt_Path = ''/metadata/labels/nodeName'', pt_Value = pod_label n\<rparr>]" for n
    by (simp add: labelPod_def Let_def split: pod_lookup.splits)
  show ?thesis
    by (cases "populateLeapData (se_leapMap env) (se_leapFile env) (se_leapPut env) new_manager")
      (auto simp: main_startup_def Let_def kube pod LeapNew_def NewLinuxPTPConfUpdate_def main_start_def
        split: conf_file.splits go_error.splits)
qed

text \<open>The label of the pod is the name of the node up to its first dot.\<close>

lemma hd_split_pred: "hd (split_pred P s) = takeWhile (\<lambda>c. \<not> P c) s"
  by (induction s) (auto split: list.splits)

lemma Contains_char: "Contains s [c] \<longleftrightarrow> c \<in> set s"
  by (induction s) (auto simp: Contains_def HasPrefix_def)

theorem pod_label_first: "pod_label n = takeWhile (\<lambda>c. c \<noteq> CHR ''.'') n"
proof (cases "CHR ''.'' \<in> set n")
  case False
  then have e: "takeWhile (\<lambda>c. c \<noteq> CHR ''.'') n = n" by (induction n) auto
  show ?thesis unfolding e using False by (simp add: pod_label_def Contains_char)
qed (simp add: pod_label_def Split_def hd_split_pred Contains_char)

text \<open>There is one manager of the leap file: once it has been made, every further call returns it.\<close>

theorem leap_manager_once:
  assumes "LeapNew cm file put g = (g', Inr l)"
  shows "LeapNew cm' file' put' g' = (g', Inr l)"
  using assms by (auto simp: LeapNew_def split: option.splits sum.splits)

end
